(* ===== verification/Dione_Prelude.thy ===== *)
theory Dione_Prelude
  imports Main "HOL-Library.Word"
begin

text \<open>
  Shared vocabulary of the development: Go's errors and panics as values of a result type,
  byte slices, the fixed-width and textual encodings of the Go standard library that the
  program uses for keys and hashes (\<open>encoding/hex\<close>, \<open>encoding/binary\<close>, the \<open>%d\<close> verb of
  \<open>fmt\<close>, \<open>math/big\<close>'s \<open>String\<close>, \<open>SetString\<close>, \<open>SetBytes\<close> and \<open>Div\<close>), and the lemma
  collections the component theories extend.
\<close>

section \<open>Lemma collections\<close>

named_theorems res_simps \<open>rewriting of the Go result type\<close>
named_theorems key_simps \<open>injectivity and disjointness of database and cache keys\<close>
named_theorems codec_simps \<open>round trips of encoders and decoders\<close>

section \<open>Go types\<close>

type_synonym u8 = "8 word"
type_synonym u64 = "64 word"
type_synonym i64 = "64 word"
type_synonym byte = "8 word"
type_synonym bytes = "byte list"
type_synonym peer_id = string
type_synonym address = bytes
type_synonym privkey = bytes
type_synonym pubkey = bytes

section \<open>Errors and panics\<close>

text \<open>
  The sentinel errors of the repository are constructors of their own, because the code
  compares against them. \<open>Errorf\<close> is a fresh error built from a message, \<open>Wrapf\<close> one built
  with the \<open>%w\<close> verb (it keeps its cause), \<open>ExtErr\<close> an error raised by code outside the
  repository.
\<close>

datatype go_error =
    ErrBlockNotFound | ErrLatestHeightNil | ErrIndexKeyNotFound
  | ErrCacheNotFound | ErrTxNotFound | ErrNoTxForBlock | ErrNoAcceptedBlocks
  | ErrKeyInfoNotFound
  | Errorf string | Wrapf string go_error | ExtErr string

fun errors_Is :: "go_error \<Rightarrow> go_error \<Rightarrow> bool" where
  "errors_Is (Wrapf m e) t \<longleftrightarrow> Wrapf m e = t \<or> errors_Is e t"
| "errors_Is e t \<longleftrightarrow> e = t"

text \<open>
  \<open>Ok\<close> is a return with a nil error, \<open>Err\<close> a return with an error, \<open>Panic\<close> a run-time panic
  (nil dereference, failed type assertion, index out of range), which no code of the
  repository recovers from.
\<close>

datatype 'a res = Ok 'a | Err go_error | Panic

definition bind_res :: "'a res \<Rightarrow> ('a \<Rightarrow> 'b res) \<Rightarrow> 'b res" where
  "bind_res m f = (case m of Ok x \<Rightarrow> f x | Err e \<Rightarrow> Err e | Panic \<Rightarrow> Panic)"

definition wrap_res :: "string \<Rightarrow> 'a res \<Rightarrow> 'a res" where
  "wrap_res msg m = (case m of Ok x \<Rightarrow> Ok x | Err e \<Rightarrow> Err (Wrapf msg e) | Panic \<Rightarrow> Panic)"

definition guard_res :: "bool \<Rightarrow> string \<Rightarrow> unit res" where
  "guard_res b msg = (if b then Ok () else Err (Errorf msg))"

definition deref :: "'a option \<Rightarrow> 'a res" where
  "deref p = (case p of None \<Rightarrow> Panic | Some x \<Rightarrow> Ok x)"

fun is_Ok :: "'a res \<Rightarrow> bool" where
  "is_Ok (Ok _) \<longleftrightarrow> True"
| "is_Ok _ \<longleftrightarrow> False"

lemma bind_res_simps [simp, res_simps]:
  "bind_res (Ok x) f = f x"
  "bind_res (Err e) f = Err e"
  "bind_res Panic f = Panic"
  by (simp_all add: bind_res_def)

lemma wrap_res_simps [simp, res_simps]:
  "wrap_res msg (Ok x) = Ok x"
  "wrap_res msg (Err e) = Err (Wrapf msg e)"
  "wrap_res msg Panic = Panic"
  by (simp_all add: wrap_res_def)

lemma deref_simps [simp, res_simps]:
  "deref None = Panic"
  "deref (Some x) = Ok x"
  by (simp_all add: deref_def)

lemma bind_res_eq_Ok [res_simps]:
  "bind_res m f = Ok y \<longleftrightarrow> (\<exists>x. m = Ok x \<and> f x = Ok y)"
  by (cases m) simp_all

lemma bind_res_eq_Panic [res_simps]:
  "bind_res m f = Panic \<longleftrightarrow> m = Panic \<or> (\<exists>x. m = Ok x \<and> f x = Panic)"
  by (cases m) simp_all

lemma wrap_res_eq_Ok [simp, res_simps]: "wrap_res msg m = Ok y \<longleftrightarrow> m = Ok y"
  by (cases m) simp_all

lemma wrap_res_eq_Panic [simp, res_simps]: "wrap_res msg m = Panic \<longleftrightarrow> m = Panic"
  by (cases m) simp_all

lemma guard_res_eq_Ok [simp, res_simps]: "guard_res b msg = Ok u \<longleftrightarrow> b"
  by (simp add: guard_res_def)

lemma guard_res_not_Panic [simp, res_simps]: "guard_res b msg \<noteq> Panic"
  by (simp add: guard_res_def)

lemma guard_res_True [simp, res_simps]: "guard_res True msg = Ok ()"
  by (simp add: guard_res_def)

lemma deref_eq_Ok [simp, res_simps]: "deref p = Ok x \<longleftrightarrow> p = Some x"
  by (cases p) simp_all

lemma is_Ok_iff [res_simps]: "is_Ok m \<longleftrightarrow> (\<exists>x. m = Ok x)"
  by (cases m) simp_all

section \<open>Hexadecimal text\<close>

definition hex_digit :: "nat \<Rightarrow> char" where
  "hex_digit n = ''0123456789abcdef'' ! n"

definition hex_byte :: "byte \<Rightarrow> string" where
  "hex_byte b = [hex_digit (unat b div 16), hex_digit (unat b mod 16)]"

definition hex_EncodeToString :: "bytes \<Rightarrow> string" where
  "hex_EncodeToString bs = concat (map hex_byte bs)"

definition hex_chars :: "char set" where
  "hex_chars = set ''0123456789abcdef''"

lemma hex_digit_inj: "m < 16 \<Longrightarrow> n < 16 \<Longrightarrow> hex_digit m = hex_digit n \<longleftrightarrow> m = n"
proof -
  assume "m < 16" and "n < 16"
  moreover have "distinct ''0123456789abcdef''" by simp
  ultimately show ?thesis
    unfolding hex_digit_def by (subst nth_eq_iff_index_eq) simp_all
qed

lemma hex_digit_in: "n < 16 \<Longrightarrow> hex_digit n \<in> hex_chars"
  unfolding hex_digit_def hex_chars_def by (rule nth_mem) simp

lemma unat_byte_less: "unat (b :: byte) < 256"
  using unsigned_less [of b, where ?'a = nat] by simp

lemma byte_div_16_less: "unat (b :: byte) div 16 < 16"
  using unat_byte_less [of b] by simp

lemma hex_byte_inj: "hex_byte a = hex_byte b \<longleftrightarrow> a = b"
proof
  assume "hex_byte a = hex_byte b"
  then have "unat a div 16 = unat b div 16" "unat a mod 16 = unat b mod 16"
    by (simp_all add: hex_byte_def hex_digit_inj byte_div_16_less)
  then have "unat a = unat b"
    by (metis div_mult_mod_eq)
  then show "a = b" by (simp add: word_unat_eq_iff)
qed simp

lemma hex_EncodeToString_simps [simp]:
  "hex_EncodeToString [] = []"
  "hex_EncodeToString (b # bs) =
     hex_digit (unat b div 16) # hex_digit (unat b mod 16) # hex_EncodeToString bs"
  by (simp_all add: hex_EncodeToString_def hex_byte_def)

lemma hex_EncodeToString_inj [simp, key_simps]:
  "hex_EncodeToString a = hex_EncodeToString b \<longleftrightarrow> a = b"
proof (induction a arbitrary: b)
  case Nil
  then show ?case by (cases b) simp_all
next
  case (Cons x xs)
  show ?case
  proof (cases b)
    case (Cons y ys)
    have "hex_EncodeToString (x # xs) = hex_EncodeToString (y # ys) \<longleftrightarrow>
        hex_byte x = hex_byte y \<and> hex_EncodeToString xs = hex_EncodeToString ys"
      by (auto simp: hex_byte_def)
    with Cons.IH [of ys] Cons show ?thesis by (simp add: hex_byte_inj)
  qed simp
qed

lemma set_hex_EncodeToString: "set (hex_EncodeToString bs) \<subseteq> hex_chars"
  by (induction bs) (auto simp: hex_digit_in byte_div_16_less)

lemma hex_chars_not [simp, key_simps]:
  "CHR ''h'' \<notin> hex_chars" "CHR ''l'' \<notin> hex_chars" "CHR ''_'' \<notin> hex_chars"
  "CHR ''/'' \<notin> hex_chars"
  by (simp_all add: hex_chars_def)

lemma hex_not_Cons [key_simps]: "c \<notin> hex_chars \<Longrightarrow> hex_EncodeToString bs \<noteq> c # s"
  using set_hex_EncodeToString [of bs] by fastforce

section \<open>Decimal text\<close>

definition dec_digit :: "nat \<Rightarrow> char" where
  "dec_digit n = char_of (48 + n)"

fun dec_of_nat :: "nat \<Rightarrow> string" where
  "dec_of_nat n =
     (if n < 10 then [dec_digit n] else dec_of_nat (n div 10) @ [dec_digit (n mod 10)])"

declare dec_of_nat.simps [simp del]

definition is_dec_digit :: "char \<Rightarrow> bool" where
  "is_dec_digit c \<longleftrightarrow> 48 \<le> (of_char c :: nat) \<and> (of_char c :: nat) \<le> 57"

definition dec_value :: "string \<Rightarrow> nat" where
  "dec_value s = foldl (\<lambda>a c. 10 * a + (of_char c - 48)) 0 s"

text \<open>\<open>(*big.Int).String\<close>, and \<open>(*big.Int).SetString\<close> in base 10.\<close>

definition big_String :: "int \<Rightarrow> string" where
  "big_String i = (if i < 0 then CHR ''-'' # dec_of_nat (nat (- i)) else dec_of_nat (nat i))"

definition dec_digits :: "string \<Rightarrow> nat option" where
  "dec_digits s = (if s \<noteq> [] \<and> list_all is_dec_digit s then Some (dec_value s) else None)"

fun big_SetString :: "string \<Rightarrow> int option" where
  "big_SetString [] = None"
| "big_SetString (c # s) =
     (if c = CHR ''-'' then map_option (\<lambda>n. - int n) (dec_digits s)
      else if c = CHR ''+'' then map_option int (dec_digits s)
      else map_option int (dec_digits (c # s)))"

lemma of_char_dec_digit: "n < 10 \<Longrightarrow> of_char (dec_digit n) = (48 + n :: nat)"
  by (simp add: dec_digit_def)

lemma dec_of_nat_digits: "list_all is_dec_digit (dec_of_nat n)"
proof (induction n rule: dec_of_nat.induct)
  case (1 n)
  have d: "is_dec_digit (dec_digit m)" if "m < 10" for m
    using that by (simp add: is_dec_digit_def of_char_dec_digit)
  show ?case
    by (cases "n < 10") (simp_all add: dec_of_nat.simps [of n] d "1.IH")
qed

lemma dec_of_nat_not_Nil [simp]: "dec_of_nat n \<noteq> []"
  by (simp add: dec_of_nat.simps [of n])

lemma dec_value_of_nat [simp, codec_simps]: "dec_value (dec_of_nat n) = n"
proof (induction n rule: dec_of_nat.induct)
  case (1 n)
  show ?case
  proof (cases "n < 10")
    case True
    then show ?thesis by (simp add: dec_of_nat.simps [of n] dec_value_def of_char_dec_digit)
  next
    case False
    with "1.IH" have "dec_value (dec_of_nat (n div 10)) = n div 10" by simp
    with False show ?thesis
      by (simp add: dec_of_nat.simps [of n] dec_value_def of_char_dec_digit)
  qed
qed

lemma dec_of_nat_inj [simp, key_simps]: "dec_of_nat m = dec_of_nat n \<longleftrightarrow> m = n"
  by (metis dec_value_of_nat)

lemma dec_digits_of_nat [simp, codec_simps]: "dec_digits (dec_of_nat n) = Some n"
  by (simp add: dec_digits_def dec_of_nat_digits)

lemma dec_digit_not_sign:
  "is_dec_digit c \<Longrightarrow> c \<noteq> CHR ''-''" "is_dec_digit c \<Longrightarrow> c \<noteq> CHR ''+''"
  by (auto simp: is_dec_digit_def)

lemma big_SetString_String [simp, codec_simps]: "big_SetString (big_String i) = Some i"
proof (cases "i < 0")
  case True
  then show ?thesis by (simp add: big_String_def)
next
  case False
  obtain c s where cs: "dec_of_nat (nat i) = c # s"
    using dec_of_nat_not_Nil by (meson list.exhaust)
  then have "is_dec_digit c"
    using dec_of_nat_digits [of "nat i"] by simp
  then have "big_SetString (c # s) = map_option int (dec_digits (c # s))"
    using dec_digit_not_sign by auto
  with False cs show ?thesis
    using dec_digits_of_nat [of "nat i"] by (simp add: big_String_def)
qed

lemma big_String_inj [simp, key_simps]: "big_String i = big_String j \<longleftrightarrow> i = j"
  by (metis big_SetString_String option.inject)

section \<open>Fixed-width integers as bytes\<close>

text \<open>\<open>binary.LittleEndian.PutUint64\<close>/\<open>Uint64\<close> and the big-endian writes of \<open>binary.Write\<close>.\<close>

definition le_bytes :: "u64 \<Rightarrow> bytes" where
  "le_bytes w = map (\<lambda>i. word_of_nat (unat w div 256 ^ i)) [0..<8]"

definition be_bytes :: "u64 \<Rightarrow> bytes" where
  "be_bytes w = rev (le_bytes w)"

definition le_Uint64 :: "bytes \<Rightarrow> u64 res" where
  "le_Uint64 bs =
     (if length bs < 8 then Panic
      else Ok (word_of_nat (\<Sum>i<8. unat (bs ! i) * 256 ^ i)))"

lemma le_bytes_code [code]: "le_bytes w = map (\<lambda>i. word_of_int (uint w div 256 ^ i)) [0..<8]"
proof -
  have "word_of_nat (unat w div 256 ^ i) = (word_of_int (uint w div 256 ^ i) :: byte)" for i
  proof -
    have "uint w div 256 ^ i = int (unat w div 256 ^ i)" by (simp add: zdiv_int)
    then show ?thesis by simp
  qed
  then show ?thesis by (simp add: le_bytes_def)
qed

lemma length_le_bytes [simp]: "length (le_bytes w) = 8"
  by (simp add: le_bytes_def)

lemma length_be_bytes [simp]: "length (be_bytes w) = 8"
  by (simp add: be_bytes_def)

lemma sum_digits_256: "(\<Sum>i<k. (n div 256 ^ i mod 256) * 256 ^ i) = n mod 256 ^ k" for n :: nat
proof (induction k)
  case (Suc k)
  have "n mod (256 ^ k * 256) = 256 ^ k * (n div 256 ^ k mod 256) + n mod 256 ^ k"
    by (rule mod_mult2_eq)
  with Suc show ?case by (simp add: mult.commute)
qed simp

lemma le_Uint64_le_bytes [simp, codec_simps]: "le_Uint64 (le_bytes w) = Ok w"
proof -
  have "unat (le_bytes w ! i) = unat w div 256 ^ i mod 256" if "i < 8" for i
    using that by (simp add: le_bytes_def unat_of_nat)
  then have "(\<Sum>i<8. unat (le_bytes w ! i) * 256 ^ i)
      = (\<Sum>i<8. (unat w div 256 ^ i mod 256) * 256 ^ i)"
    by simp
  also have "\<dots> = unat w mod 256 ^ 8" by (rule sum_digits_256)
  also have "\<dots> = unat w"
    using unsigned_less [of w, where ?'a = nat] by simp
  finally show ?thesis by (simp add: le_Uint64_def)
qed

lemma le_bytes_inj [simp, key_simps]: "le_bytes v = le_bytes w \<longleftrightarrow> v = w"
  by (metis le_Uint64_le_bytes res.inject(1))

lemma be_bytes_inj [simp, key_simps]: "be_bytes v = be_bytes w \<longleftrightarrow> v = w"
  by (simp add: be_bytes_def)

text \<open>\<open>(*big.Int).SetBytes\<close>: the big-endian value of a byte slice.\<close>

definition big_SetBytes :: "bytes \<Rightarrow> int" where
  "big_SetBytes bs = foldl (\<lambda>a b. 256 * a + uint b) 0 bs"

lemma big_SetBytes_nonneg: "0 \<le> big_SetBytes bs"
proof -
  have "0 \<le> a \<Longrightarrow> 0 \<le> foldl (\<lambda>a b. 256 * a + uint b) a bs" for a
    by (induction bs arbitrary: a) simp_all
  then show ?thesis by (simp add: big_SetBytes_def)
qed

text \<open>
  \<open>(*big.Int).Div\<close> is Euclidean division and panics on a zero divisor. For a positive divisor
  it is HOL's \<open>div\<close>; \<open>Rsh\<close> by \<open>n\<close> bits is \<open>div 2 ^ n\<close> for either sign.
\<close>

definition big_Div :: "int \<Rightarrow> int \<Rightarrow> int res" where
  "big_Div x y =
     (if y = 0 then Panic else if 0 < y then Ok (x div y) else Ok (- (x div (- y))))"

lemma big_Div_pos [simp]: "0 < y \<Longrightarrow> big_Div x y = Ok (x div y)"
  by (simp add: big_Div_def)

section \<open>Big-endian numbers of any width\<close>

fun be_list :: "nat \<Rightarrow> nat \<Rightarrow> bytes" where
  "be_list 0 n = []"
| "be_list (Suc k) n = be_list k (n div 256) @ [of_nat (n mod 256)]"

definition be_nat :: "bytes \<Rightarrow> nat" where
  "be_nat bs = fold (\<lambda>b n. n * 256 + unat b) bs 0"

lemma be_list_length [simp]: "length (be_list k n) = k"
  by (induction k arbitrary: n) simp_all

lemma be_nat_bytes: "n < 256 ^ k \<Longrightarrow> be_nat (be_list k n) = n"
proof (induction k arbitrary: n)
  case (Suc k)
  then have "n div 256 < 256 ^ k" by (simp add: less_mult_imp_div_less mult.commute)
  with Suc.IH show ?case by (simp add: be_nat_def unat_of_nat)
qed (simp add: be_nat_def)

end
