(* ===== verification/Election.thy ===== *)
theory Election
  imports Dione_Prelude
begin

text \<open>
  Leader election (\<open>types/electionproof.go\<close>, \<open>config/win_config.go\<close>): the fixed-point
  exponential, the incremental Poisson tail and the win count that decides whether a miner
  may propose a block. Big integers are \<open>int\<close>; values in Q.256 format are the integer they
  are stored as. The hash \<open>blake2b.Sum256\<close> is a parameter.

  The lemmas show that the election never panics on real stakes, that the count lies between
  0 and \<open>MaxWinCount\<close>, that it is the place where the draw meets the Poisson tail (a
  reference definition with explicit sums), that a smaller draw never wins less, that no
  stake means no win, and that the tail thresholds do not increase for any stake share.
\<close>

section \<open>Model\<close>

record ElectionProof =
  ep_WinCount :: int
  ep_VRFProof :: bytes
  ep_RandomnessRound :: u64

definition precision :: nat where
  "precision = 256"

definition ExpectedLeadersPerEpoch :: int where
  "ExpectedLeadersPerEpoch = 2"

definition MaxWinCount :: int where
  "MaxWinCount = 10 * ExpectedLeadersPerEpoch"

definition parse_coefs :: "int list \<Rightarrow> int list" where
  "parse_coefs coefs = map (\<lambda>c. c * 2 ^ (precision - 128)) coefs"

definition expNumCoef :: "int list" where
  "expNumCoef = parse_coefs
     [-648770010757830093818553637600,
      67469480939593786226847644286976,
      -3197587544499098424029388939001856,
      89244641121992890118377641805348864,
      -1579656163641440567800982336819953664,
      17685496037279256458459817590917169152,
      -115682590513835356866803355398940131328,
      340282366920938463463374607431768211456]"

definition expDenoCoef :: "int list" where
  "expDenoCoef = parse_coefs
     [1225524182432722209606361,
      114095592300906098243859450,
      5665570424063336070530214243,
      194450132448609991765137938448,
      5068267641632683791026134915072,
      104716890604972796896895427629056,
      1748338658439454459487681798864896,
      23704654329841312470660182937960448,
      259380097567996910282699886670381056,
      2250336698853390384720606936038375424,
      14978272436876548034486263159246028800,
      72144088983913131323343765784380833792,
      224599776407103106596571252037123047424,
      340282366920938463463374607431768211456]"

definition horner_step :: "int \<Rightarrow> int \<Rightarrow> int \<Rightarrow> int" where
  "horner_step x r c = (r * x) div 2 ^ precision + c"

fun polyval :: "int list \<Rightarrow> int \<Rightarrow> int res" where
  "polyval [] x = Panic"
| "polyval (c # cs) x = Ok (foldl (horner_step x) c cs)"

definition expneg :: "int \<Rightarrow> int res" where
  "expneg x =
     bind_res (polyval expNumCoef x) (\<lambda>num.
     bind_res (polyval expDenoCoef x) (\<lambda>deno.
       big_Div (num * 2 ^ precision) deno))"

definition lambda :: "int \<Rightarrow> int \<Rightarrow> int res" where
  "lambda stake net =
     big_Div (stake * ExpectedLeadersPerEpoch * 2 ^ precision) net"

record poiss =
  p_lam :: int
  p_pmf :: int
  p_icdf :: int
  p_tmp :: int
  p_k :: u64

definition newPoiss :: "int \<Rightarrow> (poiss \<times> int) res" where
  "newPoiss lam =
     bind_res (expneg lam) (\<lambda>elam.
       let icdf = 2 ^ precision - elam in
       Ok (\<lparr>p_lam = lam, p_pmf = elam, p_icdf = icdf, p_tmp = elam, p_k = 0\<rparr>, icdf))"

definition poiss_next :: "poiss \<Rightarrow> (poiss \<times> int) res" where
  "poiss_next p =
     (let k = p_k p + 1 in
      bind_res (big_Div (p_pmf p) (uint k)) (\<lambda>pmf.
        let tmp = pmf * p_lam p;
            pmf' = tmp div 2 ^ precision;
            icdf = p_icdf p - pmf'
        in Ok (p\<lparr>p_k := k, p_tmp := tmp, p_pmf := pmf', p_icdf := icdf\<rparr>, icdf)))"

function win_loop :: "int \<Rightarrow> poiss \<Rightarrow> int \<Rightarrow> int \<Rightarrow> int res" where
  "win_loop lhs p rhs j =
     (if lhs < rhs \<and> j < MaxWinCount
      then case poiss_next p of
             Ok (p', rhs') \<Rightarrow> win_loop lhs p' rhs' (j + 1)
           | Err e \<Rightarrow> Err e
           | Panic \<Rightarrow> Panic
      else Ok j)"
  by pat_completeness auto
termination
  by (relation "measure (\<lambda>(lhs, p, rhs, j). nat (MaxWinCount - j))") auto

declare win_loop.simps [simp del]

definition ComputeWinCount ::
  "(bytes \<Rightarrow> bytes) \<Rightarrow> ElectionProof \<Rightarrow> int \<Rightarrow> int \<Rightarrow> int res" where
  "ComputeWinCount blake2b ep stake net =
     (let lhs = big_SetBytes (blake2b (ep_VRFProof ep)) in
      bind_res (lambda stake net) (\<lambda>lam.
      bind_res (newPoiss lam) (\<lambda>(p, rhs).
        win_loop lhs p rhs 0)))"

section \<open>The reference definition of the win thresholds\<close>

text \<open>
  \<open>pmf_ref e lam k\<close> is the k-th Poisson weight by its recurrence and \<open>tail_ref e lam k\<close> the
  upper tail \<open>1 - sum of the weights 0..k\<close>, written with an explicit sum, both in Q.256.
\<close>

fun pmf_ref :: "int \<Rightarrow> int \<Rightarrow> nat \<Rightarrow> int" where
  "pmf_ref e lam 0 = e"
| "pmf_ref e lam (Suc k) = (pmf_ref e lam k div int (Suc k)) * lam div 2 ^ precision"

definition tail_ref :: "int \<Rightarrow> int \<Rightarrow> nat \<Rightarrow> int" where
  "tail_ref e lam k = 2 ^ precision - (\<Sum>i\<le>k. pmf_ref e lam i)"

definition poiss_at :: "int \<Rightarrow> int \<Rightarrow> nat \<Rightarrow> poiss \<Rightarrow> bool" where
  "poiss_at e lam k p \<longleftrightarrow>
     p_lam p = lam \<and> p_pmf p = pmf_ref e lam k \<and> p_icdf p = tail_ref e lam k
     \<and> p_k p = of_nat k"

text \<open>The first place, at most \<open>n\<close> steps after \<open>k\<close>, where the draw is not below the tail.\<close>

fun first_meet :: "(nat \<Rightarrow> int) \<Rightarrow> int \<Rightarrow> nat \<Rightarrow> nat \<Rightarrow> nat" where
  "first_meet th lhs k 0 = k"
| "first_meet th lhs k (Suc n) = (if lhs < th k then first_meet th lhs (Suc k) n else k)"

section \<open>Lemmas\<close>

lemma MaxWinCount_eq: "MaxWinCount = 20"
  by (simp add: MaxWinCount_def ExpectedLeadersPerEpoch_def)

lemma newPoiss_at:
  assumes "newPoiss lam = Ok (p, rhs)"
  obtains e where "expneg lam = Ok e" "poiss_at e lam 0 p" "rhs = tail_ref e lam 0"
  using assms by (auto simp: newPoiss_def res_simps poiss_at_def tail_ref_def Let_def)

lemma poiss_next_at:
  assumes "poiss_at e lam k p" and "k < 20"
  obtains p' where "poiss_next p = Ok (p', tail_ref e lam (Suc k))" "poiss_at e lam (Suc k) p'"
proof -
  have k: "uint (of_nat k + 1 :: u64) = int (Suc k)"
  proof -
    have "unat (of_nat (Suc k) :: u64) = Suc k"
      using assms(2) by (simp only: unat_of_nat) simp
    then have "uint (of_nat (Suc k) :: u64) = int (Suc k)"
      by (simp only: uint_nat)
    then show ?thesis by (simp add: add.commute)
  qed
  have "poiss_next p = Ok (p\<lparr>p_k := of_nat (Suc k),
      p_tmp := pmf_ref e lam k div int (Suc k) * lam,
      p_pmf := pmf_ref e lam (Suc k), p_icdf := tail_ref e lam (Suc k)\<rparr>, tail_ref e lam (Suc k))"
    using assms(1) k
    by (simp add: poiss_next_def poiss_at_def Let_def tail_ref_def add.commute)
  then show thesis
    using assms(1) by (intro that) (auto simp: poiss_at_def)
qed

lemma win_loop_first_meet:
  assumes "poiss_at e lam k p" "rhs = tail_ref e lam k" "k \<le> 20"
  shows "win_loop lhs p rhs (int k) = Ok (int (first_meet (tail_ref e lam) lhs k (20 - k)))"
  using assms
proof (induction "20 - k" arbitrary: k p rhs)
  case 0
  then show ?case by (simp add: win_loop.simps MaxWinCount_eq)
next
  case (Suc n)
  show ?case
  proof (cases "lhs < rhs")
    case True
    have "k < 20" and n: "20 - Suc k = n" using Suc.hyps(2) by simp_all
    obtain p' where p': "poiss_next p = Ok (p', tail_ref e lam (Suc k))"
        "poiss_at e lam (Suc k) p'"
      by (rule poiss_next_at [OF Suc.prems(1) \<open>k < 20\<close>])
    have "win_loop lhs p rhs (int k) = win_loop lhs p' (tail_ref e lam (Suc k)) (int (Suc k))"
      using True p'(1) \<open>k < 20\<close>
      by (simp add: win_loop.simps [of lhs p rhs] MaxWinCount_eq add.commute)
    also have "\<dots> = Ok (int (first_meet (tail_ref e lam) lhs (Suc k) (20 - Suc k)))"
      using n p'(2) \<open>k < 20\<close> by (intro Suc.hyps(1)) auto
    finally show ?thesis
      using True Suc.prems(2) by (simp only: n flip: Suc.hyps(2)) simp
  next
    case False
    then show ?thesis
      using Suc.prems(2) by (simp add: win_loop.simps flip: Suc.hyps(2))
  qed
qed

lemma first_meet_bounds: "k \<le> first_meet th lhs k n \<and> first_meet th lhs k n \<le> k + n"
proof (induction n arbitrary: k)
  case (Suc n)
  show ?case using Suc [of "Suc k"] by auto
qed simp

lemma first_meet_antimono: "lhs \<le> lhs' \<Longrightarrow> first_meet th lhs' k n \<le> first_meet th lhs k n"
proof (induction n arbitrary: k)
  case (Suc n)
  then show ?case
    using first_meet_bounds [of "Suc k" th lhs n] by (auto dest: order_trans)
qed simp

lemma first_meet_spec:
  "(\<forall>i. k \<le> i \<and> i < first_meet th lhs k n \<longrightarrow> lhs < th i)
   \<and> (first_meet th lhs k n < k + n \<longrightarrow> th (first_meet th lhs k n) \<le> lhs)"
proof (induction n arbitrary: k)
  case (Suc n)
  show ?case
  proof (cases "lhs < th k")
    case True
    then show ?thesis
      using Suc [of "Suc k"] by (auto simp: Suc_le_eq) (metis le_neq_implies_less)+
  qed auto
qed auto

lemma ComputeWinCount_Ok:
  assumes "lambda stake net = Ok lam" "expneg lam = Ok e"
  shows "ComputeWinCount blake2b ep stake net =
    Ok (int (first_meet (tail_ref e lam) (big_SetBytes (blake2b (ep_VRFProof ep))) 0 20))"
proof -
  obtain p rhs where np: "newPoiss lam = Ok (p, rhs)"
    using assms(2) by (auto simp: newPoiss_def Let_def)
  from newPoiss_at [OF this] assms(2) have "poiss_at e lam 0 p" "rhs = tail_ref e lam 0"
    by auto
  from win_loop_first_meet [OF this] show ?thesis
    using assms(1) np by (simp add: ComputeWinCount_def)
qed

text \<open>The denominator polynomial is positive on every non-negative argument.\<close>

lemma horner_pos:
  assumes "0 \<le> x" "list_all (\<lambda>c. 0 < c) cs" "0 < c"
  shows "0 < foldl (horner_step x) c cs"
  using assms(2,3)
proof (induction cs arbitrary: c)
  case (Cons d cs)
  have "0 \<le> c * x div 2 ^ precision"
    using Cons.prems assms(1) by (simp add: pos_imp_zdiv_nonneg_iff)
  with Cons show ?case by (simp add: horner_step_def)
qed simp

lemma expDenoCoef_pos: "list_all (\<lambda>c. 0 < c) expDenoCoef"
  by (simp add: expDenoCoef_def parse_coefs_def precision_def)

lemma polyval_pos:
  "list_all (\<lambda>c. 0 < c) p \<Longrightarrow> 0 \<le> x \<Longrightarrow> polyval p x = Ok d \<Longrightarrow> 0 < d"
  by (cases p) (auto simp: horner_pos)

lemma polyval_Ok: "p \<noteq> [] \<Longrightarrow> \<exists>d. polyval p x = Ok d"
  by (cases p) auto

lemma coefs_not_Nil: "expNumCoef \<noteq> []" "expDenoCoef \<noteq> []"
  by (simp_all add: expNumCoef_def expDenoCoef_def parse_coefs_def)

lemma expneg_Ok:
  assumes "0 \<le> x"
  shows "\<exists>e. expneg x = Ok e"
proof -
  obtain n where "polyval expNumCoef x = Ok n"
    using polyval_Ok [OF coefs_not_Nil(1), of x] by (elim exE)
  moreover obtain d where d: "polyval expDenoCoef x = Ok d"
    using polyval_Ok [OF coefs_not_Nil(2), of x] by (elim exE)
  moreover have "0 < d"
    by (rule polyval_pos [OF expDenoCoef_pos assms d])
  ultimately show ?thesis by (simp add: expneg_def)
qed

lemma lambda_Ok: "0 < net \<Longrightarrow> lambda stake net = Ok (stake * 2 * 2 ^ precision div net)"
  by (simp add: lambda_def ExpectedLeadersPerEpoch_def)

lemma lambda_nonneg: "0 < net \<Longrightarrow> 0 \<le> stake \<Longrightarrow> 0 \<le> stake * 2 * 2 ^ precision div (net :: int)"
  by (simp add: pos_imp_zdiv_nonneg_iff)

lemma election_inputs_Ok:
  assumes "0 < net" "0 \<le> stake"
  obtains lam e where "lambda stake net = Ok lam" "expneg lam = Ok e" "0 \<le> lam"
proof -
  obtain e where "expneg (stake * 2 * 2 ^ precision div net) = Ok e"
    using expneg_Ok [OF lambda_nonneg [OF assms]] by (elim exE)
  from that [OF lambda_Ok [OF assms(1)] this lambda_nonneg [OF assms]] show thesis .
qed

text \<open>
  The numerator is bounded by interval arithmetic on Horner's scheme: one interval
  \<open>[0, 2]\<close>, in Q.256, covers every stake share, since the expected number of leaders is 2.
\<close>

definition ivl_step :: "int \<Rightarrow> int \<Rightarrow> int \<times> int \<Rightarrow> int \<Rightarrow> int \<times> int" where
  "ivl_step u v ab c =
     (min (fst ab * u) (fst ab * v) div 2 ^ precision + c,
      max (snd ab * u) (snd ab * v) div 2 ^ precision + c)"

lemma mult_ge_min:
  fixes a r u v x :: int
  assumes "0 \<le> u" "u \<le> x" "x \<le> v" "a \<le> r"
  shows "min (a * u) (a * v) \<le> r * x"
proof -
  have "a * x \<le> r * x" using assms by (intro mult_right_mono) auto
  moreover have "min (a * u) (a * v) \<le> a * x"
  proof (cases "0 \<le> a")
    case True
    then have "a * u \<le> a * x" using assms by (intro mult_left_mono) auto
    then show ?thesis by (simp add: min.coboundedI1)
  next
    case False
    then have "a * v \<le> a * x" using assms by (intro mult_left_mono_neg) auto
    then show ?thesis by (simp add: min.coboundedI2)
  qed
  ultimately show ?thesis by (rule order_trans [rotated])
qed

lemma mult_le_max:
  fixes b r u v x :: int
  assumes "0 \<le> u" "u \<le> x" "x \<le> v" "r \<le> b"
  shows "r * x \<le> max (b * u) (b * v)"
proof -
  have "min (- b * u) (- b * v) \<le> - r * x"
    using assms by (intro mult_ge_min) auto
  then show ?thesis by (auto simp: min_def max_def split: if_splits)
qed

lemma horner_step_ivl:
  assumes "0 \<le> u" "u \<le> x" "x \<le> v" "fst ab \<le> r" "r \<le> snd ab"
  shows "fst (ivl_step u v ab c) \<le> horner_step x r c \<and> horner_step x r c \<le> snd (ivl_step u v ab c)"
  using mult_ge_min [OF assms(1-4)] mult_le_max [OF assms(1-3,5)]
  by (simp add: ivl_step_def horner_step_def zdiv_mono1)

lemma horner_ivl:
  assumes "0 \<le> u" "u \<le> x" "x \<le> v" "fst ab \<le> r" "r \<le> snd ab"
  shows "fst (foldl (ivl_step u v) ab cs) \<le> foldl (horner_step x) r cs
    \<and> foldl (horner_step x) r cs \<le> snd (foldl (ivl_step u v) ab cs)"
  using assms(4,5)
proof (induction cs arbitrary: ab r)
  case (Cons c cs)
  show ?case
    using horner_step_ivl [OF assms(1-3) Cons.prems, of c] Cons.IH by simp
qed simp

fun poly_ivl :: "int \<Rightarrow> int \<Rightarrow> int list \<Rightarrow> int \<times> int" where
  "poly_ivl u v [] = (0, 0)"
| "poly_ivl u v (c # cs) = foldl (ivl_step u v) (c, c) cs"

lemma polyval_ivl:
  assumes "0 \<le> u" "u \<le> x" "x \<le> v" "polyval p x = Ok y"
  shows "fst (poly_ivl u v p) \<le> y \<and> y \<le> snd (poly_ivl u v p)"
  using assms horner_ivl [OF assms(1-3), of "(hd p, hd p)" "hd p" "tl p"] by (cases p) simp_all

lemma num_ivl: "0 < fst (poly_ivl 0 (2 * 2 ^ precision) expNumCoef)
    \<and> snd (poly_ivl 0 (2 * 2 ^ precision) expNumCoef) = 2 ^ precision"
  by (simp add: expNumCoef_def parse_coefs_def precision_def ivl_step_def)

lemma horner_ge_last:
  assumes "0 \<le> x" "list_all (\<lambda>c. 0 < c) (c # cs)"
  shows "last (c # cs) \<le> foldl (horner_step x) c cs"
  using assms(2)
proof (induction cs arbitrary: c)
  case (Cons d cs)
  have "0 \<le> c * x div 2 ^ precision"
    using Cons.prems assms(1) by (simp add: pos_imp_zdiv_nonneg_iff)
  then have d: "0 < horner_step x c d" "d \<le> horner_step x c d"
    using Cons.prems by (simp_all add: horner_step_def)
  show ?case
    using Cons.IH [of "horner_step x c d"] Cons.prems d by (cases cs) simp_all
qed simp

lemma polyval_ge_last:
  "list_all (\<lambda>c. 0 < c) p \<Longrightarrow> 0 \<le> x \<Longrightarrow> polyval p x = Ok d \<Longrightarrow> last p \<le> d"
  using horner_ge_last [of x "hd p" "tl p"] by (cases p) auto

lemma last_coefs: "last expNumCoef = 2 ^ precision" "last expDenoCoef = 2 ^ precision"
  by (simp_all add: expNumCoef_def expDenoCoef_def parse_coefs_def precision_def)

lemma deno_ge: "0 \<le> x \<Longrightarrow> polyval expDenoCoef x = Ok d \<Longrightarrow> 2 ^ precision \<le> d"
  using polyval_ge_last [OF expDenoCoef_pos, of x d] by (simp add: last_coefs)

lemma expneg_unit:
  assumes "0 \<le> x" "x \<le> 2 * 2 ^ precision" "expneg x = Ok e"
  shows "0 \<le> e \<and> e \<le> 2 ^ precision"
proof -
  obtain n d where nd: "polyval expNumCoef x = Ok n" "polyval expDenoCoef x = Ok d"
      "big_Div (n * 2 ^ precision) d = Ok e"
    using assms(3) by (auto simp: expneg_def res_simps)
  have d: "2 ^ precision \<le> d" by (rule deno_ge [OF assms(1) nd(2)])
  have "0 < (2 :: int) ^ precision" by simp
  with d have "0 < d" by linarith
  have n: "0 < n" "n \<le> 2 ^ precision"
    using polyval_ivl [OF order_refl assms(1,2) nd(1)] num_ivl by linarith+
  have e: "e = n * 2 ^ precision div d" using nd(3) \<open>0 < d\<close> by simp
  have "n * 2 ^ precision \<le> 2 ^ precision * d"
    using n d by (intro mult_mono) auto
  then have "n * 2 ^ precision div d \<le> 2 ^ precision * d div d"
    using \<open>0 < d\<close> by (rule zdiv_mono1)
  then show ?thesis
    using e n \<open>0 < d\<close> by (simp add: pos_imp_zdiv_nonneg_iff)
qed

lemma lambda_le:
  fixes stake net :: int
  assumes "0 < net" "stake \<le> net"
  shows "stake * 2 * 2 ^ precision div net \<le> 2 * 2 ^ precision"
proof -
  have "stake * (2 * 2 ^ precision) \<le> net * (2 * 2 ^ precision)"
    using assms(2) by (intro mult_right_mono) auto
  then have "stake * 2 * 2 ^ precision div net \<le> net * (2 * 2 ^ precision) div net"
    using assms(1) by (intro zdiv_mono1) (simp_all add: mult.assoc)
  then show ?thesis using assms(1) by simp
qed

lemma pmf_ref_nonneg: "0 \<le> e \<Longrightarrow> 0 \<le> lam \<Longrightarrow> 0 \<le> pmf_ref e lam k"
  by (induction k) (simp_all add: pos_imp_zdiv_nonneg_iff)

lemma tail_ref_antimono: "0 \<le> e \<Longrightarrow> 0 \<le> lam \<Longrightarrow> i \<le> k \<Longrightarrow> tail_ref e lam k \<le> tail_ref e lam i"
  unfolding tail_ref_def by (simp add: sum_mono2 pmf_ref_nonneg)

lemma first_meet_card:
  assumes "\<And>i k. i \<le> k \<Longrightarrow> th k \<le> th i"
  shows "first_meet th lhs 0 n = card {k. k < n \<and> lhs < th k}"
proof -
  let ?m = "first_meet th lhs 0 n"
  have "k < ?m" if "k < n" "lhs < th k" for k
  proof (rule ccontr)
    assume "\<not> k < ?m"
    then have "?m \<le> k" by simp
    moreover from this that(1) have "th ?m \<le> lhs"
      using first_meet_spec [of 0 th lhs n] by simp
    ultimately show False using assms [of ?m k] that(2) by simp
  qed
  then have "{k. k < n \<and> lhs < th k} = {..<?m}"
    using first_meet_spec [of 0 th lhs n] first_meet_bounds [of 0 th lhs n] by auto
  then show ?thesis by simp
qed

lemma polyval_0: "p \<noteq> [] \<Longrightarrow> polyval p 0 = Ok (last p)"
proof (cases p)
  case (Cons c cs)
  have "foldl (horner_step 0) c cs = last (c # cs)"
    by (induction cs arbitrary: c) (simp_all add: horner_step_def)
  with Cons show ?thesis by simp
qed simp

lemma expneg_0: "expneg 0 = Ok (2 ^ precision)"
  by (simp add: expneg_def polyval_0 coefs_not_Nil last_coefs)

text \<open>A miner that holds the whole stake wins whenever the draw is below one half.\<close>

lemma expneg_2: "\<exists>e. expneg (2 * 2 ^ precision) = Ok e \<and> e < 2 ^ 255"
  by (simp add: expneg_def expNumCoef_def expDenoCoef_def parse_coefs_def horner_step_def precision_def
      big_Div_def)

lemma full_stake_wins:
  assumes "0 < s" "big_SetBytes (blake2b (ep_VRFProof ep)) < 2 ^ 255"
  shows "\<exists>j. ComputeWinCount blake2b ep s s = Ok j \<and> 1 \<le> j"
proof -
  obtain e where e: "expneg (2 * 2 ^ precision) = Ok e" "e < 2 ^ 255" using expneg_2 by blast
  have l: "lambda s s = Ok (2 * 2 ^ precision)"
    using assms(1) by (simp add: lambda_def ExpectedLeadersPerEpoch_def)
  have "big_SetBytes (blake2b (ep_VRFProof ep)) < tail_ref e (2 * 2 ^ precision) 0"
    using assms(2) e(2) by (simp add: tail_ref_def precision_def)
  then have "1 \<le> first_meet (tail_ref e (2 * 2 ^ precision)) (big_SetBytes (blake2b (ep_VRFProof ep))) 0 20"
    using first_meet_bounds [of "Suc 0" "tail_ref e (2 * 2 ^ precision)"] by (simp add: eval_nat_numeral)
  then show ?thesis using ComputeWinCount_Ok [OF l e(1)] by simp
qed

section \<open>Properties\<close>

text \<open>
  C23. For every positive network stake and non-negative miner stake, the election neither
  panics nor fails, and the number of wins lies between 0 and \<open>MaxWinCount\<close>.
\<close>

theorem win_count_bounded:
  assumes "0 < net" "0 \<le> stake"
  shows "\<exists>j. ComputeWinCount blake2b ep stake net = Ok j \<and> 0 \<le> j \<and> j \<le> MaxWinCount"
proof -
  obtain lam e where "lambda stake net = Ok lam" "expneg lam = Ok e"
    using assms by (rule election_inputs_Ok)
  from ComputeWinCount_Ok [OF this] show ?thesis
    using first_meet_bounds [of 0 "tail_ref e lam"] by (simp add: MaxWinCount_eq)
qed

theorem win_count_bounded_witness:
  "\<exists>j. ComputeWinCount (\<lambda>_. [1]) \<lparr>ep_WinCount = 0, ep_VRFProof = [7], ep_RandomnessRound = 3\<rparr>
     1000 4000 = Ok j \<and> 0 \<le> j \<and> j \<le> MaxWinCount"
  by (rule win_count_bounded) simp_all

text \<open>
  C22. For every miner whose stake is part of the network stake, the incremental computation of
  the code equals its reference: the number of indices below 20 whose Poisson upper tail
  (one minus the explicit sum of the weights) lies above the draw. The weight
  \<open>e\<close> of no win at all is a probability (between 0 and 1 in Q.256), and the tails do not
  increase with the index, so that the loop may stop at the first tail it meets.
\<close>

theorem win_count_reference:
  assumes "0 < net" "0 \<le> stake" "stake \<le> net"
  shows "\<exists>lam e. lambda stake net = Ok lam \<and> expneg lam = Ok e \<and> 0 \<le> e \<and> e \<le> 2 ^ precision
    \<and> (\<forall>k. tail_ref e lam (Suc k) \<le> tail_ref e lam k)
    \<and> ComputeWinCount blake2b ep stake net =
        Ok (int (card {k. k < 20 \<and> big_SetBytes (blake2b (ep_VRFProof ep)) < tail_ref e lam k}))"
proof -
  let ?lam = "stake * 2 * 2 ^ precision div net"
  have lam: "lambda stake net = Ok ?lam" "0 \<le> ?lam" "?lam \<le> 2 * 2 ^ precision"
    using lambda_Ok lambda_nonneg lambda_le assms by blast+
  obtain e where e: "expneg ?lam = Ok e" using expneg_Ok [OF lam(2)] by blast
  have unit: "0 \<le> e" "e \<le> 2 ^ precision" using expneg_unit [OF lam(2,3) e] by blast+
  have anti: "tail_ref e ?lam k \<le> tail_ref e ?lam i" if "i \<le> k" for i k
    using tail_ref_antimono [OF unit(1) lam(2) that] .
  have "ComputeWinCount blake2b ep stake net = Ok (int (card
      {k. k < 20 \<and> big_SetBytes (blake2b (ep_VRFProof ep)) < tail_ref e ?lam k}))"
    using ComputeWinCount_Ok [OF lam(1) e] first_meet_card [of "tail_ref e ?lam", OF anti]
    by simp
  then show ?thesis using lam e unit anti [OF le_SucI [OF order_refl]] by blast
qed

theorem win_count_reference_witness:
  "\<exists>lam e. lambda 1000 4000 = Ok lam \<and> expneg lam = Ok e \<and> 0 \<le> e \<and> e \<le> 2 ^ precision
    \<and> (\<forall>k. tail_ref e lam (Suc k) \<le> tail_ref e lam k)
    \<and> ComputeWinCount (\<lambda>_. [1]) \<lparr>ep_WinCount = 0, ep_VRFProof = [7], ep_RandomnessRound = 3\<rparr>
        1000 4000 =
        Ok (int (card {k. k < 20 \<and> big_SetBytes ((\<lambda>_. [1]) (ep_VRFProof
          \<lparr>ep_WinCount = 0, ep_VRFProof = [7], ep_RandomnessRound = 3\<rparr>)) < tail_ref e lam k}))"
  by (rule win_count_reference) simp_all

text \<open>
  C20. The election is fair in the draw: with the same stakes, a proof whose hash is smaller
  never gets fewer wins.
\<close>

lemma win_count_antimono:
  assumes "big_SetBytes (blake2b (ep_VRFProof ep)) \<le> big_SetBytes (blake2b (ep_VRFProof ep'))"
    and "ComputeWinCount blake2b ep stake net = Ok j"
    and "ComputeWinCount blake2b ep' stake net = Ok j'"
  shows "j' \<le> j"
proof -
  obtain lam where lam: "lambda stake net = Ok lam"
    using assms(2) by (auto simp: ComputeWinCount_def res_simps Let_def)
  obtain e where e: "expneg lam = Ok e"
    using assms(2) lam by (auto simp: ComputeWinCount_def newPoiss_def res_simps Let_def)
  show ?thesis
    using assms(2,3) first_meet_antimono [OF assms(1), of "tail_ref e lam" 0 20]
    by (simp add: ComputeWinCount_Ok [OF lam e])
qed

text \<open>
  C20. A miner without stake never wins, whatever its proof; and when the staking contract
  reports an empty network stake the computation divides by zero and panics.
\<close>

lemma win_count_no_stake:
  "(net \<noteq> 0 \<longrightarrow> ComputeWinCount blake2b ep 0 net = Ok 0)
   \<and> ComputeWinCount blake2b ep stake 0 = Panic"
proof
  show "net \<noteq> 0 \<longrightarrow> ComputeWinCount blake2b ep 0 net = Ok 0"
  proof
    assume "net \<noteq> 0"
    then have lam: "lambda 0 net = Ok 0" by (simp add: lambda_def big_Div_def)
    have "\<not> big_SetBytes (blake2b (ep_VRFProof ep)) < tail_ref (2 ^ precision) 0 0"
      using big_SetBytes_nonneg [of "blake2b (ep_VRFProof ep)"] by (simp add: tail_ref_def)
    then have "first_meet (tail_ref (2 ^ precision) 0)
        (big_SetBytes (blake2b (ep_VRFProof ep))) 0 (Suc 19) = 0"
      by (simp only: first_meet.simps if_False)
    then show "ComputeWinCount blake2b ep 0 net = Ok 0"
      using ComputeWinCount_Ok [OF lam expneg_0, of blake2b ep] by simp
  qed
  show "ComputeWinCount blake2b ep stake 0 = Panic"
    by (simp add: ComputeWinCount_def lambda_def big_Div_def)
qed

end
