(* ===== verification/Chain_Types.thy ===== *)
theory Chain_Types
  imports Election
begin

text \<open>
  The chain's data (\<open>blockchain/types\<close>, \<open>blockchain/utils\<close>, \<open>types/task.go\<close>,
  \<open>types/beacon.go\<close>): transactions, block headers, blocks, oracle tasks, and the functions
  that build and check them.

  Libraries outside the repository enter as records of operations (\<open>crypto\<close> for hashing,
  libp2p keys and peer ids, \<open>merkle\<close> for wealdtech's merkletree, \<open>codec\<close> for CBOR); what the
  code relies on is stated by the locales \<open>signature_scheme\<close>, \<open>merkle_lib\<close> and \<open>cbor_codec\<close>.
  A pointer that may be nil is an \<open>option\<close>.
\<close>

section \<open>Libraries outside the repository\<close>

record merkle_proof =
  pr_Hashes :: "bytes list option"
  pr_Index :: u64

text \<open>A tree is named by the leaves and the salt flag it was built from.\<close>

type_synonym merkle_tree = "bytes list \<times> bool"

record merkle =
  mt_NewUsing :: "bytes list \<Rightarrow> bool \<Rightarrow> merkle_tree res"
  mt_Root :: "merkle_tree \<Rightarrow> bytes"
  mt_GenerateProof :: "merkle_tree \<Rightarrow> bytes \<Rightarrow> nat \<Rightarrow> merkle_proof res"
  mt_VerifyProofUsing :: "bytes \<Rightarrow> bool \<Rightarrow> merkle_proof option \<Rightarrow> bytes list \<Rightarrow> bool res"

record crypto =
  cr_Keccak256 :: "bytes \<Rightarrow> bytes"
  cr_Blake2b :: "bytes \<Rightarrow> bytes"
  cr_ExtractPublicKey :: "peer_id \<Rightarrow> pubkey res"
  cr_Verify :: "pubkey \<Rightarrow> bytes \<Rightarrow> bytes \<Rightarrow> bool res"
  cr_Sign :: "privkey \<Rightarrow> bytes \<Rightarrow> bytes res"
  cr_IDFromPrivateKey :: "privkey \<Rightarrow> peer_id res"
  cr_MarshalBinary :: "peer_id \<Rightarrow> bytes res"
  cr_peerString :: "peer_id \<Rightarrow> string"

locale merkle_lib =
  fixes M :: merkle
  assumes new_Ok: "leaves \<noteq> [] \<Longrightarrow> \<exists>t. mt_NewUsing M leaves salt = Ok t"
    and proof_Ok: "mt_NewUsing M leaves salt = Ok t \<Longrightarrow> d \<in> set leaves \<Longrightarrow>
      \<exists>p. mt_GenerateProof M t d 0 = Ok p"
    and proof_hashes: "mt_GenerateProof M t d 0 = Ok p \<Longrightarrow> pr_Hashes p \<noteq> None"
    and proof_verifies: "mt_NewUsing M leaves salt = Ok t \<Longrightarrow> d \<in> set leaves \<Longrightarrow>
      mt_GenerateProof M t d 0 = Ok p \<Longrightarrow>
      mt_VerifyProofUsing M d salt (Some p) [mt_Root M t] = Ok True"

locale signature_scheme =
  fixes C :: crypto
  assumes sign_verifies: "cr_IDFromPrivateKey C sk = Ok i \<Longrightarrow> cr_Sign C sk m = Ok s \<Longrightarrow>
      \<exists>pk. cr_ExtractPublicKey C i = Ok pk \<and> cr_Verify C pk m s = Ok True"

section \<open>Data\<close>

record Transaction =
  tx_Hash :: bytes
  tx_MerkleProof :: merkle_proof
  tx_Timestamp :: int
  tx_Data :: bytes

text \<open>A metadata value is an \<open>interface{}\<close>; \<open>None\<close> is a value that is not a byte slice.\<close>

type_synonym metadata = "(string \<times> bytes option) list"

record BeaconEntry =
  be_Round :: u64
  be_Data :: bytes
  be_Metadata :: metadata

definition NewBeaconEntry :: "u64 \<Rightarrow> bytes \<Rightarrow> metadata \<Rightarrow> BeaconEntry" where
  "NewBeaconEntry round dat metadata = \<lparr>be_Round = round, be_Data = dat, be_Metadata = metadata\<rparr>"

definition zero_BeaconEntry :: BeaconEntry where
  "zero_BeaconEntry = \<lparr>be_Round = 0, be_Data = [], be_Metadata = []\<rparr>"

record DioneTask =
  tk_OriginChain :: u8
  tk_RequestType :: string
  tk_RequestParams :: string
  tk_Payload :: bytes
  tk_RequestID :: string

record BlockHeader =
  hd_Timestamp :: i64
  hd_Height :: u64
  hd_Hash :: bytes
  hd_LastHash :: bytes
  hd_LastHashProof :: "merkle_proof option"
  hd_Proposer :: "peer_id option"
  hd_ProposerEth :: address
  hd_Signature :: bytes
  hd_BeaconEntry :: BeaconEntry
  hd_ElectionProof :: "ElectionProof option"

record Block =
  blk_Header :: BlockHeader
  blk_Data :: "Transaction option list"

definition zero_proof :: merkle_proof where
  "zero_proof = \<lparr>pr_Hashes = None, pr_Index = 0\<rparr>"

text \<open>The bytes of a Go string.\<close>

definition string_bytes :: "string \<Rightarrow> bytes" where
  "string_bytes s = map (\<lambda>c. word_of_nat (of_char c)) s"

lemma string_bytes_inj [simp, key_simps]: "string_bytes s = string_bytes t \<longleftrightarrow> s = t"
proof -
  have "inj (\<lambda>c. word_of_nat (of_char c) :: byte)"
  proof (rule injI)
    fix c d :: char
    assume "(word_of_nat (of_char c) :: byte) = word_of_nat (of_char d)"
    then have "unat (word_of_nat (of_char c) :: byte) = unat (word_of_nat (of_char d) :: byte)"
      by simp
    moreover have "of_char c < (256 :: nat)" "of_char d < (256 :: nat)" by simp_all
    ultimately have "of_char c = (of_char d :: nat)"
      by (simp add: unat_of_nat)
    then show "c = d" by simp
  qed
  then show ?thesis by (simp add: string_bytes_def inj_map_eq_map)
qed

section \<open>CBOR\<close>

text \<open>
  The messages and records the code marshals. \<open>unmarshal_task\<close> returns the task as far as
  it was filled in together with the error, because the caller's variable keeps what was
  decoded. A decoded block is \<open>None\<close> when its header (or the block itself) is nil.
\<close>

record codec =
  marshal_task :: "DioneTask \<Rightarrow> bytes res"
  unmarshal_task :: "bytes \<Rightarrow> DioneTask \<times> go_error option"
  marshal_txs :: "Transaction option list \<Rightarrow> bytes res"
  unmarshal_txs :: "bytes \<Rightarrow> Transaction option list res"
  marshal_header :: "BlockHeader \<Rightarrow> bytes res"
  unmarshal_header :: "bytes \<Rightarrow> BlockHeader res"
  marshal_block :: "Block \<Rightarrow> bytes res"
  unmarshal_block :: "bytes \<Rightarrow> Block option res"
  unmarshal_tx :: "bytes \<Rightarrow> Transaction res"
  marshal_preprepare :: "Block option \<Rightarrow> bytes res"
  unmarshal_preprepare :: "bytes \<Rightarrow> Block option res"
  marshal_vote :: "bytes \<Rightarrow> bytes \<Rightarrow> bytes res"
  unmarshal_vote :: "bytes \<Rightarrow> (bytes \<times> bytes) res"

locale cbor_codec =
  fixes K :: codec
  assumes task_roundtrip: "marshal_task K t = Ok bs \<Longrightarrow> unmarshal_task K bs = (t, None)"
    and txs_roundtrip: "marshal_txs K d = Ok bs \<Longrightarrow> unmarshal_txs K bs = Ok d"
    and header_roundtrip: "marshal_header K h = Ok bs \<Longrightarrow> unmarshal_header K bs = Ok h"
    and block_roundtrip: "marshal_block K b = Ok bs \<Longrightarrow> unmarshal_block K bs = Ok (Some b)"
    and preprepare_roundtrip:
      "marshal_preprepare K m = Ok bs \<Longrightarrow> unmarshal_preprepare K bs = Ok m"
    and vote_roundtrip: "marshal_vote K bh s = Ok bs \<Longrightarrow> unmarshal_vote K bs = Ok (bh, s)"
    and marshal_no_panic: "marshal_txs K d \<noteq> Panic" "marshal_header K hdr \<noteq> Panic"
    and decode_no_panic: "unmarshal_txs K bs \<noteq> Panic" "unmarshal_header K bs \<noteq> Panic"

section \<open>Events\<close>

text \<open>
  What the components publish on the event bus. An operation returns the events it
  publishes, in order; delivery to the subscribers is a step of its own.
\<close>

datatype event =
    Ev_transactionAdded Transaction
  | Ev_transactionRemoved Transaction
  | Ev_latestBlockHeightUpdated Block
  | Ev_blockCommitted Block
  | Ev_beacon_newEntry BeaconEntry
  | Ev_consensus_newState "Block option" nat
  | Ev_blockpool_pruned
  | Ev_initialSyncCompleted

section \<open>Transactions\<close>

definition tx_digest :: "crypto \<Rightarrow> bytes \<Rightarrow> bytes" where
  "tx_digest C dat = cr_Keccak256 C (string_bytes (hex_EncodeToString dat))"

definition CreateTransaction :: "crypto \<Rightarrow> int \<Rightarrow> bytes \<Rightarrow> Transaction" where
  "CreateTransaction C now dat =
     \<lparr>tx_Hash = tx_digest C dat, tx_MerkleProof = zero_proof, tx_Timestamp = now, tx_Data = dat\<rparr>"

definition ValidateHash :: "crypto \<Rightarrow> Transaction \<Rightarrow> bool" where
  "ValidateHash C tx \<longleftrightarrow> tx_digest C (tx_Data tx) = tx_Hash tx"

lemma CreateTransaction_valid [simp]: "ValidateHash C (CreateTransaction C now dat)"
  by (simp add: ValidateHash_def CreateTransaction_def)

definition VerifyTx :: "crypto \<Rightarrow> merkle \<Rightarrow> BlockHeader \<Rightarrow> Transaction option \<Rightarrow> unit res" where
  "VerifyTx C M header ptx =
     bind_res (deref ptx) (\<lambda>tx.
     bind_res (guard_res (pr_Hashes (tx_MerkleProof tx) \<noteq> None)
       ''block transaction doesn't have merkle proof'') (\<lambda>_.
     bind_res (case mt_VerifyProofUsing M (tx_Hash tx) True (Some (tx_MerkleProof tx)) [hd_Hash header] of
         Ok v \<Rightarrow> Ok v
       | Err e \<Rightarrow> Err (Errorf ''failed to verify tx hash merkle proof'')
       | Panic \<Rightarrow> Panic) (\<lambda>verified.
     bind_res (guard_res verified ''transaction doesn't present in block hash merkle tree'') (\<lambda>_.
       guard_res (ValidateHash C tx) ''transaction hash is invalid''))))"

lemma VerifyTx_Ok_iff:
  "VerifyTx C M header ptx = Ok u \<longleftrightarrow>
   (\<exists>tx. ptx = Some tx \<and> pr_Hashes (tx_MerkleProof tx) \<noteq> None
     \<and> mt_VerifyProofUsing M (tx_Hash tx) True (Some (tx_MerkleProof tx)) [hd_Hash header] = Ok True
     \<and> ValidateHash C tx)"
  by (cases ptx) (auto simp: VerifyTx_def res_simps split: res.splits)

section \<open>Blocks\<close>

definition genesis_header :: BlockHeader where
  "genesis_header =
     \<lparr>hd_Timestamp = 1620845070, hd_Height = 0, hd_Hash = string_bytes ''DIMICANDUM'',
      hd_LastHash = [], hd_LastHashProof = None, hd_Proposer = None,
      hd_ProposerEth = replicate 20 0, hd_Signature = [],
      hd_BeaconEntry = zero_BeaconEntry, hd_ElectionProof = None\<rparr>"

definition GenesisBlock :: Block where
  "GenesisBlock = \<lparr>blk_Header = genesis_header, blk_Data = []\<rparr>"

text \<open>The loop of \<open>CreateBlock\<close> that stores each transaction's proof in the transaction.\<close>

fun attach_proofs :: "merkle \<Rightarrow> merkle_tree \<Rightarrow> Transaction list \<Rightarrow> Transaction list res" where
  "attach_proofs M tree [] = Ok []"
| "attach_proofs M tree (tx # txs) =
     bind_res (mt_GenerateProof M tree (tx_Hash tx) 0) (\<lambda>mp.
     bind_res (attach_proofs M tree txs) (\<lambda>txs'.
       Ok (tx\<lparr>tx_MerkleProof := mp\<rparr> # txs')))"

definition block_leaves :: "BlockHeader \<Rightarrow> Transaction list \<Rightarrow> i64 \<Rightarrow> bytes list" where
  "block_leaves lastBlockHeader txs timestamp =
     map tx_Hash txs @ [hd_Hash lastBlockHeader] @ [le_bytes timestamp]"

definition CreateBlock ::
  "crypto \<Rightarrow> merkle \<Rightarrow> i64 \<Rightarrow> BlockHeader \<Rightarrow> Transaction list \<Rightarrow> address \<Rightarrow> privkey \<Rightarrow>
   ElectionProof \<Rightarrow> Block res" where
  "CreateBlock C M timestamp lastBlockHeader txs minerEth privateKey eproof =
     bind_res (mt_NewUsing M (block_leaves lastBlockHeader txs timestamp) True) (\<lambda>tree.
     let blockHash = mt_Root M tree in
     bind_res (cr_Sign C privateKey blockHash) (\<lambda>s.
     bind_res (mt_GenerateProof M tree (hd_Hash lastBlockHeader) 0) (\<lambda>lastHashProof.
     bind_res (cr_IDFromPrivateKey C privateKey) (\<lambda>proposer.
     bind_res (attach_proofs M tree txs) (\<lambda>txs'.
       Ok \<lparr>blk_Header =
            \<lparr>hd_Timestamp = timestamp, hd_Height = hd_Height lastBlockHeader + 1,
             hd_Hash = blockHash, hd_LastHash = hd_Hash lastBlockHeader,
             hd_LastHashProof = Some lastHashProof, hd_Proposer = Some proposer,
             hd_ProposerEth = minerEth, hd_Signature = s,
             hd_BeaconEntry = zero_BeaconEntry, hd_ElectionProof = Some eproof\<rparr>,
           blk_Data = map Some txs'\<rparr>)))))"

lemma attach_proofs_Ok:
  assumes "attach_proofs M tree txs = Ok txs'"
  shows "list_all2 (\<lambda>tx tx'. \<exists>mp. mt_GenerateProof M tree (tx_Hash tx) 0 = Ok mp
    \<and> tx' = tx\<lparr>tx_MerkleProof := mp\<rparr>) txs txs'"
  using assms by (induction txs arbitrary: txs') (auto simp: res_simps)

lemma ValidateHash_proof [simp]: "ValidateHash C (tx\<lparr>tx_MerkleProof := mp\<rparr>) = ValidateHash C tx"
  by (simp add: ValidateHash_def)

context merkle_lib
begin

lemma attached_tx_verifies:
  assumes "mt_NewUsing M leaves True = Ok tree" "attach_proofs M tree txs = Ok txs'"
    and "tx_Hash ` set txs \<subseteq> set leaves" "\<forall>tx \<in> set txs. ValidateHash C tx"
    and "hd_Hash header = mt_Root M tree" "ptx \<in> set (map Some txs')"
  shows "VerifyTx C M header ptx = Ok ()"
proof -
  obtain tx' where tx': "ptx = Some tx'" "tx' \<in> set txs'" using assms(6) by auto
  then obtain i where i: "i < length txs'" "tx' = txs' ! i" by (auto simp: in_set_conv_nth)
  have all2: "list_all2 (\<lambda>tx tx'. \<exists>mp. mt_GenerateProof M tree (tx_Hash tx) 0 = Ok mp
      \<and> tx' = tx\<lparr>tx_MerkleProof := mp\<rparr>) txs txs'"
    by (rule attach_proofs_Ok [OF assms(2)])
  then obtain mp where mp: "mt_GenerateProof M tree (tx_Hash (txs ! i)) 0 = Ok mp"
      "tx' = (txs ! i)\<lparr>tx_MerkleProof := mp\<rparr>"
    using i by (auto simp: list_all2_conv_all_nth)
  have mem: "txs ! i \<in> set txs" using all2 i by (simp add: list_all2_lengthD)
  then have "mt_VerifyProofUsing M (tx_Hash (txs ! i)) True (Some mp) [mt_Root M tree] = Ok True"
    using assms(1,3) mp(1) by (intro proof_verifies) auto
  then show ?thesis
    using tx' mp mem assms(4,5) proof_hashes [OF mp(1)] by (simp add: VerifyTx_Ok_iff)
qed

lemma attach_proofs_total:
  assumes "mt_NewUsing M leaves True = Ok tree" "tx_Hash ` set txs \<subseteq> set leaves"
  shows "\<exists>txs'. attach_proofs M tree txs = Ok txs'"
  using assms(2)
proof (induction txs)
  case (Cons tx txs)
  obtain mp where "mt_GenerateProof M tree (tx_Hash tx) 0 = Ok mp"
    using proof_Ok [OF assms(1)] Cons.prems by fastforce
  with Cons show ?case by auto
qed simp

lemma CreateBlock_merkle:
  assumes "CreateBlock C M now lh txs eth sk ep = Ok b"
  shows "mt_VerifyProofUsing M (hd_Hash lh) True (hd_LastHashProof (blk_Header b))
      [hd_Hash (blk_Header b)] = Ok True"
proof -
  obtain tree lp where "mt_NewUsing M (block_leaves lh txs now) True = Ok tree"
      "mt_GenerateProof M tree (hd_Hash lh) 0 = Ok lp"
      "hd_LastHashProof (blk_Header b) = Some lp" "hd_Hash (blk_Header b) = mt_Root M tree"
    using assms by (auto simp: CreateBlock_def res_simps Let_def)
  then show ?thesis
    using proof_verifies [of "block_leaves lh txs now" True tree "hd_Hash lh" lp]
    by (simp add: block_leaves_def)
qed

lemma CreateBlock_txs_verify:
  assumes "CreateBlock C M now lh txs eth sk ep = Ok b" "\<forall>tx \<in> set txs. ValidateHash C tx"
    and "ptx \<in> set (blk_Data b)"
  shows "VerifyTx C M (blk_Header b) ptx = Ok ()"
proof -
  obtain tree txs' where t: "mt_NewUsing M (block_leaves lh txs now) True = Ok tree"
      "attach_proofs M tree txs = Ok txs'"
      "hd_Hash (blk_Header b) = mt_Root M tree" "blk_Data b = map Some txs'"
    using assms(1) by (auto simp: CreateBlock_def res_simps Let_def)
  show ?thesis
    using assms(3) t by (intro attached_tx_verifies [OF t(1,2) _ assms(2) t(3)])
      (auto simp: block_leaves_def)
qed

lemma CreateBlock_total:
  assumes "cr_IDFromPrivateKey C sk = Ok i" "\<And>m. \<exists>s. cr_Sign C sk m = Ok s"
  shows "\<exists>b. CreateBlock C M now lh txs eth sk ep = Ok b"
proof -
  obtain tree where t: "mt_NewUsing M (block_leaves lh txs now) True = Ok tree"
    using new_Ok [of "block_leaves lh txs now" True] by (auto simp: block_leaves_def)
  obtain s where s: "cr_Sign C sk (mt_Root M tree) = Ok s" using assms(2) by blast
  obtain lp where lp: "mt_GenerateProof M tree (hd_Hash lh) 0 = Ok lp"
    using proof_Ok [OF t, of "hd_Hash lh"] by (auto simp: block_leaves_def)
  obtain txs' where "attach_proofs M tree txs = Ok txs'"
    using attach_proofs_total [OF t, of txs] by (auto simp: block_leaves_def)
  with t s lp assms(1) show ?thesis by (simp add: CreateBlock_def Let_def)
qed

end

lemma CreateBlock_header:
  assumes "CreateBlock C M now lh txs eth sk ep = Ok b"
  obtains s i where "hd_Height (blk_Header b) = hd_Height lh + 1"
    "hd_LastHash (blk_Header b) = hd_Hash lh" "hd_ProposerEth (blk_Header b) = eth"
    "hd_ElectionProof (blk_Header b) = Some ep" "hd_Proposer (blk_Header b) = Some i"
    "cr_IDFromPrivateKey C sk = Ok i" "cr_Sign C sk (hd_Hash (blk_Header b)) = Ok s"
    "hd_Signature (blk_Header b) = s"
  using assms by (auto simp: CreateBlock_def res_simps Let_def)

lemma CreateBlock_data:
  assumes "CreateBlock C M now lh txs eth sk ep = Ok b"
  obtains txs' where "blk_Data b = map Some txs'" "map tx_Hash txs' = map tx_Hash txs"
    "map tx_Data txs' = map tx_Data txs"
proof -
  obtain tree txs' where "attach_proofs M tree txs = Ok txs'" "blk_Data b = map Some txs'"
    using assms by (auto simp: CreateBlock_def res_simps Let_def)
  moreover from attach_proofs_Ok [OF this(1)]
  have "map tx_Hash txs' = map tx_Hash txs \<and> map tx_Data txs' = map tx_Data txs"
    by (induction rule: list_all2_induct) auto
  ultimately show thesis using that by blast
qed

end
