(* ===== verification/Block_Database.thy ===== *)
theory Block_Database
  imports Chain_Types
begin

text \<open>
  The block database interface (\<open>blockchain/database/database.go\<close>) as a record of operations
  over the state \<open>'d\<close> of the implementation, its abstract state (blocks by hash, hashes by
  height, the latest height) and its contract, the locale \<open>block_database\<close>. The in-memory and
  the LMDB implementation are interpreted into it; the chain's lemmas are proved from it.
\<close>

record 'd Database =
  db_StoreBlock :: "'d \<Rightarrow> Block \<Rightarrow> 'd \<times> unit res"
  db_HasBlock :: "'d \<Rightarrow> bytes \<Rightarrow> bool res"
  db_FetchBlockData :: "'d \<Rightarrow> bytes \<Rightarrow> Transaction option list res"
  db_FetchBlockHeader :: "'d \<Rightarrow> bytes \<Rightarrow> BlockHeader res"
  db_FetchBlock :: "'d \<Rightarrow> bytes \<Rightarrow> Block res"
  db_FetchBlockByHeight :: "'d \<Rightarrow> u64 \<Rightarrow> Block res"
  db_FetchBlockHeaderByHeight :: "'d \<Rightarrow> u64 \<Rightarrow> BlockHeader res"
  db_GetLatestBlockHeight :: "'d \<Rightarrow> u64 res"
  db_SetLatestBlockHeight :: "'d \<Rightarrow> u64 \<Rightarrow> 'd \<times> unit res"

abbreviation blk_hash :: "Block \<Rightarrow> bytes" where
  "blk_hash b \<equiv> hd_Hash (blk_Header b)"

abbreviation blk_height :: "Block \<Rightarrow> u64" where
  "blk_height b \<equiv> hd_Height (blk_Header b)"

record abs_db =
  a_blocks :: "bytes \<Rightarrow> Block option"
  a_heights :: "u64 \<Rightarrow> bytes option"
  a_latest :: "u64 option"

definition abs_empty :: abs_db where
  "abs_empty = \<lparr>a_blocks = Map.empty, a_heights = Map.empty, a_latest = None\<rparr>"

definition abs_store :: "Block \<Rightarrow> abs_db \<Rightarrow> abs_db" where
  "abs_store b a = a\<lparr>a_blocks := (a_blocks a)(blk_hash b \<mapsto> b),
     a_heights := (a_heights a)(blk_height b \<mapsto> blk_hash b)\<rparr>"

definition abs_wf :: "abs_db \<Rightarrow> bool" where
  "abs_wf a \<longleftrightarrow>
     (\<forall>h b. a_blocks a h = Some b \<longrightarrow> blk_hash b = h)
     \<and> (\<forall>n h. a_heights a n = Some h \<longrightarrow> (\<exists>b. a_blocks a h = Some b \<and> blk_height b = n))"

fun found :: "'a option \<Rightarrow> 'a res" where
  "found None = Err ErrBlockNotFound"
| "found (Some x) = Ok x"

definition abs_by_height :: "abs_db \<Rightarrow> u64 \<Rightarrow> Block option" where
  "abs_by_height a n = Option.bind (a_heights a n) (a_blocks a)"

lemma found_eq [simp]:
  "found p = Ok x \<longleftrightarrow> p = Some x" "found p = Err e \<longleftrightarrow> p = None \<and> e = ErrBlockNotFound"
  "found p \<noteq> Panic"
  by (cases p; auto)+

lemma found_bind [simp]: "bind_res (found p) (\<lambda>x. Ok (f x)) = found (map_option f p)"
  by (cases p) simp_all

lemma abs_wf_empty: "abs_wf abs_empty"
  by (simp add: abs_wf_def abs_empty_def)

lemma abs_wf_blocksD: "abs_wf a \<Longrightarrow> a_blocks a h = Some b \<Longrightarrow> blk_hash b = h"
  unfolding abs_wf_def by blast

lemma abs_wf_heightsD:
  "abs_wf a \<Longrightarrow> a_heights a n = Some h \<Longrightarrow> \<exists>b. a_blocks a h = Some b \<and> blk_height b = n"
  unfolding abs_wf_def by blast

lemma abs_wf_store:
  assumes "abs_wf a" "a_blocks a (blk_hash b) = None"
  shows "abs_wf (abs_store b a)"
proof -
  have "\<exists>b'. a_blocks (abs_store b a) h = Some b' \<and> blk_height b' = n"
    if "a_heights (abs_store b a) n = Some h" for n h
  proof (cases "n = blk_height b")
    case False
    with that obtain b' where "a_blocks a h = Some b'" "blk_height b' = n"
      using abs_wf_heightsD [OF assms(1)] by (auto simp: abs_store_def)
    with assms(2) show ?thesis by (auto simp: abs_store_def)
  qed (use that in \<open>simp add: abs_store_def\<close>)
  moreover have "blk_hash b' = h" if "a_blocks (abs_store b a) h = Some b'" for h b'
    using that abs_wf_blocksD [OF assms(1)] by (simp add: abs_store_def split: if_splits)
  ultimately show ?thesis unfolding abs_wf_def by blast
qed

lemma abs_by_height_store:
  assumes "abs_wf a" "a_blocks a (blk_hash b) = None"
  shows "abs_by_height (abs_store b a) n = (if n = blk_height b then Some b else abs_by_height a n)"
proof (cases "a_heights a n")
  case (Some h)
  with abs_wf_heightsD [OF assms(1) Some] assms(2) show ?thesis
    by (auto simp: abs_store_def abs_by_height_def)
qed (simp add: abs_store_def abs_by_height_def)

lemma abs_by_height_wf: "abs_wf a \<Longrightarrow> abs_by_height a n = Some b \<Longrightarrow> blk_height b = n"
proof (cases "a_heights a n")
  case (Some h)
  assume "abs_wf a" "abs_by_height a n = Some b"
  with abs_wf_heightsD [of a n h] Some show ?thesis by (auto simp: abs_by_height_def)
qed (simp add: abs_by_height_def)

locale block_database =
  fixes db :: "'d Database" and inv :: "'d \<Rightarrow> bool" and \<alpha> :: "'d \<Rightarrow> abs_db"
  assumes wf: "inv d \<Longrightarrow> abs_wf (\<alpha> d)"
    and has_block: "inv d \<Longrightarrow> db_HasBlock db d h = Ok (a_blocks (\<alpha> d) h \<noteq> None)"
    and fetch_block: "inv d \<Longrightarrow> db_FetchBlock db d h = found (a_blocks (\<alpha> d) h)"
    and fetch_data: "inv d \<Longrightarrow> db_FetchBlockData db d h = found (map_option blk_Data (a_blocks (\<alpha> d) h))"
    and fetch_header: "inv d \<Longrightarrow>
      db_FetchBlockHeader db d h = found (map_option blk_Header (a_blocks (\<alpha> d) h))"
    and fetch_by_height: "inv d \<Longrightarrow> db_FetchBlockByHeight db d n = found (abs_by_height (\<alpha> d) n)"
    and fetch_header_by_height: "inv d \<Longrightarrow>
      db_FetchBlockHeaderByHeight db d n = found (map_option blk_Header (abs_by_height (\<alpha> d) n))"
    and latest: "inv d \<Longrightarrow> db_GetLatestBlockHeight db d =
      (case a_latest (\<alpha> d) of None \<Rightarrow> Err ErrLatestHeightNil | Some n \<Rightarrow> Ok n)"
    and store_Ok: "inv d \<Longrightarrow> a_blocks (\<alpha> d) (blk_hash b) = None \<Longrightarrow>
      db_StoreBlock db d b = (d', Ok u) \<Longrightarrow> inv d' \<and> \<alpha> d' = abs_store b (\<alpha> d)"
    and store_Err: "inv d \<Longrightarrow> a_blocks (\<alpha> d) (blk_hash b) = None \<Longrightarrow>
      db_StoreBlock db d b = (d', Err e) \<Longrightarrow>
      inv d' \<and> a_latest (\<alpha> d') = a_latest (\<alpha> d) \<and> a_heights (\<alpha> d') = a_heights (\<alpha> d)
      \<and> (a_blocks (\<alpha> d') = a_blocks (\<alpha> d)
         \<or> a_blocks (\<alpha> d') = (a_blocks (\<alpha> d))(blk_hash b \<mapsto> b))"
    and store_no_panic: "snd (db_StoreBlock db d b) \<noteq> Panic"
    and set_latest_Ok: "inv d \<Longrightarrow> db_SetLatestBlockHeight db d n = (d', Ok u) \<Longrightarrow>
      inv d' \<and> \<alpha> d' = (\<alpha> d)\<lparr>a_latest := Some n\<rparr>"
    and set_latest_Err: "inv d \<Longrightarrow> db_SetLatestBlockHeight db d n = (d', Err e) \<Longrightarrow>
      inv d' \<and> \<alpha> d' = \<alpha> d"
    and set_latest_no_panic: "snd (db_SetLatestBlockHeight db d n) \<noteq> Panic"
begin

lemma store_inv:
  assumes "inv d" "a_blocks (\<alpha> d) (blk_hash b) = None"
  shows "inv (fst (db_StoreBlock db d b))"
proof (cases "db_StoreBlock db d b")
  case (Pair d' r)
  with store_no_panic [of d b] have "r \<noteq> Panic" by simp
  then show ?thesis
    using Pair store_Ok [OF assms, of d'] store_Err [OF assms, of d'] by (cases r) simp_all
qed

lemma set_latest_inv:
  assumes "inv d"
  shows "inv (fst (db_SetLatestBlockHeight db d n))"
proof (cases "db_SetLatestBlockHeight db d n")
  case (Pair d' r)
  with set_latest_no_panic [of d n] have "r \<noteq> Panic" by simp
  then show ?thesis
    using Pair set_latest_Ok [OF assms, of n d'] set_latest_Err [OF assms, of n d'] by (cases r) simp_all
qed

lemma fetch_after_store:
  assumes "inv d" "a_blocks (\<alpha> d) (blk_hash b) = None" "db_StoreBlock db d b = (d', Ok u)"
  shows "db_FetchBlock db d' (blk_hash b) = Ok b" "db_FetchBlockByHeight db d' (blk_height b) = Ok b"
    "h \<noteq> blk_hash b \<Longrightarrow> db_FetchBlock db d' h = db_FetchBlock db d h"
    "n \<noteq> blk_height b \<Longrightarrow> db_FetchBlockByHeight db d' n = db_FetchBlockByHeight db d n"
  using store_Ok [OF assms] abs_by_height_store [OF wf [OF assms(1)] assms(2)] assms(1)
  by (simp_all add: fetch_block fetch_by_height abs_store_def)

end

end
