(* ===== verification/Go_Cache.thy ===== *)
theory Go_Cache
  imports Dione_Prelude
begin

text \<open>
  The interface of the third-party expiring map \<open>patrickmn/go-cache\<close>, on which the in-memory
  cache and the in-memory block database are built. A call reads the wall clock; the reading
  is an argument. The laws are the package's documented behaviour: \<open>Set\<close> replaces, a duration
  of 0 means the default expiration of the cache, a negative one means no expiration, an item
  is returned as long as the clock has not passed its expiration, \<open>Items\<close> copies the
  unexpired items (in no particular order).
\<close>

record ('c, 'v) gocache =
  gc_New :: "int \<Rightarrow> int \<Rightarrow> 'c"
  gc_Set :: "int \<Rightarrow> 'c \<Rightarrow> string \<Rightarrow> 'v \<Rightarrow> int \<Rightarrow> 'c"
  gc_Get :: "int \<Rightarrow> 'c \<Rightarrow> string \<Rightarrow> 'v option"
  gc_Delete :: "'c \<Rightarrow> string \<Rightarrow> 'c"
  gc_Items :: "int \<Rightarrow> 'c \<Rightarrow> (string \<times> 'v) list"
  gc_default :: "'c \<Rightarrow> int"

definition NoExpiration :: int where
  "NoExpiration = -1"

definition DefaultExpiration :: int where
  "DefaultExpiration = 0"

definition lifetime :: "int \<Rightarrow> int \<Rightarrow> int" where
  "lifetime dflt d = (if d = DefaultExpiration then dflt else d)"

definition expired :: "int \<Rightarrow> int \<Rightarrow> int \<Rightarrow> bool" where
  "expired now t d \<longleftrightarrow> 0 < d \<and> t + d < now"

lemma expired_NoExpiration [simp]: "\<not> expired now t NoExpiration"
  by (simp add: expired_def NoExpiration_def)

lemma lifetime_NoExpiration [simp]:
  "lifetime dflt NoExpiration = NoExpiration" "lifetime NoExpiration DefaultExpiration = NoExpiration"
  by (simp_all add: lifetime_def NoExpiration_def DefaultExpiration_def)

locale go_cache =
  fixes gc :: "('c, 'v) gocache"
  assumes get_new [simp]: "gc_Get gc now (gc_New gc d i) k = None"
    and get_set: "gc_Get gc now (gc_Set gc t c k v d) k' =
      (if k' = k then if expired now t (lifetime (gc_default gc c) d) then None else Some v
       else gc_Get gc now c k')"
    and get_delete: "gc_Get gc now (gc_Delete gc c k) k' = (if k' = k then None else gc_Get gc now c k')"
    and default_new [simp]: "gc_default gc (gc_New gc d i) = d"
    and default_set [simp]: "gc_default gc (gc_Set gc t c k v d) = gc_default gc c"
    and default_delete [simp]: "gc_default gc (gc_Delete gc c k) = gc_default gc c"
    and items_iff: "(k, v) \<in> set (gc_Items gc now c) \<longleftrightarrow> gc_Get gc now c k = Some v"
    and items_distinct: "distinct (map fst (gc_Items gc now c))"

section \<open>A reference instance\<close>

text \<open>An association list of values with the time they were stored and their lifetime.\<close>

type_synonym 'v ecache = "int \<times> (string \<times> 'v \<times> int \<times> int) list"

fun ec_get :: "int \<Rightarrow> (string \<times> 'v \<times> int \<times> int) list \<Rightarrow> string \<Rightarrow> 'v option" where
  "ec_get now [] k = None"
| "ec_get now ((k', v, t, d) # es) k =
     (if k' = k then if expired now t d then None else Some v else ec_get now es k)"

definition ec_del :: "string \<Rightarrow> (string \<times> 'v \<times> int \<times> int) list \<Rightarrow> (string \<times> 'v \<times> int \<times> int) list" where
  "ec_del k es = filter (\<lambda>e. fst e \<noteq> k) es"

definition ec_items :: "int \<Rightarrow> (string \<times> 'v \<times> int \<times> int) list \<Rightarrow> (string \<times> 'v) list" where
  "ec_items now es =
     concat (map (\<lambda>k. case ec_get now es k of None \<Rightarrow> [] | Some v \<Rightarrow> [(k, v)]) (remdups (map fst es)))"

definition ref_gocache :: "('v ecache, 'v) gocache" where
  "ref_gocache =
     \<lparr>gc_New = (\<lambda>d i. (d, [])),
      gc_Set = (\<lambda>t c k v d. (fst c, (k, v, t, lifetime (fst c) d) # ec_del k (snd c))),
      gc_Get = (\<lambda>now c k. ec_get now (snd c) k),
      gc_Delete = (\<lambda>c k. (fst c, ec_del k (snd c))),
      gc_Items = (\<lambda>now c. ec_items now (snd c)),
      gc_default = fst\<rparr>"

lemma ec_get_del: "ec_get now (ec_del k es) k' = (if k' = k then None else ec_get now es k')"
  by (induction es) (auto simp: ec_del_def)

lemma ec_get_Some_key: "ec_get now es k = Some v \<Longrightarrow> k \<in> fst ` set es"
  by (induction now es k rule: ec_get.induct) (auto split: if_splits)

lemma ec_items_iff: "(k, v) \<in> set (ec_items now es) \<longleftrightarrow> ec_get now es k = Some v"
  using ec_get_Some_key [of now es k v] by (auto simp: ec_items_def split: option.splits) force

lemma ec_items_distinct: "distinct (map fst (ec_items now es))"
proof -
  have "map fst (concat (map (\<lambda>k. case ec_get now es k of None \<Rightarrow> [] | Some v \<Rightarrow> [(k, v)]) ks))
      = filter (\<lambda>k. ec_get now es k \<noteq> None) ks" for ks
    by (induction ks) (auto split: option.splits)
  then show ?thesis by (simp add: ec_items_def)
qed

interpretation ref_cache: go_cache ref_gocache
  by unfold_locales
    (auto simp: ref_gocache_def ec_get_del ec_items_iff ec_items_distinct)

end
