(* ===== verification/Reference_Libs.thy ===== *)
theory Reference_Libs
  imports Chain_Types
begin

text \<open>
  Concrete instances of the library interfaces, small enough to be evaluated: a hash tree
  whose proofs list all leaves, a signature scheme whose signature is key and message, a codec
  that numbers the values of a table. They show that the laws of the interfaces can hold
  together and are the inputs of the witnesses; no property rests on them.
\<close>

section \<open>Merkle tree\<close>

fun frame_bytes :: "bytes list \<Rightarrow> bytes" where
  "frame_bytes [] = []"
| "frame_bytes (l # ls) = map (\<lambda>_. 1) l @ [0] @ l @ frame_bytes ls"

definition ref_merkle :: merkle where
  "ref_merkle =
     \<lparr>mt_NewUsing = (\<lambda>leaves salt. if leaves = [] then Err (ExtErr ''no data'') else Ok (leaves, salt)),
      mt_Root = (\<lambda>(leaves, salt). of_bool salt # frame_bytes leaves),
      mt_GenerateProof = (\<lambda>(leaves, salt) d height.
        if d \<in> set leaves then Ok \<lparr>pr_Hashes = Some leaves, pr_Index = 0\<rparr>
        else Err (ExtErr ''data not found'')),
      mt_VerifyProofUsing = (\<lambda>d salt p roots.
        case p of None \<Rightarrow> Panic
        | Some p \<Rightarrow> (case pr_Hashes p of None \<Rightarrow> Ok False
            | Some leaves \<Rightarrow> Ok (d \<in> set leaves \<and> (of_bool salt # frame_bytes leaves) \<in> set roots)))\<rparr>"

interpretation ref_tree: merkle_lib ref_merkle
  by unfold_locales (auto simp: ref_merkle_def split: if_splits)

section \<open>Signatures and hashes\<close>

text \<open>A peer id is the text form of the key it belongs to.\<close>

definition key_of_peer :: "peer_id \<Rightarrow> pubkey" where
  "key_of_peer i = string_bytes i"

definition peer_of_key :: "privkey \<Rightarrow> peer_id" where
  "peer_of_key k = map (\<lambda>b. char_of (unat b)) k"

definition ref_crypto :: crypto where
  "ref_crypto =
     \<lparr>cr_Keccak256 = (\<lambda>bs. 75 # bs), cr_Blake2b = (\<lambda>bs. take 32 (bs @ replicate 32 0)),
      cr_ExtractPublicKey = (\<lambda>i. Ok (key_of_peer i)),
      cr_Verify = (\<lambda>pk m s. Ok (s = pk @ m)),
      cr_Sign = (\<lambda>sk m. Ok (sk @ m)),
      cr_IDFromPrivateKey = (\<lambda>sk. Ok (peer_of_key sk)),
      cr_MarshalBinary = (\<lambda>i. Ok (string_bytes i)),
      cr_peerString = id\<rparr>"

lemma key_of_peer_of_key [simp]: "key_of_peer (peer_of_key k) = k"
proof (induction k)
  case (Cons b k)
  have "of_char (char_of (unat b) :: char) = unat b"
    using unat_byte_less [of b] by simp
  with Cons show ?case by (simp add: key_of_peer_def peer_of_key_def string_bytes_def)
qed (simp add: key_of_peer_def peer_of_key_def string_bytes_def)

lemma ref_crypto_sel [simp]:
  "cr_ExtractPublicKey ref_crypto i = Ok (key_of_peer i)"
  "cr_Verify ref_crypto pk m s = Ok (s = pk @ m)" "cr_Sign ref_crypto sk m = Ok (sk @ m)"
  "cr_IDFromPrivateKey ref_crypto sk = Ok (peer_of_key sk)"
  "cr_MarshalBinary ref_crypto i = Ok (string_bytes i)" "cr_peerString ref_crypto i = i"
  "length (cr_Blake2b ref_crypto bs) = 32"
  by (simp_all add: ref_crypto_def)

interpretation ref_sig: signature_scheme ref_crypto
  by unfold_locales auto

section \<open>Codec\<close>

fun index_of :: "'a \<Rightarrow> 'a list \<Rightarrow> nat option" where
  "index_of x [] = None"
| "index_of x (y # ys) = (if x = y then Some 0 else map_option Suc (index_of x ys))"

lemma index_of_Some: "index_of x ys = Some i \<Longrightarrow> i < length ys \<and> ys ! i = x"
  by (induction ys arbitrary: i) (auto split: if_splits)

definition tbl_marshal :: "'a list \<Rightarrow> 'a \<Rightarrow> bytes res" where
  "tbl_marshal xs x =
     (case index_of x xs of None \<Rightarrow> Err (ExtErr ''cbor'') | Some i \<Rightarrow> Ok (replicate i 1))"

definition tbl_unmarshal :: "'a list \<Rightarrow> bytes \<Rightarrow> 'a res" where
  "tbl_unmarshal xs bs =
     (if length bs < length xs then Ok (xs ! length bs) else Err (ExtErr ''cbor''))"

lemma tbl_roundtrip: "tbl_marshal xs x = Ok bs \<Longrightarrow> tbl_unmarshal xs bs = Ok x"
  by (auto simp: tbl_marshal_def tbl_unmarshal_def split: option.splits dest: index_of_Some)

lemma tbl_no_panic: "tbl_unmarshal xs bs \<noteq> Panic" "tbl_marshal xs x \<noteq> Panic"
  by (simp_all add: tbl_unmarshal_def tbl_marshal_def split: option.splits)

record tables =
  tb_tasks :: "DioneTask list"
  tb_txs :: "Transaction option list list"
  tb_headers :: "BlockHeader list"
  tb_blocks :: "Block list"
  tb_tx :: "Transaction list"

definition zero_task :: DioneTask where
  "zero_task = \<lparr>tk_OriginChain = 0, tk_RequestType = [], tk_RequestParams = [], tk_Payload = [],
     tk_RequestID = []\<rparr>"

definition no_tables :: tables where
  "no_tables = \<lparr>tb_tasks = [], tb_txs = [], tb_headers = [], tb_blocks = [], tb_tx = []\<rparr>"

definition ref_codec :: "tables \<Rightarrow> codec" where
  "ref_codec T =
     \<lparr>marshal_task = tbl_marshal (tb_tasks T),
      unmarshal_task = (\<lambda>bs. case tbl_unmarshal (tb_tasks T) bs of
         Ok t \<Rightarrow> (t, None) | Err e \<Rightarrow> (zero_task, Some e) | Panic \<Rightarrow> (zero_task, None)),
      marshal_txs = tbl_marshal (tb_txs T), unmarshal_txs = tbl_unmarshal (tb_txs T),
      marshal_header = tbl_marshal (tb_headers T), unmarshal_header = tbl_unmarshal (tb_headers T),
      marshal_block = tbl_marshal (tb_blocks T),
      unmarshal_block = (\<lambda>bs. bind_res (tbl_unmarshal (tb_blocks T) bs) (\<lambda>b. Ok (Some b))),
      unmarshal_tx = tbl_unmarshal (tb_tx T),
      marshal_preprepare = tbl_marshal (None # map Some (tb_blocks T)),
      unmarshal_preprepare = tbl_unmarshal (None # map Some (tb_blocks T)),
      marshal_vote = (\<lambda>h s. Ok (frame_bytes [h] @ s)),
      unmarshal_vote = (\<lambda>bs. let n = length (takeWhile (\<lambda>b. b = 1) bs) in
        Ok (take n (drop (Suc n) bs), drop n (drop (Suc n) bs)))\<rparr>"

lemma length_frame: "length (takeWhile (\<lambda>b. b = 1) (map (\<lambda>_. 1) bh @ (0 :: byte) # bs)) = length bh"
  by (induction bh) simp_all

interpretation ref_cbor: cbor_codec "ref_codec T" for T
proof unfold_locales
  fix bh s bs
  assume "marshal_vote (ref_codec T) bh s = Ok bs"
  then show "unmarshal_vote (ref_codec T) bs = Ok (bh, s)"
    by (auto simp: ref_codec_def length_frame Let_def)
qed (simp_all add: ref_codec_def tbl_roundtrip tbl_no_panic)

end
