(* ===== verification/Memory_Database.thy ===== *)
theory Memory_Database
  imports Block_Database Go_Cache Reference_Libs
begin

text \<open>
  The in-memory block database (\<open>blockchain/database/memory/database.go\<close>): one go-cache map
  holds blocks under the hex form of their hash, blocks under \<open>height/<n>\<close> and the latest
  height under its own key. A value is an \<open>interface{}\<close>, so a lookup ends in a type assertion
  that can panic. Stored blocks are shared by pointer and never written again, so they are
  modelled as values. The argument \<open>clk\<close> is the clock reading of the call; the map is created
  without expiration. The interpretation shows that the three kinds of keys do not collide,
  that no type assertion fails, and that the clock does not matter.
\<close>

section \<open>Model\<close>

datatype mem_value = VBlock Block | VHeight u64

definition mem_LatestBlockHeightKey :: string where
  "mem_LatestBlockHeightKey = ''latest_block_height''"

definition mem_height_key :: "u64 \<Rightarrow> string" where
  "mem_height_key n = ''height/'' @ dec_of_nat (unat n)"

definition mem_NewDatabase :: "('c, mem_value) gocache \<Rightarrow> 'c" where
  "mem_NewDatabase gc = gc_New gc NoExpiration 0"

fun assert_block :: "mem_value \<Rightarrow> Block res" where
  "assert_block (VBlock b) = Ok b"
| "assert_block (VHeight n) = Panic"

fun assert_height :: "mem_value \<Rightarrow> u64 res" where
  "assert_height (VHeight n) = Ok n"
| "assert_height (VBlock b) = Panic"

definition mem_StoreBlock :: "('c, mem_value) gocache \<Rightarrow> int \<Rightarrow> 'c \<Rightarrow> Block \<Rightarrow> 'c \<times> unit res" where
  "mem_StoreBlock gc clk d block =
     (let h = hex_EncodeToString (hd_Hash (blk_Header block));
          d1 = gc_Set gc clk d h (VBlock block) DefaultExpiration;
          d2 = gc_Set gc clk d1 (mem_height_key (hd_Height (blk_Header block))) (VBlock block)
                 DefaultExpiration
      in (d2, Ok ()))"

definition mem_HasBlock :: "('c, mem_value) gocache \<Rightarrow> int \<Rightarrow> 'c \<Rightarrow> bytes \<Rightarrow> bool res" where
  "mem_HasBlock gc clk d blockHash = Ok (gc_Get gc clk d (hex_EncodeToString blockHash) \<noteq> None)"

definition mem_FetchBlock :: "('c, mem_value) gocache \<Rightarrow> int \<Rightarrow> 'c \<Rightarrow> bytes \<Rightarrow> Block res" where
  "mem_FetchBlock gc clk d blockHash =
     (case gc_Get gc clk d (hex_EncodeToString blockHash) of
        None \<Rightarrow> Err ErrBlockNotFound
      | Some v \<Rightarrow> assert_block v)"

definition mem_FetchBlockData ::
  "('c, mem_value) gocache \<Rightarrow> int \<Rightarrow> 'c \<Rightarrow> bytes \<Rightarrow> Transaction option list res" where
  "mem_FetchBlockData gc clk d blockHash =
     bind_res (mem_FetchBlock gc clk d blockHash) (\<lambda>b. Ok (blk_Data b))"

definition mem_FetchBlockHeader ::
  "('c, mem_value) gocache \<Rightarrow> int \<Rightarrow> 'c \<Rightarrow> bytes \<Rightarrow> BlockHeader res" where
  "mem_FetchBlockHeader gc clk d blockHash =
     bind_res (mem_FetchBlock gc clk d blockHash) (\<lambda>b. Ok (blk_Header b))"

definition mem_FetchBlockByHeight :: "('c, mem_value) gocache \<Rightarrow> int \<Rightarrow> 'c \<Rightarrow> u64 \<Rightarrow> Block res" where
  "mem_FetchBlockByHeight gc clk d height =
     (case gc_Get gc clk d (mem_height_key height) of
        None \<Rightarrow> Err ErrBlockNotFound
      | Some v \<Rightarrow> assert_block v)"

definition mem_FetchBlockHeaderByHeight ::
  "('c, mem_value) gocache \<Rightarrow> int \<Rightarrow> 'c \<Rightarrow> u64 \<Rightarrow> BlockHeader res" where
  "mem_FetchBlockHeaderByHeight gc clk d height =
     (case gc_Get gc clk d (mem_height_key height) of
        None \<Rightarrow> Err ErrBlockNotFound
      | Some v \<Rightarrow> bind_res (assert_block v) (\<lambda>b. Ok (blk_Header b)))"

definition mem_GetLatestBlockHeight :: "('c, mem_value) gocache \<Rightarrow> int \<Rightarrow> 'c \<Rightarrow> u64 res" where
  "mem_GetLatestBlockHeight gc clk d =
     (case gc_Get gc clk d mem_LatestBlockHeightKey of
        None \<Rightarrow> Err ErrLatestHeightNil
      | Some v \<Rightarrow> assert_height v)"

definition mem_SetLatestBlockHeight ::
  "('c, mem_value) gocache \<Rightarrow> int \<Rightarrow> 'c \<Rightarrow> u64 \<Rightarrow> 'c \<times> unit res" where
  "mem_SetLatestBlockHeight gc clk d height =
     (gc_Set gc clk d mem_LatestBlockHeightKey (VHeight height) DefaultExpiration, Ok ())"

definition memory_Database :: "('c, mem_value) gocache \<Rightarrow> int \<Rightarrow> 'c Database" where
  "memory_Database gc clk =
     \<lparr>db_StoreBlock = mem_StoreBlock gc clk, db_HasBlock = mem_HasBlock gc clk,
      db_FetchBlockData = mem_FetchBlockData gc clk,
      db_FetchBlockHeader = mem_FetchBlockHeader gc clk,
      db_FetchBlock = mem_FetchBlock gc clk,
      db_FetchBlockByHeight = mem_FetchBlockByHeight gc clk,
      db_FetchBlockHeaderByHeight = mem_FetchBlockHeaderByHeight gc clk,
      db_GetLatestBlockHeight = mem_GetLatestBlockHeight gc clk,
      db_SetLatestBlockHeight = mem_SetLatestBlockHeight gc clk\<rparr>"

lemmas memory_defs = memory_Database_def mem_StoreBlock_def mem_HasBlock_def mem_FetchBlock_def
  mem_FetchBlockData_def mem_FetchBlockHeader_def mem_FetchBlockByHeight_def
  mem_FetchBlockHeaderByHeight_def mem_GetLatestBlockHeight_def mem_SetLatestBlockHeight_def

section \<open>Keys do not collide\<close>

lemma mem_keys [simp, key_simps]:
  "mem_height_key m = mem_height_key n \<longleftrightarrow> m = n"
  "hex_EncodeToString h \<noteq> mem_height_key n" "mem_height_key n \<noteq> hex_EncodeToString h"
  "hex_EncodeToString h \<noteq> mem_LatestBlockHeightKey" "mem_LatestBlockHeightKey \<noteq> hex_EncodeToString h"
  "mem_height_key n \<noteq> mem_LatestBlockHeightKey" "mem_LatestBlockHeightKey \<noteq> mem_height_key n"
proof -
  show "mem_height_key m = mem_height_key n \<longleftrightarrow> m = n"
    by (simp add: mem_height_key_def word_unat_eq_iff)
  show *: "hex_EncodeToString h \<noteq> mem_height_key n"
    using hex_not_Cons [of "CHR ''h''" h] by (simp add: mem_height_key_def)
  show **: "hex_EncodeToString h \<noteq> mem_LatestBlockHeightKey"
    using hex_not_Cons [of "CHR ''l''" h] by (simp add: mem_LatestBlockHeightKey_def)
  show "mem_height_key n \<noteq> hex_EncodeToString h" "mem_LatestBlockHeightKey \<noteq> hex_EncodeToString h"
    using * ** by simp_all
  show "mem_height_key n \<noteq> mem_LatestBlockHeightKey" "mem_LatestBlockHeightKey \<noteq> mem_height_key n"
    by (simp_all add: mem_height_key_def mem_LatestBlockHeightKey_def)
qed

section \<open>Invariant and abstraction\<close>

fun val_block :: "mem_value option \<Rightarrow> Block option" where
  "val_block (Some (VBlock b)) = Some b"
| "val_block _ = None"

lemma val_block_eq_Some [simp]: "val_block v = Some b \<longleftrightarrow> v = Some (VBlock b)"
  by (cases v rule: val_block.cases) auto

fun val_height :: "mem_value option \<Rightarrow> u64 option" where
  "val_height (Some (VHeight n)) = Some n"
| "val_height _ = None"

definition mem_abs :: "('c, mem_value) gocache \<Rightarrow> int \<Rightarrow> 'c \<Rightarrow> abs_db" where
  "mem_abs gc clk d =
     \<lparr>a_blocks = (\<lambda>h. val_block (gc_Get gc clk d (hex_EncodeToString h))),
      a_heights = (\<lambda>n. map_option blk_hash (val_block (gc_Get gc clk d (mem_height_key n)))),
      a_latest = val_height (gc_Get gc clk d mem_LatestBlockHeightKey)\<rparr>"

definition mem_inv :: "('c, mem_value) gocache \<Rightarrow> int \<Rightarrow> 'c \<Rightarrow> bool" where
  "mem_inv gc clk d \<longleftrightarrow>
     gc_default gc d = NoExpiration
     \<and> (\<forall>t k. gc_Get gc t d k = gc_Get gc clk d k)
     \<and> (\<forall>h v. gc_Get gc clk d (hex_EncodeToString h) = Some v \<longrightarrow> (\<exists>b. v = VBlock b \<and> blk_hash b = h))
     \<and> (\<forall>n v. gc_Get gc clk d (mem_height_key n) = Some v \<longrightarrow>
          (\<exists>b. v = VBlock b \<and> blk_height b = n
             \<and> gc_Get gc clk d (hex_EncodeToString (blk_hash b)) = Some (VBlock b)))
     \<and> (\<forall>v. gc_Get gc clk d mem_LatestBlockHeightKey = Some v \<longrightarrow> (\<exists>n. v = VHeight n))"

lemma mem_invD:
  assumes "mem_inv gc clk d"
  shows "gc_Get gc clk d (hex_EncodeToString h) = Some v \<Longrightarrow> \<exists>b. v = VBlock b \<and> blk_hash b = h"
    "gc_Get gc clk d (mem_height_key n) = Some v \<Longrightarrow>
      \<exists>b. v = VBlock b \<and> blk_height b = n
        \<and> gc_Get gc clk d (hex_EncodeToString (blk_hash b)) = Some (VBlock b)"
    "gc_Get gc clk d mem_LatestBlockHeightKey = Some v \<Longrightarrow> \<exists>n. v = VHeight n"
    "gc_default gc d = NoExpiration"
    "gc_Get gc t d k = gc_Get gc clk d k"
proof -
  note * = assms [unfolded mem_inv_def]
  show "gc_Get gc clk d (hex_EncodeToString h) = Some v \<Longrightarrow> \<exists>b. v = VBlock b \<and> blk_hash b = h"
    using * [THEN conjunct2, THEN conjunct2, THEN conjunct1] by blast
  show "gc_Get gc clk d (mem_height_key n) = Some v \<Longrightarrow>
      \<exists>b. v = VBlock b \<and> blk_height b = n
        \<and> gc_Get gc clk d (hex_EncodeToString (blk_hash b)) = Some (VBlock b)"
    using * [THEN conjunct2, THEN conjunct2, THEN conjunct2, THEN conjunct1] by blast
  show "gc_Get gc clk d mem_LatestBlockHeightKey = Some v \<Longrightarrow> \<exists>n. v = VHeight n"
    using * [THEN conjunct2, THEN conjunct2, THEN conjunct2, THEN conjunct2] by blast
  show "gc_default gc d = NoExpiration" using * by (rule conjunct1)
  show "gc_Get gc t d k = gc_Get gc clk d k"
    by (rule * [THEN conjunct2, THEN conjunct1, THEN spec, THEN spec])
qed

lemma mem_inv_clock:
  assumes "mem_inv gc clk d"
  shows "mem_inv gc t d" "mem_abs gc t d = mem_abs gc clk d"
proof -
  have eq: "gc_Get gc t d = gc_Get gc clk d"
    by (rule ext) (rule mem_invD(5) [OF assms])
  show "mem_inv gc t d" using assms unfolding mem_inv_def eq .
  show "mem_abs gc t d = mem_abs gc clk d" by (simp only: mem_abs_def eq)
qed

lemma mem_abs_by_height:
  assumes "mem_inv gc clk d"
  shows "abs_by_height (mem_abs gc clk d) n = val_block (gc_Get gc clk d (mem_height_key n))"
proof (cases "gc_Get gc clk d (mem_height_key n)")
  case (Some v)
  then show ?thesis
    using mem_invD(2) [OF assms Some] by (auto simp: abs_by_height_def mem_abs_def)
qed (simp add: abs_by_height_def mem_abs_def)

lemma mem_abs_wf:
  assumes "mem_inv gc clk d"
  shows "abs_wf (mem_abs gc clk d)"
proof -
  have "blk_hash b = h" if "gc_Get gc clk d (hex_EncodeToString h) = Some (VBlock b)" for h b
    using mem_invD(1) [OF assms that] by simp
  moreover have "gc_Get gc clk d (hex_EncodeToString (blk_hash b)) = Some (VBlock b) \<and> blk_height b = n"
    if "gc_Get gc clk d (mem_height_key n) = Some (VBlock b)" for n b
    using mem_invD(2) [OF assms that] by simp
  ultimately show ?thesis by (auto simp: abs_wf_def mem_abs_def)
qed

context go_cache
begin

lemma get_set_forever:
  "gc_default gc d = NoExpiration \<Longrightarrow>
   gc_Get gc clk (gc_Set gc clk' d k v DefaultExpiration) k' = (if k' = k then Some v else gc_Get gc clk d k')"
  by (simp add: get_set)

end

locale mem_backend = go_cache gc for gc :: "('c, mem_value) gocache"
begin

lemma mem_get_store:
  assumes "gc_default gc d = NoExpiration" "mem_StoreBlock gc clk d b = (d', Ok ())"
  shows "gc_Get gc t d' k =
      (if k = mem_height_key (blk_height b) \<or> k = hex_EncodeToString (blk_hash b)
       then Some (VBlock b) else gc_Get gc t d k)"
    and "gc_default gc d' = NoExpiration"
  using assms by (auto simp: mem_StoreBlock_def Let_def get_set_forever)

lemma mem_get_latest:
  assumes "gc_default gc d = NoExpiration" "mem_SetLatestBlockHeight gc clk d n = (d', Ok ())"
  shows "gc_Get gc t d' k = (if k = mem_LatestBlockHeightKey then Some (VHeight n) else gc_Get gc t d k)"
    and "gc_default gc d' = NoExpiration"
  using assms by (auto simp: mem_SetLatestBlockHeight_def get_set_forever)

lemma mem_inv_store:
  assumes inv: "mem_inv gc clk d" and new: "gc_Get gc clk d (hex_EncodeToString (blk_hash b)) = None"
    and st: "mem_StoreBlock gc clk d b = (d', Ok ())"
  shows "mem_inv gc clk d'"
proof -
  note D = mem_invD [OF inv]
  note G = mem_get_store [OF D(4) st]
  have "\<exists>b'. v = VBlock b' \<and> blk_height b' = n
      \<and> gc_Get gc clk d' (hex_EncodeToString (blk_hash b')) = Some (VBlock b')"
    if "gc_Get gc clk d' (mem_height_key n) = Some v" for n v
  proof (cases "n = blk_height b")
    case False
    with that G(1) have "gc_Get gc clk d (mem_height_key n) = Some v" by simp
    from D(2) [OF this] new G(1) show ?thesis by auto
  next
    case True
    with that G(1) have "v = VBlock b" by simp
    with True G(1) show ?thesis by simp
  qed
  moreover have "\<exists>b'. v = VBlock b' \<and> blk_hash b' = h"
    if "gc_Get gc clk d' (hex_EncodeToString h) = Some v" for h v
    using that G(1) D(1) [of h v] by (auto split: if_splits)
  moreover have "\<exists>n. v = VHeight n" if "gc_Get gc clk d' mem_LatestBlockHeightKey = Some v" for v
    using that G(1) D(3) by simp
  moreover have "gc_Get gc t d' k = gc_Get gc clk d' k" for t k
    unfolding G(1) using D(5) [of t k] by simp
  ultimately show ?thesis using G(2) by (simp add: mem_inv_def)
qed

lemma mem_abs_store:
  assumes "mem_inv gc clk d" "mem_StoreBlock gc clk d b = (d', Ok ())"
  shows "mem_abs gc clk d' = abs_store b (mem_abs gc clk d)"
  using mem_get_store(1) [OF mem_invD(4) [OF assms(1)] assms(2)]
  by (auto simp: mem_abs_def abs_store_def fun_eq_iff)

lemma mem_set_latest:
  assumes "mem_inv gc clk d" "mem_SetLatestBlockHeight gc clk d n = (d', Ok ())"
  shows "mem_inv gc clk d'" "mem_abs gc clk d' = (mem_abs gc clk d)\<lparr>a_latest := Some n\<rparr>"
proof -
  note G = mem_get_latest [OF mem_invD(4) [OF assms(1)] assms(2)]
  show "mem_inv gc clk d'"
    using assms(1) G(2) unfolding mem_inv_def G(1) by simp
  show "mem_abs gc clk d' = (mem_abs gc clk d)\<lparr>a_latest := Some n\<rparr>"
    by (simp add: mem_abs_def G)
qed

lemma mem_fetch_block:
  assumes "mem_inv gc clk d"
  shows "mem_FetchBlock gc clk d h = found (a_blocks (mem_abs gc clk d) h)"
proof (cases "gc_Get gc clk d (hex_EncodeToString h)")
  case (Some v)
  with mem_invD(1) [OF assms Some] show ?thesis by (auto simp: mem_FetchBlock_def mem_abs_def)
qed (simp add: mem_FetchBlock_def mem_abs_def)

lemma mem_has_block:
  assumes "mem_inv gc clk d"
  shows "mem_HasBlock gc clk d h = Ok (a_blocks (mem_abs gc clk d) h \<noteq> None)"
proof (cases "gc_Get gc clk d (hex_EncodeToString h)")
  case (Some v)
  with mem_invD(1) [OF assms Some] show ?thesis by (auto simp: mem_HasBlock_def mem_abs_def)
qed (simp add: mem_HasBlock_def mem_abs_def)

lemma mem_fetch_by_height:
  assumes "mem_inv gc clk d"
  shows "mem_FetchBlockByHeight gc clk d n = found (abs_by_height (mem_abs gc clk d) n)"
    "mem_FetchBlockHeaderByHeight gc clk d n
       = found (map_option blk_Header (abs_by_height (mem_abs gc clk d) n))"
proof -
  have "mem_FetchBlockByHeight gc clk d n = found (abs_by_height (mem_abs gc clk d) n)
    \<and> mem_FetchBlockHeaderByHeight gc clk d n
       = found (map_option blk_Header (abs_by_height (mem_abs gc clk d) n))"
  proof (cases "gc_Get gc clk d (mem_height_key n)")
    case (Some v)
    with mem_invD(2) [OF assms Some] show ?thesis
      by (auto simp: mem_FetchBlockByHeight_def mem_FetchBlockHeaderByHeight_def
          mem_abs_by_height [OF assms])
  qed (simp add: mem_FetchBlockByHeight_def mem_FetchBlockHeaderByHeight_def
      mem_abs_by_height [OF assms])
  then show "mem_FetchBlockByHeight gc clk d n = found (abs_by_height (mem_abs gc clk d) n)"
    "mem_FetchBlockHeaderByHeight gc clk d n
       = found (map_option blk_Header (abs_by_height (mem_abs gc clk d) n))"
    by blast+
qed

lemma mem_latest:
  assumes "mem_inv gc clk d"
  shows "mem_GetLatestBlockHeight gc clk d =
    (case a_latest (mem_abs gc clk d) of None \<Rightarrow> Err ErrLatestHeightNil | Some n \<Rightarrow> Ok n)"
proof (cases "gc_Get gc clk d mem_LatestBlockHeightKey")
  case (Some v)
  with mem_invD(3) [OF assms Some] show ?thesis by (auto simp: mem_GetLatestBlockHeight_def mem_abs_def)
qed (simp add: mem_GetLatestBlockHeight_def mem_abs_def)

lemma mem_new: "mem_inv gc clk (mem_NewDatabase gc)" "mem_abs gc clk (mem_NewDatabase gc) = abs_empty"
  by (simp_all add: mem_inv_def mem_abs_def mem_NewDatabase_def abs_empty_def)

lemma mem_block_database:
  "block_database (memory_Database gc clk) (mem_inv gc clk) (mem_abs gc clk)"
proof (unfold_locales, goal_cases)
  case (9 d b d' u)
  then have st: "mem_StoreBlock gc clk d b = (d', Ok ())" by (simp add: memory_Database_def)
  have new: "gc_Get gc clk d (hex_EncodeToString (blk_hash b)) = None"
    using 9(2) mem_has_block [OF 9(1), of "blk_hash b"] by (simp add: mem_HasBlock_def)
  show ?case using mem_inv_store [OF 9(1) new st] mem_abs_store [OF 9(1) st] by blast
next
  case (12 d n d' u)
  then show ?case using mem_set_latest [of clk d n d'] by (simp add: memory_Database_def)
qed (simp_all add: memory_Database_def mem_abs_wf mem_has_block mem_fetch_block mem_fetch_by_height
    mem_latest mem_FetchBlockData_def mem_FetchBlockHeader_def mem_StoreBlock_def
    mem_SetLatestBlockHeight_def Let_def found_bind)

end

sublocale mem_backend \<subseteq> mem: block_database "memory_Database gc clk" "mem_inv gc clk" "mem_abs gc clk"
  for clk
  by (rule mem_block_database)

interpretation ref_mem: mem_backend ref_gocache
  by unfold_locales

end
