(* ===== verification/Lmdb_Database.thy ===== *)
theory Lmdb_Database
  imports Block_Database Reference_Libs
begin

text \<open>
  The persistent block database (\<open>blockchain/database/lmdb\<close>): the \<open>Index\<close> of \<open>index.go\<close> and
  the \<open>Database\<close> of \<open>database.go\<close>, over the key-value store LMDB, a library outside the
  repository, whose operations are the record \<open>lmdb\<close>. A transaction function maps the store to
  the store it would leave. The locale \<open>lmdb_lib\<close> states what the code relies on: an update
  either commits the function's result or leaves the store as it was; a get returns what was
  put last under that key; reads do not fail. Keys and values are byte slices; a key built
  from text is kept as the text.

  The refinement: the store under the four kinds of keys is an abstract block database, also
  when a write fails between the block and its height index.
\<close>

section \<open>The LMDB library\<close>

record 's lmdb =
  lm_NewEnv :: "'s res"
  lm_SetMaxDBs :: "'s \<Rightarrow> nat \<Rightarrow> 's res"
  lm_SetMapSize :: "'s \<Rightarrow> nat \<Rightarrow> 's res"
  lm_MkdirAll :: "string \<Rightarrow> unit res"
  lm_Open :: "'s \<Rightarrow> string \<Rightarrow> 's res"
  lm_OpenDBI :: "'s \<Rightarrow> string \<Rightarrow> 's res"
  lm_Update :: "'s \<Rightarrow> ('s \<Rightarrow> 's res) \<Rightarrow> 's \<times> unit res"
  lm_BeginView :: "'s \<Rightarrow> unit res"
  lm_Put :: "'s \<Rightarrow> string \<Rightarrow> bytes \<Rightarrow> 's res"
  lm_Get :: "'s \<Rightarrow> string \<Rightarrow> bytes option res"
  lm_Del :: "'s \<Rightarrow> string \<Rightarrow> 's res"

locale lmdb_lib =
  fixes lm :: "'s lmdb"
  assumes update_Ok: "lm_Update lm s f = (s', Ok u) \<Longrightarrow> f s = Ok s'"
    and update_Err: "lm_Update lm s f = (s', Err e) \<Longrightarrow> s' = s"
    and update_no_panic: "f s \<noteq> Panic \<Longrightarrow> snd (lm_Update lm s f) \<noteq> Panic"
    and view: "lm_BeginView lm s = Ok ()"
    and get_total: "\<exists>v. lm_Get lm s k = Ok v"
    and put_get: "lm_Put lm s k v = Ok s' \<Longrightarrow>
      lm_Get lm s' k' = (if k' = k then Ok (Some v) else lm_Get lm s k')"
    and put_no_panic: "lm_Put lm s k v \<noteq> Panic"
    and del_get: "lm_Del lm s k = Ok s' \<Longrightarrow>
      lm_Get lm s' k' = (if k' = k then Ok None else lm_Get lm s k')"

definition lm_View :: "'s lmdb \<Rightarrow> 's \<Rightarrow> ('s \<Rightarrow> 'a res) \<Rightarrow> 'a res" where
  "lm_View lm s f = bind_res (lm_BeginView lm s) (\<lambda>_. f s)"

text \<open>The map from keys to values, as a reference instance in which every call succeeds.\<close>

definition ref_lmdb :: "(string \<Rightarrow> bytes option) lmdb" where
  "ref_lmdb =
     \<lparr>lm_NewEnv = Ok (\<lambda>_. None), lm_SetMaxDBs = (\<lambda>s n. Ok s), lm_SetMapSize = (\<lambda>s n. Ok s),
      lm_MkdirAll = (\<lambda>p. Ok ()), lm_Open = (\<lambda>s p. Ok s), lm_OpenDBI = (\<lambda>s n. Ok s),
      lm_Update = (\<lambda>s f. case f s of Ok s' \<Rightarrow> (s', Ok ()) | Err e \<Rightarrow> (s, Err e) | Panic \<Rightarrow> (s, Panic)),
      lm_BeginView = (\<lambda>s. Ok ()),
      lm_Put = (\<lambda>s k v. Ok (s(k := Some v))), lm_Get = (\<lambda>s k. Ok (s k)),
      lm_Del = (\<lambda>s k. Ok (s(k := None)))\<rparr>"

interpretation ref_store: lmdb_lib ref_lmdb
  by unfold_locales (auto simp: ref_lmdb_def split: res.splits)

section \<open>Index\<close>

definition DefaultIndexPrefix :: string where
  "DefaultIndexPrefix = ''indexes/''"

definition constructIndexKey :: "string \<Rightarrow> bytes \<Rightarrow> string" where
  "constructIndexKey idx_name key =
     DefaultIndexPrefix @ ''/'' @ idx_name @ ''/'' @ hex_EncodeToString key"

definition Index_PutUint64 :: "'s lmdb \<Rightarrow> string \<Rightarrow> 's \<Rightarrow> bytes \<Rightarrow> u64 \<Rightarrow> 's \<times> unit res" where
  "Index_PutUint64 lm idx_name s key v =
     lm_Update lm s (\<lambda>txn. lm_Put lm txn (constructIndexKey idx_name key) (le_bytes v))"

definition Index_GetBytes :: "'s lmdb \<Rightarrow> string \<Rightarrow> 's \<Rightarrow> bytes \<Rightarrow> bytes res" where
  "Index_GetBytes lm idx_name s key =
     lm_View lm s (\<lambda>txn.
       bind_res (lm_Get lm txn (constructIndexKey idx_name key)) (\<lambda>v.
       case v of None \<Rightarrow> Err ErrIndexKeyNotFound | Some dat \<Rightarrow> Ok dat))"

definition Index_GetUint64 :: "'s lmdb \<Rightarrow> string \<Rightarrow> 's \<Rightarrow> bytes \<Rightarrow> u64 res" where
  "Index_GetUint64 lm idx_name s key =
     lm_View lm s (\<lambda>txn.
       bind_res (lm_Get lm txn (constructIndexKey idx_name key)) (\<lambda>v.
       case v of None \<Rightarrow> Err ErrIndexKeyNotFound | Some dat \<Rightarrow> le_Uint64 dat))"

definition Index_PutBytes :: "'s lmdb \<Rightarrow> string \<Rightarrow> 's \<Rightarrow> bytes \<Rightarrow> bytes \<Rightarrow> 's \<times> unit res" where
  "Index_PutBytes lm idx_name s key v =
     lm_Update lm s (\<lambda>txn. lm_Put lm txn (constructIndexKey idx_name key) v)"

definition Index_Delete :: "'s lmdb \<Rightarrow> string \<Rightarrow> 's \<Rightarrow> bytes \<Rightarrow> 's \<times> unit res" where
  "Index_Delete lm idx_name s key =
     lm_Update lm s (\<lambda>txn. lm_Del lm txn (constructIndexKey idx_name key))"

section \<open>Database\<close>

definition DefaultMetadataIndexName :: string where
  "DefaultMetadataIndexName = ''metadata''"

definition heightIndexName :: string where
  "heightIndexName = ''height''"

definition lmdb_LatestBlockHeightKey :: string where
  "lmdb_LatestBlockHeightKey = ''latest_block_height''"

definition block_data_key :: "bytes \<Rightarrow> string" where
  "block_data_key blockHash = ''blockdata_'' @ hex_EncodeToString blockHash"

definition block_header_key :: "bytes \<Rightarrow> string" where
  "block_header_key blockHash = ''header_'' @ hex_EncodeToString blockHash"

definition lmdb_NewDatabase :: "'s lmdb \<Rightarrow> string \<Rightarrow> 's res" where
  "lmdb_NewDatabase lm path =
     bind_res (lm_NewEnv lm) (\<lambda>env0.
     bind_res (lm_SetMaxDBs lm env0 1) (\<lambda>env1.
     bind_res (lm_SetMapSize lm env1 (100 * 1024 * 1024 * 1024)) (\<lambda>env2.
     bind_res (lm_MkdirAll lm path) (\<lambda>_.
     bind_res (lm_Open lm env2 path) (\<lambda>env3.
     case lm_Update lm env3 (\<lambda>txn. lm_OpenDBI lm txn ''blocks'') of
       (env4, r) \<Rightarrow> bind_res r (\<lambda>_. Ok env4))))))"

definition lmdb_StoreBlock :: "'s lmdb \<Rightarrow> codec \<Rightarrow> 's \<Rightarrow> Block \<Rightarrow> 's \<times> unit res" where
  "lmdb_StoreBlock lm K s block =
     (case lm_Update lm s (\<lambda>txn.
        bind_res (marshal_txs K (blk_Data block)) (\<lambda>dat.
        bind_res (marshal_header K (blk_Header block)) (\<lambda>headerData.
        bind_res (lm_Put lm txn (block_data_key (hd_Hash (blk_Header block))) dat) (\<lambda>txn1.
        lm_Put lm txn1 (block_header_key (hd_Hash (blk_Header block))) headerData)))) of
       (s1, Ok _) \<Rightarrow>
         Index_PutBytes lm heightIndexName s1 (le_bytes (hd_Height (blk_Header block)))
           (hd_Hash (blk_Header block))
     | (s1, Err e) \<Rightarrow> (s1, Err e)
     | (s1, Panic) \<Rightarrow> (s1, Panic))"

definition lmdb_HasBlock :: "'s lmdb \<Rightarrow> 's \<Rightarrow> bytes \<Rightarrow> bool res" where
  "lmdb_HasBlock lm s blockHash =
     lm_View lm s (\<lambda>txn.
       bind_res (lm_Get lm txn (block_header_key blockHash)) (\<lambda>v. Ok (v \<noteq> None)))"

definition lmdb_FetchBlockData :: "'s lmdb \<Rightarrow> codec \<Rightarrow> 's \<Rightarrow> bytes \<Rightarrow> Transaction option list res" where
  "lmdb_FetchBlockData lm K s blockHash =
     lm_View lm s (\<lambda>txn.
       bind_res (lm_Get lm txn (block_data_key blockHash)) (\<lambda>v.
       case v of None \<Rightarrow> Err ErrBlockNotFound | Some blockData \<Rightarrow> unmarshal_txs K blockData))"

definition lmdb_FetchBlockHeader :: "'s lmdb \<Rightarrow> codec \<Rightarrow> 's \<Rightarrow> bytes \<Rightarrow> BlockHeader res" where
  "lmdb_FetchBlockHeader lm K s blockHash =
     lm_View lm s (\<lambda>txn.
       bind_res (lm_Get lm txn (block_header_key blockHash)) (\<lambda>v.
       case v of None \<Rightarrow> Err ErrBlockNotFound | Some dat \<Rightarrow> unmarshal_header K dat))"

definition lmdb_FetchBlock :: "'s lmdb \<Rightarrow> codec \<Rightarrow> 's \<Rightarrow> bytes \<Rightarrow> Block res" where
  "lmdb_FetchBlock lm K s blockHash =
     bind_res (lmdb_FetchBlockHeader lm K s blockHash) (\<lambda>header.
     bind_res (lmdb_FetchBlockData lm K s blockHash) (\<lambda>dat.
       Ok \<lparr>blk_Header = header, blk_Data = dat\<rparr>))"

text \<open>
  Both lookups by height return only on the not-found error of the index; after any other
  error they go on with the nil hash.
\<close>

definition height_hash :: "'s lmdb \<Rightarrow> 's \<Rightarrow> u64 \<Rightarrow> bytes res" where
  "height_hash lm s height =
     (case Index_GetBytes lm heightIndexName s (le_bytes height) of
        Ok blockHash \<Rightarrow> Ok blockHash
      | Err e \<Rightarrow> if e = ErrIndexKeyNotFound then Err ErrBlockNotFound else Ok []
      | Panic \<Rightarrow> Panic)"

definition lmdb_FetchBlockByHeight :: "'s lmdb \<Rightarrow> codec \<Rightarrow> 's \<Rightarrow> u64 \<Rightarrow> Block res" where
  "lmdb_FetchBlockByHeight lm K s height =
     bind_res (height_hash lm s height) (lmdb_FetchBlock lm K s)"

definition lmdb_FetchBlockHeaderByHeight :: "'s lmdb \<Rightarrow> codec \<Rightarrow> 's \<Rightarrow> u64 \<Rightarrow> BlockHeader res" where
  "lmdb_FetchBlockHeaderByHeight lm K s height =
     bind_res (height_hash lm s height) (lmdb_FetchBlockHeader lm K s)"

definition lmdb_GetLatestBlockHeight :: "'s lmdb \<Rightarrow> 's \<Rightarrow> u64 res" where
  "lmdb_GetLatestBlockHeight lm s =
     (case Index_GetUint64 lm DefaultMetadataIndexName s (string_bytes lmdb_LatestBlockHeightKey) of
        Ok height \<Rightarrow> Ok height
      | Err e \<Rightarrow> if e = ErrIndexKeyNotFound then Err ErrLatestHeightNil else Err e
      | Panic \<Rightarrow> Panic)"

definition lmdb_SetLatestBlockHeight :: "'s lmdb \<Rightarrow> 's \<Rightarrow> u64 \<Rightarrow> 's \<times> unit res" where
  "lmdb_SetLatestBlockHeight lm s height =
     Index_PutUint64 lm DefaultMetadataIndexName s (string_bytes lmdb_LatestBlockHeightKey) height"

definition lmdb_Database :: "'s lmdb \<Rightarrow> codec \<Rightarrow> 's Database" where
  "lmdb_Database lm K =
     \<lparr>db_StoreBlock = lmdb_StoreBlock lm K, db_HasBlock = lmdb_HasBlock lm,
      db_FetchBlockData = lmdb_FetchBlockData lm K,
      db_FetchBlockHeader = lmdb_FetchBlockHeader lm K,
      db_FetchBlock = lmdb_FetchBlock lm K,
      db_FetchBlockByHeight = lmdb_FetchBlockByHeight lm K,
      db_FetchBlockHeaderByHeight = lmdb_FetchBlockHeaderByHeight lm K,
      db_GetLatestBlockHeight = lmdb_GetLatestBlockHeight lm,
      db_SetLatestBlockHeight = lmdb_SetLatestBlockHeight lm\<rparr>"

section \<open>Keys do not collide\<close>

lemma index_keys [simp, key_simps]:
  "constructIndexKey m j = constructIndexKey m k \<longleftrightarrow> j = k"
  "constructIndexKey heightIndexName j \<noteq> constructIndexKey DefaultMetadataIndexName k"
  "constructIndexKey DefaultMetadataIndexName k \<noteq> constructIndexKey heightIndexName j"
  "constructIndexKey m k \<noteq> block_data_key h" "constructIndexKey m k \<noteq> block_header_key h"
  "block_data_key h \<noteq> constructIndexKey m k" "block_header_key h \<noteq> constructIndexKey m k"
  by (simp_all add: constructIndexKey_def DefaultIndexPrefix_def block_data_key_def
      block_header_key_def heightIndexName_def DefaultMetadataIndexName_def)

lemma block_keys [simp, key_simps]:
  "block_data_key g = block_data_key h \<longleftrightarrow> g = h" "block_header_key g = block_header_key h \<longleftrightarrow> g = h"
  "block_data_key g \<noteq> block_header_key h" "block_header_key h \<noteq> block_data_key g"
  by (simp_all add: block_data_key_def block_header_key_def)

section \<open>Refinement\<close>

abbreviation height_key :: "u64 \<Rightarrow> string" where
  "height_key n \<equiv> constructIndexKey heightIndexName (le_bytes n)"

abbreviation latest_key :: string where
  "latest_key \<equiv> constructIndexKey DefaultMetadataIndexName (string_bytes lmdb_LatestBlockHeightKey)"

definition lm_at :: "'s lmdb \<Rightarrow> 's \<Rightarrow> string \<Rightarrow> bytes option" where
  "lm_at lm s k = (case lm_Get lm s k of Ok v \<Rightarrow> v | _ \<Rightarrow> None)"

definition stored_block :: "'s lmdb \<Rightarrow> codec \<Rightarrow> 's \<Rightarrow> bytes \<Rightarrow> Block \<Rightarrow> bool" where
  "stored_block lm K s h b \<longleftrightarrow>
     blk_hash b = h
     \<and> (\<exists>hs ds. lm_at lm s (block_header_key h) = Some hs \<and> unmarshal_header K hs = Ok (blk_Header b)
         \<and> lm_at lm s (block_data_key h) = Some ds \<and> unmarshal_txs K ds = Ok (blk_Data b))"

definition lmdb_inv :: "'s lmdb \<Rightarrow> codec \<Rightarrow> 's \<Rightarrow> bool" where
  "lmdb_inv lm K s \<longleftrightarrow>
     (\<forall>h. (lm_at lm s (block_header_key h) = None \<and> lm_at lm s (block_data_key h) = None)
        \<or> (\<exists>b. stored_block lm K s h b))
     \<and> (\<forall>n h. lm_at lm s (height_key n) = Some h \<longrightarrow> (\<exists>b. stored_block lm K s h b \<and> blk_height b = n))
     \<and> (\<forall>v. lm_at lm s latest_key = Some v \<longrightarrow> (\<exists>n. v = le_bytes n))"

definition lmdb_abs :: "'s lmdb \<Rightarrow> codec \<Rightarrow> 's \<Rightarrow> abs_db" where
  "lmdb_abs lm K s =
     \<lparr>a_blocks = (\<lambda>h. case lmdb_FetchBlock lm K s h of Ok b \<Rightarrow> Some b | _ \<Rightarrow> None),
      a_heights = (\<lambda>n. lm_at lm s (height_key n)),
      a_latest = (case lm_at lm s latest_key of None \<Rightarrow> None
        | Some v \<Rightarrow> (case le_Uint64 v of Ok n \<Rightarrow> Some n | _ \<Rightarrow> None))\<rparr>"

definition put_block :: "'s lmdb \<Rightarrow> codec \<Rightarrow> 's \<Rightarrow> Block \<Rightarrow> 's \<Rightarrow> bool" where
  "put_block lm K s b s1 \<longleftrightarrow> (\<exists>ds hs. marshal_txs K (blk_Data b) = Ok ds \<and> marshal_header K (blk_Header b) = Ok hs
     \<and> (\<forall>k. lm_at lm s1 k = (if k = block_header_key (blk_hash b) then Some hs
          else if k = block_data_key (blk_hash b) then Some ds else lm_at lm s k)))"

lemma option_eqI: "(\<And>x. p = Some x \<longleftrightarrow> q = Some x) \<Longrightarrow> p = q"
  by (cases p; cases q) auto

locale lmdb_backend = lmdb_lib lm + cbor_codec K for lm :: "'s lmdb" and K :: codec
begin

lemma get_at [simp]: "lm_Get lm s k = Ok (lm_at lm s k)"
  using get_total [of s k] by (auto simp: lm_at_def)

lemma view_at [simp]: "lm_View lm s f = f s"
  by (simp add: lm_View_def view)

lemma put_at: "lm_Put lm s k v = Ok s' \<Longrightarrow> lm_at lm s' k' = (if k' = k then Some v else lm_at lm s k')"
  using put_get [of s k v s' k'] by (simp split: if_splits)

lemma index_put_Ok:
  assumes "Index_PutBytes lm m s k v = (s', Ok u)"
  shows "lm_at lm s' k' = (if k' = constructIndexKey m k then Some v else lm_at lm s k')"
  using update_Ok [OF assms [unfolded Index_PutBytes_def]] put_at by simp

lemma index_put_Err: "Index_PutBytes lm m s k v = (s', Err e) \<Longrightarrow> s' = s"
  by (simp add: Index_PutBytes_def update_Err)

lemma index_put_no_panic: "snd (Index_PutBytes lm m s k v) \<noteq> Panic"
  by (simp add: Index_PutBytes_def update_no_panic put_no_panic)

lemma index_put_uint: "Index_PutUint64 lm m s k n = Index_PutBytes lm m s k (le_bytes n)"
  by (simp add: Index_PutUint64_def Index_PutBytes_def)

lemma fetch_stored:
  assumes "stored_block lm K s h b"
  shows "lmdb_FetchBlock lm K s h = Ok b" "lmdb_FetchBlockHeader lm K s h = Ok (blk_Header b)"
    "lmdb_FetchBlockData lm K s h = Ok (blk_Data b)" "lmdb_HasBlock lm s h = Ok True"
  using assms
  by (auto simp: stored_block_def lmdb_FetchBlock_def lmdb_FetchBlockHeader_def
      lmdb_FetchBlockData_def lmdb_HasBlock_def)

lemma fetch_absent:
  assumes "lm_at lm s (block_header_key h) = None" "lm_at lm s (block_data_key h) = None"
  shows "lmdb_FetchBlock lm K s h = Err ErrBlockNotFound"
    "lmdb_FetchBlockHeader lm K s h = Err ErrBlockNotFound"
    "lmdb_FetchBlockData lm K s h = Err ErrBlockNotFound" "lmdb_HasBlock lm s h = Ok False"
  using assms by (auto simp: lmdb_FetchBlock_def lmdb_FetchBlockHeader_def
      lmdb_FetchBlockData_def lmdb_HasBlock_def)

lemma inv_cases:
  assumes "lmdb_inv lm K s"
  obtains "lm_at lm s (block_header_key h) = None" "lm_at lm s (block_data_key h) = None"
      "a_blocks (lmdb_abs lm K s) h = None"
  | b where "stored_block lm K s h b" "a_blocks (lmdb_abs lm K s) h = Some b"
proof -
  have "(lm_at lm s (block_header_key h) = None \<and> lm_at lm s (block_data_key h) = None)
      \<or> (\<exists>b. stored_block lm K s h b)"
    using assms unfolding lmdb_inv_def by blast
  then show thesis
  proof (elim disjE exE conjE)
    assume "lm_at lm s (block_header_key h) = None" "lm_at lm s (block_data_key h) = None"
    then show thesis using fetch_absent(1) [of s h] by (intro that(1)) (simp_all add: lmdb_abs_def)
  next
    fix b
    assume "stored_block lm K s h b"
    then show thesis using fetch_stored(1) by (intro that(2)) (simp_all add: lmdb_abs_def)
  qed
qed

lemma blocks_iff:
  assumes "lmdb_inv lm K s"
  shows "a_blocks (lmdb_abs lm K s) h = Some b \<longleftrightarrow> stored_block lm K s h b"
proof
  show "stored_block lm K s h b \<Longrightarrow> a_blocks (lmdb_abs lm K s) h = Some b"
    by (simp add: lmdb_abs_def fetch_stored(1))
  show "a_blocks (lmdb_abs lm K s) h = Some b \<Longrightarrow> stored_block lm K s h b"
    by (rule inv_cases [OF assms, of h]) simp_all
qed

lemma inv_heights:
  assumes "lmdb_inv lm K s" "lm_at lm s (height_key n) = Some h"
  obtains b where "stored_block lm K s h b" "blk_height b = n"
  using assms unfolding lmdb_inv_def by blast

lemma inv_latest:
  assumes "lmdb_inv lm K s" "lm_at lm s latest_key = Some v"
  obtains n where "v = le_bytes n"
  using assms unfolding lmdb_inv_def by blast

lemma abs_wf_lmdb:
  assumes "lmdb_inv lm K s"
  shows "abs_wf (lmdb_abs lm K s)"
proof -
  have "\<exists>b. a_blocks (lmdb_abs lm K s) h = Some b \<and> blk_height b = n"
    if "a_heights (lmdb_abs lm K s) n = Some h" for n h
  proof -
    from that have "lm_at lm s (height_key n) = Some h" by (simp add: lmdb_abs_def)
    then obtain b where "stored_block lm K s h b" "blk_height b = n" by (rule inv_heights [OF assms])
    then show ?thesis unfolding blocks_iff [OF assms] by blast
  qed
  moreover have "blk_hash b = h" if "a_blocks (lmdb_abs lm K s) h = Some b" for h b
    using that unfolding blocks_iff [OF assms] stored_block_def by blast
  ultimately show ?thesis unfolding abs_wf_def by blast
qed

lemma fetch_abs:
  assumes "lmdb_inv lm K s"
  shows "lmdb_HasBlock lm s h = Ok (a_blocks (lmdb_abs lm K s) h \<noteq> None)"
    and "lmdb_FetchBlock lm K s h = found (a_blocks (lmdb_abs lm K s) h)"
    and "lmdb_FetchBlockData lm K s h = found (map_option blk_Data (a_blocks (lmdb_abs lm K s) h))"
    and "lmdb_FetchBlockHeader lm K s h = found (map_option blk_Header (a_blocks (lmdb_abs lm K s) h))"
  by (rule inv_cases [OF assms, of h]; simp add: fetch_absent fetch_stored)+

lemma height_hash_abs:
  "height_hash lm s n = found (lm_at lm s (height_key n))"
  by (cases "lm_at lm s (height_key n)") (simp_all add: height_hash_def Index_GetBytes_def)

lemma fetch_height_abs:
  assumes "lmdb_inv lm K s"
  shows "lmdb_FetchBlockByHeight lm K s n = found (abs_by_height (lmdb_abs lm K s) n)"
    and "lmdb_FetchBlockHeaderByHeight lm K s n
      = found (map_option blk_Header (abs_by_height (lmdb_abs lm K s) n))"
proof -
  have h: "a_heights (lmdb_abs lm K s) n = lm_at lm s (height_key n)" by (simp add: lmdb_abs_def)
  show "lmdb_FetchBlockByHeight lm K s n = found (abs_by_height (lmdb_abs lm K s) n)"
    unfolding lmdb_FetchBlockByHeight_def height_hash_abs abs_by_height_def h
    by (cases "lm_at lm s (height_key n)") (simp_all add: fetch_abs(2) [OF assms])
  show "lmdb_FetchBlockHeaderByHeight lm K s n
      = found (map_option blk_Header (abs_by_height (lmdb_abs lm K s) n))"
    unfolding lmdb_FetchBlockHeaderByHeight_def height_hash_abs abs_by_height_def h
    by (cases "lm_at lm s (height_key n)") (simp_all add: fetch_abs(4) [OF assms])
qed

lemma latest_abs:
  assumes "lmdb_inv lm K s"
  shows "lmdb_GetLatestBlockHeight lm s =
    (case a_latest (lmdb_abs lm K s) of None \<Rightarrow> Err ErrLatestHeightNil | Some n \<Rightarrow> Ok n)"
proof (cases "lm_at lm s latest_key")
  case (Some v)
  then obtain n where "v = le_bytes n" by (rule inv_latest [OF assms])
  with Some show ?thesis
    by (simp add: lmdb_GetLatestBlockHeight_def Index_GetUint64_def lmdb_abs_def)
qed (simp add: lmdb_GetLatestBlockHeight_def Index_GetUint64_def lmdb_abs_def)

lemma lmdb_invI:
  assumes "\<And>h. (lm_at lm s (block_header_key h) = None \<and> lm_at lm s (block_data_key h) = None)
        \<or> (\<exists>b. stored_block lm K s h b)"
    and "\<And>n h. lm_at lm s (height_key n) = Some h \<Longrightarrow> \<exists>b. stored_block lm K s h b \<and> blk_height b = n"
    and "\<And>v. lm_at lm s latest_key = Some v \<Longrightarrow> \<exists>n. v = le_bytes n"
  shows "lmdb_inv lm K s"
  unfolding lmdb_inv_def using assms by blast

lemma stored_block_cong:
  assumes "lm_at lm s' (block_header_key h) = lm_at lm s (block_header_key h)"
    "lm_at lm s' (block_data_key h) = lm_at lm s (block_data_key h)"
  shows "stored_block lm K s' h b \<longleftrightarrow> stored_block lm K s h b"
  by (simp add: stored_block_def assms)

lemma store_cases:
  assumes "lmdb_StoreBlock lm K s b = (s', r)"
  obtains e where "r = Err e" "s' = s"
  | s1 where "put_block lm K s b s1"
      "Index_PutBytes lm heightIndexName s1 (le_bytes (blk_height b)) (blk_hash b) = (s', r)"
proof -
  define f where "f = (\<lambda>txn. bind_res (marshal_txs K (blk_Data b)) (\<lambda>dat.
        bind_res (marshal_header K (blk_Header b)) (\<lambda>headerData.
        bind_res (lm_Put lm txn (block_data_key (blk_hash b)) dat) (\<lambda>txn1.
        lm_Put lm txn1 (block_header_key (blk_hash b)) headerData))))"
  obtain s1 q where q: "lm_Update lm s f = (s1, q)" by (cases "lm_Update lm s f")
  have np: "f s \<noteq> Panic"
    using put_no_panic marshal_no_panic by (auto simp: f_def res_simps)
  have st: "(case (s1, q) of (s1, Ok _) \<Rightarrow>
         Index_PutBytes lm heightIndexName s1 (le_bytes (blk_height b)) (blk_hash b)
     | (s1, Err e) \<Rightarrow> (s1, Err e) | (s1, Panic) \<Rightarrow> (s1, Panic)) = (s', r)"
    using assms unfolding lmdb_StoreBlock_def f_def [symmetric] q .
  show thesis
  proof (cases q)
    case (Ok u)
    then have "f s = Ok s1" using q update_Ok by blast
    then obtain ds hs t where "marshal_txs K (blk_Data b) = Ok ds" "marshal_header K (blk_Header b) = Ok hs"
        "lm_Put lm s (block_data_key (blk_hash b)) ds = Ok t"
        "lm_Put lm t (block_header_key (blk_hash b)) hs = Ok s1"
      by (auto simp: f_def res_simps)
    then have "put_block lm K s b s1" by (auto simp: put_block_def put_at)
    then show thesis using that(2) st Ok by simp
  next
    case (Err e)
    then have "s1 = s" using q update_Err by blast
    with st Err have "r = Err e" "s' = s" by simp_all
    then show thesis by (rule that(1))
  next
    case Panic
    then show thesis using np q update_no_panic [of f s] by simp
  qed
qed

lemma put_block_stored:
  assumes "put_block lm K s b s1"
  shows "stored_block lm K s1 (blk_hash b) b"
    "h \<noteq> blk_hash b \<Longrightarrow> stored_block lm K s1 h b' \<longleftrightarrow> stored_block lm K s h b'"
    "lm_at lm s1 (constructIndexKey m k) = lm_at lm s (constructIndexKey m k)"
  using assms txs_roundtrip header_roundtrip by (auto simp: put_block_def stored_block_def)

lemma put_block_inv:
  assumes inv: "lmdb_inv lm K s" and new: "a_blocks (lmdb_abs lm K s) (blk_hash b) = None"
    and put: "put_block lm K s b s1"
  shows "lmdb_inv lm K s1"
    "a_blocks (lmdb_abs lm K s1) = (a_blocks (lmdb_abs lm K s))(blk_hash b \<mapsto> b)"
    "a_heights (lmdb_abs lm K s1) = a_heights (lmdb_abs lm K s)"
    "a_latest (lmdb_abs lm K s1) = a_latest (lmdb_abs lm K s)"
proof -
  note P = put_block_stored [OF put]
  show inv1: "lmdb_inv lm K s1"
  proof (rule lmdb_invI)
    fix h
    show "(lm_at lm s1 (block_header_key h) = None \<and> lm_at lm s1 (block_data_key h) = None)
        \<or> (\<exists>b. stored_block lm K s1 h b)"
    proof (cases "h = blk_hash b")
      case False
      then have "lm_at lm s1 (block_header_key h) = lm_at lm s (block_header_key h)"
        "lm_at lm s1 (block_data_key h) = lm_at lm s (block_data_key h)"
        using put by (auto simp: put_block_def)
      then show ?thesis by (rule_tac inv_cases [OF inv, of h]) (auto simp: P(2) [OF False])
    qed (use P(1) in blast)
  next
    fix n h
    assume "lm_at lm s1 (height_key n) = Some h"
    then obtain b' where "stored_block lm K s h b'" "blk_height b' = n"
      using inv_heights [OF inv] P(3) by auto
    moreover from this(1) new have "h \<noteq> blk_hash b" by (auto simp: blocks_iff [OF inv, symmetric])
    ultimately show "\<exists>b. stored_block lm K s1 h b \<and> blk_height b = n" using P(2) by blast
  next
    fix v
    assume "lm_at lm s1 latest_key = Some v"
    then show "\<exists>n. v = le_bytes n" using inv_latest [OF inv] P(3) by auto
  qed
  show "a_blocks (lmdb_abs lm K s1) = (a_blocks (lmdb_abs lm K s))(blk_hash b \<mapsto> b)"
  proof
    fix h
    show "a_blocks (lmdb_abs lm K s1) h = ((a_blocks (lmdb_abs lm K s))(blk_hash b \<mapsto> b)) h"
    proof (cases "h = blk_hash b")
      case True
      then show ?thesis using P(1) by (simp add: blocks_iff [OF inv1])
    next
      case False
      then have "a_blocks (lmdb_abs lm K s1) h = a_blocks (lmdb_abs lm K s) h"
        by (intro option_eqI) (simp add: blocks_iff [OF inv1] blocks_iff [OF inv] P(2))
      then show ?thesis using False by simp
    qed
  qed
qed (use put_block_stored(3) [OF put] in \<open>simp_all add: lmdb_abs_def\<close>)

lemma index_height_inv:
  assumes inv: "lmdb_inv lm K s" and st: "stored_block lm K s h b"
    and put: "Index_PutBytes lm heightIndexName s (le_bytes (blk_height b)) h = (s', Ok u)"
  shows "lmdb_inv lm K s'"
    "lmdb_abs lm K s' = (lmdb_abs lm K s)\<lparr>a_heights := (a_heights (lmdb_abs lm K s))(blk_height b \<mapsto> h)\<rparr>"
proof -
  note P = index_put_Ok [OF put]
  have S: "stored_block lm K s' = stored_block lm K s"
    by (intro ext stored_block_cong) (simp_all add: P)
  show "lmdb_inv lm K s'"
    using inv st unfolding lmdb_inv_def S P by auto
  have "lmdb_FetchBlock lm K s' = lmdb_FetchBlock lm K s"
    by (intro ext) (simp add: lmdb_FetchBlock_def lmdb_FetchBlockHeader_def lmdb_FetchBlockData_def P)
  then show "lmdb_abs lm K s' =
      (lmdb_abs lm K s)\<lparr>a_heights := (a_heights (lmdb_abs lm K s))(blk_height b \<mapsto> h)\<rparr>"
    by (auto simp: lmdb_abs_def P)
qed

lemma set_latest_abs:
  assumes inv: "lmdb_inv lm K s" and put: "lmdb_SetLatestBlockHeight lm s n = (s', Ok u)"
  shows "lmdb_inv lm K s'" "lmdb_abs lm K s' = (lmdb_abs lm K s)\<lparr>a_latest := Some n\<rparr>"
proof -
  note P = index_put_Ok [OF put [unfolded lmdb_SetLatestBlockHeight_def index_put_uint]]
  have S: "stored_block lm K s' = stored_block lm K s"
    by (intro ext stored_block_cong) (simp_all add: P)
  show "lmdb_inv lm K s'"
    using inv unfolding lmdb_inv_def S P by auto
  have "lmdb_FetchBlock lm K s' = lmdb_FetchBlock lm K s"
    by (intro ext) (simp add: lmdb_FetchBlock_def lmdb_FetchBlockHeader_def lmdb_FetchBlockData_def P)
  then show "lmdb_abs lm K s' = (lmdb_abs lm K s)\<lparr>a_latest := Some n\<rparr>"
    by (auto simp: lmdb_abs_def P)
qed

lemma lmdb_store_Ok:
  assumes "lmdb_inv lm K s" "a_blocks (lmdb_abs lm K s) (blk_hash b) = None"
    and "lmdb_StoreBlock lm K s b = (s', Ok u)"
  shows "lmdb_inv lm K s' \<and> lmdb_abs lm K s' = abs_store b (lmdb_abs lm K s)"
  using assms(3)
proof (cases rule: store_cases)
  case (2 s1)
  note P = put_block_inv [OF assms(1,2) 2(1)]
  note Q = index_height_inv [OF P(1) put_block_stored(1) [OF 2(1)] 2(2)]
  from P(2-4) have "lmdb_abs lm K s1 =
      (lmdb_abs lm K s)\<lparr>a_blocks := (a_blocks (lmdb_abs lm K s))(blk_hash b \<mapsto> b)\<rparr>"
    by (intro abs_db.equality) simp_all
  with Q show ?thesis by (simp add: abs_store_def)
qed simp

lemma lmdb_store_Err:
  assumes "lmdb_inv lm K s" "a_blocks (lmdb_abs lm K s) (blk_hash b) = None"
    and "lmdb_StoreBlock lm K s b = (s', Err e)"
  shows "lmdb_inv lm K s' \<and> a_latest (lmdb_abs lm K s') = a_latest (lmdb_abs lm K s)
    \<and> a_heights (lmdb_abs lm K s') = a_heights (lmdb_abs lm K s)
    \<and> (a_blocks (lmdb_abs lm K s') = a_blocks (lmdb_abs lm K s)
       \<or> a_blocks (lmdb_abs lm K s') = (a_blocks (lmdb_abs lm K s))(blk_hash b \<mapsto> b))"
  using assms(3)
proof (cases rule: store_cases)
  case (1 e)
  then show ?thesis using assms(1) by simp
next
  case (2 s1)
  note P = put_block_inv [OF assms(1,2) 2(1)]
  have "s' = s1" by (rule index_put_Err [OF 2(2)])
  with P show ?thesis by blast
qed

lemma lmdb_store_no_panic: "snd (lmdb_StoreBlock lm K s b) \<noteq> Panic"
proof (cases "lmdb_StoreBlock lm K s b")
  case (Pair s' r)
  then show ?thesis
  proof (cases rule: store_cases)
    case (2 s1)
    then show ?thesis
      using Pair index_put_no_panic [of heightIndexName s1 "le_bytes (blk_height b)" "blk_hash b"]
      by simp
  qed (simp add: Pair)
qed

lemma lmdb_block_database:
  "block_database (lmdb_Database lm K) (lmdb_inv lm K) (lmdb_abs lm K)"
proof (unfold_locales, goal_cases)
  case (9 d b d' u)
  then show ?case using lmdb_store_Ok [of d b d' u] by (simp add: lmdb_Database_def)
next
  case (10 d b d' e)
  then show ?case using lmdb_store_Err [of d b d' e] by (simp add: lmdb_Database_def)
next
  case (12 d n d' u)
  then show ?case using set_latest_abs [of d n d' u] by (simp add: lmdb_Database_def)
next
  case (13 d n d' e)
  then have "d' = d"
    using index_put_Err
    by (simp add: lmdb_Database_def lmdb_SetLatestBlockHeight_def index_put_uint)
  with 13 show ?case by simp
qed (simp_all add: lmdb_Database_def abs_wf_lmdb fetch_abs fetch_height_abs latest_abs
    lmdb_store_no_panic lmdb_SetLatestBlockHeight_def index_put_uint index_put_no_panic)

end

sublocale lmdb_backend \<subseteq> lmdb: block_database "lmdb_Database lm K" "lmdb_inv lm K" "lmdb_abs lm K"
  by (rule lmdb_block_database)

interpretation ref_lmdb_db: lmdb_backend ref_lmdb "ref_codec T" for T
  by unfold_locales

end
