(* ===== verification/Beacon.thy ===== *)
theory Beacon
  imports Reference_Libs
begin

text \<open>
  The randomness beacon (\<open>beacon\<close>, \<open>beacon/drand\<close>) and the functions on its entries: the draw
  of the election randomness, the signature used as verifiable random function, the choice of
  a network by round, and the drand client's cache. The drand network and its verification are
  outside the repository: the record \<open>drand_lib\<close>.

  Shown: a draw separates its inputs up to a collision of BLAKE2b; a computed VRF verifies;
  the network chosen for a round is the last one that has started; the latest round of the
  drand client is always cached, whatever sequence of results arrives.
\<close>

section \<open>Drawing randomness\<close>

definition RandomnessTypeElectionProofProduction :: i64 where
  "RandomnessTypeElectionProofProduction = 1"

text \<open>The writes to the hash state, concatenated; none of them can fail.\<close>

definition draw_preimage :: "crypto \<Rightarrow> bytes \<Rightarrow> i64 \<Rightarrow> u64 \<Rightarrow> bytes \<Rightarrow> bytes" where
  "draw_preimage C rbase randomnessType round entropy =
     be_bytes randomnessType @ cr_Blake2b C rbase @ be_bytes round @ entropy"

definition DrawRandomness :: "crypto \<Rightarrow> bytes \<Rightarrow> i64 \<Rightarrow> u64 \<Rightarrow> bytes \<Rightarrow> bytes res" where
  "DrawRandomness C rbase randomnessType round entropy =
     Ok (cr_Blake2b C (draw_preimage C rbase randomnessType round entropy))"

section \<open>Verifiable random function\<close>

definition ComputeVRF :: "crypto \<Rightarrow> privkey \<Rightarrow> bytes \<Rightarrow> bytes res" where
  "ComputeVRF C privKey sigInput = cr_Sign C privKey sigInput"

definition VerifyVRF :: "crypto \<Rightarrow> peer_id \<Rightarrow> bytes \<Rightarrow> bytes \<Rightarrow> unit res" where
  "VerifyVRF C worker vrfBase vrfproof =
     bind_res (cr_ExtractPublicKey C worker) (\<lambda>pk.
     bind_res (cr_Verify C pk vrfBase vrfproof) (\<lambda>ok.
       guard_res ok ''vrf was invalid''))"

section \<open>Beacon networks\<close>

record BeaconAPI =
  api_Entry :: "u64 \<Rightarrow> BeaconEntry res"
  api_VerifyEntry :: "BeaconEntry \<Rightarrow> BeaconEntry \<Rightarrow> unit res"
  api_LatestBeaconRound :: u64

record BeaconNetwork =
  bn_Start :: u64
  bn_Beacon :: BeaconAPI

text \<open>The loop runs down from the last network; \<open>n\<close> is the number of networks not yet tried.\<close>

fun network_loop :: "BeaconNetwork list \<Rightarrow> u64 \<Rightarrow> nat \<Rightarrow> BeaconAPI option" where
  "network_loop bn e 0 = None"
| "network_loop bn e (Suc i) =
     (if bn_Start (bn ! i) \<le> e then Some (bn_Beacon (bn ! i)) else network_loop bn e i)"

definition BeaconNetworkForRound :: "BeaconNetwork list \<Rightarrow> u64 \<Rightarrow> BeaconAPI res" where
  "BeaconNetworkForRound bn e =
     (case network_loop bn e (length bn) of
        Some b \<Rightarrow> Ok b
      | None \<Rightarrow> (case bn of [] \<Rightarrow> Panic | n # _ \<Rightarrow> Ok (bn_Beacon n)))"

definition ValidateBlockBeacons ::
  "BeaconNetwork list \<Rightarrow> BeaconEntry \<Rightarrow> BeaconEntry \<Rightarrow> unit res" where
  "ValidateBlockBeacons beaconNetworks curEntry prevEntry =
     bind_res (BeaconNetworkForRound beaconNetworks 0) (\<lambda>defaultBeacon.
       wrap_res ''beacon entry was invalid'' (api_VerifyEntry defaultBeacon curEntry prevEntry))"

section \<open>The drand client\<close>

record drand_result =
  dr_Round :: u64
  dr_Randomness :: bytes
  dr_Signature :: bytes

record drand_lib =
  dl_InfoFromJSON :: "string \<Rightarrow> bytes res"
  dl_NewWithInfo :: "string \<Rightarrow> bytes \<Rightarrow> unit res"
  dl_Wrap :: "string list \<Rightarrow> bool \<Rightarrow> unit res"
  dl_Get :: "u64 \<Rightarrow> drand_result res"
  dl_VerifyBeacon :: "bytes \<Rightarrow> bytes \<Rightarrow> u64 \<Rightarrow> bytes \<Rightarrow> unit res"

record DrandBeacon =
  db_PublicKey :: bytes
  db_localCache :: "u64 \<Rightarrow> BeaconEntry option"
  db_latestDrandRound :: u64

text \<open>One HTTP client per server; the first failure ends the loop.\<close>

fun new_http_clients :: "drand_lib \<Rightarrow> bytes \<Rightarrow> string list \<Rightarrow> unit res" where
  "new_http_clients dl info [] = Ok ()"
| "new_http_clients dl info (url # urls) =
     bind_res (wrap_res ''could not create http drand client'' (dl_NewWithInfo dl url info)) (\<lambda>_.
       new_http_clients dl info urls)"

text \<open>\<open>logrus.Fatal\<close> ends the process, as a panic does.\<close>

definition NewDrandBeacon :: "drand_lib \<Rightarrow> string \<Rightarrow> string list \<Rightarrow> bool \<Rightarrow> DrandBeacon res" where
  "NewDrandBeacon dl chainInfo servers has_pubsub =
     bind_res (wrap_res ''unable to unmarshal drand chain info'' (dl_InfoFromJSON dl chainInfo)) (\<lambda>drandChain.
     bind_res (new_http_clients dl drandChain servers) (\<lambda>_.
     case dl_Wrap dl servers has_pubsub of
       Ok _ \<Rightarrow> Ok \<lparr>db_PublicKey = drandChain, db_localCache = (\<lambda>_. None), db_latestDrandRound = 0\<rparr>
     | Err e \<Rightarrow> Panic
     | Panic \<Rightarrow> Panic))"

definition newBeaconEntryFromDrandResult :: "drand_result \<Rightarrow> BeaconEntry" where
  "newBeaconEntryFromDrandResult r =
     NewBeaconEntry (dr_Round r) (dr_Randomness r) [(''signature'', Some (dr_Signature r))]"

definition cacheValue :: "BeaconEntry \<Rightarrow> DrandBeacon \<Rightarrow> DrandBeacon" where
  "cacheValue r db = db\<lparr>db_localCache := (db_localCache db)(be_Round r := Some r)\<rparr>"

definition getCachedValue :: "DrandBeacon \<Rightarrow> u64 \<Rightarrow> BeaconEntry option" where
  "getCachedValue db round = db_localCache db round"

definition updateLatestDrandRound :: "u64 \<Rightarrow> DrandBeacon \<Rightarrow> DrandBeacon" where
  "updateLatestDrandRound round db = db\<lparr>db_latestDrandRound := round\<rparr>"

definition getLatestDrandResult :: "drand_lib \<Rightarrow> DrandBeacon \<Rightarrow> DrandBeacon \<times> unit res" where
  "getLatestDrandResult dl db =
     (case dl_Get dl 0 of
        Ok latest \<Rightarrow> (updateLatestDrandRound (dr_Round latest)
            (cacheValue (newBeaconEntryFromDrandResult latest) db), Ok ())
      | Err e \<Rightarrow> (db, Err e)
      | Panic \<Rightarrow> (db, Panic))"

text \<open>One turn of the watching loop on a result, with the event it publishes.\<close>

definition drand_loop_step :: "drand_result \<Rightarrow> DrandBeacon \<Rightarrow> DrandBeacon \<times> event list" where
  "drand_loop_step r db =
     (updateLatestDrandRound (dr_Round r) (cacheValue (newBeaconEntryFromDrandResult r) db),
      [Ev_beacon_newEntry (NewBeaconEntry (dr_Round r) (dr_Randomness r)
         [(''signature'', Some (dr_Signature r))])])"

fun drand_loop :: "drand_result list \<Rightarrow> DrandBeacon \<Rightarrow> DrandBeacon \<times> event list" where
  "drand_loop [] db = (db, [])"
| "drand_loop (r # rs) db =
     (case drand_loop_step r db of (db1, ev) \<Rightarrow>
      case drand_loop rs db1 of (db2, evs) \<Rightarrow> (db2, ev @ evs))"

text \<open>\<open>Run\<close> fetches the latest result, then the loop handles \<open>results\<close>.\<close>

definition drand_Run :: "drand_lib \<Rightarrow> drand_result list \<Rightarrow> DrandBeacon \<Rightarrow> DrandBeacon \<times> event list \<times> unit res" where
  "drand_Run dl results db =
     (case getLatestDrandResult dl db of
        (db1, Ok _) \<Rightarrow> (case drand_loop results db1 of (db2, evs) \<Rightarrow> (db2, evs, Ok ()))
      | (db1, Err e) \<Rightarrow> (db1, [], Err e)
      | (db1, Panic) \<Rightarrow> (db1, [], Panic))"

definition drand_Entry :: "drand_lib \<Rightarrow> DrandBeacon \<Rightarrow> u64 \<Rightarrow> BeaconEntry res" where
  "drand_Entry dl db round =
     (case (if round \<noteq> 0 then getCachedValue db round else None) of
        Some be \<Rightarrow> Ok be
      | None \<Rightarrow> bind_res (wrap_res ''drand failed Get request'' (dl_Get dl round)) (\<lambda>resp.
          Ok (newBeaconEntryFromDrandResult resp)))"

text \<open>The type assertion on the metadata panics on a missing value or one of another type.\<close>

definition metadata_signature :: "BeaconEntry \<Rightarrow> bytes res" where
  "metadata_signature e =
     (case map_of (be_Metadata e) ''signature'' of
        Some (Some s) \<Rightarrow> Ok s
      | _ \<Rightarrow> Panic)"

definition drand_VerifyEntry :: "drand_lib \<Rightarrow> DrandBeacon \<Rightarrow> BeaconEntry \<Rightarrow> BeaconEntry \<Rightarrow> unit res" where
  "drand_VerifyEntry dl db cur prev =
     (if be_Round prev = 0 then Ok ()
      else if getCachedValue db (be_Round cur) \<noteq> None then Ok ()
      else bind_res (metadata_signature prev) (\<lambda>previousSig.
           bind_res (metadata_signature cur) (\<lambda>s.
             dl_VerifyBeacon dl (db_PublicKey db) previousSig (be_Round cur) s)))"

definition drand_LatestBeaconRound :: "DrandBeacon \<Rightarrow> u64" where
  "drand_LatestBeaconRound db = db_latestDrandRound db"

definition drand_api :: "drand_lib \<Rightarrow> DrandBeacon \<Rightarrow> BeaconAPI" where
  "drand_api dl db =
     \<lparr>api_Entry = drand_Entry dl db, api_VerifyEntry = drand_VerifyEntry dl db,
      api_LatestBeaconRound = drand_LatestBeaconRound db\<rparr>"

section \<open>Lemmas\<close>

lemma draw_preimage_inj:
  assumes "\<And>x. length (cr_Blake2b C x) = 32"
    and "draw_preimage C rbase rt round entropy = draw_preimage C rbase' rt' round' entropy'"
  shows "rt = rt' \<and> cr_Blake2b C rbase = cr_Blake2b C rbase' \<and> round = round' \<and> entropy = entropy'"
  using assms by (auto simp: draw_preimage_def)

lemma network_loop_Some:
  "network_loop bn e n = Some b \<longleftrightarrow>
   (\<exists>i<n. bn_Start (bn ! i) \<le> e \<and> b = bn_Beacon (bn ! i)
      \<and> (\<forall>j. i < j \<and> j < n \<longrightarrow> \<not> bn_Start (bn ! j) \<le> e))"
proof (induction n)
  case (Suc n)
  show ?case
  proof (cases "bn_Start (bn ! n) \<le> e")
    case True
    then show ?thesis by (auto simp: less_Suc_eq)
  next
    case False
    then show ?thesis using Suc by (auto simp: less_Suc_eq)
  qed
qed simp

lemma network_loop_None: "network_loop bn e n = None \<Longrightarrow> i < n \<Longrightarrow> \<not> bn_Start (bn ! i) \<le> e"
  by (induction n) (auto split: if_splits simp: less_Suc_eq)

lemmas drand_cache_defs = cacheValue_def updateLatestDrandRound_def getCachedValue_def
  newBeaconEntryFromDrandResult_def NewBeaconEntry_def metadata_signature_def

definition drand_cached :: "DrandBeacon \<Rightarrow> bool" where
  "drand_cached db \<longleftrightarrow>
     (\<forall>n e. db_localCache db n = Some e \<longrightarrow> be_Round e = n \<and> metadata_signature e \<noteq> Panic)"

definition drand_inv :: "DrandBeacon \<Rightarrow> bool" where
  "drand_inv db \<longleftrightarrow> drand_cached db \<and> db_localCache db (db_latestDrandRound db) \<noteq> None"

lemma drand_cached_new:
  "NewDrandBeacon dl info servers ps = Ok db \<Longrightarrow> drand_cached db"
  by (cases "dl_Wrap dl servers ps") (auto simp: NewDrandBeacon_def drand_cached_def res_simps)

lemma drand_inv_step:
  assumes "drand_cached db"
  shows "drand_inv (updateLatestDrandRound (dr_Round r) (cacheValue (newBeaconEntryFromDrandResult r) db))"
  using assms by (auto simp: drand_inv_def drand_cached_def drand_cache_defs)

lemma drand_loop_Cons:
  "fst (drand_loop (r # rs) db) = fst (drand_loop rs (fst (drand_loop_step r db)))"
  "snd (drand_loop (r # rs) db) = snd (drand_loop_step r db) @ snd (drand_loop rs (fst (drand_loop_step r db)))"
  by (simp_all add: case_prod_beta)

lemma drand_inv_loop: "drand_inv db \<Longrightarrow> drand_inv (fst (drand_loop rs db))"
proof (induction rs arbitrary: db)
  case (Cons r rs)
  have "drand_cached db" using Cons.prems by (simp add: drand_inv_def)
  then have "drand_inv (fst (drand_loop_step r db))" by (simp add: drand_loop_step_def drand_inv_step)
  from Cons.IH [OF this] show ?case by (simp add: drand_loop_Cons del: drand_loop.simps)
qed simp

lemma drand_loop_events:
  "snd (drand_loop rs db) = map (\<lambda>r. Ev_beacon_newEntry (newBeaconEntryFromDrandResult r)) rs"
proof (induction rs arbitrary: db)
  case (Cons r rs)
  show ?case unfolding drand_loop_Cons Cons
    by (simp add: drand_loop_step_def newBeaconEntryFromDrandResult_def)
qed simp

lemma drand_loop_latest:
  "db_latestDrandRound (fst (drand_loop rs db)) = (if rs = [] then db_latestDrandRound db else dr_Round (last rs))"
proof (induction rs arbitrary: db)
  case (Cons r rs)
  show ?case unfolding drand_loop_Cons Cons
    by (simp add: drand_loop_step_def updateLatestDrandRound_def)
qed simp

lemma vrf_roundtrip:
  assumes "signature_scheme C" "cr_IDFromPrivateKey C sk = Ok worker" "ComputeVRF C sk base = Ok vrf"
  shows "VerifyVRF C worker base vrf = Ok ()"
  using signature_scheme.sign_verifies [OF assms(1,2), of base vrf] assms(3)
  by (auto simp: VerifyVRF_def ComputeVRF_def)

section \<open>Properties\<close>

text \<open>Election randomness is bound to its inputs: two draws that give the same bytes used the
  same randomness type, base digest, round and entropy, unless two different inputs collide
  under BLAKE2b-256.\<close>

lemma draw_randomness_binding:
  assumes "\<And>x. length (cr_Blake2b C x) = 32"
    and "DrawRandomness C rbase rt round entropy = DrawRandomness C rbase' rt' round' entropy'"
  shows "(rt = rt' \<and> cr_Blake2b C rbase = cr_Blake2b C rbase' \<and> round = round' \<and> entropy = entropy')
    \<or> (\<exists>x y. x \<noteq> y \<and> cr_Blake2b C x = cr_Blake2b C y)"
proof (cases "draw_preimage C rbase rt round entropy = draw_preimage C rbase' rt' round' entropy'")
  case True
  from draw_preimage_inj [OF assms(1) this] show ?thesis by (rule disjI1)
next
  case False
  then show ?thesis using assms(2) unfolding DrawRandomness_def by blast
qed

text \<open>For every round at or after the start of some network, \<open>BeaconNetworkForRound\<close> returns
  the beacon of the last listed network that has started; before any start it returns the
  first network's.\<close>

lemma beacon_network_for_round:
  assumes "bn \<noteq> []"
  shows "BeaconNetworkForRound bn e = Ok b \<longleftrightarrow>
    (\<exists>i < length bn. bn_Start (bn ! i) \<le> e \<and> b = bn_Beacon (bn ! i)
       \<and> (\<forall>j. i < j \<and> j < length bn \<longrightarrow> \<not> bn_Start (bn ! j) \<le> e))
    \<or> ((\<forall>i < length bn. \<not> bn_Start (bn ! i) \<le> e) \<and> b = bn_Beacon (bn ! 0))"
proof (cases "network_loop bn e (length bn)")
  case None
  have "\<not> bn_Start (bn ! i) \<le> e" if "i < length bn" for i
    using network_loop_None None that by blast
  with None assms show ?thesis by (cases bn) (auto simp: BeaconNetworkForRound_def)
next
  case (Some c)
  then have "BeaconNetworkForRound bn e = Ok b \<longleftrightarrow> network_loop bn e (length bn) = Some b"
    by (simp add: BeaconNetworkForRound_def)
  moreover from Some have "\<exists>i < length bn. bn_Start (bn ! i) \<le> e"
    unfolding network_loop_Some by blast
  ultimately show ?thesis unfolding network_loop_Some by blast
qed

text \<open>Whatever results the drand network delivers after a successful start, the latest round is
  the round of the last result, its entry is in the cache with that round and a signature,
  so \<open>Entry\<close> answers for it without the network, and every result is published once, in order.\<close>

lemma drand_latest_is_cached:
  assumes "NewDrandBeacon dl info servers ps = Ok db0" "drand_Run dl results db0 = (db, evs, Ok ())"
    and "drand_LatestBeaconRound db \<noteq> 0"
  shows "(\<exists>e. drand_Entry dl' db (drand_LatestBeaconRound db) = Ok e
        \<and> be_Round e = drand_LatestBeaconRound db \<and> metadata_signature e \<noteq> Panic)
    \<and> evs = map (\<lambda>r. Ev_beacon_newEntry (newBeaconEntryFromDrandResult r)) results
    \<and> (results = [] \<or> drand_LatestBeaconRound db = dr_Round (last results))"
proof -
  obtain first where get: "dl_Get dl 0 = Ok first"
    using assms(2) by (cases "dl_Get dl 0") (simp_all add: drand_Run_def getLatestDrandResult_def)
  define db1 where "db1 = updateLatestDrandRound (dr_Round first)
      (cacheValue (newBeaconEntryFromDrandResult first) db0)"
  have run: "drand_loop results db1 = (db, evs)"
    using assms(2) get
    by (simp add: drand_Run_def getLatestDrandResult_def db1_def split: prod.splits)
  have "drand_inv db1"
    unfolding db1_def by (rule drand_inv_step [OF drand_cached_new [OF assms(1)]])
  then have inv: "drand_inv db" using drand_inv_loop [of db1 results] run by simp
  then obtain e where "db_localCache db (db_latestDrandRound db) = Some e" "drand_cached db"
    by (auto simp: drand_inv_def)
  then show ?thesis
    using assms(3) drand_loop_events [of results db1] drand_loop_latest [of results db1] run
    by (auto simp: drand_Entry_def getCachedValue_def drand_LatestBeaconRound_def drand_cached_def)
qed

definition demo_drand :: drand_lib where
  "demo_drand = \<lparr>dl_InfoFromJSON = (\<lambda>s. Ok [1]), dl_NewWithInfo = (\<lambda>u i. Ok ()), dl_Wrap = (\<lambda>c p. Ok ()),
     dl_Get = (\<lambda>n. Ok \<lparr>dr_Round = 41, dr_Randomness = [5], dr_Signature = [6]\<rparr>),
     dl_VerifyBeacon = (\<lambda>pk p n s. Ok ())\<rparr>"

text \<open>A current entry whose round is cached is accepted whatever its data and signature are, and
  so is every entry when the previous round is 0; otherwise acceptance is the verdict of the
  drand verification on the two signatures.\<close>

lemma drand_verify_entry_accepts:
  "drand_VerifyEntry dl db cur prev = Ok () \<longleftrightarrow>
    be_Round prev = 0 \<or> (\<exists>e. getCachedValue db (be_Round cur) = Some e)
    \<or> (\<exists>p s. metadata_signature prev = Ok p \<and> metadata_signature cur = Ok s
        \<and> dl_VerifyBeacon dl (db_PublicKey db) p (be_Round cur) s = Ok ())"
  by (auto simp: drand_VerifyEntry_def res_simps)

end
