(* ===== verification/Rpc_Validation.thy ===== *)
theory Rpc_Validation
  imports Reference_Libs
begin

text \<open>
  The registry of RPC methods (\<open>rpc/rpc.go\<close>), the registry of payload validators
  (\<open>consensus/validation\<close>) and the validators of the \<open>filecoin\<close> and \<open>solana\<close> packages. A registry
  is the value of the package's global map. The \<open>init\<close> functions that fill the validator
  registry are in packages that no package of the program imports, so the registry the
  program runs with is \<open>program_validations\<close>, the empty one.
\<close>

type_synonym rpc_method = "string \<Rightarrow> bytes res"
type_synonym rpc_table = "u8 \<Rightarrow> (string \<Rightarrow> rpc_method option) option"
type_synonym validator = "DioneTask \<Rightarrow> unit res"
type_synonym validation_table = "u8 \<Rightarrow> (string \<Rightarrow> validator option) option"

definition RPCTypeEthereum :: u8 where
  "RPCTypeEthereum = 0"

definition RPCTypeFilecoin :: u8 where
  "RPCTypeFilecoin = 1"

definition RPCTypeSolana :: u8 where
  "RPCTypeSolana = 2"

definition RegisterRPC :: "u8 \<Rightarrow> (string \<Rightarrow> rpc_method option) \<Rightarrow> rpc_table \<Rightarrow> rpc_table" where
  "RegisterRPC rpcType rpcMethods rpcs = rpcs(rpcType := Some rpcMethods)"

definition GetRPCMethod :: "rpc_table \<Rightarrow> u8 \<Rightarrow> string \<Rightarrow> rpc_method option" where
  "GetRPCMethod rpcs rpcType rpcMethodName =
     (case rpcs rpcType of None \<Rightarrow> None | Some rpcMethods \<Rightarrow> rpcMethods rpcMethodName)"

definition RegisterValidation :: "u8 \<Rightarrow> (string \<Rightarrow> validator option) \<Rightarrow> validation_table \<Rightarrow> validation_table" where
  "RegisterValidation typ methods validations = validations(typ := Some methods)"

definition GetValidationMethod :: "validation_table \<Rightarrow> u8 \<Rightarrow> string \<Rightarrow> validator option" where
  "GetValidationMethod validations typ methodName =
     (case validations typ of None \<Rightarrow> None | Some rpcMethods \<Rightarrow> rpcMethods methodName)"

definition VerifyExactMatching :: "rpc_table \<Rightarrow> validator" where
  "VerifyExactMatching rpcs task =
     (case GetRPCMethod rpcs (tk_OriginChain task) (tk_RequestType task) of
        None \<Rightarrow> Err (Errorf ''invalid RPC method'')
      | Some rpcMethod \<Rightarrow>
          bind_res (wrap_res ''failed to invoke RPC method'' (rpcMethod (tk_RequestParams task))) (\<lambda>r.
            guard_res (r = tk_Payload task) ''actual rpc response doesn't match with task's payload''))"

definition filecoin_ValidateGetTransaction :: "rpc_table \<Rightarrow> validator" where
  "filecoin_ValidateGetTransaction rpcs task = VerifyExactMatching rpcs task"

definition filecoin_ValidateGetBlock :: "rpc_table \<Rightarrow> validator" where
  "filecoin_ValidateGetBlock rpcs task = VerifyExactMatching rpcs task"

definition solana_ValidateGetTransaction :: "rpc_table \<Rightarrow> validator" where
  "solana_ValidateGetTransaction rpcs task = VerifyExactMatching rpcs task"

definition filecoin_init :: "rpc_table \<Rightarrow> validation_table \<Rightarrow> validation_table" where
  "filecoin_init rpcs =
     RegisterValidation RPCTypeFilecoin
       [''getTransaction'' \<mapsto> filecoin_ValidateGetTransaction rpcs,
        ''getBlock'' \<mapsto> filecoin_ValidateGetBlock rpcs]"

definition solana_init :: "rpc_table \<Rightarrow> validation_table \<Rightarrow> validation_table" where
  "solana_init rpcs =
     RegisterValidation RPCTypeSolana [''getTransaction'' \<mapsto> solana_ValidateGetTransaction rpcs]"

definition program_validations :: validation_table where
  "program_validations = (\<lambda>_. None)"

lemma program_has_no_validation [simp]: "GetValidationMethod program_validations typ m = None"
  by (simp add: GetValidationMethod_def program_validations_def)

lemma VerifyExactMatching_Ok_iff:
  "VerifyExactMatching rpcs task = Ok () \<longleftrightarrow>
   (\<exists>f. GetRPCMethod rpcs (tk_OriginChain task) (tk_RequestType task) = Some f
      \<and> f (tk_RequestParams task) = Ok (tk_Payload task))"
  by (auto simp: VerifyExactMatching_def res_simps split: option.splits)

section \<open>Properties\<close>

text \<open>With both validator packages registered, exactly the Filecoin methods \<open>getTransaction\<close> and
  \<open>getBlock\<close> and the Solana method \<open>getTransaction\<close> have a validator, and it accepts a task
  exactly when the origin chain's registered RPC method, called with the task's parameters,
  returns the task's payload.\<close>

lemma registered_validation:
  "(case GetValidationMethod (filecoin_init rpcs (solana_init rpcs program_validations))
        (tk_OriginChain task) (tk_RequestType task) of
      None \<Rightarrow> (tk_OriginChain task, tk_RequestType task) \<notin>
        {(RPCTypeFilecoin, ''getTransaction''), (RPCTypeFilecoin, ''getBlock''), (RPCTypeSolana, ''getTransaction'')}
    | Some f \<Rightarrow> (tk_OriginChain task, tk_RequestType task) \<in>
        {(RPCTypeFilecoin, ''getTransaction''), (RPCTypeFilecoin, ''getBlock''), (RPCTypeSolana, ''getTransaction'')}
        \<and> (f task = Ok () \<longleftrightarrow>
            (\<exists>m. GetRPCMethod rpcs (tk_OriginChain task) (tk_RequestType task) = Some m
               \<and> m (tk_RequestParams task) = Ok (tk_Payload task))))"
  by (auto simp: GetValidationMethod_def filecoin_init_def solana_init_def RegisterValidation_def
      RPCTypeFilecoin_def RPCTypeSolana_def filecoin_ValidateGetTransaction_def program_validations_def
      filecoin_ValidateGetBlock_def solana_ValidateGetTransaction_def VerifyExactMatching_Ok_iff
      split: option.splits if_splits)

end
