(* ===== verification/Blockchain.thy ===== *)
theory Blockchain
  imports Memory_Database Lmdb_Database Beacon Rpc_Validation
begin

text \<open>
  The chain (\<open>blockchain/blockchain.go\<close>): validation and storage of blocks, over any block
  database. The collaborators of a chain are the record \<open>chain_env\<close>; the Ethereum side, the
  interface \<open>EthereumSideAPI\<close>, is the record \<open>eth_api\<close> (\<open>ethclient\<close>).

  The transactions of a block are checked by one goroutine each. They share the variable
  \<open>err\<close> of the enclosing function, so a goroutine has two steps: up to the write of \<open>err\<close>, and
  from the read of \<open>err\<close> on. A schedule is the list of goroutine numbers in the order of their
  steps; every interleaving is a schedule.
\<close>

section \<open>Collaborators\<close>

record eth_api =
  eth_GetEthAddress :: address
  eth_GetTotalStake :: "int res"
  eth_GetMinerStake :: "address \<Rightarrow> int res"
  eth_SubmitRequestAnswer :: "int \<Rightarrow> bytes \<Rightarrow> unit res"
  eth_BeginDispute :: "address \<Rightarrow> int \<Rightarrow> unit res"
  eth_VoteDispute :: "bytes \<Rightarrow> bool \<Rightarrow> unit res"
  eth_FinishDispute :: "bytes \<Rightarrow> unit res"

record 'd chain_env =
  env_db :: "'d Database"
  env_C :: crypto
  env_M :: merkle
  env_K :: codec
  env_eth :: eth_api
  env_Entry :: "u64 \<Rightarrow> BeaconEntry res"
  env_validations :: validation_table

definition MinMinerStake :: int where
  "MinMinerStake = 1000"

definition IsMinerEligibleToProposeBlock :: "eth_api \<Rightarrow> address \<Rightarrow> unit res" where
  "IsMinerEligibleToProposeBlock E ethAddress =
     bind_res (eth_GetMinerStake E ethAddress) (\<lambda>mStake.
       guard_res (\<not> mStake < MinMinerStake) ''miner doesn't have enough staked tokens'')"

definition GetStakeInfo :: "eth_api \<Rightarrow> address \<Rightarrow> (int \<times> int) res" where
  "GetStakeInfo E miner =
     bind_res (eth_GetMinerStake E miner) (\<lambda>mStake.
     bind_res (eth_GetTotalStake E) (\<lambda>nStake.
       Ok (mStake, nStake)))"

section \<open>Validation of the header\<close>

definition verify_block_signature :: "crypto \<Rightarrow> BlockHeader \<Rightarrow> unit res" where
  "verify_block_signature C hdr =
     bind_res (deref (hd_Proposer hdr)) (\<lambda>proposer.
     bind_res (wrap_res ''unable to extract public key from block proposer's peer id''
       (cr_ExtractPublicKey C proposer)) (\<lambda>pubkey.
     bind_res (wrap_res ''failed to verify block signature''
       (cr_Verify C pubkey (hd_Hash hdr) (hd_Signature hdr))) (\<lambda>ok.
       guard_res ok ''signature of block is invalid'')))"

definition check_last_hash :: "'d chain_env \<Rightarrow> 'd \<Rightarrow> BlockHeader \<Rightarrow> unit res" where
  "check_last_hash env d hdr =
     bind_res (db_GetLatestBlockHeight (env_db env) d) (\<lambda>latestHeight.
     bind_res (db_FetchBlockHeaderByHeight (env_db env) d latestHeight) (\<lambda>previousBlockHeader.
     bind_res (guard_res (hd_LastHash hdr = hd_Hash previousBlockHeader)
       ''block header has invalid last block hash'') (\<lambda>_.
     bind_res (wrap_res ''failed to verify last block hash merkle proof''
       (mt_VerifyProofUsing (env_M env) (hd_Hash previousBlockHeader) True (hd_LastHashProof hdr) [hd_Hash hdr]))
       (\<lambda>verified. guard_res verified ''merkle hash of block doesn't contain hash of previous block''))))"

definition check_election :: "'d chain_env \<Rightarrow> BlockHeader \<Rightarrow> unit res" where
  "check_election env hdr =
     bind_res (deref (hd_ElectionProof hdr)) (\<lambda>ep.
     bind_res (guard_res (\<not> ep_WinCount ep < 1) ''block proposer is not a winner'') (\<lambda>_.
     bind_res (wrap_res ''block proposer is not eligible to propose block''
       (IsMinerEligibleToProposeBlock (env_eth env) (hd_ProposerEth hdr))) (\<lambda>_.
     bind_res (deref (hd_Proposer hdr)) (\<lambda>proposer.
     bind_res (cr_MarshalBinary (env_C env) proposer) (\<lambda>proposerBuf.
     bind_res (env_Entry env (ep_RandomnessRound ep)) (\<lambda>entry.
     bind_res (wrap_res ''failed to draw ElectionProof randomness''
       (DrawRandomness (env_C env) (be_Data entry) RandomnessTypeElectionProofProduction
          (hd_Height hdr) proposerBuf)) (\<lambda>eproofRandomness.
     bind_res (wrap_res ''failed to verify election proof vrf''
       (VerifyVRF (env_C env) proposer eproofRandomness (ep_VRFProof ep))) (\<lambda>_.
     bind_res (wrap_res ''failed to get miner stake''
       (GetStakeInfo (env_eth env) (hd_ProposerEth hdr))) (\<lambda>(mStake, nStake).
     bind_res (ComputeWinCount (cr_Blake2b (env_C env)) ep mStake nStake) (\<lambda>actualWinCount.
       guard_res (ep_WinCount ep = actualWinCount)
         ''locally computed wincount of block is not matching to the received value''))))))))))"

definition ValidateBlock_header :: "'d chain_env \<Rightarrow> 'd \<Rightarrow> BlockHeader \<Rightarrow> unit res" where
  "ValidateBlock_header env d hdr =
     bind_res (verify_block_signature (env_C env) hdr) (\<lambda>_.
     bind_res (check_last_hash env d hdr) (\<lambda>_.
       check_election env hdr))"

section \<open>Validation of the transactions\<close>

datatype worker = Ready | Decoded DioneTask | Done

record workers =
  w_states :: "worker list"
  w_err :: "go_error option"
  w_sent :: "unit res list"

text \<open>
  The first step of a goroutine: verify the transaction, decode its payload, write \<open>err\<close>.
  The second: read \<open>err\<close>, then look up and run the payload validator. \<open>w_sent\<close> collects what
  goes into the channel (and panics), in order.
\<close>

definition worker_start :: "'d chain_env \<Rightarrow> BlockHeader \<Rightarrow> Transaction option \<Rightarrow> nat \<Rightarrow> workers \<Rightarrow> workers" where
  "worker_start env hdr v i w =
     (case VerifyTx (env_C env) (env_M env) hdr v of
        Err e \<Rightarrow> w\<lparr>w_states := (w_states w)[i := Done],
          w_sent := w_sent w @ [Err (Wrapf ''failed to verify tx'' e)]\<rparr>
      | Panic \<Rightarrow> w\<lparr>w_states := (w_states w)[i := Done], w_sent := w_sent w @ [Panic]\<rparr>
      | Ok _ \<Rightarrow> (case unmarshal_task (env_K env) (tx_Data (the v)) of
          (task, e) \<Rightarrow> w\<lparr>w_states := (w_states w)[i := Decoded task], w_err := e\<rparr>))"

definition worker_finish :: "'d chain_env \<Rightarrow> DioneTask \<Rightarrow> nat \<Rightarrow> workers \<Rightarrow> workers" where
  "worker_finish env task i w =
     (let w' = w\<lparr>w_states := (w_states w)[i := Done]\<rparr> in
      case w_err w of
        Some e \<Rightarrow> w'\<lparr>w_sent := w_sent w @ [Err (Wrapf ''failed to unmarshal transaction payload'' e)]\<rparr>
      | None \<Rightarrow> (case GetValidationMethod (env_validations env) (tk_OriginChain task) (tk_RequestType task) of
            None \<Rightarrow> w'
          | Some validationFunc \<Rightarrow> (case validationFunc task of
                Ok _ \<Rightarrow> w'
              | Err e \<Rightarrow> w'\<lparr>w_sent := w_sent w @ [Err (Wrapf ''payload validation has been failed'' e)]\<rparr>
              | Panic \<Rightarrow> w'\<lparr>w_sent := w_sent w @ [Panic]\<rparr>)))"

definition worker_step :: "'d chain_env \<Rightarrow> Block \<Rightarrow> nat \<Rightarrow> workers \<Rightarrow> workers" where
  "worker_step env b i w =
     (if i < length (w_states w)
      then case w_states w ! i of
             Ready \<Rightarrow> worker_start env (blk_Header b) (blk_Data b ! i) i w
           | Decoded task \<Rightarrow> worker_finish env task i w
           | Done \<Rightarrow> w
      else w)"

definition workers_init :: "Block \<Rightarrow> workers" where
  "workers_init b = \<lparr>w_states = map (\<lambda>_. Ready) (blk_Data b), w_err = None, w_sent = []\<rparr>"

text \<open>
  Every goroutine runs to its end: after the scheduled steps, whatever is left runs in order
  of the transactions. A panic in any goroutine ends the process; otherwise the first error
  received is returned.
\<close>

definition run_schedule :: "'d chain_env \<Rightarrow> Block \<Rightarrow> nat list \<Rightarrow> workers" where
  "run_schedule env b sched =
     fold (worker_step env b) (sched @ concat (map (\<lambda>i. [i, i]) [0..<length (blk_Data b)])) (workers_init b)"

definition validate_txs :: "'d chain_env \<Rightarrow> nat list \<Rightarrow> Block \<Rightarrow> unit res" where
  "validate_txs env sched b =
     (let sent = w_sent (run_schedule env b sched) in
      if Panic \<in> set sent then Panic else case sent of [] \<Rightarrow> Ok () | e # _ \<Rightarrow> e)"

definition ValidateBlock :: "'d chain_env \<Rightarrow> nat list \<Rightarrow> 'd \<Rightarrow> Block \<Rightarrow> unit res" where
  "ValidateBlock env sched d b =
     bind_res (ValidateBlock_header env d (blk_Header b)) (\<lambda>_. validate_txs env sched b)"

section \<open>Storage\<close>

definition set_latest_and_publish :: "'d chain_env \<Rightarrow> 'd \<Rightarrow> Block \<Rightarrow> 'd \<times> event list \<times> unit res" where
  "set_latest_and_publish env d block =
     (case db_SetLatestBlockHeight (env_db env) d (hd_Height (blk_Header block)) of
        (d1, Ok _) \<Rightarrow> (d1, [Ev_latestBlockHeightUpdated block, Ev_blockCommitted block], Ok ())
      | (d1, Err e) \<Rightarrow> (d1, [], Err e)
      | (d1, Panic) \<Rightarrow> (d1, [], Panic))"

definition StoreBlock :: "'d chain_env \<Rightarrow> nat list \<Rightarrow> 'd \<Rightarrow> Block \<Rightarrow> 'd \<times> event list \<times> unit res" where
  "StoreBlock env sched d block =
     (case db_HasBlock (env_db env) d (hd_Hash (blk_Header block)) of
        Err e \<Rightarrow> (d, [], Err e)
      | Panic \<Rightarrow> (d, [], Panic)
      | Ok True \<Rightarrow> (d, [], Ok ())
      | Ok False \<Rightarrow>
     (case (if hd_Height (blk_Header block) \<noteq> 0
            then wrap_res ''failed to store block'' (ValidateBlock env sched d block) else Ok ()) of
        Err e \<Rightarrow> (d, [], Err e)
      | Panic \<Rightarrow> (d, [], Panic)
      | Ok _ \<Rightarrow>
     (case db_StoreBlock (env_db env) d block of
        (d1, Err e) \<Rightarrow> (d1, [], Err e)
      | (d1, Panic) \<Rightarrow> (d1, [], Panic)
      | (d1, Ok _) \<Rightarrow>
     (case db_GetLatestBlockHeight (env_db env) d1 of
        Panic \<Rightarrow> (d1, [], Panic)
      | Err e \<Rightarrow>
          if e \<noteq> ErrLatestHeightNil then (d1, [], Err e)
          else set_latest_and_publish env d1 block
      | Ok height \<Rightarrow>
          if height < hd_Height (blk_Header block) then set_latest_and_publish env d1 block
          else (d1, [Ev_blockCommitted block], Ok ())))))"

section \<open>Reading\<close>

text \<open>The chain hands every read to its database.\<close>

definition bc_GetLatestBlockHeight :: "'d chain_env \<Rightarrow> 'd \<Rightarrow> u64 res" where
  "bc_GetLatestBlockHeight env d = db_GetLatestBlockHeight (env_db env) d"

definition bc_HasBlock :: "'d chain_env \<Rightarrow> 'd \<Rightarrow> bytes \<Rightarrow> bool res" where
  "bc_HasBlock env d blockHash = db_HasBlock (env_db env) d blockHash"

definition bc_FetchBlockData :: "'d chain_env \<Rightarrow> 'd \<Rightarrow> bytes \<Rightarrow> Transaction option list res" where
  "bc_FetchBlockData env d blockHash = db_FetchBlockData (env_db env) d blockHash"

definition bc_FetchBlockHeader :: "'d chain_env \<Rightarrow> 'd \<Rightarrow> bytes \<Rightarrow> BlockHeader res" where
  "bc_FetchBlockHeader env d blockHash = db_FetchBlockHeader (env_db env) d blockHash"

definition bc_FetchBlock :: "'d chain_env \<Rightarrow> 'd \<Rightarrow> bytes \<Rightarrow> Block res" where
  "bc_FetchBlock env d blockHash = db_FetchBlock (env_db env) d blockHash"

definition bc_FetchBlockByHeight :: "'d chain_env \<Rightarrow> 'd \<Rightarrow> u64 \<Rightarrow> Block res" where
  "bc_FetchBlockByHeight env d height = db_FetchBlockByHeight (env_db env) d height"

definition bc_FetchBlockHeaderByHeight :: "'d chain_env \<Rightarrow> 'd \<Rightarrow> u64 \<Rightarrow> BlockHeader res" where
  "bc_FetchBlockHeaderByHeight env d height = db_FetchBlockHeaderByHeight (env_db env) d height"

lemmas bc_reads = bc_GetLatestBlockHeight_def bc_HasBlock_def bc_FetchBlockData_def bc_FetchBlockHeader_def
  bc_FetchBlock_def bc_FetchBlockByHeight_def bc_FetchBlockHeaderByHeight_def

end
