(* ===== verification/Block_Validation.thy ===== *)
theory Block_Validation
  imports Blockchain
begin

text \<open>
  What block validation guarantees: the concurrent check of the transactions for every
  schedule, and the meaning of a successful \<open>ValidateBlock\<close>.
\<close>

section \<open>Goroutines\<close>

lemma worker_step_length [simp]: "length (w_states (worker_step env b i w)) = length (w_states w)"
  by (simp add: worker_step_def worker_start_def worker_finish_def Let_def
      split: worker.splits res.splits prod.splits option.splits)

lemma worker_step_other [simp]:
  "j \<noteq> i \<Longrightarrow> w_states (worker_step env b i w) ! j = w_states w ! j"
  by (simp add: worker_step_def worker_start_def worker_finish_def Let_def
      split: worker.splits res.splits prod.splits option.splits)

lemma worker_step_Done:
  "w_states w ! j = Done \<Longrightarrow> w_states (worker_step env b i w) ! j = Done"
proof (cases "i = j")
  case True
  then show "w_states w ! j = Done \<Longrightarrow> w_states (worker_step env b i w) ! j = Done"
    by (simp add: worker_step_def)
qed simp

lemma fold_worker_length [simp]: "length (w_states (fold (worker_step env b) is w)) = length (w_states w)"
  by (induction "is" arbitrary: w) simp_all

lemma fold_worker_Done:
  "w_states w ! j = Done \<Longrightarrow> w_states (fold (worker_step env b) is w) ! j = Done"
  by (induction "is" arbitrary: w) (simp_all add: worker_step_Done)

lemma worker_start_advances:
  "i < length (w_states w) \<Longrightarrow> w_states (worker_start env hdr v i w) ! i \<noteq> Ready"
  by (simp add: worker_start_def split: res.splits prod.splits)

lemma worker_finish_Done:
  "i < length (w_states w) \<Longrightarrow> w_states (worker_finish env task i w) ! i = Done"
  by (simp add: worker_finish_def Let_def split: res.splits option.splits)

lemma worker_two_steps:
  assumes "i < length (w_states w)"
  shows "w_states (worker_step env b i (worker_step env b i w)) ! i = Done"
proof -
  have step: "w_states (worker_step env b i v) ! i = Done"
    if "i < length (w_states v)" "w_states v ! i \<noteq> Ready" for v
    using that by (cases "w_states v ! i") (simp_all add: worker_step_def worker_finish_Done)
  have "w_states (worker_step env b i w) ! i \<noteq> Ready"
    using assms worker_start_advances [OF assms, of env "blk_Header b" "blk_Data b ! i"]
    by (cases "w_states w ! i") (auto simp: worker_step_def worker_finish_Done)
  then show ?thesis using assms by (intro step) simp_all
qed

lemma all_workers_Done:
  assumes "n \<le> length (w_states w)" "j < n"
  shows "w_states (fold (worker_step env b) (concat (map (\<lambda>i. [i, i]) [0..<n])) w) ! j = Done"
  using assms
proof (induction n)
  case (Suc n)
  let ?w = "fold (worker_step env b) (concat (map (\<lambda>i. [i, i]) [0..<n])) w"
  show ?case
  proof (cases "j = n")
    case True
    then show ?thesis using Suc.prems worker_two_steps [of n ?w env b] by simp
  next
    case False
    then have "w_states ?w ! j = Done" using Suc by simp
    then show ?thesis by (simp add: worker_step_Done)
  qed
qed simp

lemma length_workers_init [simp]: "length (w_states (workers_init b)) = length (blk_Data b)"
  by (simp add: workers_init_def)

lemma run_schedule_Done:
  "j < length (blk_Data b) \<Longrightarrow> w_states (run_schedule env b sched) ! j = Done"
  unfolding run_schedule_def fold_append comp_def by (intro all_workers_Done) simp_all

section \<open>What every schedule guarantees\<close>

definition sent_errors :: "workers \<Rightarrow> bool" where
  "sent_errors w \<longleftrightarrow> Ok () \<notin> set (w_sent w)"

definition verified_so_far :: "'d chain_env \<Rightarrow> Block \<Rightarrow> workers \<Rightarrow> bool" where
  "verified_so_far env b w \<longleftrightarrow> length (w_states w) = length (blk_Data b) \<and> sent_errors w
     \<and> (w_sent w = [] \<longrightarrow> (\<forall>j < length (blk_Data b). w_states w ! j \<noteq> Ready \<longrightarrow>
          VerifyTx (env_C env) (env_M env) (blk_Header b) (blk_Data b ! j) = Ok ()))"

lemma verified_start:
  assumes "verified_so_far env b w" "i < length (blk_Data b)"
  shows "verified_so_far env b (worker_start env (blk_Header b) (blk_Data b ! i) i w)"
  using assms unfolding verified_so_far_def sent_errors_def worker_start_def
  by (cases "VerifyTx (env_C env) (env_M env) (blk_Header b) (blk_Data b ! i)")
    (auto simp: nth_list_update split: prod.splits)

lemma verified_finish:
  assumes "verified_so_far env b w" "i < length (blk_Data b)" "w_states w ! i = Decoded task"
  shows "verified_so_far env b (worker_finish env task i w)"
  using assms unfolding verified_so_far_def sent_errors_def worker_finish_def Let_def
  by (auto simp: nth_list_update split: res.splits option.splits)

lemma verified_step:
  assumes "verified_so_far env b w"
  shows "verified_so_far env b (worker_step env b i w)"
  using assms verified_start [OF assms] verified_finish [OF assms]
  by (cases "w_states w ! i") (auto simp: worker_step_def verified_so_far_def)

lemma verified_init: "verified_so_far env b (workers_init b)"
  by (simp add: verified_so_far_def workers_init_def sent_errors_def)

lemma verified_fold: "verified_so_far env b w \<Longrightarrow> verified_so_far env b (fold (worker_step env b) is w)"
  by (induction "is" arbitrary: w) (simp_all add: verified_step)

lemma validate_txs_Ok_sent:
  assumes "validate_txs env sched b = Ok ()"
  shows "w_sent (run_schedule env b sched) = []"
proof (rule ccontr)
  assume "w_sent (run_schedule env b sched) \<noteq> []"
  then obtain e es where sent: "w_sent (run_schedule env b sched) = e # es"
    by (auto simp: neq_Nil_conv)
  have "verified_so_far env b (run_schedule env b sched)"
    unfolding run_schedule_def by (rule verified_fold [OF verified_init])
  then have "e \<noteq> Ok ()" by (auto simp: verified_so_far_def sent_errors_def sent)
  moreover have "e = Ok ()"
    using assms by (simp add: validate_txs_def Let_def sent split: if_splits)
  ultimately show False by contradiction
qed

lemma validate_txs_verified:
  assumes "validate_txs env sched b = Ok ()" "v \<in> set (blk_Data b)"
  shows "VerifyTx (env_C env) (env_M env) (blk_Header b) v = Ok ()"
proof -
  obtain j where j: "j < length (blk_Data b)" "v = blk_Data b ! j"
    using assms(2) by (auto simp: in_set_conv_nth)
  have "verified_so_far env b (run_schedule env b sched)"
    unfolding run_schedule_def by (rule verified_fold [OF verified_init])
  then show ?thesis
    using validate_txs_Ok_sent [OF assms(1)] run_schedule_Done [OF j(1), of env sched] j
    by (simp add: verified_so_far_def)
qed

section \<open>Valid transactions are accepted under every schedule\<close>

definition task_ok :: "'d chain_env \<Rightarrow> DioneTask \<Rightarrow> bool" where
  "task_ok env task \<longleftrightarrow>
     (case GetValidationMethod (env_validations env) (tk_OriginChain task) (tk_RequestType task) of
        None \<Rightarrow> True | Some f \<Rightarrow> f task = Ok ())"

definition tx_ok :: "'d chain_env \<Rightarrow> BlockHeader \<Rightarrow> Transaction option \<Rightarrow> bool" where
  "tx_ok env hdr v \<longleftrightarrow> VerifyTx (env_C env) (env_M env) hdr v = Ok ()
     \<and> (\<exists>task. unmarshal_task (env_K env) (tx_Data (the v)) = (task, None) \<and> task_ok env task)"

definition clean :: "'d chain_env \<Rightarrow> Block \<Rightarrow> workers \<Rightarrow> bool" where
  "clean env b w \<longleftrightarrow> length (w_states w) = length (blk_Data b) \<and> w_sent w = [] \<and> w_err w = None
     \<and> (\<forall>j < length (blk_Data b). \<forall>task. w_states w ! j = Decoded task \<longrightarrow> task_ok env task)"

lemma start_ok:
  assumes "tx_ok env hdr v"
  obtains task where "task_ok env task"
    "worker_start env hdr v i w = w\<lparr>w_states := (w_states w)[i := Decoded task], w_err := None\<rparr>"
  using assms that by (auto simp: tx_ok_def worker_start_def)

lemma finish_ok:
  "w_err w = None \<Longrightarrow> task_ok env task \<Longrightarrow>
   worker_finish env task i w = w\<lparr>w_states := (w_states w)[i := Done]\<rparr>"
  by (simp add: worker_finish_def task_ok_def Let_def split: option.splits)

lemma clean_step:
  assumes "clean env b w" "\<forall>v \<in> set (blk_Data b). tx_ok env (blk_Header b) v"
  shows "clean env b (worker_step env b i w)"
proof (cases "i < length (blk_Data b)")
  case True
  show ?thesis
  proof (cases "w_states w ! i")
    case Ready
    have "tx_ok env (blk_Header b) (blk_Data b ! i)" using True assms(2) by simp
    then obtain task where "task_ok env task" "worker_start env (blk_Header b) (blk_Data b ! i) i w
        = w\<lparr>w_states := (w_states w)[i := Decoded task], w_err := None\<rparr>" by (rule start_ok)
    with Ready True assms(1) show ?thesis
      by (auto simp: clean_def worker_step_def nth_list_update split: if_splits)
  next
    case (Decoded task)
    with assms(1) True have "worker_finish env task i w = w\<lparr>w_states := (w_states w)[i := Done]\<rparr>"
      by (intro finish_ok) (auto simp: clean_def)
    with Decoded True assms(1) show ?thesis
      by (auto simp: clean_def worker_step_def nth_list_update split: if_splits)
  next
    case Done
    with assms(1) show ?thesis by (simp add: clean_def worker_step_def)
  qed
next
  case False
  with assms(1) show ?thesis by (simp add: clean_def worker_step_def)
qed

lemma validate_txs_complete:
  assumes "\<forall>v \<in> set (blk_Data b). tx_ok env (blk_Header b) v"
  shows "validate_txs env sched b = Ok ()"
proof -
  have "clean env b (fold (worker_step env b) is w)" if "clean env b w" for "is" w
    using that by (induction "is" arbitrary: w) (simp_all add: clean_step [OF _ assms])
  moreover have "clean env b (workers_init b)" by (simp add: clean_def workers_init_def)
  ultimately have "clean env b (run_schedule env b sched)" unfolding run_schedule_def by blast
  then have "w_sent (run_schedule env b sched) = []" by (simp add: clean_def)
  then show ?thesis by (simp add: validate_txs_def)
qed

section \<open>One transaction after the other\<close>

text \<open>Without interleaving, a payload that cannot be decoded is reported.\<close>

lemma two_steps_rejects:
  assumes "i < length (blk_Data b)" "length (w_states w) = length (blk_Data b)" "w_states w ! i = Ready"
    and "w_sent (worker_step env b i (worker_step env b i w)) = []"
  shows "tx_ok env (blk_Header b) (blk_Data b ! i)"
proof (cases "VerifyTx (env_C env) (env_M env) (blk_Header b) (blk_Data b ! i)")
  case (Ok u)
  obtain task e where task: "unmarshal_task (env_K env) (tx_Data (the (blk_Data b ! i))) = (task, e)"
    by (cases "unmarshal_task (env_K env) (tx_Data (the (blk_Data b ! i)))")
  from assms(1-3) Ok task have "worker_step env b i w = w\<lparr>w_states := (w_states w)[i := Decoded task], w_err := e\<rparr>"
    by (simp add: worker_step_def worker_start_def)
  with assms task Ok show ?thesis
    by (cases e) (auto simp: worker_step_def worker_finish_def tx_ok_def task_ok_def Let_def
        split: option.splits res.splits)
qed (use assms in \<open>auto simp: worker_step_def worker_start_def\<close>)

lemma sent_grows: "w_sent (worker_step env b i w) = [] \<Longrightarrow> w_sent w = []"
  by (auto simp: worker_step_def worker_start_def worker_finish_def Let_def
      split: worker.splits res.splits prod.splits option.splits if_splits)

lemma sequential_tx_ok:
  assumes "n \<le> length (blk_Data b)" "w_sent (fold (worker_step env b) (concat (map (\<lambda>i. [i, i]) [0..<n])) (workers_init b)) = []"
  shows "(\<forall>j < n. tx_ok env (blk_Header b) (blk_Data b ! j))
    \<and> (\<forall>j. n \<le> j \<and> j < length (blk_Data b) \<longrightarrow>
        w_states (fold (worker_step env b) (concat (map (\<lambda>i. [i, i]) [0..<n])) (workers_init b)) ! j = Ready)"
  using assms
proof (induction n)
  case 0
  then show ?case by (simp add: workers_init_def)
next
  case (Suc n)
  let ?w = "fold (worker_step env b) (concat (map (\<lambda>i. [i, i]) [0..<n])) (workers_init b)"
  have sent: "w_sent (worker_step env b n (worker_step env b n ?w)) = []" using Suc.prems by simp
  then have "w_sent ?w = []" using sent_grows by blast
  with Suc have IH: "\<forall>j < n. tx_ok env (blk_Header b) (blk_Data b ! j)"
    "\<forall>j. n \<le> j \<and> j < length (blk_Data b) \<longrightarrow> w_states ?w ! j = Ready" by simp_all
  have "tx_ok env (blk_Header b) (blk_Data b ! n)"
    by (rule two_steps_rejects [OF _ _ _ sent]) (use Suc.prems IH(2) in simp_all)
  with IH show ?case by (auto simp: less_Suc_eq)
qed

lemma validate_txs_sequential:
  "validate_txs env [] b = Ok () \<longleftrightarrow> (\<forall>v \<in> set (blk_Data b). tx_ok env (blk_Header b) v)"
proof
  assume "validate_txs env [] b = Ok ()"
  from validate_txs_Ok_sent [OF this] have "\<forall>j < length (blk_Data b). tx_ok env (blk_Header b) (blk_Data b ! j)"
    using sequential_tx_ok [of "length (blk_Data b)" b env] by (simp add: run_schedule_def)
  then show "\<forall>v \<in> set (blk_Data b). tx_ok env (blk_Header b) v" by (auto simp: in_set_conv_nth)
qed (rule validate_txs_complete)

section \<open>The meaning of a successful validation\<close>

definition signed_by_proposer :: "crypto \<Rightarrow> BlockHeader \<Rightarrow> bool" where
  "signed_by_proposer C hdr \<longleftrightarrow> (\<exists>p pk. hd_Proposer hdr = Some p \<and> cr_ExtractPublicKey C p = Ok pk
     \<and> cr_Verify C pk (hd_Hash hdr) (hd_Signature hdr) = Ok True)"

definition elected :: "'d chain_env \<Rightarrow> BlockHeader \<Rightarrow> bool" where
  "elected env hdr \<longleftrightarrow> (\<exists>p ep buf entry stake net.
     hd_Proposer hdr = Some p \<and> hd_ElectionProof hdr = Some ep
     \<and> cr_MarshalBinary (env_C env) p = Ok buf \<and> env_Entry env (ep_RandomnessRound ep) = Ok entry
     \<and> VerifyVRF (env_C env) p
         (cr_Blake2b (env_C env) (draw_preimage (env_C env) (be_Data entry)
            RandomnessTypeElectionProofProduction (hd_Height hdr) buf)) (ep_VRFProof ep) = Ok ()
     \<and> eth_GetMinerStake (env_eth env) (hd_ProposerEth hdr) = Ok stake \<and> MinMinerStake \<le> stake
     \<and> eth_GetTotalStake (env_eth env) = Ok net
     \<and> ComputeWinCount (cr_Blake2b (env_C env)) ep stake net = Ok (ep_WinCount ep) \<and> 1 \<le> ep_WinCount ep)"

lemma verify_block_signature_iff:
  "verify_block_signature C hdr = Ok () \<longleftrightarrow> signed_by_proposer C hdr"
  by (auto simp: verify_block_signature_def signed_by_proposer_def res_simps)

lemma check_election_iff: "check_election env hdr = Ok () \<longleftrightarrow> elected env hdr"
  by (auto simp: check_election_def elected_def res_simps IsMinerEligibleToProposeBlock_def
      GetStakeInfo_def DrawRandomness_def not_less)

lemma check_last_hash_iff:
  "check_last_hash env d hdr = Ok () \<longleftrightarrow>
   (\<exists>n prev. db_GetLatestBlockHeight (env_db env) d = Ok n
      \<and> db_FetchBlockHeaderByHeight (env_db env) d n = Ok prev \<and> hd_LastHash hdr = hd_Hash prev
      \<and> mt_VerifyProofUsing (env_M env) (hd_Hash prev) True (hd_LastHashProof hdr) [hd_Hash hdr] = Ok True)"
  by (auto simp: check_last_hash_def res_simps)

lemma ValidateBlock_iff:
  "ValidateBlock env sched d b = Ok () \<longleftrightarrow>
   signed_by_proposer (env_C env) (blk_Header b) \<and> check_last_hash env d (blk_Header b) = Ok ()
   \<and> elected env (blk_Header b) \<and> validate_txs env sched b = Ok ()"
  by (simp add: ValidateBlock_def ValidateBlock_header_def res_simps verify_block_signature_iff
      check_election_iff)

end
