(* ===== verification/Chain_Safety.thy ===== *)
theory Chain_Safety
  imports Block_Validation
begin

text \<open>
  What the stored chain guarantees, for any block database that keeps the contract and any
  history of \<open>StoreBlock\<close> calls, also failing ones, with any answers of the Ethereum side, the
  beacon and the scheduler: every stored block leads back over its last-hash links to a block
  of height 0, every other block is signed, contains its predecessor's hash and its
  transactions in its Merkle root, the latest height has a block and never decreases.
\<close>

section \<open>Outcomes of storing a block\<close>

locale chain_db = block_database "env_db env" inv \<alpha>
  for env :: "'d chain_env" and inv :: "'d \<Rightarrow> bool" and \<alpha> :: "'d \<Rightarrow> abs_db"
begin

lemma set_latest_cases:
  assumes "inv d" "set_latest_and_publish env d b = (d', ev, r)"
  obtains "r = Ok ()" "ev = [Ev_latestBlockHeightUpdated b, Ev_blockCommitted b]" "inv d'"
      "\<alpha> d' = (\<alpha> d)\<lparr>a_latest := Some (blk_height b)\<rparr>"
  | e where "r = Err e" "ev = []" "inv d'" "\<alpha> d' = \<alpha> d"
proof (cases "db_SetLatestBlockHeight (env_db env) d (blk_height b)")
  case (Pair d1 q)
  show thesis
  proof (cases q)
    case (Ok u)
    with Pair set_latest_Ok [OF assms(1), of "blk_height b" d1 u] assms(2) show thesis
      by (intro that(1)) (simp_all add: set_latest_and_publish_def)
  next
    case (Err e)
    with Pair set_latest_Err [OF assms(1), of "blk_height b" d1 e] assms(2) show thesis
      by (intro that(2) [of e]) (simp_all add: set_latest_and_publish_def)
  next
    case Panic
    with Pair set_latest_no_panic [of d "blk_height b"] show thesis by simp
  qed
qed

lemma StoreBlock_known:
  assumes "inv d" "a_blocks (\<alpha> d) (blk_hash b) \<noteq> None"
  shows "StoreBlock env sched d b = (d, [], Ok ())"
  using assms by (simp add: StoreBlock_def has_block)

lemma StoreBlock_invalid:
  assumes "inv d" "a_blocks (\<alpha> d) (blk_hash b) = None" "blk_height b \<noteq> 0"
  shows "ValidateBlock env sched d b = Err e \<Longrightarrow>
      StoreBlock env sched d b = (d, [], Err (Wrapf ''failed to store block'' e))"
    and "ValidateBlock env sched d b = Panic \<Longrightarrow> StoreBlock env sched d b = (d, [], Panic)"
  using assms by (simp_all add: StoreBlock_def has_block)

lemma StoreBlock_valid:
  assumes "inv d" "a_blocks (\<alpha> d) (blk_hash b) = None"
    and "blk_height b = 0 \<or> ValidateBlock env sched d b = Ok ()"
    and "StoreBlock env sched d b = (d', ev, r)"
  obtains e where "r = Err e" "ev = []" "inv d'"
      "\<alpha> d' = \<alpha> d \<or> \<alpha> d' = (\<alpha> d)\<lparr>a_blocks := (a_blocks (\<alpha> d))(blk_hash b \<mapsto> b)\<rparr>"
  | e where "r = Err e" "ev = []" "inv d'" "\<alpha> d' = abs_store b (\<alpha> d)"
  | n where "r = Ok ()" "ev = [Ev_blockCommitted b]" "inv d'" "\<alpha> d' = abs_store b (\<alpha> d)"
      "a_latest (\<alpha> d) = Some n" "blk_height b \<le> n"
  | "r = Ok ()" "ev = [Ev_latestBlockHeightUpdated b, Ev_blockCommitted b]" "inv d'"
      "\<alpha> d' = (abs_store b (\<alpha> d))\<lparr>a_latest := Some (blk_height b)\<rparr>"
      "\<And>n. a_latest (\<alpha> d) = Some n \<Longrightarrow> n < blk_height b"
proof (cases "db_StoreBlock (env_db env) d b")
  case (Pair d1 q)
  note S = assms(4) [unfolded StoreBlock_def]
  show thesis
  proof (cases q)
    case (Err e)
    with Pair S assms(1-3) have "d' = d1" "ev = []" "r = Err e"
      by (auto simp: has_block split: if_splits)
    moreover from store_Err [OF assms(1,2), of d1 e] Pair Err
    have "inv d1" "\<alpha> d1 = \<alpha> d \<or> \<alpha> d1 = (\<alpha> d)\<lparr>a_blocks := (a_blocks (\<alpha> d))(blk_hash b \<mapsto> b)\<rparr>"
      by (auto intro!: abs_db.equality)
    ultimately show thesis by (intro that(1)) simp_all
  next
    case Panic
    with Pair store_no_panic [of d b] show thesis by simp
  next
    case (Ok u)
    with Pair store_Ok [OF assms(1,2), of d1 u] have st: "inv d1" "\<alpha> d1 = abs_store b (\<alpha> d)" by simp_all
    have lat: "a_latest (\<alpha> d1) = a_latest (\<alpha> d)" by (simp add: st(2) abs_store_def)
    show thesis
    proof (cases "case a_latest (\<alpha> d) of None \<Rightarrow> True | Some n \<Rightarrow> n < blk_height b")
      case True
      then have "set_latest_and_publish env d1 b = (d', ev, r)"
        using S assms(1-3) Pair Ok st(1) lat
        by (auto simp: has_block latest split: option.splits if_splits)
      then show thesis
      proof (rule set_latest_cases [OF st(1)])
        assume "r = Ok ()" "ev = [Ev_latestBlockHeightUpdated b, Ev_blockCommitted b]" "inv d'"
          "\<alpha> d' = (\<alpha> d1)\<lparr>a_latest := Some (blk_height b)\<rparr>"
        then show thesis using st(2) True by (intro that(4)) simp_all
      next
        fix e
        assume "r = Err e" "ev = []" "inv d'" "\<alpha> d' = \<alpha> d1"
        then show thesis using st(2) by (intro that(2)) simp_all
      qed
    next
      case False
      then obtain n where n: "a_latest (\<alpha> d) = Some n" "blk_height b \<le> n"
        by (auto simp: not_less split: option.splits)
      then have "d' = d1" "ev = [Ev_blockCommitted b]" "r = Ok ()"
        using S assms(1-3) Pair Ok st(1) lat by (auto simp: has_block latest split: if_splits)
      then show thesis using that(3) n st by simp
    qed
  qed
qed

end

section \<open>Links and the chain invariant\<close>

inductive linked :: "abs_db \<Rightarrow> bytes \<Rightarrow> bool" for a where
  root: "a_blocks a h = Some b \<Longrightarrow> blk_height b = 0 \<Longrightarrow> linked a h"
| link: "a_blocks a h = Some b \<Longrightarrow> linked a (hd_LastHash (blk_Header b)) \<Longrightarrow> linked a h"

inductive_cases linkedE: "linked a h"

lemma linked_mono:
  assumes "linked a h" "a_blocks a \<subseteq>\<^sub>m a_blocks a'"
  shows "linked a' h"
  using assms(1)
proof induction
  case (root h b)
  then show ?case using assms(2) by (intro linked.root [of a' h b]) (auto simp: map_le_def dom_def)
next
  case (link h b)
  then show ?case using assms(2) by (intro linked.link [of a' h b]) (auto simp: map_le_def dom_def)
qed

definition block_ok :: "crypto \<Rightarrow> merkle \<Rightarrow> Block \<Rightarrow> bool" where
  "block_ok C M b \<longleftrightarrow> signed_by_proposer C (blk_Header b)
     \<and> mt_VerifyProofUsing M (hd_LastHash (blk_Header b)) True (hd_LastHashProof (blk_Header b)) [blk_hash b] = Ok True
     \<and> (\<forall>v \<in> set (blk_Data b). VerifyTx C M (blk_Header b) v = Ok ())"

definition chain_ok :: "crypto \<Rightarrow> merkle \<Rightarrow> abs_db \<Rightarrow> bool" where
  "chain_ok C M a \<longleftrightarrow>
     (\<forall>n. a_latest a = Some n \<longrightarrow> abs_by_height a n \<noteq> None)
     \<and> (\<forall>h b. a_blocks a h = Some b \<longrightarrow> linked a h \<and> (blk_height b = 0 \<or> block_ok C M b))"

definition latest_le :: "abs_db \<Rightarrow> abs_db \<Rightarrow> bool" where
  "latest_le a a' \<longleftrightarrow> (\<forall>n. a_latest a = Some n \<longrightarrow> (\<exists>m. a_latest a' = Some m \<and> n \<le> m))"

lemma latest_le_refl [simp]: "latest_le a a"
  by (simp add: latest_le_def)

lemma latest_le_trans: "latest_le a b \<Longrightarrow> latest_le b c \<Longrightarrow> latest_le a c"
  unfolding latest_le_def by (meson order_trans)

lemma new_block_le: "a_blocks a h = None \<Longrightarrow> a_blocks a \<subseteq>\<^sub>m (a_blocks a)(h \<mapsto> b)"
  by (auto simp: map_le_def dom_def)

text \<open>Adding the blocks of a valid block keeps the part of the invariant on blocks.\<close>

lemma blocks_ok_add:
  assumes "chain_ok C M a" "a_blocks a (blk_hash b) = None" "a_blocks a' = (a_blocks a)(blk_hash b \<mapsto> b)"
    and "blk_height b = 0 \<or> (block_ok C M b \<and> a_blocks a (hd_LastHash (blk_Header b)) \<noteq> None)"
    and "a_blocks a' h = Some c"
  shows "linked a' h \<and> (blk_height c = 0 \<or> block_ok C M c)"
proof -
  have le: "a_blocks a \<subseteq>\<^sub>m a_blocks a'" using new_block_le [OF assms(2)] assms(3) by simp
  have old: "linked a' k" if "a_blocks a k \<noteq> None" for k
    using that assms(1) linked_mono [OF _ le, of k] unfolding chain_ok_def by blast
  show ?thesis
  proof (cases "h = blk_hash b")
    case True
    then have c: "c = b" using assms(3,5) by simp
    show ?thesis
    proof (cases "blk_height b = 0")
      case True
      then show ?thesis using linked.root [OF assms(5)] c by simp
    next
      case False
      then have "linked a' (hd_LastHash (blk_Header b))" using old assms(4) by blast
      then show ?thesis using linked.link [OF assms(5)] c False assms(4) by simp
    qed
  next
    case False
    then have "a_blocks a h = Some c" using assms(3,5) by simp
    then show ?thesis using assms(1) old [of h] unfolding chain_ok_def by simp
  qed
qed

context chain_db
begin

lemma validated_block_ok:
  assumes "inv d" "ValidateBlock env sched d b = Ok ()"
  shows "block_ok (env_C env) (env_M env) b" "a_blocks (\<alpha> d) (hd_LastHash (blk_Header b)) \<noteq> None"
proof -
  from assms(2) obtain n prev where last: "db_GetLatestBlockHeight (env_db env) d = Ok n"
      "db_FetchBlockHeaderByHeight (env_db env) d n = Ok prev" "hd_LastHash (blk_Header b) = hd_Hash prev"
      "mt_VerifyProofUsing (env_M env) (hd_Hash prev) True (hd_LastHashProof (blk_Header b)) [blk_hash b] = Ok True"
    and rest: "signed_by_proposer (env_C env) (blk_Header b)" "validate_txs env sched b = Ok ()"
    unfolding ValidateBlock_iff check_last_hash_iff by blast
  show "block_ok (env_C env) (env_M env) b"
    using last(3,4) rest validate_txs_verified [OF rest(2)] by (simp add: block_ok_def)
  obtain pb where "abs_by_height (\<alpha> d) n = Some pb" "prev = blk_Header pb"
    using last(2) by (auto simp: fetch_header_by_height [OF assms(1)])
  moreover then have "a_blocks (\<alpha> d) (hd_Hash prev) = Some pb"
    using abs_wf_blocksD [OF wf [OF assms(1)]] unfolding abs_by_height_def
    by (cases "a_heights (\<alpha> d) n") auto
  ultimately show "a_blocks (\<alpha> d) (hd_LastHash (blk_Header b)) \<noteq> None" using last(3) by simp
qed

lemma stored_abs_ok:
  assumes "inv d" "chain_ok (env_C env) (env_M env) (\<alpha> d)" "a_blocks (\<alpha> d) (blk_hash b) = None"
    and "blk_height b = 0 \<or> ValidateBlock env sched d b = Ok ()"
  shows "chain_ok (env_C env) (env_M env) ((\<alpha> d)\<lparr>a_blocks := (a_blocks (\<alpha> d))(blk_hash b \<mapsto> b)\<rparr>)"
    and "chain_ok (env_C env) (env_M env) (abs_store b (\<alpha> d))"
    and "chain_ok (env_C env) (env_M env) ((abs_store b (\<alpha> d))\<lparr>a_latest := Some (blk_height b)\<rparr>)"
proof -
  have b: "blk_height b = 0 \<or> (block_ok (env_C env) (env_M env) b
      \<and> a_blocks (\<alpha> d) (hd_LastHash (blk_Header b)) \<noteq> None)"
    using assms(4) validated_block_ok [OF assms(1)] by blast
  note add = blocks_ok_add [OF assms(2,3) _ b]
  note bh = abs_by_height_store [OF wf [OF assms(1)] assms(3)]
  have latest: "abs_by_height (\<alpha> d) n \<noteq> None" if "a_latest (\<alpha> d) = Some n" for n
    using that assms(2) unfolding chain_ok_def by blast
  let ?a = "(\<alpha> d)\<lparr>a_blocks := (a_blocks (\<alpha> d))(blk_hash b \<mapsto> b)\<rparr>"
  have "abs_by_height ?a n \<noteq> None" if "a_latest ?a = Some n" for n
    using latest [of n] that assms(3) unfolding abs_by_height_def
    by (cases "a_heights (\<alpha> d) n") auto
  then show "chain_ok (env_C env) (env_M env) ?a"
    unfolding chain_ok_def using add [of ?a] by simp
  have sb: "a_blocks (abs_store b (\<alpha> d)) = (a_blocks (\<alpha> d))(blk_hash b \<mapsto> b)"
    by (simp add: abs_store_def)
  have "abs_by_height (abs_store b (\<alpha> d)) n \<noteq> None" if "a_latest (abs_store b (\<alpha> d)) = Some n" for n
  proof -
    have "a_latest (\<alpha> d) = Some n" using that by (simp add: abs_store_def)
    then show ?thesis using latest by (simp add: bh)
  qed
  then show "chain_ok (env_C env) (env_M env) (abs_store b (\<alpha> d))"
    unfolding chain_ok_def using add [OF sb] by blast
  let ?c = "(abs_store b (\<alpha> d))\<lparr>a_latest := Some (blk_height b)\<rparr>"
  have "abs_by_height ?c n = abs_by_height (abs_store b (\<alpha> d)) n" for n by (simp add: abs_by_height_def)
  then have "abs_by_height ?c n \<noteq> None" if "a_latest ?c = Some n" for n
    using that by (simp add: bh)
  moreover have "a_blocks ?c = (a_blocks (\<alpha> d))(blk_hash b \<mapsto> b)" by (simp add: sb)
  ultimately show "chain_ok (env_C env) (env_M env) ?c"
    unfolding chain_ok_def using add [of ?c] by blast
qed

lemma StoreBlock_keeps_chain:
  assumes "inv d" "chain_ok (env_C env) (env_M env) (\<alpha> d)" "StoreBlock env sched d b = (d', ev, r)"
  shows "inv d' \<and> chain_ok (env_C env) (env_M env) (\<alpha> d') \<and> latest_le (\<alpha> d) (\<alpha> d')"
proof (cases "a_blocks (\<alpha> d) (blk_hash b)")
  case (Some c)
  then show ?thesis using assms StoreBlock_known [OF assms(1)] by simp
next
  case None
  show ?thesis
  proof (cases "blk_height b = 0 \<or> ValidateBlock env sched d b = Ok ()")
    case True
    note ok = stored_abs_ok [OF assms(1,2) None True]
    show ?thesis
    proof (rule StoreBlock_valid [OF assms(1) None True assms(3)])
    qed (use assms(2) ok in \<open>auto simp: latest_le_def abs_store_def intro: less_imp_le\<close>)
  next
    case False
    then show ?thesis
      using assms StoreBlock_invalid [OF assms(1) None, of sched]
      by (cases "ValidateBlock env sched d b") auto
  qed
qed

end

section \<open>Histories\<close>

text \<open>
  Database states reached from \<open>d0\<close> by calls of \<open>StoreBlock\<close> with any blocks, schedules and
  collaborators over the same database, cryptography and hash trees.
\<close>

inductive chain_reachable :: "'d Database \<Rightarrow> crypto \<Rightarrow> merkle \<Rightarrow> 'd \<Rightarrow> 'd \<Rightarrow> bool" for db C M d0 where
  start: "chain_reachable db C M d0 d0"
| store: "chain_reachable db C M d0 d \<Longrightarrow> env_db env = db \<Longrightarrow> env_C env = C \<Longrightarrow> env_M env = M \<Longrightarrow>
    StoreBlock env sched d b = (d', ev, r) \<Longrightarrow> chain_reachable db C M d0 d'"

lemma chain_ok_empty: "chain_ok C M abs_empty"
  by (simp add: chain_ok_def abs_empty_def)

lemma reachable_chain_ok:
  assumes "block_database db I \<alpha>" "I d0" "chain_ok C M (\<alpha> d0)" "chain_reachable db C M d0 d"
  shows "I d \<and> chain_ok C M (\<alpha> d) \<and> latest_le (\<alpha> d0) (\<alpha> d)"
  using assms(4)
proof induction
  case start
  then show ?case using assms by simp
next
  case (store d env sched b d' ev r)
  have "chain_db env I \<alpha>" using assms(1) store.hyps(2) by (simp add: chain_db_def)
  from chain_db.StoreBlock_keeps_chain [OF this, of d sched b d' ev r] store
  show ?case using latest_le_trans by blast
qed

end
