(* ===== verification/Kv_Cache.thy ===== *)
theory Kv_Cache
  imports Go_Cache
begin

text \<open>
  The key-value cache (\<open>cache\<close>): the interface as a record of operations, its in-memory
  implementation (\<open>cache/inmemory\<close>, over go-cache) and its Redis implementation
  (\<open>cache/redis\<close>), and the two cache managers.

  A cached value is an \<open>interface{}\<close>: a pointer \<open>Ptr\<close> into the heap, or a struct \<open>Val\<close>. The
  in-memory cache keeps the pointer and reads the object when it is asked for it, so a later
  write through the pointer is seen; a struct makes its reflection code panic. The contract
  \<open>kv_cache\<close> holds of the in-memory cache. The Redis one never returns a value: its decoder is
  given a pointer to an interface, and its manager writes to a nil map.
\<close>

section \<open>Interface\<close>

type_synonym loc = nat
type_synonym 'v heap = "loc \<Rightarrow> 'v"

datatype 'v iface = Ptr loc | Val 'v

record ('c, 'v) Cache =
  ca_Store :: "int \<Rightarrow> 'v heap \<Rightarrow> 'c \<Rightarrow> string \<Rightarrow> 'v iface \<Rightarrow> 'c \<times> unit res"
  ca_StoreWithTTL :: "int \<Rightarrow> 'v heap \<Rightarrow> 'c \<Rightarrow> string \<Rightarrow> 'v iface \<Rightarrow> int \<Rightarrow> 'c \<times> unit res"
  ca_Get :: "int \<Rightarrow> 'v heap \<Rightarrow> 'c \<Rightarrow> string \<Rightarrow> 'v res"
  ca_Delete :: "'c \<Rightarrow> string \<Rightarrow> 'c"
  ca_Keys :: "int \<Rightarrow> 'c \<Rightarrow> string list"
  ca_Exists :: "int \<Rightarrow> 'c \<Rightarrow> string \<Rightarrow> bool"

definition cached :: "'v option \<Rightarrow> 'v res" where
  "cached p = (case p of None \<Rightarrow> Err ErrCacheNotFound | Some v \<Rightarrow> Ok v)"

lemma cached_simps [simp]: "cached None = Err ErrCacheNotFound" "cached (Some v) = Ok v"
  by (simp_all add: cached_def)

locale kv_cache =
  fixes ca :: "('c, 'v) Cache" and inv :: "'c \<Rightarrow> bool"
    and view :: "int \<Rightarrow> 'v heap \<Rightarrow> 'c \<Rightarrow> string \<Rightarrow> 'v option"
  assumes get: "inv c \<Longrightarrow> ca_Get ca now h c k = cached (view now h c k)"
    and keys: "inv c \<Longrightarrow> set (ca_Keys ca now c) = dom (view now h c)"
    and keys_distinct: "inv c \<Longrightarrow> distinct (ca_Keys ca now c)"
    and exists_iff: "inv c \<Longrightarrow> ca_Exists ca now c k \<longleftrightarrow> view now h c k \<noteq> None"
    and store_Ok: "snd (ca_Store ca t h0 c k (Ptr l)) = Ok ()"
    and store_inv: "inv c \<Longrightarrow> inv (fst (ca_Store ca t h0 c k (Ptr l)))"
    and store_view: "inv c \<Longrightarrow> view now h (fst (ca_Store ca t h0 c k (Ptr l))) k' =
      (if k' = k then Some (h l) else view now h c k')"
    and store_ttl_Ok: "snd (ca_StoreWithTTL ca t h0 c k (Ptr l) d) = Ok ()"
    and store_ttl_inv: "inv c \<Longrightarrow> inv (fst (ca_StoreWithTTL ca t h0 c k (Ptr l) d))"
    and store_ttl_view: "inv c \<Longrightarrow> 0 < d \<Longrightarrow>
      view now h (fst (ca_StoreWithTTL ca t h0 c k (Ptr l) d)) k' =
      (if k' = k then if expired now t d then None else Some (h l) else view now h c k')"
    and delete_inv: "inv c \<Longrightarrow> inv (ca_Delete ca c k)"
    and delete_view: "inv c \<Longrightarrow> view now h (ca_Delete ca c k) k' =
      (if k' = k then None else view now h c k')"

section \<open>In-memory cache\<close>

definition second :: int where
  "second = 1000000000"

definition minute :: int where
  "minute = 60 * second"

definition DefaultCacheExpiration :: int where
  "DefaultCacheExpiration = 5 * minute"

definition DefaultGCInterval :: int where
  "DefaultGCInterval = 10 * minute"

definition inmem_NewCache :: "('c, 'v iface) gocache \<Rightarrow> 'c" where
  "inmem_NewCache gc = gc_New gc DefaultCacheExpiration DefaultGCInterval"

definition inmem_Store :: "('c, 'v iface) gocache \<Rightarrow> int \<Rightarrow> 'v heap \<Rightarrow> 'c \<Rightarrow> string \<Rightarrow> 'v iface \<Rightarrow> 'c \<times> unit res" where
  "inmem_Store gc now h c key v = (gc_Set gc now c key v NoExpiration, Ok ())"

definition inmem_StoreWithTTL ::
  "('c, 'v iface) gocache \<Rightarrow> int \<Rightarrow> 'v heap \<Rightarrow> 'c \<Rightarrow> string \<Rightarrow> 'v iface \<Rightarrow> int \<Rightarrow> 'c \<times> unit res" where
  "inmem_StoreWithTTL gc now h c key v ttl = (gc_Set gc now c key v ttl, Ok ())"

text \<open>
  The destination of \<open>Get\<close>: no pointer, a nil pointer (setting it panics, it is not
  addressable), or the pointer to a variable, which receives the object. \<open>Elem\<close> of a struct
  panics.
\<close>

datatype dest = NotPointer | NilPointer | Target

definition inmem_Get_into :: "('c, 'v iface) gocache \<Rightarrow> int \<Rightarrow> 'v heap \<Rightarrow> 'c \<Rightarrow> string \<Rightarrow> dest \<Rightarrow> 'v res" where
  "inmem_Get_into gc now h c key dst =
     (case gc_Get gc now c key of
        None \<Rightarrow> Err ErrCacheNotFound
      | Some v \<Rightarrow> (case dst of
            NotPointer \<Rightarrow> Err (Errorf ''value isn't a pointer'')
          | NilPointer \<Rightarrow> Panic
          | Target \<Rightarrow> (case v of Ptr l \<Rightarrow> Ok (h l) | Val x \<Rightarrow> Panic)))"

definition inmem_Get :: "('c, 'v iface) gocache \<Rightarrow> int \<Rightarrow> 'v heap \<Rightarrow> 'c \<Rightarrow> string \<Rightarrow> 'v res" where
  "inmem_Get gc now h c key = inmem_Get_into gc now h c key Target"

definition inmem_Delete :: "('c, 'v iface) gocache \<Rightarrow> 'c \<Rightarrow> string \<Rightarrow> 'c" where
  "inmem_Delete gc c key = gc_Delete gc c key"

definition inmem_Keys :: "('c, 'v iface) gocache \<Rightarrow> int \<Rightarrow> 'c \<Rightarrow> string list" where
  "inmem_Keys gc now c = map fst (gc_Items gc now c)"

definition inmem_Exists :: "('c, 'v iface) gocache \<Rightarrow> int \<Rightarrow> 'c \<Rightarrow> string \<Rightarrow> bool" where
  "inmem_Exists gc now c key \<longleftrightarrow> gc_Get gc now c key \<noteq> None"

definition inmemory_Cache :: "('c, 'v iface) gocache \<Rightarrow> ('c, 'v) Cache" where
  "inmemory_Cache gc =
     \<lparr>ca_Store = inmem_Store gc, ca_StoreWithTTL = inmem_StoreWithTTL gc, ca_Get = inmem_Get gc,
      ca_Delete = inmem_Delete gc, ca_Keys = inmem_Keys gc, ca_Exists = inmem_Exists gc\<rparr>"

text \<open>The manager creates a cache on its first use and returns the same one afterwards.\<close>

definition inmem_CacheManager_Cache ::
  "('c, 'v iface) gocache \<Rightarrow> (string \<Rightarrow> 'c option) \<Rightarrow> string \<Rightarrow> (string \<Rightarrow> 'c option) \<times> 'c" where
  "inmem_CacheManager_Cache gc caches cname =
     (case caches cname of
        None \<Rightarrow> let c = inmem_NewCache gc in (caches(cname := Some c), c)
      | Some c \<Rightarrow> (caches, c))"

section \<open>Redis cache\<close>

record 's redis_client =
  rd_Set :: "int \<Rightarrow> 's \<Rightarrow> string \<Rightarrow> bytes \<Rightarrow> int \<Rightarrow> 's"
  rd_Get :: "int \<Rightarrow> 's \<Rightarrow> string \<Rightarrow> bytes option res"
  rd_Del :: "'s \<Rightarrow> string \<Rightarrow> 's"
  rd_Keys :: "int \<Rightarrow> 's \<Rightarrow> string \<Rightarrow> string list res"
  rd_Exists :: "int \<Rightarrow> 's \<Rightarrow> string \<Rightarrow> nat res"

text \<open>
  \<open>gobMarshal\<close> sends the concrete value, following the pointer; \<open>enc\<close> is the gob format of the
  value's type. \<open>gobUnmarshal\<close> hands the decoder the address of its \<open>interface{}\<close> parameter. The
  package \<open>encoding/gob\<close> decodes into an interface variable only what was sent as an interface
  value; for anything else, and for malformed data, it returns an error.
\<close>

fun iface_value :: "'v heap \<Rightarrow> 'v iface \<Rightarrow> 'v" where
  "iface_value h (Ptr l) = h l"
| "iface_value h (Val v) = v"

definition gobMarshal :: "('v \<Rightarrow> bytes res) \<Rightarrow> 'v heap \<Rightarrow> 'v iface \<Rightarrow> bytes res" where
  "gobMarshal enc h val = enc (iface_value h val)"

definition gobUnmarshal :: "bytes \<Rightarrow> 'v res" where
  "gobUnmarshal dat = Err (ExtErr ''gob: local interface type can only be decoded from remote interface type'')"

definition redis_Store ::
  "'s redis_client \<Rightarrow> ('v \<Rightarrow> bytes res) \<Rightarrow> string \<Rightarrow> int \<Rightarrow> 'v heap \<Rightarrow> 's \<Rightarrow> string \<Rightarrow> 'v iface \<Rightarrow> 's \<times> unit res" where
  "redis_Store rd enc cname now h s key v =
     (case gobMarshal enc h v of
        Ok dat \<Rightarrow> (rd_Set rd now s (cname @ ''/'' @ key) dat 0, Ok ())
      | Err e \<Rightarrow> (s, Err e)
      | Panic \<Rightarrow> (s, Panic))"

definition redis_StoreWithTTL ::
  "'s redis_client \<Rightarrow> ('v \<Rightarrow> bytes res) \<Rightarrow> string \<Rightarrow> int \<Rightarrow> 'v heap \<Rightarrow> 's \<Rightarrow> string \<Rightarrow> 'v iface \<Rightarrow> int \<Rightarrow> 's \<times> unit res" where
  "redis_StoreWithTTL rd enc cname now h s key v ttl =
     (case gobMarshal enc h v of
        Ok dat \<Rightarrow> (rd_Set rd now s (cname @ ''/'' @ key) dat ttl, Ok ())
      | Err e \<Rightarrow> (s, Err e)
      | Panic \<Rightarrow> (s, Panic))"

definition redis_Get :: "'s redis_client \<Rightarrow> string \<Rightarrow> int \<Rightarrow> 'v heap \<Rightarrow> 's \<Rightarrow> string \<Rightarrow> 'v res" where
  "redis_Get rd cname now h s key =
     bind_res (rd_Get rd now s (cname @ ''/'' @ key)) (\<lambda>v.
       case v of None \<Rightarrow> Err ErrCacheNotFound | Some dat \<Rightarrow> gobUnmarshal dat)"

definition redis_Delete :: "'s redis_client \<Rightarrow> string \<Rightarrow> 's \<Rightarrow> string \<Rightarrow> 's" where
  "redis_Delete rd cname s key = rd_Del rd s (cname @ ''/'' @ key)"

definition redis_Keys :: "'s redis_client \<Rightarrow> string \<Rightarrow> int \<Rightarrow> 's \<Rightarrow> string list" where
  "redis_Keys rd cname now s =
     (case rd_Keys rd now s (cname @ ''/'' @ ''*'') of Ok ks \<Rightarrow> ks | _ \<Rightarrow> [])"

definition redis_Exists :: "'s redis_client \<Rightarrow> string \<Rightarrow> int \<Rightarrow> 's \<Rightarrow> string \<Rightarrow> bool" where
  "redis_Exists rd cname now s key =
     (case rd_Exists rd now s (cname @ ''/'' @ key) of Ok n \<Rightarrow> n \<noteq> 0 | _ \<Rightarrow> False)"

definition redis_Cache :: "'s redis_client \<Rightarrow> ('v \<Rightarrow> bytes res) \<Rightarrow> string \<Rightarrow> ('s, 'v) Cache" where
  "redis_Cache rd enc cname =
     \<lparr>ca_Store = redis_Store rd enc cname, ca_StoreWithTTL = redis_StoreWithTTL rd enc cname,
      ca_Get = redis_Get rd cname, ca_Delete = redis_Delete rd cname,
      ca_Keys = redis_Keys rd cname, ca_Exists = redis_Exists rd cname\<rparr>"

text \<open>
  The Redis manager's map of caches (here: of cache names); \<open>None\<close> is the nil map, which can be
  read but not written.
\<close>

type_synonym redis_caches = "(string \<Rightarrow> string option) option"

definition redis_NewCacheManager :: redis_caches where
  "redis_NewCacheManager = None"

definition redis_CacheManager_Cache :: "redis_caches \<Rightarrow> string \<Rightarrow> (redis_caches \<times> string) res" where
  "redis_CacheManager_Cache caches cname =
     (case (case caches of None \<Rightarrow> None | Some m \<Rightarrow> m cname) of
        Some c \<Rightarrow> Ok (caches, c)
      | None \<Rightarrow> (case caches of
            None \<Rightarrow> Panic
          | Some m \<Rightarrow> Ok (Some (m(cname := Some cname)), cname)))"

section \<open>The in-memory cache keeps the contract\<close>

definition inmem_inv :: "('c, 'v iface) gocache \<Rightarrow> 'c \<Rightarrow> bool" where
  "inmem_inv gc c \<longleftrightarrow> (\<forall>now k v. gc_Get gc now c k = Some v \<longrightarrow> (\<exists>l. v = Ptr l))"

fun ptr_value :: "'v heap \<Rightarrow> 'v iface \<Rightarrow> 'v option" where
  "ptr_value h (Ptr l) = Some (h l)"
| "ptr_value h (Val v) = None"

definition inmem_view :: "('c, 'v iface) gocache \<Rightarrow> int \<Rightarrow> 'v heap \<Rightarrow> 'c \<Rightarrow> string \<Rightarrow> 'v option" where
  "inmem_view gc now h c k = Option.bind (gc_Get gc now c k) (ptr_value h)"

lemma inmem_invD: "inmem_inv gc c \<Longrightarrow> gc_Get gc now c k = Some v \<Longrightarrow> \<exists>l. v = Ptr l"
  by (simp add: inmem_inv_def)

lemma inmem_inv_view_None:
  assumes "inmem_inv gc c"
  shows "inmem_view gc now h c k = None \<longleftrightarrow> gc_Get gc now c k = None"
  using inmem_invD [OF assms, of now k] by (cases "gc_Get gc now c k") (auto simp: inmem_view_def)

locale inmem_backend = go_cache gc for gc :: "('c, 'v iface) gocache"
begin

lemma inmem_new: "inmem_inv gc (inmem_NewCache gc)" "inmem_view gc now h (inmem_NewCache gc) k = None"
  by (simp_all add: inmem_inv_def inmem_NewCache_def inmem_view_def)

lemma inmem_set_inv: "inmem_inv gc c \<Longrightarrow> inmem_inv gc (gc_Set gc t c k (Ptr l) d)"
  by (simp add: inmem_inv_def get_set)

lemma inmem_set_view:
  assumes "d \<noteq> DefaultExpiration"
  shows "inmem_view gc now h (gc_Set gc t c k (Ptr l) d) k' =
    (if k' = k then if expired now t d then None else Some (h l) else inmem_view gc now h c k')"
  using assms by (simp add: inmem_view_def get_set lifetime_def)

lemma inmem_get:
  assumes "inmem_inv gc c"
  shows "inmem_Get gc now h c k = cached (inmem_view gc now h c k)"
proof (cases "gc_Get gc now c k")
  case (Some v)
  then obtain l where "v = Ptr l" using inmem_invD [OF assms] by blast
  with Some show ?thesis by (simp add: inmem_Get_def inmem_Get_into_def inmem_view_def)
qed (simp add: inmem_Get_def inmem_Get_into_def inmem_view_def)

lemma inmem_keys:
  assumes "inmem_inv gc c"
  shows "set (inmem_Keys gc now c) = dom (inmem_view gc now h c)"
proof -
  have "k \<in> set (inmem_Keys gc now c) \<longleftrightarrow> inmem_view gc now h c k \<noteq> None" for k
    unfolding inmem_inv_view_None [OF assms] using items_iff [of k] by (force simp: inmem_Keys_def)
  then show ?thesis by (auto simp: dom_def)
qed

lemma inmem_keys_distinct: "distinct (inmem_Keys gc now c)"
  by (simp add: inmem_Keys_def items_distinct)

lemma inmem_delete:
  "inmem_inv gc c \<Longrightarrow> inmem_inv gc (gc_Delete gc c k)"
  "inmem_view gc now h (gc_Delete gc c k) k' = (if k' = k then None else inmem_view gc now h c k')"
  by (simp_all add: inmem_inv_def inmem_view_def get_delete)

lemma inmem_contract: "kv_cache (inmemory_Cache gc) (inmem_inv gc) (inmem_view gc)"
  by unfold_locales
    (simp_all add: inmemory_Cache_def inmem_get inmem_keys
      inmem_Exists_def inmem_inv_view_None inmem_Store_def inmem_StoreWithTTL_def inmem_Delete_def
      inmem_set_inv inmem_set_view NoExpiration_def DefaultExpiration_def expired_def
      inmem_keys_distinct inmem_delete)

end

sublocale inmem_backend \<subseteq> inmem: kv_cache "inmemory_Cache gc" "inmem_inv gc" "inmem_view gc"
  by (rule inmem_contract)

interpretation ref_inmem: inmem_backend ref_gocache
  by unfold_locales

section \<open>The Redis cache does not\<close>

lemma redis_manager_panics: "redis_CacheManager_Cache redis_NewCacheManager cname = Panic"
  by (simp add: redis_CacheManager_Cache_def redis_NewCacheManager_def)

lemma redis_get_never_returns_a_value: "redis_Get rd cname now h s key \<noteq> Ok v"
  by (auto simp: redis_Get_def gobUnmarshal_def res_simps split: option.splits)

end
