(* ===== verification/Mempool.thy ===== *)
theory Mempool
  imports Kv_Cache Reference_Libs "HOL-Library.Multiset"
begin

text \<open>
  The transaction pool (\<open>blockchain/pool/mempool.go\<close>) over any cache: store, delete, lookup,
  the list of all transactions and the choice of the transactions of a new block. The lemmas
  are proved from the cache contract; the properties are instances of them for the in-memory
  cache. Time is in nanoseconds.
\<close>

section \<open>Model\<close>

definition DefaultTxTTL :: int where
  "DefaultTxTTL = 10 * minute"

definition DefaultTxPrefix :: string where
  "DefaultTxPrefix = ''tx_''"

definition BlockMaxTransactionCount :: nat where
  "BlockMaxTransactionCount = 100"

definition tx_key :: "bytes \<Rightarrow> string" where
  "tx_key txHash = DefaultTxPrefix @ hex_EncodeToString txHash"

definition StoreTx ::
  "('c, Transaction) Cache \<Rightarrow> int \<Rightarrow> Transaction heap \<Rightarrow> 'c \<Rightarrow> loc \<Rightarrow> 'c \<times> event list \<times> unit res" where
  "StoreTx ca now h c ptx =
     (case ca_StoreWithTTL ca now h c (tx_key (tx_Hash (h ptx))) (Ptr ptx) DefaultTxTTL of
        (c', r) \<Rightarrow> (c', [Ev_transactionAdded (h ptx)], r))"

definition DeleteTx ::
  "('c, Transaction) Cache \<Rightarrow> int \<Rightarrow> Transaction heap \<Rightarrow> 'c \<Rightarrow> bytes \<Rightarrow> 'c \<times> event list \<times> unit res" where
  "DeleteTx ca now h c txHash =
     (case ca_Get ca now h c (tx_key txHash) of
        Ok tx \<Rightarrow> (ca_Delete ca c (tx_key txHash), [Ev_transactionRemoved tx], Ok ())
      | Err e \<Rightarrow> (c, [], Err e)
      | Panic \<Rightarrow> (c, [], Panic))"

text \<open>The loop over the keys skips a key whose lookup fails.\<close>

fun fetch_all ::
  "('c, Transaction) Cache \<Rightarrow> int \<Rightarrow> Transaction heap \<Rightarrow> 'c \<Rightarrow> string list \<Rightarrow> Transaction list res" where
  "fetch_all ca now h c [] = Ok []"
| "fetch_all ca now h c (k # ks) =
     (case ca_Get ca now h c k of
        Ok tx \<Rightarrow> bind_res (fetch_all ca now h c ks) (\<lambda>txs. Ok (tx # txs))
      | Err e \<Rightarrow> fetch_all ca now h c ks
      | Panic \<Rightarrow> Panic)"

definition GetAllTransactions ::
  "('c, Transaction) Cache \<Rightarrow> int \<Rightarrow> Transaction heap \<Rightarrow> 'c \<Rightarrow> Transaction list res" where
  "GetAllTransactions ca now h c = fetch_all ca now h c (ca_Keys ca now c)"

fun pop_loop :: "nat \<Rightarrow> Transaction list \<Rightarrow> Transaction list \<Rightarrow> Transaction list" where
  "pop_loop 0 allTxs txForBlock = txForBlock"
| "pop_loop (Suc i) allTxs txForBlock =
     (case allTxs of
        [] \<Rightarrow> txForBlock
      | tx # rest \<Rightarrow> pop_loop i rest (txForBlock @ [tx]))"

text \<open>
  \<open>sort.Slice\<close> orders by time and leaves the order of equal times open, as the order of the
  keys it starts from already is.
\<close>

definition GetTransactionsForNewBlock ::
  "('c, Transaction) Cache \<Rightarrow> int \<Rightarrow> Transaction heap \<Rightarrow> 'c \<Rightarrow> Transaction list res" where
  "GetTransactionsForNewBlock ca now h c =
     bind_res (GetAllTransactions ca now h c) (\<lambda>allTxs.
       Ok (pop_loop BlockMaxTransactionCount (sort_key tx_Timestamp allTxs) []))"

definition GetTransaction ::
  "('c, Transaction) Cache \<Rightarrow> int \<Rightarrow> Transaction heap \<Rightarrow> 'c \<Rightarrow> bytes \<Rightarrow> Transaction res" where
  "GetTransaction ca now h c txHash =
     (case ca_Get ca now h c (tx_key txHash) of
        Ok tx \<Rightarrow> Ok tx
      | Err e \<Rightarrow> if errors_Is e ErrCacheNotFound then Err ErrTxNotFound else Err e
      | Panic \<Rightarrow> Panic)"

section \<open>Lemmas\<close>

lemma tx_key_inj [simp, key_simps]: "tx_key g = tx_key h \<longleftrightarrow> g = h"
  by (simp add: tx_key_def)

lemma pop_loop_take: "pop_loop n xs acc = acc @ take n xs"
  by (induction n xs acc rule: pop_loop.induct) (auto split: list.splits)

lemma DefaultTxTTL_pos: "0 < DefaultTxTTL"
  by (simp add: DefaultTxTTL_def minute_def second_def)

text \<open>A prefix of a sorted list holds the smallest elements.\<close>

lemma sorted_take_least:
  assumes "sorted (map f xs)" "x \<in> set (take n xs)" "y \<in> set (drop n xs)"
  shows "f x \<le> f y"
proof -
  have "sorted (map f (take n xs) @ map f (drop n xs))"
    using assms(1) by (metis append_take_drop_id map_append)
  then show ?thesis using assms(2,3) by (auto simp: sorted_append)
qed

definition keyed_by_hash :: "(string \<Rightarrow> Transaction option) \<Rightarrow> bool" where
  "keyed_by_hash m \<longleftrightarrow> (\<forall>k tx. m k = Some tx \<longrightarrow> k = tx_key (tx_Hash tx))"

locale tx_cache = kv_cache ca inv view
  for ca :: "('c, Transaction) Cache" and inv :: "'c \<Rightarrow> bool"
    and view :: "int \<Rightarrow> Transaction heap \<Rightarrow> 'c \<Rightarrow> string \<Rightarrow> Transaction option"
begin

lemma StoreTx_spec:
  assumes "inv c" "StoreTx ca t h0 c ptx = (c', ev, r)"
  shows "r = Ok ()" "inv c'" "ev = [Ev_transactionAdded (h0 ptx)]"
    "view now h c' k = (if k = tx_key (tx_Hash (h0 ptx))
       then if expired now t DefaultTxTTL then None else Some (h ptx) else view now h c k)"
proof -
  let ?r = "ca_StoreWithTTL ca t h0 c (tx_key (tx_Hash (h0 ptx))) (Ptr ptx) DefaultTxTTL"
  have *: "c' = fst ?r" "r = snd ?r" "ev = [Ev_transactionAdded (h0 ptx)]"
    using assms(2) by (simp_all add: StoreTx_def split: prod.splits)
  show "r = Ok ()" "ev = [Ev_transactionAdded (h0 ptx)]" using * store_ttl_Ok by simp_all
  show "inv c'" using * store_ttl_inv [OF assms(1)] by simp
  show "view now h c' k = (if k = tx_key (tx_Hash (h0 ptx))
       then if expired now t DefaultTxTTL then None else Some (h ptx) else view now h c k)"
    unfolding *(1) by (rule store_ttl_view [OF assms(1) DefaultTxTTL_pos])
qed

lemma DeleteTx_spec:
  assumes "inv c"
  shows "DeleteTx ca now h c txHash =
    (case view now h c (tx_key txHash) of
       None \<Rightarrow> (c, [], Err ErrCacheNotFound)
     | Some tx \<Rightarrow> (ca_Delete ca c (tx_key txHash), [Ev_transactionRemoved tx], Ok ()))"
  by (cases "view now h c (tx_key txHash)") (simp_all add: DeleteTx_def get [OF assms])

lemma GetTransaction_spec:
  assumes "inv c"
  shows "GetTransaction ca now h c txHash =
    (case view now h c (tx_key txHash) of None \<Rightarrow> Err ErrTxNotFound | Some tx \<Rightarrow> Ok tx)"
  by (cases "view now h c (tx_key txHash)") (simp_all add: GetTransaction_def get [OF assms])

lemma fetch_all_keys:
  assumes "inv c" "set ks \<subseteq> dom (view now h c)"
  shows "fetch_all ca now h c ks = Ok (map (\<lambda>k. the (view now h c k)) ks)"
  using assms(2) by (induction ks) (auto simp: get [OF assms(1)])

lemma GetAllTransactions_spec:
  assumes "inv c"
  shows "GetAllTransactions ca now h c = Ok (map (\<lambda>k. the (view now h c k)) (ca_Keys ca now c))"
  unfolding GetAllTransactions_def
  by (rule fetch_all_keys [OF assms]) (simp add: keys [OF assms, of now h])

lemma GetTransactionsForNewBlock_spec:
  assumes "inv c"
  shows "GetTransactionsForNewBlock ca now h c = Ok (take BlockMaxTransactionCount
    (sort_key tx_Timestamp (map (\<lambda>k. the (view now h c k)) (ca_Keys ca now c))))"
  by (simp add: GetTransactionsForNewBlock_def GetAllTransactions_spec [OF assms] pop_loop_take)

lemma selection:
  assumes "inv c" "GetTransactionsForNewBlock ca now h c = Ok txs"
  shows "set txs \<subseteq> ran (view now h c)" "sorted (map tx_Timestamp txs)"
    "length txs = min BlockMaxTransactionCount (card (dom (view now h c)))"
    "\<And>x y. x \<in> set txs \<Longrightarrow> y \<in> ran (view now h c) - set txs \<Longrightarrow> tx_Timestamp x \<le> tx_Timestamp y"
proof -
  let ?all = "map (\<lambda>k. the (view now h c k)) (ca_Keys ca now c)"
  have txs: "txs = take BlockMaxTransactionCount (sort_key tx_Timestamp ?all)"
    using assms(2) by (simp add: GetTransactionsForNewBlock_spec [OF assms(1)])
  have all: "set ?all = ran (view now h c)"
    using keys [OF assms(1), of now h] by (force simp: ran_def dom_def image_iff)
  show "set txs \<subseteq> ran (view now h c)"
    unfolding txs using all by (metis set_sort set_take_subset)
  show "sorted (map tx_Timestamp txs)"
    unfolding txs take_map [symmetric] by (intro sorted_wrt_take) simp
  have "length ?all = card (dom (view now h c))"
    using distinct_card [OF keys_distinct [OF assms(1), of now]] keys [OF assms(1), of now h] by simp
  then show "length txs = min BlockMaxTransactionCount (card (dom (view now h c)))"
    unfolding txs by simp
  fix x y
  assume x: "x \<in> set txs" and y: "y \<in> ran (view now h c) - set txs"
  have "y \<in> set (sort_key tx_Timestamp ?all)" using y all by simp
  then have "y \<in> set (drop BlockMaxTransactionCount (sort_key tx_Timestamp ?all))"
    using y unfolding txs by (metis DiffD2 Un_iff append_take_drop_id set_append)
  then show "tx_Timestamp x \<le> tx_Timestamp y"
    using x unfolding txs by (intro sorted_take_least [of tx_Timestamp "sort_key tx_Timestamp ?all"]) simp_all
qed

lemma keyed_store:
  assumes "inv c" "StoreTx ca t h c ptx = (c', ev, r)" "keyed_by_hash (view now h c)"
  shows "keyed_by_hash (view now h c')"
  using assms(3) StoreTx_spec(4) [OF assms(1,2), of now h] by (simp add: keyed_by_hash_def split: if_splits)

lemma keyed_delete:
  assumes "inv c" "DeleteTx ca t h c txHash = (c', ev, r)" "keyed_by_hash (view now h c)"
  shows "inv c'" "keyed_by_hash (view now h c')"
  using assms delete_inv [OF assms(1)] delete_view [OF assms(1), of now h]
  by (auto simp: DeleteTx_spec [OF assms(1)] keyed_by_hash_def split: option.splits if_splits)

end

locale tx_backend = inmem_backend gc for gc :: "('c, Transaction iface) gocache"

sublocale tx_backend \<subseteq> pool: tx_cache "inmemory_Cache gc" "inmem_inv gc" "inmem_view gc"
  by unfold_locales

interpretation ref_pool: tx_backend ref_gocache
  by unfold_locales

section \<open>Reachable pools\<close>

text \<open>
  Pools built by any sequence of stores and deletions at any times, while the stored
  transactions are not written through their pointers.
\<close>

inductive pool_reachable ::
  "('c, Transaction iface) gocache \<Rightarrow> Transaction heap \<Rightarrow> 'c \<Rightarrow> bool" for gc h where
  new: "pool_reachable gc h (inmem_NewCache gc)"
| store: "pool_reachable gc h c \<Longrightarrow> StoreTx (inmemory_Cache gc) t h c ptx = (c', ev, r) \<Longrightarrow>
    pool_reachable gc h c'"
| delete: "pool_reachable gc h c \<Longrightarrow> DeleteTx (inmemory_Cache gc) t h c txHash = (c', ev, r) \<Longrightarrow>
    pool_reachable gc h c'"

context tx_backend
begin

lemma pool_tx_cache: "tx_cache (inmemory_Cache gc) (inmem_inv gc) (inmem_view gc)"
  by unfold_locales

lemma reachable_inv:
  "pool_reachable gc h c \<Longrightarrow> inmem_inv gc c \<and> (\<forall>now. keyed_by_hash (inmem_view gc now h c))"
proof (induction rule: pool_reachable.induct)
  case new
  show ?case by (simp add: inmem_new keyed_by_hash_def)
next
  case (store c t ptx c' ev r)
  then show ?case
    using pool.StoreTx_spec(2) pool.keyed_store by blast
next
  case (delete c t txHash c' ev r)
  then show ?case using pool.keyed_delete by blast
qed

lemma reachable_hash_distinct:
  assumes "keyed_by_hash m" "distinct ks" "set ks \<subseteq> dom m"
  shows "distinct (map tx_Hash (map (\<lambda>k. the (m k)) ks))"
proof -
  have "tx_key (tx_Hash (the (m k))) = k" if "k \<in> dom m" for k
    using that assms(1) by (auto simp: keyed_by_hash_def)
  then have "inj_on (\<lambda>k. tx_Hash (the (m k))) (dom m)" by (rule inj_on_inverseI)
  then have "inj_on (\<lambda>k. tx_Hash (the (m k))) (set ks)" by (rule inj_on_subset) (rule assms(3))
  then show ?thesis using assms(2) by (simp add: distinct_map comp_def)
qed

lemma selection_distinct:
  assumes "pool_reachable gc h c" "GetTransactionsForNewBlock (inmemory_Cache gc) now h c = Ok txs"
  shows "distinct (map tx_Hash txs)"
proof -
  have inv: "inmem_inv gc c" "keyed_by_hash (inmem_view gc now h c)"
    using reachable_inv [OF assms(1)] by blast+
  let ?all = "map (\<lambda>k. the (inmem_view gc now h c k)) (ca_Keys (inmemory_Cache gc) now c)"
  have "distinct (map tx_Hash ?all)"
    by (rule reachable_hash_distinct [OF inv(2) inmem.keys_distinct [OF inv(1)]])
      (simp add: inmem.keys [OF inv(1), of now h])
  moreover have "mset (map tx_Hash (sort_key tx_Timestamp ?all)) = mset (map tx_Hash ?all)"
    by (simp only: mset_map mset_sort)
  ultimately have "distinct (map tx_Hash (sort_key tx_Timestamp ?all))"
    using mset_eq_imp_distinct_iff by blast
  then have "distinct (map tx_Hash (take BlockMaxTransactionCount (sort_key tx_Timestamp ?all)))"
    unfolding take_map [symmetric] by (rule distinct_take)
  then show ?thesis using assms(2) by (simp add: pool.GetTransactionsForNewBlock_spec [OF inv(1)])
qed

end

section \<open>Properties\<close>

text \<open>C24. From every reachable pool, \<open>GetTransactionsForNewBlock\<close> returns pooled transactions with
  pairwise different hashes in order of their timestamps: all of them when there are at most
  100, otherwise 100 none of which is younger than one left out.\<close>

theorem mempool_selection:
  assumes "go_cache gc" "pool_reachable gc h c"
  shows "\<exists>txs. GetTransactionsForNewBlock (inmemory_Cache gc) now h c = Ok txs
    \<and> set txs \<subseteq> ran (inmem_view gc now h c) \<and> distinct (map tx_Hash txs)
    \<and> sorted (map tx_Timestamp txs)
    \<and> length txs = min 100 (card (dom (inmem_view gc now h c)))
    \<and> (\<forall>x \<in> set txs. \<forall>y \<in> ran (inmem_view gc now h c) - set txs. tx_Timestamp x \<le> tx_Timestamp y)"
proof -
  have tb: "tx_backend gc" using assms(1) by (simp add: tx_backend_def inmem_backend_def)
  then have tc: "tx_cache (inmemory_Cache gc) (inmem_inv gc) (inmem_view gc)"
    by (rule tx_backend.pool_tx_cache)
  have inv: "inmem_inv gc c" using tx_backend.reachable_inv [OF tb assms(2)] by blast
  obtain txs where txs: "GetTransactionsForNewBlock (inmemory_Cache gc) now h c = Ok txs"
    using tx_cache.GetTransactionsForNewBlock_spec [OF tc inv] by blast
  note S = tx_cache.selection [OF tc inv txs]
  have "length txs = min 100 (card (dom (inmem_view gc now h c)))"
    using S(3) by (simp add: BlockMaxTransactionCount_def)
  with txs S(1,2,4) tx_backend.selection_distinct [OF tb assms(2) txs] show ?thesis by blast
qed

text \<open>Two transactions in a pool, for the witnesses.\<close>

definition demo_heap :: "Transaction heap" where
  "demo_heap l = CreateTransaction ref_crypto (50 - int l) [of_nat l]"

definition demo_pool :: "Transaction iface ecache" where
  "demo_pool =
     fst (StoreTx (inmemory_Cache ref_gocache) 3 demo_heap
       (fst (StoreTx (inmemory_Cache ref_gocache) 1 demo_heap (inmem_NewCache ref_gocache) 7)) 8)"

lemma demo_pool_reachable: "pool_reachable ref_gocache demo_heap demo_pool"
  unfolding demo_pool_def
  by (intro pool_reachable.store [OF pool_reachable.store [OF pool_reachable.new]])
    (simp_all add: prod_eq_iff)

theorem mempool_selection_witness:
  "go_cache (ref_gocache :: (Transaction iface ecache, Transaction iface) gocache)
   \<and> pool_reachable ref_gocache demo_heap demo_pool
   \<and> (\<exists>txs. GetTransactionsForNewBlock (inmemory_Cache ref_gocache) 5 demo_heap demo_pool = Ok txs
       \<and> map tx_Timestamp txs = [42, 43] \<and> distinct (map tx_Hash txs))"
proof -
  have gc: "go_cache (ref_gocache :: (Transaction iface ecache, Transaction iface) gocache)"
    by (rule ref_cache.go_cache_axioms)
  from mempool_selection [OF gc demo_pool_reachable, of 5] obtain txs where
    txs: "GetTransactionsForNewBlock (inmemory_Cache ref_gocache) 5 demo_heap demo_pool = Ok txs"
    and d: "distinct (map tx_Hash txs)" by blast
  have "(case GetTransactionsForNewBlock (inmemory_Cache ref_gocache) 5 demo_heap demo_pool of
      Ok txs \<Rightarrow> map tx_Timestamp txs | _ \<Rightarrow> []) = [42, 43]"
    by code_simp
  with txs have "map tx_Timestamp txs = [42, 43]" by simp
  with gc txs d demo_pool_reachable show ?thesis by simp
qed

text \<open>A stored transaction is returned by its hash for ten minutes and not found after that;
  storing it changes the lookup of no other hash, and announces exactly that transaction.\<close>

lemma mempool_store_lookup:
  assumes "go_cache gc" "pool_reachable gc h c"
    and "StoreTx (inmemory_Cache gc) t h c ptx = (c', ev, r)"
  shows "r = Ok () \<and> ev = [Ev_transactionAdded (h ptx)]
    \<and> GetTransaction (inmemory_Cache gc) now h c' txHash =
       (if txHash = tx_Hash (h ptx)
        then if t + 600 * 1000000000 < now then Err ErrTxNotFound else Ok (h ptx)
        else GetTransaction (inmemory_Cache gc) now h c txHash)"
proof -
  have tb: "tx_backend gc" using assms(1) by (simp add: tx_backend_def inmem_backend_def)
  then have tc: "tx_cache (inmemory_Cache gc) (inmem_inv gc) (inmem_view gc)"
    by (rule tx_backend.pool_tx_cache)
  have inv: "inmem_inv gc c" using tx_backend.reachable_inv [OF tb assms(2)] by blast
  note S = tx_cache.StoreTx_spec [OF tc inv assms(3)]
  show ?thesis
    using S(1,3) by (simp add: tx_cache.GetTransaction_spec [OF tc] S(2) inv S(4) expired_def
        DefaultTxTTL_def minute_def second_def)
qed

text \<open>Deleting a pooled transaction removes exactly that one and announces it; deleting an
  unknown hash changes nothing and reports that the key is not in the cache.\<close>

lemma mempool_delete:
  assumes "go_cache gc" "pool_reachable gc h c"
    and "DeleteTx (inmemory_Cache gc) t h c txHash = (c', ev, r)"
  shows "(case GetTransaction (inmemory_Cache gc) t h c txHash of
       Ok tx \<Rightarrow> r = Ok () \<and> ev = [Ev_transactionRemoved tx]
         \<and> GetTransaction (inmemory_Cache gc) now h c' txHash = Err ErrTxNotFound
     | Err e \<Rightarrow> e = ErrTxNotFound \<and> c' = c \<and> ev = [] \<and> r = Err ErrCacheNotFound
     | Panic \<Rightarrow> False)
    \<and> (txHash' = txHash \<or> GetTransaction (inmemory_Cache gc) now h c' txHash'
         = GetTransaction (inmemory_Cache gc) now h c txHash')"
proof -
  have tb: "tx_backend gc" using assms(1) by (simp add: tx_backend_def inmem_backend_def)
  then have tc: "tx_cache (inmemory_Cache gc) (inmem_inv gc) (inmem_view gc)"
    by (rule tx_backend.pool_tx_cache)
  have kc: "kv_cache (inmemory_Cache gc) (inmem_inv gc) (inmem_view gc)"
    by (rule tx_cache.axioms [OF tc])
  have inv: "inmem_inv gc c" using tx_backend.reachable_inv [OF tb assms(2)] by blast
  note D = assms(3) [unfolded tx_cache.DeleteTx_spec [OF tc inv]]
  show ?thesis
  proof (cases "inmem_view gc t h c (tx_key txHash)")
    case None
    with D have "c' = c" "ev = []" "r = Err ErrCacheNotFound" by simp_all
    then show ?thesis by (simp add: tx_cache.GetTransaction_spec [OF tc inv] None)
  next
    case (Some tx)
    with D have c': "c' = ca_Delete (inmemory_Cache gc) c (tx_key txHash)"
      and r: "ev = [Ev_transactionRemoved tx]" "r = Ok ()" by simp_all
    have inv': "inmem_inv gc c'" unfolding c' by (rule kv_cache.delete_inv [OF kc inv])
    show ?thesis
      by (simp add: tx_cache.GetTransaction_spec [OF tc inv] tx_cache.GetTransaction_spec [OF tc inv'] Some r)
        (simp add: c' kv_cache.delete_view [OF kc inv])
  qed
qed

end
