(* ===== verification/Miner.thy ===== *)
theory Miner
  imports Blockchain Mempool
begin

text \<open>
  The miner (\<open>blockchain/miner.go\<close>): stake lookup, the local election and the creation of a
  block from the pool. \<open>IsMinerEligibleToProposeBlock\<close> and \<open>GetStakeInfo\<close>, which validation uses
  too, are in \<open>Blockchain\<close>. The miner keeps the header of the latest block, updated by an event
  of the chain. A failure at start ends the process (\<open>logrus.Fatal\<close>), as a panic does.
\<close>

section \<open>Model\<close>

record Miner =
  mi_address :: peer_id
  mi_minerStake :: "int option"
  mi_networkStake :: "int option"
  mi_privateKey :: privkey
  mi_latestBlockHeader :: "BlockHeader option"

definition NewMiner :: "peer_id \<Rightarrow> privkey \<Rightarrow> Miner" where
  "NewMiner host_id privateKey =
     \<lparr>mi_address = host_id, mi_minerStake = None, mi_networkStake = None, mi_privateKey = privateKey,
      mi_latestBlockHeader = None\<rparr>"

definition onLatestBlockHeightUpdated :: "Block \<Rightarrow> Miner \<Rightarrow> Miner" where
  "onLatestBlockHeightUpdated block m = m\<lparr>mi_latestBlockHeader := Some (blk_Header block)\<rparr>"

text \<open>The error of \<open>GetLatestBlockHeight\<close> is dropped, the height is then 0.\<close>

definition SetBlockchainInstance :: "'d Database \<Rightarrow> 'd \<Rightarrow> Miner \<Rightarrow> Miner res" where
  "SetBlockchainInstance db d m =
     (let height = (case db_GetLatestBlockHeight db d of Ok n \<Rightarrow> n | _ \<Rightarrow> 0) in
      case db_FetchBlockHeaderByHeight db d height of
        Ok header \<Rightarrow> Ok (m\<lparr>mi_latestBlockHeader := Some header\<rparr>)
      | Err e \<Rightarrow> Panic
      | Panic \<Rightarrow> Panic)"

definition UpdateCurrentStakeInfo :: "eth_api \<Rightarrow> Miner \<Rightarrow> Miner \<times> unit res" where
  "UpdateCurrentStakeInfo E m =
     (case eth_GetMinerStake E (eth_GetEthAddress E) of
        Err e \<Rightarrow> (m, Err e)
      | Panic \<Rightarrow> (m, Panic)
      | Ok mStake \<Rightarrow> (case eth_GetTotalStake E of
            Err e \<Rightarrow> (m, Err e)
          | Panic \<Rightarrow> (m, Panic)
          | Ok nStake \<Rightarrow> (m\<lparr>mi_minerStake := Some mStake, mi_networkStake := Some nStake\<rparr>, Ok ())))"

definition isRoundWinner ::
  "crypto \<Rightarrow> u64 \<Rightarrow> peer_id \<Rightarrow> bytes \<Rightarrow> u64 \<Rightarrow> int \<Rightarrow> int \<Rightarrow> privkey \<Rightarrow> ElectionProof option res" where
  "isRoundWinner C round worker randomness randomnessRound minerStake networkStake privKey =
     bind_res (wrap_res ''failed to marshal address'' (cr_MarshalBinary C worker)) (\<lambda>buf.
     bind_res (wrap_res ''failed to draw randomness''
       (DrawRandomness C randomness RandomnessTypeElectionProofProduction round buf)) (\<lambda>electionRand.
     bind_res (wrap_res ''failed to compute VRF'' (ComputeVRF C privKey electionRand)) (\<lambda>vrfout.
     let ep = \<lparr>ep_WinCount = 0, ep_VRFProof = vrfout, ep_RandomnessRound = randomnessRound\<rparr> in
     bind_res (ComputeWinCount (cr_Blake2b C) ep minerStake networkStake) (\<lambda>j.
       Ok (if j < 1 then None else Some (ep\<lparr>ep_WinCount := j\<rparr>))))))"

text \<open>
  \<open>ts\<close> is the clock reading in nanoseconds that \<open>CreateBlock\<close> takes. A nil list of transactions
  is the empty one.
\<close>

definition mine_with_stakes ::
  "crypto \<Rightarrow> merkle \<Rightarrow> eth_api \<Rightarrow> Transaction list res \<Rightarrow> i64 \<Rightarrow> Miner \<Rightarrow> BlockHeader \<Rightarrow> int \<Rightarrow> int \<Rightarrow>
   bytes \<Rightarrow> u64 \<Rightarrow> Block option res" where
  "mine_with_stakes C M E pooled ts m lh mStake nStake randomness randomnessRound =
     bind_res (wrap_res ''failed to check if we winned in next round''
       (isRoundWinner C (hd_Height lh + 1) (mi_address m) randomness randomnessRound
          mStake nStake (mi_privateKey m))) (\<lambda>winner.
     case winner of
       None \<Rightarrow> Ok None
     | Some ep \<Rightarrow>
         bind_res pooled (\<lambda>txs.
         if txs = [] then Err ErrNoTxForBlock
         else bind_res (wrap_res ''failed to create new block''
           (CreateBlock C M ts lh txs (eth_GetEthAddress E) (mi_privateKey m) ep)) (\<lambda>newBlock.
           Ok (Some newBlock))))"

definition MineBlock ::
  "'d chain_env \<Rightarrow> ('c, Transaction) Cache \<Rightarrow> int \<Rightarrow> Transaction heap \<Rightarrow> 'c \<Rightarrow> i64 \<Rightarrow> Miner \<Rightarrow> bytes \<Rightarrow> u64 \<Rightarrow>
   Miner \<times> Block option res" where
  "MineBlock env ca clk h c ts m randomness randomnessRound =
     (case mi_latestBlockHeader m of
        None \<Rightarrow> (m, Err (Errorf ''latest block header is null''))
      | Some lh \<Rightarrow>
     (case UpdateCurrentStakeInfo (env_eth env) m of
        (m1, Err e) \<Rightarrow> (m1, Err (Wrapf ''failed to update miner stake'' e))
      | (m1, Panic) \<Rightarrow> (m1, Panic)
      | (m1, Ok _) \<Rightarrow>
          (m1, bind_res (deref (mi_minerStake m1)) (\<lambda>mStake.
               bind_res (deref (mi_networkStake m1)) (\<lambda>nStake.
                 mine_with_stakes (env_C env) (env_M env) (env_eth env)
                   (GetTransactionsForNewBlock ca clk h c) ts m1 lh mStake nStake
                   randomness randomnessRound)))))"

section \<open>Lemmas\<close>

lemma isRoundWinner_Some:
  assumes "isRoundWinner C round worker rnd rr stake net sk = Ok (Some ep)"
  obtains buf vrf where "cr_MarshalBinary C worker = Ok buf"
    "ComputeVRF C sk (cr_Blake2b C (draw_preimage C rnd RandomnessTypeElectionProofProduction round buf)) = Ok vrf"
    "ep_VRFProof ep = vrf" "ep_RandomnessRound ep = rr" "1 \<le> ep_WinCount ep"
    "ComputeWinCount (cr_Blake2b C) ep stake net = Ok (ep_WinCount ep)"
proof -
  have same: "ComputeWinCount f (e\<lparr>ep_WinCount := j\<rparr>) a n = ComputeWinCount f e a n" for f e j a n
    by (simp add: ComputeWinCount_def)
  from assms show thesis
    by (auto simp: isRoundWinner_def DrawRandomness_def Let_def res_simps same split: if_splits
        intro!: that)
      (metis same ElectionProof.update_convs(1))
qed

lemma MineBlock_Some:
  assumes "MineBlock env ca clk h c ts m rnd rr = (m', Ok (Some b))"
  obtains lh stake net ep txs where "mi_latestBlockHeader m = Some lh"
    "eth_GetMinerStake (env_eth env) (eth_GetEthAddress (env_eth env)) = Ok stake"
    "eth_GetTotalStake (env_eth env) = Ok net"
    "isRoundWinner (env_C env) (hd_Height lh + 1) (mi_address m) rnd rr stake net (mi_privateKey m) = Ok (Some ep)"
    "GetTransactionsForNewBlock ca clk h c = Ok txs" "txs \<noteq> []"
    "CreateBlock (env_C env) (env_M env) ts lh txs (eth_GetEthAddress (env_eth env)) (mi_privateKey m) ep = Ok b"
    "m' = m\<lparr>mi_minerStake := Some stake, mi_networkStake := Some net\<rparr>"
  using assms
  by (auto simp: MineBlock_def UpdateCurrentStakeInfo_def mine_with_stakes_def res_simps
      split: option.splits res.splits if_splits intro!: that)

end
