(* ===== verification/Chain_Properties.thy ===== *)
theory Chain_Properties
  imports Chain_Safety Miner
begin

text \<open>
  Properties of the chain and the miner together: refinement of the block databases, soundness
  of validation, integrity of the stored chain, and that a mined block is accepted by every
  validator with the same view of the chain, the stakes and the beacon.
\<close>

section \<open>Lemmas\<close>

lemma CreateBlock_signed:
  assumes "signature_scheme C" "CreateBlock C M ts lh txs eth sk ep = Ok b"
    "cr_IDFromPrivateKey C sk = Ok i"
  shows "signed_by_proposer C (blk_Header b)" "hd_Proposer (blk_Header b) = Some i"
proof -
  obtain s where h: "hd_Proposer (blk_Header b) = Some i"
      "cr_Sign C sk (hd_Hash (blk_Header b)) = Ok s" "hd_Signature (blk_Header b) = s"
    using assms(3) by (auto intro: CreateBlock_header [OF assms(2)])
  then show "hd_Proposer (blk_Header b) = Some i" by simp
  from signature_scheme.sign_verifies [OF assms(1,3) h(2)] h(1,3)
  show "signed_by_proposer C (blk_Header b)" by (auto simp: signed_by_proposer_def)
qed

lemma CreateBlock_elected:
  assumes "signature_scheme (env_C env)"
    and "CreateBlock (env_C env) M ts lh txs eth sk ep = Ok b"
    and "cr_IDFromPrivateKey (env_C env) sk = Ok i"
    and "isRoundWinner (env_C env) (hd_Height lh + 1) i (be_Data entry) rr stake net sk = Ok (Some ep)"
    and "env_Entry env rr = Ok entry"
    and "eth_GetMinerStake (env_eth env) eth = Ok stake" "MinMinerStake \<le> stake"
    and "eth_GetTotalStake (env_eth env) = Ok net"
  shows "elected env (blk_Header b)"
proof -
  obtain buf vrf where w: "cr_MarshalBinary (env_C env) i = Ok buf"
    "ComputeVRF (env_C env) sk (cr_Blake2b (env_C env) (draw_preimage (env_C env) (be_Data entry)
        RandomnessTypeElectionProofProduction (hd_Height lh + 1) buf)) = Ok vrf"
    "ep_VRFProof ep = vrf" "ep_RandomnessRound ep = rr" "1 \<le> ep_WinCount ep"
    "ComputeWinCount (cr_Blake2b (env_C env)) ep stake net = Ok (ep_WinCount ep)"
    by (rule isRoundWinner_Some [OF assms(4)])
  have h: "hd_Height (blk_Header b) = hd_Height lh + 1" "hd_ProposerEth (blk_Header b) = eth"
      "hd_ElectionProof (blk_Header b) = Some ep"
    by (rule CreateBlock_header [OF assms(2)], simp)+
  have "VerifyVRF (env_C env) i (cr_Blake2b (env_C env) (draw_preimage (env_C env) (be_Data entry)
        RandomnessTypeElectionProofProduction (hd_Height lh + 1) buf)) vrf = Ok ()"
    by (rule vrf_roundtrip [OF assms(1,3) w(2)])
  then show ?thesis
    unfolding elected_def using h w assms(5-8) CreateBlock_signed(2) [OF assms(1-3)] by auto
qed

definition tx_acceptable :: "'d chain_env \<Rightarrow> Transaction \<Rightarrow> bool" where
  "tx_acceptable env tx \<longleftrightarrow> ValidateHash (env_C env) tx
     \<and> (\<exists>task. unmarshal_task (env_K env) (tx_Data tx) = (task, None) \<and> task_ok env task)"

lemma CreateBlock_tx_ok:
  assumes "merkle_lib (env_M env)" "CreateBlock (env_C env) (env_M env) ts lh txs eth sk ep = Ok b"
    and "\<forall>tx \<in> set txs. tx_acceptable env tx" "v \<in> set (blk_Data b)"
  shows "tx_ok env (blk_Header b) v"
proof -
  have "VerifyTx (env_C env) (env_M env) (blk_Header b) v = Ok ()"
    using merkle_lib.CreateBlock_txs_verify [OF assms(1,2) _ assms(4)] assms(3)
    by (simp add: tx_acceptable_def)
  moreover obtain txs' where t: "blk_Data b = map Some txs'" "map tx_Data txs' = map tx_Data txs"
    by (rule CreateBlock_data [OF assms(2)])
  from assms(4) t(1) obtain tx' where tx': "v = Some tx'" "tx' \<in> set txs'" by auto
  then have "tx_Data tx' \<in> set (map tx_Data txs)" using t(2) [symmetric] by simp
  then obtain tx where "tx \<in> set txs" "tx_Data tx' = tx_Data tx" by auto
  with assms(3) have "\<exists>task. unmarshal_task (env_K env) (tx_Data tx') = (task, None) \<and> task_ok env task"
    by (auto simp: tx_acceptable_def)
  ultimately show ?thesis using tx'(1) by (simp add: tx_ok_def)
qed

section \<open>Demonstration chain\<close>

text \<open>A chain in memory with one miner that holds the whole stake, for the witnesses.\<close>

definition demo_task :: DioneTask where
  "demo_task = \<lparr>tk_OriginChain = 1, tk_RequestType = ''getBlock'', tk_RequestParams = ''x'',
     tk_Payload = [4, 2], tk_RequestID = ''12''\<rparr>"

definition demo_eth :: eth_api where
  "demo_eth = \<lparr>eth_GetEthAddress = [9], eth_GetTotalStake = Ok 2000, eth_GetMinerStake = (\<lambda>a. Ok 2000),
     eth_SubmitRequestAnswer = (\<lambda>i d. Ok ()), eth_BeginDispute = (\<lambda>a i. Ok ()),
     eth_VoteDispute = (\<lambda>h v. Ok ()), eth_FinishDispute = (\<lambda>h. Ok ())\<rparr>"

definition demo_crypto :: crypto where
  "demo_crypto = ref_crypto\<lparr>cr_Blake2b := (\<lambda>bs. replicate 32 0)\<rparr>"

lemma demo_crypto_sel [simp]:
  "cr_ExtractPublicKey demo_crypto i = Ok (key_of_peer i)"
  "cr_Verify demo_crypto pk m s = Ok (s = pk @ m)" "cr_Sign demo_crypto sk m = Ok (sk @ m)"
  "cr_IDFromPrivateKey demo_crypto sk = Ok (peer_of_key sk)"
  "cr_MarshalBinary demo_crypto i = Ok (string_bytes i)"
  "cr_Blake2b demo_crypto bs = replicate 32 0"
  by (simp_all add: demo_crypto_def)

interpretation demo_sig: signature_scheme demo_crypto
  by unfold_locales auto

definition demo_env :: "mem_value ecache chain_env" where
  "demo_env = \<lparr>env_db = memory_Database ref_gocache 0, env_C = demo_crypto, env_M = ref_merkle,
     env_K = ref_codec (no_tables\<lparr>tb_tasks := [demo_task]\<rparr>), env_eth = demo_eth,
     env_Entry = (\<lambda>n. Ok (NewBeaconEntry n [5, 5] [])), env_validations = program_validations\<rparr>"

interpretation demo_chain: chain_db demo_env "mem_inv ref_gocache 0" "mem_abs ref_gocache 0"
  unfolding chain_db_def demo_env_def chain_env.simps by (rule ref_mem.mem_block_database)

definition demo_db0 :: "mem_value ecache" where
  "demo_db0 = mem_NewDatabase ref_gocache"

definition demo_db1 :: "mem_value ecache" where
  "demo_db1 = fst (StoreBlock demo_env [] demo_db0 GenesisBlock)"

definition demo_miner :: Miner where
  "demo_miner = (NewMiner (peer_of_key [7]) [7])\<lparr>mi_latestBlockHeader := Some genesis_header\<rparr>"

definition task_heap :: "Transaction heap" where
  "task_heap l = CreateTransaction demo_crypto (int l) []"

definition task_pool :: "Transaction iface ecache" where
  "task_pool = fst (StoreTx (inmemory_Cache ref_gocache) 0 task_heap (inmem_NewCache ref_gocache) 3)"

lemma demo_env_sel [simp]:
  "env_db demo_env = memory_Database ref_gocache 0" "env_C demo_env = demo_crypto"
  "env_M demo_env = ref_merkle" "env_K demo_env = ref_codec (no_tables\<lparr>tb_tasks := [demo_task]\<rparr>)"
  "env_eth demo_env = demo_eth" "env_Entry demo_env n = Ok (NewBeaconEntry n [5, 5] [])"
  "env_validations demo_env = program_validations"
  by (simp_all add: demo_env_def)

lemma task_pool_txs:
  "GetTransactionsForNewBlock (inmemory_Cache ref_gocache) 0 task_heap task_pool = Ok [task_heap 3]"
  by code_simp

lemma full_stake_winner:
  "\<exists>ep. isRoundWinner demo_crypto round worker rnd rr 2000 2000 sk = Ok (Some ep)"
proof -
  have "big_SetBytes (replicate 32 0) < 2 ^ 255" by (simp add: big_SetBytes_def eval_nat_numeral)
  then obtain j where "ComputeWinCount (\<lambda>_. replicate 32 0)
      \<lparr>ep_WinCount = 0, ep_VRFProof = sk @ replicate 32 0, ep_RandomnessRound = rr\<rparr> 2000 2000 = Ok j" "1 \<le> j"
    using full_stake_wins [of 2000 "\<lambda>_. replicate 32 0"] by auto
  then show ?thesis
    by (simp add: isRoundWinner_def DrawRandomness_def ComputeVRF_def Let_def demo_crypto_def)
qed

lemma demo_mined:
  "\<exists>m' b. MineBlock demo_env (inmemory_Cache ref_gocache) 0 task_heap task_pool 77 demo_miner [5, 5] 8
     = (m', Ok (Some b))"
proof -
  obtain ep where ep: "isRoundWinner demo_crypto 1 (peer_of_key [7]) [5, 5] 8 2000 2000 [7] = Ok (Some ep)"
    using full_stake_winner by blast
  obtain b where "CreateBlock demo_crypto ref_merkle 77 genesis_header [task_heap 3] [9] [7] ep = Ok b"
    using ref_tree.CreateBlock_total [of demo_crypto "[7]" "peer_of_key [7]"] by fastforce
  with ep show ?thesis
    by (simp add: MineBlock_def UpdateCurrentStakeInfo_def mine_with_stakes_def demo_miner_def NewMiner_def
        demo_eth_def task_pool_txs genesis_header_def)
qed

lemma demo_genesis:
  "StoreBlock demo_env [] demo_db0 GenesisBlock
     = (demo_db1, [Ev_latestBlockHeightUpdated GenesisBlock, Ev_blockCommitted GenesisBlock], Ok ())"
proof -
  have "snd (StoreBlock demo_env [] demo_db0 GenesisBlock)
     = ([Ev_latestBlockHeightUpdated GenesisBlock, Ev_blockCommitted GenesisBlock], Ok ())"
    by (simp add: StoreBlock_def set_latest_and_publish_def demo_db0_def ref_mem.mem.has_block
        ref_mem.mem.latest ref_mem.mem_new memory_Database_def mem_HasBlock_def mem_NewDatabase_def
        GenesisBlock_def genesis_header_def mem_StoreBlock_def mem_GetLatestBlockHeight_def
        mem_SetLatestBlockHeight_def ref_cache.get_set Let_def)
  then show ?thesis by (simp add: demo_db1_def prod_eq_iff)
qed

lemma demo_latest:
  "db_GetLatestBlockHeight (memory_Database ref_gocache 0) demo_db1 = Ok 0"
  "db_FetchBlockHeaderByHeight (memory_Database ref_gocache 0) demo_db1 0 = Ok genesis_header"
  by code_simp+

lemma demo_created_valid:
  assumes "isRoundWinner demo_crypto (hd_Height lh + 1) (peer_of_key [7]) [5, 5] 8 2000 2000 [7] = Ok (Some ep)"
    and "CreateBlock demo_crypto ref_merkle ts lh [] [9] [7] ep = Ok b"
    and "hd_Hash lh = hd_Hash genesis_header"
  shows "ValidateBlock demo_env sched demo_db1 b = Ok ()"
proof -
  have "hd_LastHash (blk_Header b) = hd_Hash lh" by (rule CreateBlock_header [OF assms(2)])
  then have "check_last_hash demo_env demo_db1 (blk_Header b) = Ok ()"
    unfolding check_last_hash_iff
    using ref_tree.CreateBlock_merkle [OF assms(2)] assms(3) by (simp add: demo_latest)
  moreover have "elected demo_env (blk_Header b)"
    by (rule CreateBlock_elected [where entry = "NewBeaconEntry 8 [5, 5] []" and net = 2000 and stake = 2000
          and sk = "[7]" and i = "peer_of_key [7]" and lh = lh and rr = 8])
      (use assms demo_sig.signature_scheme_axioms in
        \<open>simp_all add: NewBeaconEntry_def demo_eth_def MinMinerStake_def\<close>)
  moreover have "blk_Data b = []"
    using assms(2) by (auto simp: CreateBlock_def res_simps Let_def)
  then have "validate_txs demo_env sched b = Ok ()" by (intro validate_txs_complete) simp
  moreover have "signed_by_proposer demo_crypto (blk_Header b)"
    by (rule CreateBlock_signed(1) [OF demo_sig.signature_scheme_axioms assms(2)]) simp
  ultimately show ?thesis unfolding ValidateBlock_iff by simp
qed

section \<open>Properties\<close>

text \<open>C1. A block that the miner makes from its pool is valid for every node that sees the same chain
  tip, stakes and beacon entry, under every schedule of the validating goroutines, provided
  the miner holds the minimum stake and the pooled transactions hash and decode correctly.\<close>

theorem mined_block_validates:
  assumes "merkle_lib (env_M env)" "signature_scheme (env_C env)"
    and "MineBlock env ca clk h c ts m rnd rr = (m', Ok (Some b))"
    and "cr_IDFromPrivateKey (env_C env) (mi_privateKey m) = Ok (mi_address m)"
    and "db_GetLatestBlockHeight (env_db env) d = Ok n"
    and "db_FetchBlockHeaderByHeight (env_db env) d n = Ok lh" "mi_latestBlockHeader m = Some lh"
    and "env_Entry env rr = Ok entry" "be_Data entry = rnd"
    and "eth_GetMinerStake (env_eth env) (eth_GetEthAddress (env_eth env)) = Ok stake" "MinMinerStake \<le> stake"
    and "GetTransactionsForNewBlock ca clk h c = Ok txs" "\<forall>tx \<in> set txs. tx_acceptable env tx"
  shows "ValidateBlock env sched d b = Ok ()"
proof -
  obtain net ep where m: "eth_GetTotalStake (env_eth env) = Ok net"
    "isRoundWinner (env_C env) (hd_Height lh + 1) (mi_address m) rnd rr stake net (mi_privateKey m) = Ok (Some ep)"
    "CreateBlock (env_C env) (env_M env) ts lh txs (eth_GetEthAddress (env_eth env)) (mi_privateKey m) ep = Ok b"
    using assms(7,10,12) by (auto intro: MineBlock_Some [OF assms(3)])
  have "hd_LastHash (blk_Header b) = hd_Hash lh" by (rule CreateBlock_header [OF m(3)])
  then have "check_last_hash env d (blk_Header b) = Ok ()"
    unfolding check_last_hash_iff
    using assms(5,6) merkle_lib.CreateBlock_merkle [OF assms(1) m(3)] by auto
  moreover have "elected env (blk_Header b)"
    by (rule CreateBlock_elected [OF assms(2) m(3) assms(4) m(2) [folded assms(9)] assms(8,10,11) m(1)])
  moreover have "validate_txs env sched b = Ok ()"
    by (intro validate_txs_complete ballI CreateBlock_tx_ok [OF assms(1) m(3) assms(13)])
  ultimately show ?thesis
    unfolding ValidateBlock_iff using CreateBlock_signed(1) [OF assms(2) m(3) assms(4)] by blast
qed

theorem mined_block_validates_witness:
  "\<exists>m' b. MineBlock demo_env (inmemory_Cache ref_gocache) 0 task_heap task_pool 77 demo_miner [5, 5] 8
      = (m', Ok (Some b))
    \<and> ValidateBlock demo_env [1, 0] demo_db1 b = Ok ()"
proof -
  obtain m' b where mined: "MineBlock demo_env (inmemory_Cache ref_gocache) 0 task_heap task_pool 77
      demo_miner [5, 5] 8 = (m', Ok (Some b))"
    using demo_mined by blast
  have "ValidateBlock demo_env [1, 0] demo_db1 b = Ok ()"
    by (rule mined_block_validates [OF _ _ mined, where n = 0 and lh = genesis_header
          and entry = "NewBeaconEntry 8 [5, 5] []" and stake = 2000 and txs = "[task_heap 3]"])
      (simp_all add: ref_tree.merkle_lib_axioms demo_sig.signature_scheme_axioms demo_latest
        demo_miner_def NewMiner_def NewBeaconEntry_def demo_eth_def MinMinerStake_def task_pool_txs
        tx_acceptable_def task_heap_def ref_codec_def tbl_unmarshal_def task_ok_def CreateTransaction_def
        ValidateHash_def)
  with mined show ?thesis by blast
qed

text \<open>C3. Validation is sound under every schedule: an accepted block is signed by its proposer, its
  last hash is the hash of the block at the latest height and is contained in its Merkle
  root, its proposer holds the minimum stake and was elected for this height with exactly the
  claimed, positive win count, and each of its transactions hashes correctly and is contained
  in its Merkle root.\<close>

theorem validate_block_sound:
  assumes "ValidateBlock env sched d b = Ok ()"
  shows "signed_by_proposer (env_C env) (blk_Header b)
    \<and> (\<exists>n prev. db_GetLatestBlockHeight (env_db env) d = Ok n
        \<and> db_FetchBlockHeaderByHeight (env_db env) d n = Ok prev
        \<and> hd_LastHash (blk_Header b) = hd_Hash prev
        \<and> mt_VerifyProofUsing (env_M env) (hd_Hash prev) True (hd_LastHashProof (blk_Header b)) [blk_hash b] = Ok True)
    \<and> elected env (blk_Header b)
    \<and> (\<forall>v \<in> set (blk_Data b). VerifyTx (env_C env) (env_M env) (blk_Header b) v = Ok ())"
  using assms validate_txs_verified [of env sched b]
  unfolding ValidateBlock_iff check_last_hash_iff by blast

theorem validate_block_sound_witness:
  "\<exists>b. ValidateBlock demo_env [1, 0] demo_db1 b = Ok () \<and> elected demo_env (blk_Header b)"
proof -
  obtain ep where ep: "isRoundWinner demo_crypto 1 (peer_of_key [7]) [5, 5] 8 2000 2000 [7] = Ok (Some ep)"
    using full_stake_winner by blast
  obtain b where b: "CreateBlock demo_crypto ref_merkle 77 genesis_header [] [9] [7] ep = Ok b"
    using ref_tree.CreateBlock_total [of demo_crypto "[7]" "peer_of_key [7]"] by fastforce
  have "ValidateBlock demo_env [1, 0] demo_db1 b = Ok ()" by (rule demo_created_valid [OF _ b]) (use ep in \<open>simp_all add: genesis_header_def\<close>)
  from validate_block_sound [OF this] this show ?thesis by blast
qed

text \<open>C2. Chain integrity: in every database reached from an empty one by any calls of \<open>StoreBlock\<close>,
  every stored block leads back over last-hash links to a stored block of height 0; every
  block of another height is signed by its proposer, and its Merkle root contains its
  predecessor's hash and its transactions; and the block of the latest height can be fetched.\<close>

theorem chain_integrity:
  assumes "block_database db I \<alpha>" "I d0" "\<alpha> d0 = abs_empty" "chain_reachable db C M d0 d"
  shows "(\<forall>h b. db_FetchBlock db d h = Ok b \<longrightarrow>
      linked (\<alpha> d) h \<and> (blk_height b = 0 \<or> block_ok C M b))
    \<and> (\<forall>n. db_GetLatestBlockHeight db d = Ok n \<longrightarrow> (\<exists>b. db_FetchBlockByHeight db d n = Ok b \<and> blk_height b = n))"
proof -
  have ok: "I d" "chain_ok C M (\<alpha> d)"
    using reachable_chain_ok [OF assms(1,2) _ assms(4)] assms(3) chain_ok_empty by auto
  note D = block_database.fetch_block [OF assms(1) ok(1)] block_database.latest [OF assms(1) ok(1)]
    block_database.fetch_by_height [OF assms(1) ok(1)]
  have "\<exists>b. abs_by_height (\<alpha> d) n = Some b \<and> blk_height b = n" if "a_latest (\<alpha> d) = Some n" for n
    using that ok(2) abs_by_height_wf [OF block_database.wf [OF assms(1) ok(1)]]
    unfolding chain_ok_def by blast
  with ok(2) show ?thesis by (auto simp: D chain_ok_def split: option.splits)
qed

theorem chain_integrity_witness:
  "chain_reachable (memory_Database ref_gocache 0) demo_crypto ref_merkle demo_db0 demo_db1
   \<and> linked (mem_abs ref_gocache 0 demo_db1) (string_bytes ''DIMICANDUM'')"
proof -
  have r: "chain_reachable (memory_Database ref_gocache 0) demo_crypto ref_merkle demo_db0 demo_db1"
    by (rule chain_reachable.store [OF chain_reachable.start _ _ _ demo_genesis]) simp_all
  have f: "db_FetchBlock (memory_Database ref_gocache 0) demo_db1 (string_bytes ''DIMICANDUM'') = Ok GenesisBlock"
    by code_simp
  from chain_integrity [OF ref_mem.mem_block_database, of 0 demo_db0, OF _ _ r] f r
  show ?thesis by (auto simp: demo_db0_def ref_mem.mem_new)
qed

text \<open>The latest block height never decreases, whatever blocks are offered for storage.\<close>

lemma latest_height_monotone:
  assumes "block_database db I \<alpha>" "I d0" "chain_ok C M (\<alpha> d0)" "chain_reachable db C M d0 d"
    and "db_GetLatestBlockHeight db d0 = Ok n"
  shows "\<exists>m \<ge> n. db_GetLatestBlockHeight db d = Ok m"
proof -
  have "I d" "latest_le (\<alpha> d0) (\<alpha> d)" using reachable_chain_ok [OF assms(1-4)] by blast+
  then show ?thesis
    using assms(5) by (auto simp: block_database.latest [OF assms(1)] assms(2) latest_le_def split: option.splits)
qed

text \<open>C15. A successful \<open>StoreBlock\<close> of an unknown block has validated it (unless its height is 0),
  makes it the answer for its hash and its height, leaves every other hash and height alone,
  raises the latest height to at least the block's, and announces the new height exactly when
  it grows.\<close>

theorem store_block_effect:
  assumes "block_database (env_db env) I \<alpha>" "I d"
    and "db_HasBlock (env_db env) d (blk_hash b) = Ok False" "StoreBlock env sched d b = (d', ev, Ok ())"
  shows "(blk_height b = 0 \<or> ValidateBlock env sched d b = Ok ())
    \<and> db_FetchBlock (env_db env) d' h = (if h = blk_hash b then Ok b else db_FetchBlock (env_db env) d h)
    \<and> db_FetchBlockByHeight (env_db env) d' n
        = (if n = blk_height b then Ok b else db_FetchBlockByHeight (env_db env) d n)
    \<and> (case db_GetLatestBlockHeight (env_db env) d of
         Ok m \<Rightarrow> db_GetLatestBlockHeight (env_db env) d' = Ok (max m (blk_height b))
           \<and> ev = (if m < blk_height b then [Ev_latestBlockHeightUpdated b] else []) @ [Ev_blockCommitted b]
       | _ \<Rightarrow> db_GetLatestBlockHeight (env_db env) d' = Ok (blk_height b)
           \<and> ev = [Ev_latestBlockHeightUpdated b, Ev_blockCommitted b])"
proof -
  have cd: "chain_db env I \<alpha>" using assms(1) by (simp add: chain_db_def)
  have new: "a_blocks (\<alpha> d) (blk_hash b) = None"
    using assms(3) by (simp add: block_database.has_block [OF assms(1,2)])
  have valid: "blk_height b = 0 \<or> ValidateBlock env sched d b = Ok ()"
    using assms(4) chain_db.StoreBlock_invalid [OF cd assms(2) new, of sched]
    by (cases "ValidateBlock env sched d b") auto
  note bh = abs_by_height_store [OF block_database.wf [OF assms(1,2)] new]
  note D = block_database.fetch_block [OF assms(1)] block_database.fetch_by_height [OF assms(1)]
    block_database.latest [OF assms(1)]
  show ?thesis
  proof (rule chain_db.StoreBlock_valid [OF cd assms(2) new valid assms(4)])
    fix m
    assume "ev = [Ev_blockCommitted b]" "I d'" "\<alpha> d' = abs_store b (\<alpha> d)" "a_latest (\<alpha> d) = Some m" "blk_height b \<le> m"
    then show ?thesis using valid
      by (simp add: D assms(2) bh max_def) (auto simp: abs_store_def)
  next
    assume "ev = [Ev_latestBlockHeightUpdated b, Ev_blockCommitted b]" "I d'"
      and a: "\<alpha> d' = (abs_store b (\<alpha> d))\<lparr>a_latest := Some (blk_height b)\<rparr>"
      and lt: "\<And>n. a_latest (\<alpha> d) = Some n \<Longrightarrow> n < blk_height b"
    moreover have "abs_by_height (\<alpha> d') n = (if n = blk_height b then Some b else abs_by_height (\<alpha> d) n)"
      using bh [of n] by (simp add: a abs_by_height_def)
    ultimately show ?thesis using valid
      by (cases "a_latest (\<alpha> d)") (auto simp: D assms(2) max_def less_imp_le, auto simp: abs_store_def)
  qed simp_all
qed

theorem store_block_effect_witness:
  "db_HasBlock (memory_Database ref_gocache 0) demo_db0 (blk_hash GenesisBlock) = Ok False
   \<and> db_FetchBlockByHeight (memory_Database ref_gocache 0) demo_db1 0 = Ok GenesisBlock"
proof -
  have i: "mem_inv ref_gocache 0 demo_db0" by (simp add: demo_db0_def ref_mem.mem_new)
  have n: "db_HasBlock (env_db demo_env) demo_db0 (blk_hash GenesisBlock) = Ok False" by simp code_simp
  from store_block_effect [OF demo_chain.block_database_axioms i n demo_genesis, of _ 0] n
  show ?thesis by (simp add: GenesisBlock_def genesis_header_def)
qed

text \<open>C17. The in-memory database implements the block database contract over its abstract view, and
  starts empty; no type assertion in it can fail.\<close>

theorem memory_database_refines:
  assumes "go_cache gc"
  shows "block_database (memory_Database gc clk) (mem_inv gc clk) (mem_abs gc clk)
    \<and> mem_inv gc clk (mem_NewDatabase gc) \<and> mem_abs gc clk (mem_NewDatabase gc) = abs_empty"
  using mem_backend.mem_block_database [of gc clk] mem_backend.mem_new [of gc clk] assms
  by (simp add: mem_backend_def)

theorem memory_database_refines_witness:
  "block_database (memory_Database ref_gocache 3) (mem_inv ref_gocache 3) (mem_abs ref_gocache 3)"
  using memory_database_refines [OF ref_cache.go_cache_axioms] by blast



section \<open>Limits of validation\<close>

text \<open>
  Three behaviours of the code that a reader of \<open>ValidateBlock\<close> and \<open>StoreBlock\<close> may not expect.
\<close>

text \<open>C30. The goroutines that check the transactions share one error variable: a block with a
  payload that cannot be decoded is rejected when they run one after the other, and accepted
  when the second one writes the variable before the first one reads it.\<close>

theorem payload_error_race:
  assumes "blk_Data b = [va, vb]"
    and "VerifyTx (env_C env) (env_M env) (blk_Header b) va = Ok ()"
    and "VerifyTx (env_C env) (env_M env) (blk_Header b) vb = Ok ()"
    and "unmarshal_task (env_K env) (tx_Data (the va)) = (ta, Some e)"
    and "unmarshal_task (env_K env) (tx_Data (the vb)) = (tb, None)"
    and "env_validations env = program_validations"
  shows "validate_txs env [0, 1] b = Ok () \<and> validate_txs env [] b \<noteq> Ok ()"
proof
  show "validate_txs env [0, 1] b = Ok ()"
    using assms by (simp add: validate_txs_def run_schedule_def worker_step_def worker_start_def
        worker_finish_def workers_init_def Let_def upt_rec)
  have "\<not> tx_ok env (blk_Header b) va" using assms(4) by (simp add: tx_ok_def)
  then show "validate_txs env [] b \<noteq> Ok ()" unfolding validate_txs_sequential using assms(1) by auto
qed

definition race_txs :: "Transaction list" where
  "race_txs = [CreateTransaction demo_crypto 1 [1], CreateTransaction demo_crypto 2 []]"

theorem payload_error_race_witness:
  "\<exists>b. validate_txs demo_env [0, 1] b = Ok () \<and> validate_txs demo_env [] b \<noteq> Ok ()"
proof -
  obtain b where b: "CreateBlock demo_crypto ref_merkle 77 genesis_header race_txs [9] [7]
      \<lparr>ep_WinCount = 1, ep_VRFProof = [], ep_RandomnessRound = 1\<rparr> = Ok b"
    using ref_tree.CreateBlock_total [of demo_crypto "[7]" "peer_of_key [7]"] by fastforce
  obtain txs' where t: "blk_Data b = map Some txs'" "map tx_Data txs' = map tx_Data race_txs"
    by (rule CreateBlock_data [OF b])
  then obtain x y where xy: "txs' = [x, y]" "tx_Data x = [1]" "tx_Data y = []"
    by (auto simp: race_txs_def CreateTransaction_def Cons_eq_map_conv map_eq_Cons_conv)
  have v: "VerifyTx demo_crypto ref_merkle (blk_Header b) v = Ok ()" if "v \<in> set (blk_Data b)" for v
    by (rule ref_tree.CreateBlock_txs_verify [OF b _ that]) (simp add: race_txs_def)
  have "validate_txs demo_env [0, 1] b = Ok () \<and> validate_txs demo_env [] b \<noteq> Ok ()"
    by (rule payload_error_race [where va = "Some x" and vb = "Some y" and ta = zero_task
          and tb = demo_task and e = "ExtErr ''cbor''"])
      (use t xy v in \<open>simp_all add: ref_codec_def tbl_unmarshal_def\<close>)
  then show ?thesis by blast
qed

lemma height_gap_accepted:
  "\<exists>b. blk_height b = 42 \<and> ValidateBlock demo_env [] demo_db1 b = Ok ()
     \<and> db_GetLatestBlockHeight (env_db demo_env) demo_db1 = Ok 0"
proof -
  let ?lh = "genesis_header\<lparr>hd_Height := 41\<rparr>"
  obtain ep where ep: "isRoundWinner demo_crypto 42 (peer_of_key [7]) [5, 5] 8 2000 2000 [7] = Ok (Some ep)"
    using full_stake_winner by blast
  obtain b where b: "CreateBlock demo_crypto ref_merkle 77 ?lh [] [9] [7] ep = Ok b"
    using ref_tree.CreateBlock_total [of demo_crypto "[7]" "peer_of_key [7]"] by fastforce
  have "ValidateBlock demo_env [] demo_db1 b = Ok ()"
    by (rule demo_created_valid [OF _ b]) (use ep in simp_all)
  moreover have "blk_height b = 42"
    by (rule CreateBlock_header [OF b]) simp
  ultimately show ?thesis using demo_latest(1) by auto
qed

lemma height_zero_unvalidated:
  assumes "block_database (env_db env) I \<alpha>" "I d" "db_GetLatestBlockHeight (env_db env) d = Ok n"
    and "blk_height b = 0" "db_HasBlock (env_db env) d (blk_hash b) = Ok False"
    and "db_StoreBlock (env_db env) d b = (d', Ok ())"
  shows "StoreBlock env sched d b = (d', [Ev_blockCommitted b], Ok ())
    \<and> db_FetchBlockByHeight (env_db env) d' 0 = Ok b"
proof -
  have new: "a_blocks (\<alpha> d) (blk_hash b) = None"
    using assms(5) by (simp add: block_database.has_block [OF assms(1,2)])
  note st = block_database.store_Ok [OF assms(1,2) new assms(6)]
  have "a_latest (\<alpha> d) = Some n"
    using assms(3) by (simp add: block_database.latest [OF assms(1,2)] split: option.splits)
  then have "db_GetLatestBlockHeight (env_db env) d' = Ok n"
    using st by (simp add: block_database.latest [OF assms(1)] abs_store_def)
  then have "StoreBlock env sched d b = (d', [Ev_blockCommitted b], Ok ())"
    using assms(4-6) by (simp add: StoreBlock_def)
  moreover have "db_FetchBlockByHeight (env_db env) d' 0 = Ok b"
    using block_database.fetch_after_store(2) [OF assms(1,2) new assms(6)] assms(4) by simp
  ultimately show ?thesis by blast
qed

end
