(* ===== verification/Consensus_Manager.thy ===== *)
theory Consensus_Manager
  imports Reference_Libs "HOL-Library.Multiset"
begin

text \<open>
  The consensus state machine (\<open>consensus/consensus_manager.go\<close>, \<open>consensus/msg_log.go\<close>,
  \<open>consensus/types\<close>): per block hash a log of messages and a state that moves from unknown over
  pre-prepared and prepared to committed. The set of messages is a library outside the
  repository, the record \<open>mapset\<close>; what the code relies on is in the locale \<open>message_set\<close>, which
  leaves open when two messages count as the same.
\<close>

section \<open>Messages\<close>

definition ConsensusMessageTypeUnknown :: u8 where "ConsensusMessageTypeUnknown = 0"

definition ConsensusMessageTypePrePrepare :: u8 where "ConsensusMessageTypePrePrepare = 1"

definition ConsensusMessageTypePrepare :: u8 where "ConsensusMessageTypePrepare = 2"

definition ConsensusMessageTypeCommit :: u8 where "ConsensusMessageTypeCommit = 3"

lemmas message_type_defs = ConsensusMessageTypeUnknown_def ConsensusMessageTypePrePrepare_def
  ConsensusMessageTypePrepare_def ConsensusMessageTypeCommit_def

record ConsensusMessage =
  cm_Type :: u8
  cm_Blockhash :: bytes
  cm_Signature :: bytes
  cm_Block :: "Block option"
  cm_From :: peer_id

section \<open>Message log\<close>

record 's mapset =
  ms_NewSet :: 's
  ms_Add :: "'s \<Rightarrow> ConsensusMessage \<Rightarrow> 's \<times> bool"
  ms_Contains :: "'s \<Rightarrow> ConsensusMessage \<Rightarrow> bool"
  ms_Iter :: "'s \<Rightarrow> ConsensusMessage list"

locale message_set =
  fixes ms :: "'s mapset"
  assumes iter_new: "ms_Iter ms (ms_NewSet ms) = []"
    and add_new: "ms_Add ms s m = (s', True) \<Longrightarrow> mset (ms_Iter ms s') = add_mset m (mset (ms_Iter ms s))"
    and add_old: "ms_Add ms s m = (s', False) \<Longrightarrow> mset (ms_Iter ms s') = mset (ms_Iter ms s)"

definition log_AddMessage :: "'s mapset \<Rightarrow> 's \<Rightarrow> ConsensusMessage \<Rightarrow> 's \<times> bool" where
  "log_AddMessage ms messages msg = ms_Add ms messages msg"

definition log_Exists :: "'s mapset \<Rightarrow> 's \<Rightarrow> ConsensusMessage \<Rightarrow> bool" where
  "log_Exists ms messages msg = ms_Contains ms messages msg"

definition msg_hash :: "ConsensusMessage \<Rightarrow> bytes" where
  "msg_hash msg = (case cm_Block msg of Some b \<Rightarrow> hd_Hash (blk_Header b) | None \<Rightarrow> cm_Blockhash msg)"

definition log_Get :: "'s mapset \<Rightarrow> 's \<Rightarrow> u8 \<Rightarrow> bytes \<Rightarrow> ConsensusMessage list" where
  "log_Get ms messages typ blockhash =
     filter (\<lambda>msg. cm_Type msg = typ \<and> msg_hash msg = blockhash) (ms_Iter ms messages)"

section \<open>Consensus manager\<close>

definition StateStatusUnknown :: nat where "StateStatusUnknown = 0"

definition StateStatusPrePrepared :: nat where "StateStatusPrePrepared = 1"

definition StateStatusPrepared :: nat where "StateStatusPrepared = 2"

definition StateStatusCommited :: nat where "StateStatusCommited = 3"

lemmas state_defs = StateStatusUnknown_def StateStatusPrePrepared_def StateStatusPrepared_def
  StateStatusCommited_def

record 's ConsensusInfo =
  ci_Blockhash :: bytes
  ci_Block :: "Block option"
  ci_State :: nat
  ci_MessageLog :: 's

text \<open>The map of infos by the hex form of the hash, in order of insertion.\<close>

record 's ConsensusManager =
  con_infos :: "(string \<times> 's ConsensusInfo) list"
  con_minApprovals :: int

definition NewConsensusManager :: "int \<Rightarrow> 's ConsensusManager" where
  "NewConsensusManager minApprovals = \<lparr>con_infos = [], con_minApprovals = minApprovals\<rparr>"

text \<open>The three conditions are checked one after the other, each on the state the last one left.\<close>

definition try_preprepare :: "ConsensusMessage \<Rightarrow> 's ConsensusInfo \<Rightarrow> 's ConsensusInfo \<times> event list" where
  "try_preprepare cmsg ci =
     (if ci_State ci = StateStatusUnknown \<and> cm_Type cmsg = ConsensusMessageTypePrePrepare
         \<and> cm_Block cmsg \<noteq> None
      then (ci\<lparr>ci_Block := cm_Block cmsg, ci_State := StateStatusPrePrepared\<rparr>,
            [Ev_consensus_newState (cm_Block cmsg) StateStatusPrePrepared])
      else (ci, []))"

definition try_prepare ::
  "'s mapset \<Rightarrow> int \<Rightarrow> ConsensusMessage \<Rightarrow> 's ConsensusInfo \<Rightarrow> 's ConsensusInfo \<times> event list" where
  "try_prepare ms minApprovals cmsg ci =
     (if minApprovals - 1 \<le> int (length (log_Get ms (ci_MessageLog ci) ConsensusMessageTypePrepare (cm_Blockhash cmsg)))
         \<and> ci_State ci = StateStatusPrePrepared
      then (ci\<lparr>ci_State := StateStatusPrepared\<rparr>, [Ev_consensus_newState (ci_Block ci) StateStatusPrepared])
      else (ci, []))"

definition try_commit ::
  "'s mapset \<Rightarrow> int \<Rightarrow> ConsensusMessage \<Rightarrow> 's ConsensusInfo \<Rightarrow> 's ConsensusInfo \<times> event list" where
  "try_commit ms minApprovals cmsg ci =
     (if minApprovals \<le> int (length (log_Get ms (ci_MessageLog ci) ConsensusMessageTypeCommit (cm_Blockhash cmsg)))
         \<and> ci_State ci = StateStatusPrepared
      then (ci\<lparr>ci_State := StateStatusCommited\<rparr>, [Ev_consensus_newState (ci_Block ci) StateStatusCommited])
      else (ci, []))"

definition maybeUpdateConsensusState ::
  "'s mapset \<Rightarrow> int \<Rightarrow> ConsensusMessage \<Rightarrow> 's ConsensusInfo \<Rightarrow> 's ConsensusInfo \<times> event list" where
  "maybeUpdateConsensusState ms minApprovals cmsg ci =
     (case try_preprepare cmsg ci of (ci1, ev1) \<Rightarrow>
      case try_prepare ms minApprovals cmsg ci1 of (ci2, ev2) \<Rightarrow>
      case try_commit ms minApprovals cmsg ci2 of (ci3, ev3) \<Rightarrow> (ci3, ev1 @ ev2 @ ev3))"

fun set_info :: "string \<Rightarrow> 'a \<Rightarrow> (string \<times> 'a) list \<Rightarrow> (string \<times> 'a) list" where
  "set_info k v [] = [(k, v)]"
| "set_info k v ((k', v') # es) = (if k' = k then (k, v) # es else (k', v') # set_info k v es)"

definition new_info :: "'s mapset \<Rightarrow> ConsensusMessage \<Rightarrow> 's ConsensusInfo" where
  "new_info ms cmsg =
     \<lparr>ci_Blockhash = cm_Blockhash cmsg, ci_Block = cm_Block cmsg, ci_State = StateStatusUnknown,
      ci_MessageLog = ms_NewSet ms\<rparr>"

definition InsertMessageIntoLog ::
  "'s mapset \<Rightarrow> ConsensusMessage \<Rightarrow> 's ConsensusManager \<Rightarrow> 's ConsensusManager \<times> event list \<times> unit res" where
  "InsertMessageIntoLog ms cmsg crp =
     (let k = hex_EncodeToString (cm_Blockhash cmsg);
          consensusInfo = (case map_of (con_infos crp) k of Some ci \<Rightarrow> ci | None \<Rightarrow> new_info ms cmsg)
      in case log_AddMessage ms (ci_MessageLog consensusInfo) cmsg of
           (log', added) \<Rightarrow>
             let ci1 = consensusInfo\<lparr>ci_MessageLog := log'\<rparr> in
             if \<not> added
             then (crp\<lparr>con_infos := set_info k ci1 (con_infos crp)\<rparr>, [],
                   Err (Errorf ''consensus message already exists in message log''))
             else (case maybeUpdateConsensusState ms (con_minApprovals crp) cmsg ci1 of
                 (ci2, ev) \<Rightarrow> (crp\<lparr>con_infos := set_info k ci2 (con_infos crp)\<rparr>, ev, Ok ())))"

definition Prune :: "'s ConsensusManager \<Rightarrow> 's ConsensusManager \<times> event list" where
  "Prune crp = (crp\<lparr>con_infos := []\<rparr>, [Ev_blockpool_pruned])"

text \<open>Go iterates over a map in any order: \<open>ord\<close> permutes.\<close>

definition GetAllBlocksWithCommit ::
  "('s ConsensusInfo list \<Rightarrow> 's ConsensusInfo list) \<Rightarrow> 's ConsensusManager \<Rightarrow> 's ConsensusInfo list" where
  "GetAllBlocksWithCommit ord crp =
     filter (\<lambda>ci. ci_State ci = StateStatusCommited) (ord (map snd (con_infos crp)))"

section \<open>Lemmas\<close>

lemma map_of_set_info: "map_of (set_info k v es) k' = (if k' = k then Some v else map_of es k')"
  by (induction k v es rule: set_info.induct) auto

lemma set_info_keys: "distinct (map fst es) \<Longrightarrow> distinct (map fst (set_info k v es))"
proof (induction k v es rule: set_info.induct)
  case (2 k v k' v' es)
  have "fst ` set (set_info k v es) = insert k (fst ` set es)" for es :: "(string \<times> 'a) list"
    by (induction k v es rule: set_info.induct) auto
  with 2 show ?case by auto
qed simp

text \<open>
  A message is well formed for its hash when a block it carries has that hash; the handlers
  build only such messages.
\<close>

definition wf_msg :: "ConsensusMessage \<Rightarrow> bool" where
  "wf_msg m \<longleftrightarrow> (case cm_Block m of None \<Rightarrow> True | Some b \<Rightarrow> hd_Hash (blk_Header b) = cm_Blockhash m)"

definition votes :: "'s mapset \<Rightarrow> 's ConsensusInfo \<Rightarrow> u8 \<Rightarrow> nat" where
  "votes ms ci typ = length (log_Get ms (ci_MessageLog ci) typ (ci_Blockhash ci))"

definition info_ok :: "'s mapset \<Rightarrow> int \<Rightarrow> 's ConsensusInfo \<Rightarrow> bool" where
  "info_ok ms minApprovals ci \<longleftrightarrow>
     ci_State ci \<le> StateStatusCommited
     \<and> (\<forall>m \<in> set (ms_Iter ms (ci_MessageLog ci)). wf_msg m \<and> cm_Blockhash m = ci_Blockhash ci)
     \<and> (StateStatusPrePrepared \<le> ci_State ci \<longrightarrow>
          (\<exists>b m. ci_Block ci = Some b \<and> hd_Hash (blk_Header b) = ci_Blockhash ci
             \<and> m \<in> set (ms_Iter ms (ci_MessageLog ci)) \<and> cm_Type m = ConsensusMessageTypePrePrepare
             \<and> cm_Block m = Some b))
     \<and> (StateStatusPrepared \<le> ci_State ci \<longrightarrow> minApprovals - 1 \<le> int (votes ms ci ConsensusMessageTypePrepare))
     \<and> (StateStatusCommited \<le> ci_State ci \<longrightarrow> minApprovals \<le> int (votes ms ci ConsensusMessageTypeCommit))"

definition manager_ok :: "'s mapset \<Rightarrow> 's ConsensusManager \<Rightarrow> bool" where
  "manager_ok ms crp \<longleftrightarrow> distinct (map fst (con_infos crp))
     \<and> (\<forall>k ci. map_of (con_infos crp) k = Some ci \<longrightarrow>
          k = hex_EncodeToString (ci_Blockhash ci) \<and> info_ok ms (con_minApprovals crp) ci)"

lemma try_frame [simp]:
  "ci_Blockhash (fst (try_preprepare m ci)) = ci_Blockhash ci"
  "ci_MessageLog (fst (try_preprepare m ci)) = ci_MessageLog ci"
  "ci_Blockhash (fst (try_prepare ms n m ci)) = ci_Blockhash ci"
  "ci_MessageLog (fst (try_prepare ms n m ci)) = ci_MessageLog ci"
  "ci_Blockhash (fst (try_commit ms n m ci)) = ci_Blockhash ci"
  "ci_MessageLog (fst (try_commit ms n m ci)) = ci_MessageLog ci"
  by (simp_all add: try_preprepare_def try_prepare_def try_commit_def)

lemma update_split:
  "fst (maybeUpdateConsensusState ms n m ci) =
     fst (try_commit ms n m (fst (try_prepare ms n m (fst (try_preprepare m ci)))))"
  by (simp add: maybeUpdateConsensusState_def case_prod_beta)

lemma update_Blockhash [simp]:
  "ci_Blockhash (fst (maybeUpdateConsensusState ms n m ci)) = ci_Blockhash ci"
  by (simp add: update_split)

text \<open>Every state entered is announced once, in order, with the block.\<close>

lemma update_events:
  assumes "ci_State ci \<le> StateStatusCommited" "maybeUpdateConsensusState ms n m ci = (ci', ev)"
  shows "ci_State ci \<le> ci_State ci' \<and> ci_State ci' \<le> StateStatusCommited
    \<and> ev = map (Ev_consensus_newState (ci_Block ci')) [Suc (ci_State ci)..<Suc (ci_State ci')]"
  using assms
  by (auto simp: maybeUpdateConsensusState_def try_preprepare_def try_prepare_def try_commit_def
      state_defs upt_rec split: if_splits)

context message_set
begin

lemma add_facts:
  assumes "ms_Add ms s m = (s', a)"
  shows "set (ms_Iter ms s) \<subseteq> set (ms_Iter ms s')" "set (ms_Iter ms s') \<subseteq> insert m (set (ms_Iter ms s))"
    "length (filter P (ms_Iter ms s)) \<le> length (filter P (ms_Iter ms s'))"
    "a \<Longrightarrow> m \<in> set (ms_Iter ms s')"
proof -
  have *: "mset (ms_Iter ms s') = (if a then add_mset m (mset (ms_Iter ms s)) else mset (ms_Iter ms s))"
    using add_new [of s m s'] add_old [of s m s'] assms by (cases a) simp_all
  have set: "set (ms_Iter ms s') = (if a then insert m (set (ms_Iter ms s)) else set (ms_Iter ms s))"
    using arg_cong [OF *, of set_mset] by (simp split: if_splits)
  show "set (ms_Iter ms s) \<subseteq> set (ms_Iter ms s')" "set (ms_Iter ms s') \<subseteq> insert m (set (ms_Iter ms s))"
    "a \<Longrightarrow> m \<in> set (ms_Iter ms s')" using set by auto
  have "length (filter P xs) = size (filter_mset P (mset xs))" for xs
    by (metis mset_filter size_mset)
  then show "length (filter P (ms_Iter ms s)) \<le> length (filter P (ms_Iter ms s'))" by (simp add: *)
qed

lemma info_ok_new: "info_ok ms n (new_info ms m)"
  by (simp add: info_ok_def new_info_def iter_new state_defs)

lemma info_ok_log:
  assumes "info_ok ms n ci" "wf_msg m" "cm_Blockhash m = ci_Blockhash ci"
    and "ms_Add ms (ci_MessageLog ci) m = (s', a)"
  shows "info_ok ms n (ci\<lparr>ci_MessageLog := s'\<rparr>)"
proof -
  note A = add_facts [OF assms(4)]
  have v: "votes ms ci t \<le> votes ms (ci\<lparr>ci_MessageLog := s'\<rparr>) t" for t
    using A(3) by (simp add: votes_def log_Get_def)
  show ?thesis
    unfolding info_ok_def
  proof (intro conjI)
    show "\<forall>x \<in> set (ms_Iter ms (ci_MessageLog (ci\<lparr>ci_MessageLog := s'\<rparr>))).
        wf_msg x \<and> cm_Blockhash x = ci_Blockhash (ci\<lparr>ci_MessageLog := s'\<rparr>)"
      using assms(1-3) A(2) by (auto simp: info_ok_def)
    show "StateStatusPrepared \<le> ci_State (ci\<lparr>ci_MessageLog := s'\<rparr>) \<longrightarrow>
        n - 1 \<le> int (votes ms (ci\<lparr>ci_MessageLog := s'\<rparr>) ConsensusMessageTypePrepare)"
      using assms(1) v [of ConsensusMessageTypePrepare] by (auto simp: info_ok_def)
    show "StateStatusCommited \<le> ci_State (ci\<lparr>ci_MessageLog := s'\<rparr>) \<longrightarrow>
        n \<le> int (votes ms (ci\<lparr>ci_MessageLog := s'\<rparr>) ConsensusMessageTypeCommit)"
      using assms(1) v [of ConsensusMessageTypeCommit] by (auto simp: info_ok_def)
  qed (use assms(1) A(1) in \<open>auto simp: info_ok_def\<close>)
qed

lemma info_ok_preprepare:
  assumes "info_ok ms n ci" "wf_msg m" "cm_Blockhash m = ci_Blockhash ci"
    "m \<in> set (ms_Iter ms (ci_MessageLog ci))"
  shows "info_ok ms n (fst (try_preprepare m ci))"
proof (cases "ci_State ci = StateStatusUnknown \<and> cm_Type m = ConsensusMessageTypePrePrepare \<and> cm_Block m \<noteq> None")
  case True
  then obtain b where b: "cm_Block m = Some b" by blast
  have log: "\<forall>x \<in> set (ms_Iter ms (ci_MessageLog ci)). wf_msg x \<and> cm_Blockhash x = ci_Blockhash ci"
    using assms(1) unfolding info_ok_def by blast
  have "hd_Hash (blk_Header b) = ci_Blockhash ci" using assms(2,3) b by (simp add: wf_msg_def)
  then have "\<exists>b' m'. Some b = Some b' \<and> hd_Hash (blk_Header b') = ci_Blockhash ci
      \<and> m' \<in> set (ms_Iter ms (ci_MessageLog ci)) \<and> cm_Type m' = ConsensusMessageTypePrePrepare
      \<and> cm_Block m' = Some b'"
    using True assms(4) b by blast
  then show ?thesis using True b log by (simp add: info_ok_def try_preprepare_def state_defs)
next
  case False
  then show ?thesis using assms(1) by (auto simp: try_preprepare_def)
qed

lemma info_ok_prepare:
  assumes "info_ok ms n ci" "cm_Blockhash m = ci_Blockhash ci"
  shows "info_ok ms n (fst (try_prepare ms n m ci))"
  using assms by (auto simp: info_ok_def try_prepare_def state_defs votes_def)

lemma info_ok_commit:
  assumes "info_ok ms n ci" "cm_Blockhash m = ci_Blockhash ci"
  shows "info_ok ms n (fst (try_commit ms n m ci))"
  using assms by (auto simp: info_ok_def try_commit_def state_defs votes_def)

lemma info_ok_update:
  assumes "info_ok ms n ci" "wf_msg m" "cm_Blockhash m = ci_Blockhash ci"
    "m \<in> set (ms_Iter ms (ci_MessageLog ci))"
  shows "info_ok ms n (fst (maybeUpdateConsensusState ms n m ci))"
  unfolding update_split
  by (intro info_ok_commit info_ok_prepare info_ok_preprepare assms) (simp_all add: assms(3))

lemma insert_ok:
  assumes "manager_ok ms crp" "wf_msg m" "InsertMessageIntoLog ms m crp = (crp', ev, r)"
  shows "manager_ok ms crp'"
proof -
  define k where "k = hex_EncodeToString (cm_Blockhash m)"
  define ci where "ci = (case map_of (con_infos crp) k of Some ci \<Rightarrow> ci | None \<Rightarrow> new_info ms m)"
  obtain s' a where add: "ms_Add ms (ci_MessageLog ci) m = (s', a)" by (cases "ms_Add ms (ci_MessageLog ci) m")
  have "info_ok ms (con_minApprovals crp) ci \<and> cm_Blockhash m = ci_Blockhash ci"
  proof (cases "map_of (con_infos crp) k")
    case None
    then show ?thesis using info_ok_new by (simp add: ci_def) (simp add: new_info_def)
  next
    case (Some cj)
    then have "k = hex_EncodeToString (ci_Blockhash cj)" "info_ok ms (con_minApprovals crp) cj"
      using assms(1) unfolding manager_ok_def by blast+
    then show ?thesis using Some by (simp add: ci_def k_def)
  qed
  then have ci: "info_ok ms (con_minApprovals crp) ci" "cm_Blockhash m = ci_Blockhash ci" by blast+
  have ci1: "info_ok ms (con_minApprovals crp) (ci\<lparr>ci_MessageLog := s'\<rparr>)"
    by (rule info_ok_log [OF ci(1) assms(2) ci(2) add])
  define ci2 where "ci2 = (if a then fst (maybeUpdateConsensusState ms (con_minApprovals crp) m (ci\<lparr>ci_MessageLog := s'\<rparr>))
      else ci\<lparr>ci_MessageLog := s'\<rparr>)"
  have ci2: "info_ok ms (con_minApprovals crp) ci2" "ci_Blockhash ci2 = cm_Blockhash m"
    using info_ok_update [OF ci1 assms(2)] ci1 ci(2) add_facts(4) [OF add] by (simp_all add: ci2_def)
  have "crp' = crp\<lparr>con_infos := set_info k ci2 (con_infos crp)\<rparr>"
    using assms(3) add
    by (simp add: InsertMessageIntoLog_def Let_def log_AddMessage_def ci2_def k_def ci_def case_prod_beta
        split: if_splits)
  then show ?thesis
    using assms(1) ci2 unfolding manager_ok_def by (simp add: map_of_set_info set_info_keys k_def)
qed

end

lemma new_manager_ok: "manager_ok ms (NewConsensusManager n)"
  by (simp add: manager_ok_def NewConsensusManager_def)

lemma prune_ok: "manager_ok ms (fst (Prune crp))"
  by (simp add: manager_ok_def Prune_def)

lemma insert_minApprovals [simp]:
  "con_minApprovals (fst (InsertMessageIntoLog ms m crp)) = con_minApprovals crp"
  by (simp add: InsertMessageIntoLog_def Let_def case_prod_beta)

text \<open>The managers reached by inserting well-formed messages and pruning, in any order.\<close>

inductive manager_reachable :: "'s mapset \<Rightarrow> int \<Rightarrow> 's ConsensusManager \<Rightarrow> bool" for ms n where
  new: "manager_reachable ms n (NewConsensusManager n)"
| insert: "manager_reachable ms n crp \<Longrightarrow> wf_msg m \<Longrightarrow> InsertMessageIntoLog ms m crp = (crp', ev, r) \<Longrightarrow>
    manager_reachable ms n crp'"
| prune: "manager_reachable ms n crp \<Longrightarrow> manager_reachable ms n (fst (Prune crp))"

lemma reachable_ok:
  assumes "message_set ms" "manager_reachable ms n crp"
  shows "manager_ok ms crp \<and> con_minApprovals crp = n"
  using assms(2)
proof induction
  case new
  then show ?case by (simp add: new_manager_ok) (simp add: NewConsensusManager_def)
next
  case (insert crp m crp' ev r)
  then show ?case
    using message_set.insert_ok [OF assms(1)] insert_minApprovals [of ms m crp] by auto
next
  case (prune crp)
  then show ?case by (simp add: prune_ok) (simp add: Prune_def)
qed

lemma committed_entry:
  assumes "manager_ok ms crp" "\<And>xs. mset (ord xs) = mset xs" "cj \<in> set (GetAllBlocksWithCommit ord crp)"
  shows "map_of (con_infos crp) (hex_EncodeToString (ci_Blockhash cj)) = Some cj
    \<and> info_ok ms (con_minApprovals crp) cj \<and> ci_State cj = StateStatusCommited"
proof -
  have c: "cj \<in> set (map snd (con_infos crp))" "ci_State cj = StateStatusCommited"
    using assms(3) mset_eq_setD [OF assms(2), of "map snd (con_infos crp)"]
    by (auto simp: GetAllBlocksWithCommit_def)
  then obtain k where k: "map_of (con_infos crp) k = Some cj"
    using assms(1) by (auto simp: manager_ok_def)
  from assms(1) k have "k = hex_EncodeToString (ci_Blockhash cj)" "info_ok ms (con_minApprovals crp) cj"
    unfolding manager_ok_def by blast+
  then show ?thesis using k c(2) by simp
qed

section \<open>Progress\<close>

text \<open>
  An entry has caught up with its log when no further transition is due: the state says
  everything the messages allow, in whatever order they arrived.
\<close>

definition caught_up :: "'s mapset \<Rightarrow> int \<Rightarrow> 's ConsensusInfo \<Rightarrow> bool" where
  "caught_up ms n ci \<longleftrightarrow>
     ((\<exists>m \<in> set (ms_Iter ms (ci_MessageLog ci)). cm_Type m = ConsensusMessageTypePrePrepare \<and> cm_Block m \<noteq> None)
        \<longrightarrow> StateStatusPrePrepared \<le> ci_State ci)
     \<and> (StateStatusPrePrepared \<le> ci_State ci \<and> n - 1 \<le> int (votes ms ci ConsensusMessageTypePrepare)
        \<longrightarrow> StateStatusPrepared \<le> ci_State ci)
     \<and> (StateStatusPrepared \<le> ci_State ci \<and> n \<le> int (votes ms ci ConsensusMessageTypeCommit)
        \<longrightarrow> StateStatusCommited \<le> ci_State ci)"

lemma update_catches_up:
  assumes "ms_Add ms s m = (s', a)" "set (ms_Iter ms s') \<subseteq> insert m (set (ms_Iter ms s))"
    and "caught_up ms n (ci\<lparr>ci_MessageLog := s\<rparr>)" "cm_Blockhash m = ci_Blockhash ci"
  shows "caught_up ms n (fst (maybeUpdateConsensusState ms n m (ci\<lparr>ci_MessageLog := s'\<rparr>)))"
  using assms(2-4) unfolding update_split
  by (auto simp: caught_up_def try_preprepare_def try_prepare_def try_commit_def votes_def state_defs)

context message_set
begin

lemma insert_entry:
  assumes "InsertMessageIntoLog ms m crp = (crp', ev, r)"
  obtains ci s' a where
    "ci = (case map_of (con_infos crp) (hex_EncodeToString (cm_Blockhash m)) of Some ci \<Rightarrow> ci | None \<Rightarrow> new_info ms m)"
    "ms_Add ms (ci_MessageLog ci) m = (s', a)"
    "con_infos crp' = set_info (hex_EncodeToString (cm_Blockhash m))
       (if a then fst (maybeUpdateConsensusState ms (con_minApprovals crp) m (ci\<lparr>ci_MessageLog := s'\<rparr>))
        else ci\<lparr>ci_MessageLog := s'\<rparr>) (con_infos crp)"
proof -
  define ci where "ci = (case map_of (con_infos crp) (hex_EncodeToString (cm_Blockhash m)) of Some ci \<Rightarrow> ci | None \<Rightarrow> new_info ms m)"
  obtain s' a where add: "ms_Add ms (ci_MessageLog ci) m = (s', a)" by (cases "ms_Add ms (ci_MessageLog ci) m")
  have "con_infos crp' = set_info (hex_EncodeToString (cm_Blockhash m))
       (if a then fst (maybeUpdateConsensusState ms (con_minApprovals crp) m (ci\<lparr>ci_MessageLog := s'\<rparr>))
        else ci\<lparr>ci_MessageLog := s'\<rparr>) (con_infos crp)"
    using assms add unfolding InsertMessageIntoLog_def ci_def [symmetric]
    by (auto simp: Let_def log_AddMessage_def case_prod_beta ci_def [symmetric] split: if_splits)
  with add ci_def that show thesis by blast
qed

lemma caught_up_old:
  assumes "ms_Add ms (ci_MessageLog ci) m = (s', False)" "caught_up ms n ci"
  shows "caught_up ms n (ci\<lparr>ci_MessageLog := s'\<rparr>)"
proof -
  have *: "mset (ms_Iter ms s') = mset (ms_Iter ms (ci_MessageLog ci))" by (rule add_old [OF assms(1)])
  have "set (ms_Iter ms s') = set (ms_Iter ms (ci_MessageLog ci))" by (rule mset_eq_setD [OF *])
  moreover have "votes ms (ci\<lparr>ci_MessageLog := s'\<rparr>) t = votes ms ci t" for t
    using arg_cong [OF *, of "\<lambda>M. size (filter_mset (\<lambda>msg. cm_Type msg = t \<and> msg_hash msg = ci_Blockhash ci) M)"]
    by (simp add: votes_def log_Get_def flip: mset_filter)
  ultimately show ?thesis using assms(2) by (simp add: caught_up_def)
qed

lemma insert_caught_up:
  assumes "manager_ok ms crp" "\<And>k ci. map_of (con_infos crp) k = Some ci \<Longrightarrow> caught_up ms (con_minApprovals crp) ci"
    and "InsertMessageIntoLog ms m crp = (crp', ev, r)" "map_of (con_infos crp') k = Some ci'"
  shows "caught_up ms (con_minApprovals crp) ci'"
proof -
  obtain ci s' a where e: "ci = (case map_of (con_infos crp) (hex_EncodeToString (cm_Blockhash m)) of Some ci \<Rightarrow> ci | None \<Rightarrow> new_info ms m)"
    "ms_Add ms (ci_MessageLog ci) m = (s', a)"
    "con_infos crp' = set_info (hex_EncodeToString (cm_Blockhash m))
       (if a then fst (maybeUpdateConsensusState ms (con_minApprovals crp) m (ci\<lparr>ci_MessageLog := s'\<rparr>))
        else ci\<lparr>ci_MessageLog := s'\<rparr>) (con_infos crp)"
    by (rule insert_entry [OF assms(3)])
  have "caught_up ms (con_minApprovals crp) ci \<and> cm_Blockhash m = ci_Blockhash ci"
  proof (cases "map_of (con_infos crp) (hex_EncodeToString (cm_Blockhash m))")
    case None
    then show ?thesis by (simp add: e(1) new_info_def caught_up_def iter_new state_defs)
  next
    case (Some cj)
    with assms(1) have "hex_EncodeToString (cm_Blockhash m) = hex_EncodeToString (ci_Blockhash cj)"
      unfolding manager_ok_def by blast
    with Some assms(2) show ?thesis by (simp add: e(1))
  qed
  then have ci: "caught_up ms (con_minApprovals crp) ci" "cm_Blockhash m = ci_Blockhash ci" by blast+
  show ?thesis
  proof (cases "k = hex_EncodeToString (cm_Blockhash m)")
    case True
    have "caught_up ms (con_minApprovals crp) (ci\<lparr>ci_MessageLog := ci_MessageLog ci\<rparr>)" using ci(1) by simp
    from update_catches_up [OF e(2) add_facts(2) [OF e(2)] this ci(2)] caught_up_old [OF _ ci(1)] e(2,3)
    show ?thesis using assms(4) True by (auto simp: map_of_set_info split: if_splits)
  next
    case False
    with assms(2,4) e(3) show ?thesis by (simp add: map_of_set_info)
  qed
qed

lemma reachable_caught_up:
  assumes "manager_reachable ms n crp" "map_of (con_infos crp) k = Some ci"
  shows "caught_up ms n ci"
  using assms
proof (induction arbitrary: k ci)
  case new
  then show ?case by (simp add: NewConsensusManager_def)
next
  case (insert crp m crp' ev r)
  have ok: "manager_ok ms crp" "con_minApprovals crp = n"
    using reachable_ok [OF message_set_axioms insert.hyps(1)] by blast+
  from insert_caught_up [OF ok(1) _ insert.hyps(3) insert.prems] insert.IH ok(2) show ?case by simp
next
  case (prune crp)
  then show ?case by (simp add: Prune_def)
qed

end

section \<open>Reference message sets\<close>

text \<open>By identity, where every message that arrives is new, and by content.\<close>

definition list_mapset :: "ConsensusMessage list mapset" where
  "list_mapset = \<lparr>ms_NewSet = [], ms_Add = (\<lambda>s m. (s @ [m], True)), ms_Contains = (\<lambda>s m. False), ms_Iter = id\<rparr>"

definition content_mapset :: "ConsensusMessage list mapset" where
  "content_mapset = \<lparr>ms_NewSet = [],
     ms_Add = (\<lambda>s m. if m \<in> set s then (s, False) else (s @ [m], True)),
     ms_Contains = (\<lambda>s m. m \<in> set s), ms_Iter = id\<rparr>"

interpretation by_identity: message_set list_mapset
  by unfold_locales (auto simp: list_mapset_def)

interpretation by_content: message_set content_mapset
  by unfold_locales (auto simp: content_mapset_def split: if_splits)

section \<open>Properties\<close>

text \<open>C4. A block counts as committed only with a quorum: in every reachable consensus manager, a
  committed entry holds the block of a pre-prepare message with the entry's hash, at least
  \<open>minApprovals - 1\<close> prepare and at least \<open>minApprovals\<close> commit messages for that hash are in
  its log, and different entries have different hashes.\<close>

theorem commit_needs_quorum:
  assumes "message_set ms" "manager_reachable ms n crp" "\<And>xs. mset (ord xs) = mset xs"
    and "ci \<in> set (GetAllBlocksWithCommit ord crp)"
  shows "(\<exists>b m. ci_Block ci = Some b \<and> hd_Hash (blk_Header b) = ci_Blockhash ci
      \<and> m \<in> set (ms_Iter ms (ci_MessageLog ci)) \<and> cm_Type m = ConsensusMessageTypePrePrepare \<and> cm_Block m = Some b)
    \<and> n - 1 \<le> int (length (log_Get ms (ci_MessageLog ci) ConsensusMessageTypePrepare (ci_Blockhash ci)))
    \<and> n \<le> int (length (log_Get ms (ci_MessageLog ci) ConsensusMessageTypeCommit (ci_Blockhash ci)))
    \<and> (\<forall>cj \<in> set (GetAllBlocksWithCommit ord crp). ci_Blockhash cj = ci_Blockhash ci \<longrightarrow> cj = ci)"
proof -
  have ok: "manager_ok ms crp" "con_minApprovals crp = n" using reachable_ok [OF assms(1,2)] by blast+
  note entry = committed_entry [OF ok(1) assms(3), unfolded ok(2)]
  from entry [OF assms(4)] have i: "info_ok ms n ci" "ci_State ci = StateStatusCommited" by blast+
  have "cj = ci" if "cj \<in> set (GetAllBlocksWithCommit ord crp)" "ci_Blockhash cj = ci_Blockhash ci" for cj
  proof -
    have "Some cj = map_of (con_infos crp) (hex_EncodeToString (ci_Blockhash cj))"
      using entry [OF that(1)] by (elim conjE) (rule sym)
    also have "\<dots> = Some ci" unfolding that(2) using entry [OF assms(4)] by (elim conjE)
    finally show ?thesis by (rule option.inject [THEN iffD1])
  qed
  moreover have "StateStatusPrePrepared \<le> ci_State ci" "StateStatusPrepared \<le> ci_State ci"
      "StateStatusCommited \<le> ci_State ci"
    using i(2) by (simp_all add: state_defs)
  ultimately show ?thesis using i(1) unfolding info_ok_def votes_def by blast
qed

text \<open>A run with one approval, for the witness.\<close>

definition demo_preprepare :: ConsensusMessage where
  "demo_preprepare = \<lparr>cm_Type = ConsensusMessageTypePrePrepare, cm_Blockhash = hd_Hash genesis_header,
     cm_Signature = [], cm_Block = Some GenesisBlock, cm_From = ''p''\<rparr>"

definition demo_commit :: ConsensusMessage where
  "demo_commit = \<lparr>cm_Type = ConsensusMessageTypeCommit, cm_Blockhash = hd_Hash genesis_header,
     cm_Signature = [1], cm_Block = None, cm_From = ''q''\<rparr>"

definition demo_manager :: "ConsensusMessage list ConsensusManager" where
  "demo_manager = fst (InsertMessageIntoLog content_mapset demo_commit
     (fst (InsertMessageIntoLog content_mapset demo_preprepare (NewConsensusManager 1))))"

lemma demo_manager_reachable: "manager_reachable content_mapset 1 demo_manager"
  unfolding demo_manager_def
  by (intro manager_reachable.insert [OF manager_reachable.insert [OF manager_reachable.new]])
    (simp_all add: prod_eq_iff wf_msg_def demo_preprepare_def demo_commit_def GenesisBlock_def)

theorem commit_needs_quorum_witness:
  "\<exists>ci. ci \<in> set (GetAllBlocksWithCommit id demo_manager)
     \<and> 1 \<le> int (length (log_Get content_mapset (ci_MessageLog ci) ConsensusMessageTypeCommit (ci_Blockhash ci)))"
proof -
  have "GetAllBlocksWithCommit id demo_manager \<noteq> []" by code_simp
  then have ci: "hd (GetAllBlocksWithCommit id demo_manager) \<in> set (GetAllBlocksWithCommit id demo_manager)"
    by (rule hd_in_set)
  from commit_needs_quorum [OF by_content.message_set_axioms demo_manager_reachable _ ci] ci
  show ?thesis by (intro exI [of _ "hd (GetAllBlocksWithCommit id demo_manager)"]) simp
qed

text \<open>Inserting a message never moves the state of any block backwards, changes only the entry of
  the message's hash, and announces each state that is newly entered exactly once, in order,
  together with the entry's block.\<close>

lemma insert_announces_progress:
  assumes "message_set ms" "manager_reachable ms n crp" "wf_msg m"
    and "InsertMessageIntoLog ms m crp = (crp', ev, r)"
  shows "\<exists>ci'. map_of (con_infos crp') (hex_EncodeToString (cm_Blockhash m)) = Some ci'
      \<and> (let old = (case map_of (con_infos crp) (hex_EncodeToString (cm_Blockhash m)) of
            None \<Rightarrow> StateStatusUnknown | Some ci \<Rightarrow> ci_State ci)
         in old \<le> ci_State ci' \<and> ci_State ci' \<le> StateStatusCommited
          \<and> ev = map (Ev_consensus_newState (ci_Block ci')) [Suc old..<Suc (ci_State ci')])
      \<and> (\<forall>k. k = hex_EncodeToString (cm_Blockhash m) \<or> map_of (con_infos crp') k = map_of (con_infos crp) k)"
proof -
  define k where "k = hex_EncodeToString (cm_Blockhash m)"
  define ci where "ci = (case map_of (con_infos crp) k of Some ci \<Rightarrow> ci | None \<Rightarrow> new_info ms m)"
  define old where "old = (case map_of (con_infos crp) k of None \<Rightarrow> StateStatusUnknown | Some ci \<Rightarrow> ci_State ci)"
  have old: "ci_State ci = old" by (simp add: ci_def old_def new_info_def split: option.splits)
  have "manager_ok ms crp" using reachable_ok [OF assms(1,2)] by blast
  then have "ci_State ci \<le> StateStatusCommited"
    by (auto simp: ci_def manager_ok_def info_ok_def new_info_def state_defs split: option.splits)
  moreover obtain s' a where add: "ms_Add ms (ci_MessageLog ci) m = (s', a)"
    by (cases "ms_Add ms (ci_MessageLog ci) m")
  let ?ci1 = "ci\<lparr>ci_MessageLog := s'\<rparr>"
  obtain ci2 ev2 where up: "maybeUpdateConsensusState ms (con_minApprovals crp) m ?ci1 = (ci2, ev2)"
    by (cases "maybeUpdateConsensusState ms (con_minApprovals crp) m ?ci1")
  ultimately have prog: "old \<le> ci_State ci2 \<and> ci_State ci2 \<le> StateStatusCommited
      \<and> ev2 = map (Ev_consensus_newState (ci_Block ci2)) [Suc old..<Suc (ci_State ci2)]"
    using update_events [OF _ up] old by simp
  define ci' where "ci' = (if a then ci2 else ?ci1)"
  have res: "crp' = crp\<lparr>con_infos := set_info k ci' (con_infos crp)\<rparr>" "ev = (if a then ev2 else [])"
    using assms(4) add up
    by (simp_all add: InsertMessageIntoLog_def Let_def log_AddMessage_def ci'_def k_def ci_def split: if_splits)
  have "old \<le> ci_State ci' \<and> ci_State ci' \<le> StateStatusCommited
      \<and> ev = map (Ev_consensus_newState (ci_Block ci')) [Suc old..<Suc (ci_State ci')]"
    using prog old \<open>ci_State ci \<le> StateStatusCommited\<close> by (simp add: res(2) ci'_def)
  then show ?thesis unfolding k_def [symmetric] old_def [symmetric] Let_def
    by (intro exI [of _ ci']) (simp add: res(1) map_of_set_info)
qed

text \<open>C6. A quorum is enough, whatever the order of arrival: in every reachable consensus manager,
  an entry whose log holds a pre-prepare message with a block, at least \<open>minApprovals - 1\<close>
  prepare and at least \<open>minApprovals\<close> commit messages for its hash is among the committed ones.\<close>

theorem quorum_commits:
  assumes "message_set ms" "manager_reachable ms n crp" "\<And>xs. mset (ord xs) = mset xs"
    and "map_of (con_infos crp) k = Some ci"
    and "pp \<in> set (ms_Iter ms (ci_MessageLog ci))" "cm_Type pp = ConsensusMessageTypePrePrepare" "cm_Block pp = Some b"
    and "n - 1 \<le> int (length (log_Get ms (ci_MessageLog ci) ConsensusMessageTypePrepare (ci_Blockhash ci)))"
    and "n \<le> int (length (log_Get ms (ci_MessageLog ci) ConsensusMessageTypeCommit (ci_Blockhash ci)))"
  shows "ci \<in> set (GetAllBlocksWithCommit ord crp)"
proof -
  have "caught_up ms n ci" by (rule message_set.reachable_caught_up [OF assms(1,2,4)])
  then have "StateStatusCommited \<le> ci_State ci"
    using assms(5-9) unfolding caught_up_def votes_def by blast
  moreover have "ci_State ci \<le> StateStatusCommited"
    using reachable_ok [OF assms(1,2)] assms(4) by (auto simp: manager_ok_def info_ok_def)
  moreover have "ci \<in> set (ord (map snd (con_infos crp)))"
    using mset_eq_setD [OF assms(3), of "map snd (con_infos crp)"] map_of_SomeD [OF assms(4)] by force
  ultimately show ?thesis by (simp add: GetAllBlocksWithCommit_def)
qed

text \<open>For the witness, the commit message arrives before the block it votes for.\<close>

definition demo_reordered :: "ConsensusMessage list ConsensusManager" where
  "demo_reordered = fst (InsertMessageIntoLog content_mapset demo_preprepare
     (fst (InsertMessageIntoLog content_mapset demo_commit (NewConsensusManager 1))))"

lemma demo_reordered_reachable: "manager_reachable content_mapset 1 demo_reordered"
  unfolding demo_reordered_def
  by (intro manager_reachable.insert [OF manager_reachable.insert [OF manager_reachable.new]])
    (simp_all add: prod_eq_iff wf_msg_def demo_preprepare_def demo_commit_def GenesisBlock_def)

theorem quorum_commits_witness:
  "\<exists>ci. map_of (con_infos demo_reordered) (hex_EncodeToString (hd_Hash genesis_header)) = Some ci
     \<and> ci \<in> set (GetAllBlocksWithCommit id demo_reordered)"
proof -
  let ?k = "hex_EncodeToString (hd_Hash genesis_header)"
  let ?ci = "the (map_of (con_infos demo_reordered) ?k)"
  have k: "map_of (con_infos demo_reordered) ?k = Some ?ci" by code_simp
  have pp: "demo_preprepare \<in> set (ms_Iter content_mapset (ci_MessageLog ?ci))" by code_simp
  have p: "1 - 1 \<le> int (length (log_Get content_mapset (ci_MessageLog ?ci) ConsensusMessageTypePrepare (ci_Blockhash ?ci)))"
    by simp
  have c: "1 \<le> int (length (log_Get content_mapset (ci_MessageLog ?ci) ConsensusMessageTypeCommit (ci_Blockhash ?ci)))"
    by code_simp
  from quorum_commits [OF by_content.message_set_axioms demo_reordered_reachable _ k pp _ _ p c, of id GenesisBlock] k
  show ?thesis by (intro exI [of _ ?ci]) (simp add: demo_preprepare_def)
qed

end
