(* ===== verification/Pubsub.thy ===== *)
theory Pubsub
  imports Reference_Libs
begin

text \<open>
  The gossip router (\<open>pubsub\<close>): message types, hooks, delivery of a received message to the
  hooked handlers, broadcast. libp2p's pubsub and the CBOR form of the envelope are the record
  \<open>pubsub_lib\<close>. A handler is any value; delivery returns the handlers that are started, each
  with the message.
\<close>

section \<open>Model\<close>

definition UnknownMessageType :: int where "UnknownMessageType = 0"

definition PrePrepareMessageType :: int where "PrePrepareMessageType = 1"

definition PrepareMessageType :: int where "PrepareMessageType = 2"

definition CommitMessageType :: int where "CommitMessageType = 3"

definition NewTxMessageType :: int where "NewTxMessageType = 4"

definition NewBlockMessageType :: int where "NewBlockMessageType = 5"

record PubSubMessage =
  pm_Type :: int
  pm_From :: peer_id
  pm_Payload :: bytes

record raw_message =
  raw_From :: bytes
  raw_Data :: bytes

record pubsub_lib =
  ps_Join :: "string \<Rightarrow> unit res"
  ps_marshal :: "PubSubMessage \<Rightarrow> bytes res"
  ps_unmarshal :: "bytes \<Rightarrow> PubSubMessage res"
  ps_Publish :: "bytes \<Rightarrow> unit res"
  ps_IDFromBytes :: "bytes \<Rightarrow> peer_id res"

text \<open>The field \<open>From\<close> is not part of the CBOR form; it decodes to the empty id.\<close>

locale pubsub_codec =
  fixes ps :: pubsub_lib
  assumes envelope_roundtrip: "ps_marshal ps m = Ok bs \<Longrightarrow> ps_unmarshal ps bs = Ok (m\<lparr>pm_From := []\<rparr>)"

record 'h PubSubRouter =
  rt_node :: peer_id
  rt_handlers :: "int \<Rightarrow> 'h list option"
  rt_topic :: string

definition NewPubSubRouter :: "pubsub_lib \<Rightarrow> peer_id \<Rightarrow> string \<Rightarrow> 'h PubSubRouter res" where
  "NewPubSubRouter ps host oracleTopic =
     (case ps_Join ps oracleTopic of
        Ok _ \<Rightarrow> Ok \<lparr>rt_node = host, rt_handlers = (\<lambda>_. None), rt_topic = oracleTopic\<rparr>
      | Err e \<Rightarrow> Panic
      | Panic \<Rightarrow> Panic)"

definition Hook :: "int \<Rightarrow> 'h \<Rightarrow> 'h PubSubRouter \<Rightarrow> 'h PubSubRouter" where
  "Hook messageType handler psr =
     (let hs = (case rt_handlers psr messageType of None \<Rightarrow> [] | Some hs \<Rightarrow> hs) in
      psr\<lparr>rt_handlers := (rt_handlers psr)(messageType := Some (hs @ [handler]))\<rparr>)"

text \<open>The result lists the goroutines that are started; a dropped message starts none.\<close>

definition handleMessage ::
  "pubsub_lib \<Rightarrow> 'h PubSubRouter \<Rightarrow> raw_message option \<Rightarrow> ('h \<times> PubSubMessage) list res" where
  "handleMessage ps psr p =
     bind_res (deref p) (\<lambda>p.
     case ps_IDFromBytes ps (raw_From p) of
       Err e \<Rightarrow> Ok []
     | Panic \<Rightarrow> Panic
     | Ok senderPeerID \<Rightarrow>
         if senderPeerID = rt_node psr then Ok []
         else (case ps_unmarshal ps (raw_Data p) of
             Err e \<Rightarrow> Ok []
           | Panic \<Rightarrow> Panic
           | Ok m \<Rightarrow>
               let message = m\<lparr>pm_From := senderPeerID\<rparr> in
               case rt_handlers psr (pm_Type message) of
                 None \<Rightarrow> Ok []
               | Some handlers \<Rightarrow> Ok (map (\<lambda>h. (h, message)) handlers)))"

text \<open>
  One turn of the receiving loop. After an error of \<open>Next\<close> the loop goes on with the nil
  message that came with it.
\<close>

definition router_Run_step ::
  "pubsub_lib \<Rightarrow> 'h PubSubRouter \<Rightarrow> raw_message res \<Rightarrow> ('h \<times> PubSubMessage) list res" where
  "router_Run_step ps psr received =
     (case received of
        Ok msg \<Rightarrow> handleMessage ps psr (Some msg)
      | Err e \<Rightarrow> handleMessage ps psr None
      | Panic \<Rightarrow> Panic)"

text \<open>What goes out on the topic, and the result of publishing it.\<close>

definition BroadcastToServiceTopic :: "pubsub_lib \<Rightarrow> PubSubMessage \<Rightarrow> bytes res" where
  "BroadcastToServiceTopic ps msg =
     bind_res (ps_marshal ps msg) (\<lambda>dat.
     bind_res (ps_Publish ps dat) (\<lambda>_. Ok dat))"

section \<open>Lemmas\<close>

lemma Hook_handlers:
  "rt_handlers (Hook t h psr) t' =
   (if t' = t then Some ((case rt_handlers psr t of None \<Rightarrow> [] | Some hs \<Rightarrow> hs) @ [h]) else rt_handlers psr t')"
  by (simp add: Hook_def Let_def)

lemma Hook_node [simp]: "rt_node (Hook t h psr) = rt_node psr"
  by (simp add: Hook_def Let_def)

lemma broadcast_marshals: "BroadcastToServiceTopic ps m = Ok dat \<Longrightarrow> ps_marshal ps m = Ok dat"
  by (auto simp: BroadcastToServiceTopic_def res_simps)

context pubsub_codec
begin

lemma delivered:
  assumes "ps_marshal ps m = Ok dat" "ps_IDFromBytes ps from = Ok sender" "rt_node psr \<noteq> sender"
  shows "handleMessage ps psr (Some \<lparr>raw_From = from, raw_Data = dat\<rparr>) =
    Ok (case rt_handlers psr (pm_Type m) of None \<Rightarrow> [] | Some hs \<Rightarrow> map (\<lambda>h. (h, m\<lparr>pm_From := sender\<rparr>)) hs)"
  using envelope_roundtrip [OF assms(1)] assms(2,3)
  by (auto simp: handleMessage_def Let_def split: option.splits)

end

lemma receive_error_panics: "router_Run_step ps psr (Err e) = Panic"
  by (simp add: router_Run_step_def handleMessage_def)

definition ref_pubsub :: pubsub_lib where
  "ref_pubsub = \<lparr>ps_Join = (\<lambda>t. Ok ()),
     ps_marshal = (\<lambda>m. if 0 \<le> pm_Type m \<and> pm_Type m < 256
       then Ok (of_int (pm_Type m) # pm_Payload m) else Err (ExtErr ''cbor'')),
     ps_unmarshal = (\<lambda>bs. case bs of [] \<Rightarrow> Err (ExtErr ''cbor'')
       | t # p \<Rightarrow> Ok \<lparr>pm_Type = uint t, pm_From = [], pm_Payload = p\<rparr>),
     ps_Publish = (\<lambda>bs. Ok ()), ps_IDFromBytes = (\<lambda>bs. Ok (peer_of_key bs))\<rparr>"

interpretation ref_envelope: pubsub_codec ref_pubsub
  by unfold_locales
    (auto simp: ref_pubsub_def uint_word_of_int take_bit_int_eq_self split: if_splits)

section \<open>Properties\<close>

text \<open>A broadcast message reaches every handler hooked for its type on every other node, in the
  order of the hooks, with its type and payload unchanged and the sender's id; the sender's
  own router drops it.\<close>

lemma broadcast_delivery:
  assumes "pubsub_codec ps" "BroadcastToServiceTopic ps m = Ok dat" "ps_IDFromBytes ps from = Ok sender"
  shows "handleMessage ps psr (Some \<lparr>raw_From = from, raw_Data = dat\<rparr>) =
    Ok (if rt_node psr = sender then []
        else case rt_handlers psr (pm_Type m) of None \<Rightarrow> []
          | Some hs \<Rightarrow> map (\<lambda>h. (h, m\<lparr>pm_From := sender\<rparr>)) hs)"
proof (cases "rt_node psr = sender")
  case True
  then show ?thesis using assms(3) by (simp add: handleMessage_def)
next
  case False
  then show ?thesis
    using pubsub_codec.delivered [OF assms(1) broadcast_marshals [OF assms(2)] assms(3)] by simp
qed

end
