(* ===== verification/Consensus_Handler.thy ===== *)
theory Consensus_Handler
  imports Chain_Properties Consensus_Manager Pubsub
begin

text \<open>
  The consensus handler (\<open>consensus/consensus_handler.go\<close>, \<open>consensus/consensus_validator.go\<close>,
  \<open>consensus/utils.go\<close>): what a node does on a gossip message, on a change of the consensus
  state and on a new beacon entry.

  The collaborators of a handler are the record \<open>handler\<close>, what its operations change is the
  record \<open>node_state\<close>, and what the run time decides for one call (clock, schedule of
  goroutines, order of map iteration, whether an asynchronous subscriber ran already) is the
  record \<open>choices\<close>. An operation returns the new state, what it sent out, and whether it
  returned or panicked.
\<close>

section \<open>State\<close>

datatype effect = Published event | Broadcasted PubSubMessage | Submitted int bytes

datatype hook = HandlePrePrepare | HandlePrepare | HandleCommit | OnNewTransaction | OnNewBlock

record ('s, 'c, 'd) handler =
  ch_ms :: "'s mapset"
  ch_ca :: "('c, Transaction) Cache"
  ch_env :: "'d chain_env"
  ch_ps :: pubsub_lib
  ch_privKey :: privkey
  ch_address :: peer_id

abbreviation ch_C :: "('s, 'c, 'd) handler \<Rightarrow> crypto" where "ch_C H \<equiv> env_C (ch_env H)"
abbreviation ch_K :: "('s, 'c, 'd) handler \<Rightarrow> codec" where "ch_K H \<equiv> env_K (ch_env H)"

record ('s, 'c, 'd) node_state =
  ns_consensus :: "'s ConsensusManager"
  ns_pool :: 'c
  ns_db :: 'd
  ns_miner :: Miner

record 's choices =
  r_now :: int
  r_heap :: "Transaction heap"
  r_ts :: i64
  r_sched :: "nat list"
  r_ord :: "'s ConsensusInfo list \<Rightarrow> 's ConsensusInfo list"
  r_miner_notified :: bool

section \<open>Validation of messages\<close>

definition checkSignatureForBlockhash :: "crypto \<Rightarrow> ConsensusMessage \<Rightarrow> bool res" where
  "checkSignatureForBlockhash C msg =
     (case cr_ExtractPublicKey C (cm_From msg) of
        Err e \<Rightarrow> Ok False
      | Panic \<Rightarrow> Panic
      | Ok pubKey \<Rightarrow> (case cr_Verify C pubKey (cm_Blockhash msg) (cm_Signature msg) of
            Err e \<Rightarrow> Ok False
          | Panic \<Rightarrow> Panic
          | Ok ok \<Rightarrow> Ok ok))"

text \<open>A message of another type has no validation function; calling nil panics.\<close>

definition Valid :: "'d chain_env \<Rightarrow> nat list \<Rightarrow> 'd \<Rightarrow> ConsensusMessage \<Rightarrow> bool res" where
  "Valid env sched d msg =
     (if cm_Type msg = ConsensusMessageTypePrePrepare
      then bind_res (deref (cm_Block msg)) (\<lambda>b.
        case ValidateBlock env sched d b of Ok _ \<Rightarrow> Ok True | Err e \<Rightarrow> Ok False | Panic \<Rightarrow> Panic)
      else if cm_Type msg = ConsensusMessageTypePrepare \<or> cm_Type msg = ConsensusMessageTypeCommit
      then checkSignatureForBlockhash (env_C env) msg
      else Panic)"

section \<open>Messages\<close>

definition NewMessage :: "crypto \<Rightarrow> codec \<Rightarrow> ConsensusMessage \<Rightarrow> privkey \<Rightarrow> PubSubMessage res" where
  "NewMessage C K cmsg privKey =
     (if cm_Type cmsg = ConsensusMessageTypePrePrepare
      then (case marshal_preprepare K (cm_Block cmsg) of
          Ok dat \<Rightarrow> Ok \<lparr>pm_Type = PrePrepareMessageType, pm_From = [], pm_Payload = dat\<rparr>
        | Err e \<Rightarrow> Err (Errorf ''failed to convert message to map'')
        | Panic \<Rightarrow> Panic)
      else if cm_Type cmsg = ConsensusMessageTypePrepare \<or> cm_Type cmsg = ConsensusMessageTypeCommit
      then (case cr_Sign C privKey (cm_Blockhash cmsg) of
          Err e \<Rightarrow> Err (Errorf ''failed to create signature'')
        | Panic \<Rightarrow> Panic
        | Ok signature \<Rightarrow> (case marshal_vote K (cm_Blockhash cmsg) signature of
              Ok dat \<Rightarrow> Ok \<lparr>pm_Type = (if cm_Type cmsg = ConsensusMessageTypePrepare
                  then PrepareMessageType else CommitMessageType), pm_From = [], pm_Payload = dat\<rparr>
            | Err e \<Rightarrow> Err (Errorf ''failed to convert message to map'')
            | Panic \<Rightarrow> Panic))
      else Ok \<lparr>pm_Type = UnknownMessageType, pm_From = [], pm_Payload = []\<rparr>)"

definition NewConsensusHandler_hooks :: "hook PubSubRouter \<Rightarrow> hook PubSubRouter" where
  "NewConsensusHandler_hooks psb =
     Hook CommitMessageType HandleCommit
       (Hook PrepareMessageType HandlePrepare
         (Hook PrePrepareMessageType HandlePrePrepare psb))"

text \<open>The subscriber of \<open>consensus:newState\<close>: votes for the block that entered the state.\<close>

definition send_vote :: "('s, 'c, 'd) handler \<Rightarrow> u8 \<Rightarrow> Block \<Rightarrow> effect list \<times> unit res" where
  "send_vote H typ b =
     (case NewMessage (ch_C H) (ch_K H)
         \<lparr>cm_Type = typ, cm_Blockhash = hd_Hash (blk_Header b), cm_Signature = [], cm_Block = None,
          cm_From = []\<rparr> (ch_privKey H) of
        Err e \<Rightarrow> ([], Ok ())
      | Panic \<Rightarrow> ([], Panic)
      | Ok message \<Rightarrow> (case BroadcastToServiceTopic (ch_ps H) message of
            Ok _ \<Rightarrow> ([Broadcasted message], Ok ())
          | Err e \<Rightarrow> ([], Ok ())
          | Panic \<Rightarrow> ([], Panic)))"

definition onConsensusNewState :: "('s, 'c, 'd) handler \<Rightarrow> Block option \<Rightarrow> nat \<Rightarrow> effect list \<times> unit res" where
  "onConsensusNewState H block newState =
     (if newState \<noteq> StateStatusPrePrepared \<and> newState \<noteq> StateStatusPrepared \<and> newState \<noteq> StateStatusCommited
      then ([], Ok ())
      else case block of
        None \<Rightarrow> ([], Panic)
      | Some b \<Rightarrow>
          if newState = StateStatusPrePrepared
          then (case hd_Proposer (blk_Header b) of
              None \<Rightarrow> ([], Panic)
            | Some proposer \<Rightarrow>
                if proposer = ch_address H then ([], Ok ())
                else send_vote H ConsensusMessageTypePrepare b)
          else if newState = StateStatusPrepared then send_vote H ConsensusMessageTypeCommit b
          else ([], Ok ()))"

section \<open>Handlers of gossip messages\<close>

definition insert_message ::
  "('s, 'c, 'd) handler \<Rightarrow> ConsensusMessage \<Rightarrow> ('s, 'c, 'd) node_state \<Rightarrow>
   ('s, 'c, 'd) node_state \<times> effect list \<times> unit res" where
  "insert_message H cmsg s =
     (case InsertMessageIntoLog (ch_ms H) cmsg (ns_consensus s) of
        (crp, ev, r) \<Rightarrow> (s\<lparr>ns_consensus := crp\<rparr>, map Published ev, r))"

text \<open>The common end of the three handlers: an invalid or repeated message is only logged.\<close>

definition accept_message ::
  "('s, 'c, 'd) handler \<Rightarrow> 's choices \<Rightarrow> ConsensusMessage \<Rightarrow> ('s, 'c, 'd) node_state \<Rightarrow>
   ('s, 'c, 'd) node_state \<times> effect list \<times> unit res" where
  "accept_message H R cmsg s =
     (case Valid (ch_env H) (r_sched R) (ns_db s) cmsg of
        Panic \<Rightarrow> (s, [], Panic)
      | Err e \<Rightarrow> (s, [], Err e)
      | Ok False \<Rightarrow> (s, [], Ok ())
      | Ok True \<Rightarrow> (case insert_message H cmsg s of
            (s', effs, Panic) \<Rightarrow> (s', effs, Panic)
          | (s', effs, _) \<Rightarrow> (s', effs, Ok ())))"

definition handlePrePrepare ::
  "('s, 'c, 'd) handler \<Rightarrow> 's choices \<Rightarrow> PubSubMessage \<Rightarrow> ('s, 'c, 'd) node_state \<Rightarrow>
   ('s, 'c, 'd) node_state \<times> effect list \<times> unit res" where
  "handlePrePrepare H R message s =
     (case unmarshal_preprepare (ch_K H) (pm_Payload message) of
        Err e \<Rightarrow> (s, [], Ok ())
      | Panic \<Rightarrow> (s, [], Panic)
      | Ok None \<Rightarrow> (s, [], Panic)
      | Ok (Some block) \<Rightarrow>
     (case hd_Proposer (blk_Header block) of
        None \<Rightarrow> (s, [], Panic)
      | Some proposer \<Rightarrow>
          if proposer = ch_address H then (s, [], Ok ())
          else accept_message H R
            \<lparr>cm_Type = ConsensusMessageTypePrePrepare, cm_Blockhash = hd_Hash (blk_Header block),
             cm_Signature = [], cm_Block = Some block, cm_From = pm_From message\<rparr> s))"

definition handlePrepare ::
  "('s, 'c, 'd) handler \<Rightarrow> 's choices \<Rightarrow> PubSubMessage \<Rightarrow> ('s, 'c, 'd) node_state \<Rightarrow>
   ('s, 'c, 'd) node_state \<times> effect list \<times> unit res" where
  "handlePrepare H R message s =
     (case unmarshal_vote (ch_K H) (pm_Payload message) of
        Err e \<Rightarrow> (s, [], Ok ())
      | Panic \<Rightarrow> (s, [], Panic)
      | Ok (blockhash, signature) \<Rightarrow> accept_message H R
          \<lparr>cm_Type = ConsensusMessageTypePrepare, cm_Blockhash = blockhash, cm_Signature = signature,
           cm_Block = None, cm_From = pm_From message\<rparr> s)"

definition handleCommit ::
  "('s, 'c, 'd) handler \<Rightarrow> 's choices \<Rightarrow> PubSubMessage \<Rightarrow> ('s, 'c, 'd) node_state \<Rightarrow>
   ('s, 'c, 'd) node_state \<times> effect list \<times> unit res" where
  "handleCommit H R message s =
     (case unmarshal_vote (ch_K H) (pm_Payload message) of
        Err e \<Rightarrow> (s, [], Ok ())
      | Panic \<Rightarrow> (s, [], Panic)
      | Ok (blockhash, signature) \<Rightarrow> accept_message H R
          \<lparr>cm_Type = ConsensusMessageTypeCommit, cm_Blockhash = blockhash, cm_Signature = signature,
           cm_Block = None, cm_From = pm_From message\<rparr> s)"

fun run_hook ::
  "('s, 'c, 'd) handler \<Rightarrow> 's choices \<Rightarrow> hook \<Rightarrow> PubSubMessage \<Rightarrow> ('s, 'c, 'd) node_state \<Rightarrow>
   ('s, 'c, 'd) node_state \<times> effect list \<times> unit res" where
  "run_hook H R HandlePrePrepare message s = handlePrePrepare H R message s"
| "run_hook H R HandlePrepare message s = handlePrepare H R message s"
| "run_hook H R HandleCommit message s = handleCommit H R message s"
| "run_hook H R _ message s = (s, [], Ok ())"

section \<open>End of a round\<close>

text \<open>
  \<open>sort.Slice\<close> on the few candidates of a round is an insertion sort: each element moves
  towards the front while it is less than its neighbour. The sorted part is kept reversed.
\<close>

fun sift :: "('a \<Rightarrow> 'a \<Rightarrow> bool) \<Rightarrow> 'a \<Rightarrow> 'a list \<Rightarrow> 'a list" where
  "sift lt x [] = [x]"
| "sift lt x (y # ys) = (if lt x y then y # sift lt x ys else x # y # ys)"

definition sort_Slice :: "('a \<Rightarrow> 'a \<Rightarrow> bool) \<Rightarrow> 'a list \<Rightarrow> 'a list" where
  "sort_Slice lt xs = rev (fold (sift lt) xs [])"

definition block_less :: "eth_api \<Rightarrow> Block \<Rightarrow> Block \<Rightarrow> bool" where
  "block_less E bi bj =
     (case eth_GetMinerStake E (hd_ProposerEth (blk_Header bi)) of
        Ok iStake \<Rightarrow> (case eth_GetMinerStake E (hd_ProposerEth (blk_Header bj)) of
            Ok jStake \<Rightarrow>
              if iStake < jStake then False
              else if jStake < iStake then True
              else sint (hd_Timestamp (blk_Header bj)) < sint (hd_Timestamp (blk_Header bi))
          | _ \<Rightarrow> False)
      | _ \<Rightarrow> False)"

fun delete_txs ::
  "('c, Transaction) Cache \<Rightarrow> int \<Rightarrow> Transaction heap \<Rightarrow> 'c \<Rightarrow> Transaction option list \<Rightarrow> 'c \<times> event list \<times> unit res" where
  "delete_txs ca now h c [] = (c, [], Ok ())"
| "delete_txs ca now h c (None # vs) = (c, [], Panic)"
| "delete_txs ca now h c (Some v # vs) =
     (case DeleteTx ca now h c (tx_Hash v) of
        (c1, ev1, Panic) \<Rightarrow> (c1, ev1, Panic)
      | (c1, ev1, _) \<Rightarrow> (case delete_txs ca now h c1 vs of (c2, ev2, r) \<Rightarrow> (c2, ev1 @ ev2, r)))"

text \<open>
  Every candidate takes part in a comparison or is the one that is selected, so a candidate
  without a block, or a panic of the stake lookup, ends the call before anything changes. The
  selected block is returned together with the error of storing it.
\<close>

definition store_selected ::
  "('s, 'c, 'd) handler \<Rightarrow> 's choices \<Rightarrow> Block \<Rightarrow> ('s, 'c, 'd) node_state \<Rightarrow>
   ('s, 'c, 'd) node_state \<times> effect list \<times> (Block option \<times> go_error option) res" where
  "store_selected H R selectedBlock s =
     (case Prune (ns_consensus s) of (crp, ev0) \<Rightarrow>
      case delete_txs (ch_ca H) (r_now R) (r_heap R) (ns_pool s) (blk_Data selectedBlock) of
        (c, ev1, Panic) \<Rightarrow> (s\<lparr>ns_consensus := crp, ns_pool := c\<rparr>, map Published (ev0 @ ev1), Panic)
      | (c, ev1, _) \<Rightarrow> (case StoreBlock (ch_env H) (r_sched R) (ns_db s) selectedBlock of
          (d, ev2, r) \<Rightarrow> (s\<lparr>ns_consensus := crp, ns_pool := c, ns_db := d\<rparr>, map Published (ev0 @ ev1 @ ev2),
            (case r of Ok _ \<Rightarrow> Ok (Some selectedBlock, None)
             | Err e \<Rightarrow> Ok (Some selectedBlock, Some e)
             | Panic \<Rightarrow> Panic))))"

definition commitAcceptedBlocks ::
  "('s, 'c, 'd) handler \<Rightarrow> 's choices \<Rightarrow> ('s, 'c, 'd) node_state \<Rightarrow>
   ('s, 'c, 'd) node_state \<times> effect list \<times> (Block option \<times> go_error option) res" where
  "commitAcceptedBlocks H R s =
     (let E = env_eth (ch_env H); infos = GetAllBlocksWithCommit (r_ord R) (ns_consensus s) in
      if infos = [] then (s, [], Ok (None, Some ErrNoAcceptedBlocks))
      else if \<exists>ci \<in> set infos. case ci_Block ci of None \<Rightarrow> True
             | Some b \<Rightarrow> eth_GetMinerStake E (hd_ProposerEth (blk_Header b)) = Panic
      then (s, [], Panic)
      else let selectedBlock = hd (sort_Slice (block_less E) (map (\<lambda>ci. the (ci_Block ci)) infos)) in
        case eth_GetMinerStake E (hd_ProposerEth (blk_Header selectedBlock)) of
          Err e \<Rightarrow> (s, [], Ok (None, Some e))
        | Panic \<Rightarrow> (s, [], Panic)
        | Ok stake \<Rightarrow>
            if hd_ElectionProof (blk_Header selectedBlock) = None \<or> hd_Proposer (blk_Header selectedBlock) = None
            then (s, [], Panic)
            else store_selected H R selectedBlock s)"

fun submit_txs :: "codec \<Rightarrow> eth_api \<Rightarrow> Transaction option list \<Rightarrow> effect list \<times> unit res" where
  "submit_txs K E [] = ([], Ok ())"
| "submit_txs K E (None # txs) = ([], Panic)"
| "submit_txs K E (Some tx # txs) =
     (case unmarshal_task K (tx_Data tx) of
        (task, Some e) \<Rightarrow> submit_txs K E txs
      | (task, None) \<Rightarrow> (case big_SetString (tk_RequestID task) of
          None \<Rightarrow> submit_txs K E txs
        | Some reqIDNumber \<Rightarrow> (case eth_SubmitRequestAnswer E reqIDNumber (tk_Payload task) of
            Err e \<Rightarrow> submit_txs K E txs
          | Panic \<Rightarrow> ([], Panic)
          | Ok _ \<Rightarrow> (case submit_txs K E txs of
              (effs, r) \<Rightarrow> (Submitted reqIDNumber (tk_Payload task) # effs, r)))))"

definition submitTasksFromBlock :: "('s, 'c, 'd) handler \<Rightarrow> Block \<Rightarrow> effect list \<times> unit res" where
  "submitTasksFromBlock H block = submit_txs (ch_K H) (env_eth (ch_env H)) (blk_Data block)"

definition propose ::
  "('s, 'c, 'd) handler \<Rightarrow> Block \<Rightarrow> ('s, 'c, 'd) node_state \<Rightarrow>
   ('s, 'c, 'd) node_state \<times> effect list \<times> unit res" where
  "propose H blk s =
     (let cmsg = \<lparr>cm_Type = ConsensusMessageTypePrePrepare, cm_Blockhash = hd_Hash (blk_Header blk),
                  cm_Signature = [], cm_Block = Some blk, cm_From = ch_address H\<rparr>
      in case NewMessage (ch_C H) (ch_K H) cmsg (ch_privKey H) of
           Err e \<Rightarrow> (s, [], Err e)
         | Panic \<Rightarrow> (s, [], Panic)
         | Ok prePrepareMsg \<Rightarrow> (case insert_message H cmsg s of
             (s', effs, Ok _) \<Rightarrow> (case BroadcastToServiceTopic (ch_ps H) prePrepareMsg of
                 Ok _ \<Rightarrow> (s', effs @ [Broadcasted prePrepareMsg], Ok ())
               | Err e \<Rightarrow> (s', effs, Err e)
               | Panic \<Rightarrow> (s', effs, Panic))
           | (s', effs, r) \<Rightarrow> (s', effs, r)))"

text \<open>
  Broadcast of the committed block, and submission of its tasks by its proposer. An error of
  the broadcast is dropped.
\<close>

definition announce_block :: "('s, 'c, 'd) handler \<Rightarrow> Block \<Rightarrow> effect list \<times> unit res" where
  "announce_block H block =
     (case (case marshal_block (ch_K H) block of
         Err e \<Rightarrow> ([], Ok ())
       | Panic \<Rightarrow> ([], Panic)
       | Ok blockSerialized \<Rightarrow>
           let m = \<lparr>pm_Type = NewBlockMessageType, pm_From = [], pm_Payload = blockSerialized\<rparr> in
           (case BroadcastToServiceTopic (ch_ps H) m of
              Ok _ \<Rightarrow> ([Broadcasted m], Ok ()) | Err e \<Rightarrow> ([], Ok ()) | Panic \<Rightarrow> ([], Panic))) of
        (effs, Panic) \<Rightarrow> (effs, Panic)
      | (effs, _) \<Rightarrow>
          (case hd_Proposer (blk_Header block) of
             None \<Rightarrow> (effs, Panic)
           | Some p \<Rightarrow>
               if cr_peerString (ch_C H) p = cr_peerString (ch_C H) (ch_address H)
               then (case submitTasksFromBlock H block of (effs2, r) \<Rightarrow> (effs @ effs2, r))
               else (effs, Ok ())))"

text \<open>
  The miner hears of a new latest block through an asynchronous subscription, which runs
  before the block is mined or not.
\<close>

fun notify_miner :: "effect list \<Rightarrow> Miner \<Rightarrow> Miner" where
  "notify_miner [] m = m"
| "notify_miner (Published (Ev_latestBlockHeightUpdated b) # effs) m =
     notify_miner effs (onLatestBlockHeightUpdated b m)"
| "notify_miner (_ # effs) m = notify_miner effs m"

definition mine_and_propose ::
  "('s, 'c, 'd) handler \<Rightarrow> 's choices \<Rightarrow> BeaconEntry \<Rightarrow> ('s, 'c, 'd) node_state \<Rightarrow>
   ('s, 'c, 'd) node_state \<times> effect list \<times> unit res" where
  "mine_and_propose H R entry s =
     (case MineBlock (ch_env H) (ch_ca H) (r_now R) (r_heap R) (ns_pool s) (r_ts R) (ns_miner s)
         (be_Data entry) (be_Round entry) of
        (m, r) \<Rightarrow>
          let s1 = s\<lparr>ns_miner := m\<rparr> in
          case r of
            Err e \<Rightarrow> (s1, [], Ok ())
          | Panic \<Rightarrow> (s1, [], Panic)
          | Ok None \<Rightarrow> (s1, [], Ok ())
          | Ok (Some minedBlock) \<Rightarrow> (case propose H minedBlock s1 of
                (s2, effs, Panic) \<Rightarrow> (s2, effs, Panic)
              | (s2, effs, _) \<Rightarrow> (s2, effs, Ok ())))"

definition onNewBeaconEntry ::
  "('s, 'c, 'd) handler \<Rightarrow> 's choices \<Rightarrow> BeaconEntry \<Rightarrow> ('s, 'c, 'd) node_state \<Rightarrow>
   ('s, 'c, 'd) node_state \<times> effect list \<times> unit res" where
  "onNewBeaconEntry H R entry s =
     (case commitAcceptedBlocks H R s of
        (s1, effs1, Panic) \<Rightarrow> (s1, effs1, Panic)
      | (s1, effs1, Err e) \<Rightarrow> (s1, effs1, Err e)
      | (s1, effs1, Ok (block, err)) \<Rightarrow>
     (if db_GetLatestBlockHeight (env_db (ch_env H)) (ns_db s1) = Panic then (s1, effs1, Panic)
      else if (case err of None \<Rightarrow> False | Some e \<Rightarrow> \<not> errors_Is e ErrNoAcceptedBlocks) then (s1, effs1, Ok ())
      else
     (case (case block of None \<Rightarrow> ([], Ok ()) | Some b \<Rightarrow> announce_block H b) of
        (effs2, Panic) \<Rightarrow> (s1, effs1 @ effs2, Panic)
      | (effs2, _) \<Rightarrow>
     (let s2 = (if r_miner_notified R then s1\<lparr>ns_miner := notify_miner effs1 (ns_miner s1)\<rparr> else s1)
      in case mine_and_propose H R entry s2 of
           (s3, effs3, r) \<Rightarrow> (s3, effs1 @ effs2 @ effs3, r)))))"

end
