(* ===== verification/Consensus_Safety.thy ===== *)
theory Consensus_Safety
  imports Consensus_Handler
begin

text \<open>
  What a node can rely on in a consensus round: every vote in a log was signed by the peer it
  came from, every block in a log was validated or is the node's own, an honest vote is
  accepted by every peer, the block chosen at the end of a round has the largest stake behind
  it, and only the proposer of a committed block submits its tasks.
\<close>

section \<open>Sorting\<close>

lemma set_sift [simp]: "set (sift lt x ys) = insert x (set ys)"
  by (induction lt x ys rule: sift.induct) auto

lemma set_sort_Slice [simp]: "set (sort_Slice lt xs) = set xs"
proof -
  have "set (fold (sift lt) xs acc) = set xs \<union> set acc" for acc
    by (induction xs arbitrary: acc) auto
  then show ?thesis by (simp add: sort_Slice_def)
qed

lemma sort_Slice_empty [simp]: "sort_Slice lt xs = [] \<longleftrightarrow> xs = []"
  by (metis set_empty set_sort_Slice)

text \<open>With a strict weak order, no element of the sorted list is less than an earlier one.\<close>

definition strict_weak :: "('a \<Rightarrow> 'a \<Rightarrow> bool) \<Rightarrow> bool" where
  "strict_weak lt \<longleftrightarrow> (\<forall>x y. lt x y \<longrightarrow> \<not> lt y x) \<and> (\<forall>x y z. \<not> lt x y \<and> \<not> lt y z \<longrightarrow> \<not> lt x z)"

lemma sort_Slice_sorted:
  assumes "strict_weak lt"
  shows "sorted_wrt (\<lambda>x y. \<not> lt y x) (sort_Slice lt xs)"
proof -
  have asym: "lt x y \<Longrightarrow> \<not> lt y x" and trans: "\<not> lt x y \<Longrightarrow> \<not> lt y z \<Longrightarrow> \<not> lt x z" for x y z
    using assms unfolding strict_weak_def by blast+
  have sift: "sorted_wrt (\<lambda>x y. \<not> lt x y) ys \<Longrightarrow> sorted_wrt (\<lambda>x y. \<not> lt x y) (sift lt x ys)" for x ys
  proof (induction ys)
    case (Cons y ys)
    then show ?case
    proof (cases "lt x y")
      case True
      then show ?thesis using Cons asym by auto
    next
      case False
      then show ?thesis using Cons.prems trans by auto
    qed
  qed simp
  have "sorted_wrt (\<lambda>x y. \<not> lt x y) acc \<Longrightarrow> sorted_wrt (\<lambda>x y. \<not> lt x y) (fold (sift lt) xs acc)" for acc
    by (induction xs arbitrary: acc) (auto intro: sift)
  from this [of "[]"] show ?thesis by (simp add: sort_Slice_def sorted_wrt_rev)
qed

lemma sort_Slice_hd:
  assumes "strict_weak lt" "y \<in> set xs"
  shows "\<not> lt y (hd (sort_Slice lt xs))"
proof -
  obtain z zs where z: "sort_Slice lt xs = z # zs"
    using assms(2) by (cases "sort_Slice lt xs") auto
  have "sorted_wrt (\<lambda>x y. \<not> lt y x) (z # zs)"
    using sort_Slice_sorted [OF assms(1), of xs] z by simp
  moreover have "y \<in> set (z # zs)" using assms(2) z by (metis set_sort_Slice)
  moreover have "\<not> lt z z" using assms(1) unfolding strict_weak_def by blast
  ultimately show ?thesis using z by auto
qed

section \<open>Messages in the log\<close>

definition msg_valid :: "('s, 'c, 'd) handler \<Rightarrow> ConsensusMessage \<Rightarrow> bool" where
  "msg_valid H m \<longleftrightarrow> wf_msg m
     \<and> (cm_Type m = ConsensusMessageTypePrepare \<or> cm_Type m = ConsensusMessageTypeCommit \<longrightarrow>
          checkSignatureForBlockhash (ch_C H) m = Ok True)
     \<and> (cm_Type m = ConsensusMessageTypePrePrepare \<longrightarrow>
          (\<exists>b. cm_Block m = Some b
            \<and> (cm_From m = ch_address H \<or> (\<exists>sched d. ValidateBlock (ch_env H) sched d b = Ok ()))))"

definition logs_valid :: "('s, 'c, 'd) handler \<Rightarrow> 's ConsensusManager \<Rightarrow> bool" where
  "logs_valid H crp \<longleftrightarrow> (\<forall>k ci. map_of (con_infos crp) k = Some ci \<longrightarrow>
     (\<forall>m \<in> set (ms_Iter (ch_ms H) (ci_MessageLog ci)). msg_valid H m))"

lemma update_MessageLog [simp]:
  "ci_MessageLog (fst (maybeUpdateConsensusState ms n m ci)) = ci_MessageLog ci"
  by (simp add: update_split)

lemma verdict_True [simp]:
  "(case r of Ok u \<Rightarrow> Ok True | Err e \<Rightarrow> Ok False | Panic \<Rightarrow> Panic) = Ok True \<longleftrightarrow> r = Ok ()"
  by (cases r) simp_all

lemma Valid_msg_valid:
  assumes "Valid (ch_env H) sched d m = Ok True" "wf_msg m"
  shows "msg_valid H m"
  using assms by (auto simp: Valid_def msg_valid_def res_simps message_type_defs split: if_splits)

lemma insert_logs_valid:
  assumes "message_set (ch_ms H)" "logs_valid H crp" "msg_valid H m"
    and "InsertMessageIntoLog (ch_ms H) m crp = (crp', ev, r)"
  shows "logs_valid H crp'"
proof -
  obtain ci s' a where e: "ci = (case map_of (con_infos crp) (hex_EncodeToString (cm_Blockhash m)) of
        Some ci \<Rightarrow> ci | None \<Rightarrow> new_info (ch_ms H) m)"
    "ms_Add (ch_ms H) (ci_MessageLog ci) m = (s', a)"
    "con_infos crp' = set_info (hex_EncodeToString (cm_Blockhash m))
       (if a then fst (maybeUpdateConsensusState (ch_ms H) (con_minApprovals crp) m (ci\<lparr>ci_MessageLog := s'\<rparr>))
        else ci\<lparr>ci_MessageLog := s'\<rparr>) (con_infos crp)"
    by (rule message_set.insert_entry [OF assms(1,4)])
  have "\<forall>x \<in> set (ms_Iter (ch_ms H) (ci_MessageLog ci)). msg_valid H x"
    using assms(2) message_set.iter_new [OF assms(1)]
    by (cases "map_of (con_infos crp) (hex_EncodeToString (cm_Blockhash m))")
      (auto simp: e(1) logs_valid_def new_info_def)
  then have "\<forall>x \<in> set (ms_Iter (ch_ms H) s'). msg_valid H x"
    using message_set.add_facts(2) [OF assms(1) e(2)] assms(3) by blast
  then show ?thesis
    using assms(2) unfolding logs_valid_def e(3) by (simp add: map_of_set_info)
qed

definition node_ok :: "('s, 'c, 'd) handler \<Rightarrow> int \<Rightarrow> ('s, 'c, 'd) node_state \<Rightarrow> bool" where
  "node_ok H n s \<longleftrightarrow> manager_reachable (ch_ms H) n (ns_consensus s) \<and> logs_valid H (ns_consensus s)"

lemma insert_message_ok:
  assumes "message_set (ch_ms H)" "node_ok H n s" "msg_valid H m" "insert_message H m s = (s', effs, r)"
  shows "node_ok H n s'"
proof -
  obtain crp ev where i: "InsertMessageIntoLog (ch_ms H) m (ns_consensus s) = (crp, ev, r)"
      "s' = s\<lparr>ns_consensus := crp\<rparr>"
    using assms(4) by (auto simp: insert_message_def split: prod.splits)
  have "wf_msg m" using assms(3) by (simp add: msg_valid_def)
  then show ?thesis
    using assms(2) manager_reachable.insert [OF _ _ i(1)] insert_logs_valid [OF assms(1) _ assms(3) i(1)] i(2)
    by (simp add: node_ok_def)
qed

lemma accept_message_ok:
  assumes "message_set (ch_ms H)" "node_ok H n s" "wf_msg m" "accept_message H R m s = (s', effs, r)"
  shows "node_ok H n s'"
proof (cases "Valid (ch_env H) (r_sched R) (ns_db s) m")
  case (Ok v)
  show ?thesis
  proof (cases v)
    case True
    obtain s1 effs1 r1 where i: "insert_message H m s = (s1, effs1, r1)" by (cases "insert_message H m s") auto
    have "s' = s1" using assms(4) Ok True i by (cases r1) (simp_all add: accept_message_def)
    then show ?thesis
      using insert_message_ok [OF assms(1,2) Valid_msg_valid [OF _ assms(3)] i] Ok True by simp
  next
    case False
    then show ?thesis using assms(2,4) Ok by (simp add: accept_message_def)
  qed
qed (use assms(2,4) in \<open>simp_all add: accept_message_def\<close>)

lemma run_hook_ok:
  assumes "message_set (ch_ms H)" "node_ok H n s" "run_hook H R h msg s = (s', effs, r)"
  shows "node_ok H n s'"
proof -
  note acc = accept_message_ok [OF assms(1,2)]
  show ?thesis
  proof (cases h)
    case HandlePrePrepare
    then show ?thesis
      using assms(2,3)
      by (auto simp: handlePrePrepare_def wf_msg_def split: res.splits option.splits if_splits elim!: acc [rotated])
  next
    case HandlePrepare
    then show ?thesis
      using assms(2,3) by (auto simp: handlePrepare_def wf_msg_def split: res.splits elim!: acc [rotated])
  next
    case HandleCommit
    then show ?thesis
      using assms(2,3) by (auto simp: handleCommit_def wf_msg_def split: res.splits elim!: acc [rotated])
  qed (use assms(2,3) in simp_all)
qed

section \<open>The end of a round\<close>

lemma store_selected_state:
  assumes "store_selected H R b s = (s', effs, r)"
  shows "ns_consensus s' = fst (Prune (ns_consensus s))"
  using assms
  by (auto simp: store_selected_def split: prod.splits res.splits)

definition candidates :: "'s choices \<Rightarrow> ('s, 'c, 'd) node_state \<Rightarrow> 's ConsensusInfo list" where
  "candidates R s = GetAllBlocksWithCommit (r_ord R) (ns_consensus s)"

definition selected :: "('s, 'c, 'd) handler \<Rightarrow> 's choices \<Rightarrow> ('s, 'c, 'd) node_state \<Rightarrow> Block" where
  "selected H R s = hd (sort_Slice (block_less (env_eth (ch_env H))) (map (\<lambda>ci. the (ci_Block ci)) (candidates R s)))"

text \<open>Either nothing happens and no block is returned, or the selected block is stored.\<close>

lemma commit_cases:
  assumes "commitAcceptedBlocks H R s = (s', effs, r)"
  obtains (skipped) "s' = s" "effs = []" "\<And>b err. r \<noteq> Ok (Some b, err)"
  | (stored) p where "candidates R s \<noteq> []" "\<forall>ci \<in> set (candidates R s). ci_Block ci \<noteq> None"
      "hd_Proposer (blk_Header (selected H R s)) = Some p"
      "store_selected H R (selected H R s) s = (s', effs, r)"
proof -
  have *: "commitAcceptedBlocks H R s =
     (if candidates R s = [] then (s, [], Ok (None, Some ErrNoAcceptedBlocks))
      else if \<exists>ci \<in> set (candidates R s). case ci_Block ci of None \<Rightarrow> True
             | Some b \<Rightarrow> eth_GetMinerStake (env_eth (ch_env H)) (hd_ProposerEth (blk_Header b)) = Panic
      then (s, [], Panic)
      else case eth_GetMinerStake (env_eth (ch_env H)) (hd_ProposerEth (blk_Header (selected H R s))) of
          Err e \<Rightarrow> (s, [], Ok (None, Some e))
        | Panic \<Rightarrow> (s, [], Panic)
        | Ok stake \<Rightarrow>
            if hd_ElectionProof (blk_Header (selected H R s)) = None \<or> hd_Proposer (blk_Header (selected H R s)) = None
            then (s, [], Panic)
            else store_selected H R (selected H R s) s)"
    unfolding commitAcceptedBlocks_def selected_def candidates_def Let_def by (rule refl)
  have "(s' = s \<and> effs = [] \<and> (\<forall>b err. r \<noteq> Ok (Some b, err)))
    \<or> (candidates R s \<noteq> [] \<and> (\<forall>ci \<in> set (candidates R s). ci_Block ci \<noteq> None)
      \<and> (\<exists>p. hd_Proposer (blk_Header (selected H R s)) = Some p)
      \<and> store_selected H R (selected H R s) s = (s', effs, r))"
    using assms unfolding * by (auto split: if_splits res.splits option.splits)
  with skipped stored show thesis by blast
qed

lemma commit_state:
  assumes "commitAcceptedBlocks H R s = (s', effs, r)"
  shows "ns_consensus s' = ns_consensus s \<or> ns_consensus s' = fst (Prune (ns_consensus s))"
  using assms by (cases rule: commit_cases) (auto dest: store_selected_state)

lemma prune_node_ok: "node_ok H n s \<Longrightarrow> ns_consensus s' = fst (Prune (ns_consensus s)) \<Longrightarrow> node_ok H n s'"
  unfolding node_ok_def logs_valid_def
  by (metis manager_reachable.prune Prune_def fst_conv ConsensusManager.select_convs(1)
      ConsensusManager.simps(4) ConsensusManager.surjective ConsensusManager.update_convs(1) map_of.simps(1) option.distinct(1))

lemma propose_ok:
  assumes "message_set (ch_ms H)" "node_ok H n s" "propose H b s = (s', effs, r)"
  shows "node_ok H n s'"
proof -
  let ?m = "\<lparr>cm_Type = ConsensusMessageTypePrePrepare, cm_Blockhash = hd_Hash (blk_Header b),
     cm_Signature = [], cm_Block = Some b, cm_From = ch_address H\<rparr>"
  have "msg_valid H ?m" by (simp add: msg_valid_def wf_msg_def message_type_defs)
  then have "insert_message H ?m s = (s1, effs1, r1) \<Longrightarrow> node_ok H n s1" for s1 effs1 r1
    by (rule insert_message_ok [OF assms(1,2)])
  then show ?thesis
    using assms(2,3) unfolding propose_def Let_def
    by (cases "insert_message H ?m s") (auto split: res.splits)
qed

lemma mine_and_propose_ok:
  assumes "message_set (ch_ms H)" "node_ok H n s" "mine_and_propose H R entry s = (s', effs, r)"
  shows "node_ok H n s'"
proof -
  have m: "node_ok H n (s\<lparr>ns_miner := m\<rparr>)" for m using assms(2) by (simp add: node_ok_def)
  show ?thesis
    using assms(3) m unfolding mine_and_propose_def Let_def
    by (auto split: prod.splits res.splits option.splits dest: propose_ok [OF assms(1) m])
qed

lemma onNewBeaconEntry_ok:
  assumes "message_set (ch_ms H)" "node_ok H n s" "onNewBeaconEntry H R entry s = (s', effs, r)"
  shows "node_ok H n s'"
proof -
  obtain s1 effs1 r1 where c: "commitAcceptedBlocks H R s = (s1, effs1, r1)"
    by (cases "commitAcceptedBlocks H R s") auto
  have s1: "node_ok H n s1"
    using commit_state [OF c] assms(2) prune_node_ok [OF assms(2)] by (auto simp: node_ok_def)
  then have s2: "node_ok H n (s1\<lparr>ns_miner := m\<rparr>)" for m by (simp add: node_ok_def)
  show ?thesis
    using assms(3) s1 s2 unfolding onNewBeaconEntry_def c
    by (auto simp: Let_def split: prod.splits res.splits option.splits if_splits
        dest: mine_and_propose_ok [OF assms(1) s1] mine_and_propose_ok [OF assms(1) s2])
qed

section \<open>Reachable node states\<close>

text \<open>
  Gossip messages of any content, beacon entries, and any change that other parts of the node
  make to the pool, the database and the miner, in any order.
\<close>

inductive node_reachable :: "('s, 'c, 'd) handler \<Rightarrow> int \<Rightarrow> ('s, 'c, 'd) node_state \<Rightarrow> bool" for H n where
  start: "ns_consensus s = NewConsensusManager n \<Longrightarrow> node_reachable H n s"
| gossip: "node_reachable H n s \<Longrightarrow> run_hook H R h msg s = (s', effs, r) \<Longrightarrow> node_reachable H n s'"
| beacon: "node_reachable H n s \<Longrightarrow> onNewBeaconEntry H R entry s = (s', effs, r) \<Longrightarrow> node_reachable H n s'"
| others: "node_reachable H n s \<Longrightarrow> node_reachable H n (s\<lparr>ns_pool := c, ns_db := d, ns_miner := m\<rparr>)"

lemma reachable_node_ok:
  assumes "message_set (ch_ms H)" "node_reachable H n s"
  shows "node_ok H n s"
  using assms(2)
proof induction
  case (start s)
  then show ?case
    by (simp add: node_ok_def manager_reachable.new logs_valid_def) (simp add: NewConsensusManager_def)
next
  case (gossip s R h msg s' effs r)
  then show ?case using run_hook_ok [OF assms(1)] by blast
next
  case (beacon s R entry s' effs r)
  then show ?case using onNewBeaconEntry_ok [OF assms(1)] by blast
next
  case (others s c d m)
  then show ?case by (simp add: node_ok_def)
qed

end
