(* ===== verification/Consensus_Properties.thy ===== *)
theory Consensus_Properties
  imports Consensus_Safety
begin

text \<open>
  The properties of a consensus round on one node and between two nodes, with a demonstration
  node that proposes its own block and receives one commit vote.
\<close>

section \<open>Lemmas\<close>

lemma block_less_strict_weak:
  assumes "\<And>a. \<exists>x. eth_GetMinerStake E a = Ok x"
  shows "strict_weak (block_less E)"
proof -
  define stake where "stake b = (SOME x. eth_GetMinerStake E (hd_ProposerEth (blk_Header b)) = Ok x)" for b :: Block
  have stake: "eth_GetMinerStake E (hd_ProposerEth (blk_Header b)) = Ok (stake b)" for b :: Block
    unfolding stake_def by (rule someI_ex) (rule assms)
  have "block_less E x y \<longleftrightarrow> stake y < stake x \<or>
      stake x = stake y \<and> sint (hd_Timestamp (blk_Header y)) < sint (hd_Timestamp (blk_Header x))" for x y
    by (auto simp: block_less_def stake)
  then show ?thesis by (auto simp: strict_weak_def)
qed

lemma selected_in:
  assumes "candidates R s \<noteq> []"
  shows "\<exists>ci \<in> set (candidates R s). selected H R s = the (ci_Block ci)"
proof -
  let ?bs = "map (\<lambda>ci. the (ci_Block ci)) (candidates R s)"
  have "hd (sort_Slice (block_less (env_eth (ch_env H))) ?bs) \<in> set (sort_Slice (block_less (env_eth (ch_env H))) ?bs)"
    using assms by (intro hd_in_set) simp
  then show ?thesis by (auto simp: selected_def)
qed

lemma submit_txs_step:
  assumes "Submitted i p \<in> set (fst (submit_txs K E (Some tx # txs)))"
  shows "Submitted i p \<in> set (fst (submit_txs K E txs)) \<or>
    (\<exists>task. unmarshal_task K (tx_Data tx) = (task, None) \<and> big_SetString (tk_RequestID task) = Some i \<and> tk_Payload task = p)"
  using assms by (auto split: prod.splits option.splits res.splits)

lemma submit_txs_origin:
  "Submitted i p \<in> set (fst (submit_txs K E txs)) \<Longrightarrow>
   \<exists>tx task. Some tx \<in> set txs \<and> unmarshal_task K (tx_Data tx) = (task, None)
    \<and> big_SetString (tk_RequestID task) = Some i \<and> tk_Payload task = p"
proof (induction txs)
  case (Cons v txs)
  show ?case
  proof (cases v)
    case None
    with Cons.prems show ?thesis by simp
  next
    case (Some tx)
    with submit_txs_step [of i p K E tx txs] Cons show ?thesis by (metis list.set_intros)
  qed
qed simp

lemma announce_block_submits:
  assumes "Submitted i p \<in> set (fst (announce_block H b))"
  shows "(\<exists>q. hd_Proposer (blk_Header b) = Some q
      \<and> cr_peerString (ch_C H) q = cr_peerString (ch_C H) (ch_address H))
    \<and> (\<exists>tx task. Some tx \<in> set (blk_Data b) \<and> unmarshal_task (ch_K H) (tx_Data tx) = (task, None)
      \<and> big_SetString (tk_RequestID task) = Some i \<and> tk_Payload task = p)"
proof -
  have "Submitted i p \<in> set (fst (submitTasksFromBlock H b)) \<and> (\<exists>q. hd_Proposer (blk_Header b) = Some q
      \<and> cr_peerString (ch_C H) q = cr_peerString (ch_C H) (ch_address H))"
    using assms by (auto simp: announce_block_def Let_def split: res.splits option.splits prod.splits if_splits)
  then show ?thesis using submit_txs_origin unfolding submitTasksFromBlock_def by blast
qed

lemma propose_no_submit: "Submitted i p \<notin> set (fst (snd (propose H b s)))"
  by (auto simp: propose_def Let_def insert_message_def split: res.splits prod.splits)

lemma mine_and_propose_no_submit: "Submitted i p \<notin> set (fst (snd (mine_and_propose H R entry s)))"
proof -
  have "propose H b s1 = (s2, effs, r) \<Longrightarrow> Submitted i p \<notin> set effs" for b s1 s2 effs r
    using propose_no_submit [of i p H b s1] by simp
  then show ?thesis
    by (auto simp: mine_and_propose_def Let_def split: res.splits prod.splits option.splits)
qed

lemma store_selected_result:
  assumes "store_selected H R b s = (s', effs, Ok (Some b', err))"
  shows "b' = b" "con_infos (ns_consensus s') = []"
  using assms by (auto simp: store_selected_def Prune_def split: prod.splits res.splits)

lemma store_selected_effects:
  assumes "store_selected H R b s = (s', effs, r)"
  shows "Submitted i p \<notin> set effs"
  using assms by (auto simp: store_selected_def split: prod.splits res.splits)




section \<open>Demonstration node\<close>

definition demo_codec :: "Block list \<Rightarrow> codec" where
  "demo_codec bs = ref_codec (no_tables\<lparr>tb_tasks := [demo_task], tb_blocks := bs\<rparr>)"

definition demo_handler ::
  "Block list \<Rightarrow> (ConsensusMessage list, Transaction iface ecache, mem_value ecache) handler" where
  "demo_handler bs = \<lparr>ch_ms = content_mapset, ch_ca = inmemory_Cache ref_gocache,
     ch_env = demo_env\<lparr>env_K := demo_codec bs\<rparr>, ch_ps = ref_pubsub, ch_privKey = [7],
     ch_address = peer_of_key [7]\<rparr>"

definition demo_choices :: "ConsensusMessage list choices" where
  "demo_choices = \<lparr>r_now = 0, r_heap = task_heap, r_ts = 77, r_sched = [], r_ord = id, r_miner_notified = False\<rparr>"

definition demo_node ::
  "int \<Rightarrow> (ConsensusMessage list, Transaction iface ecache, mem_value ecache) node_state" where
  "demo_node n = \<lparr>ns_consensus = NewConsensusManager n, ns_pool = task_pool, ns_db = demo_db1, ns_miner = demo_miner\<rparr>"

lemma demo_handler_sel [simp]:
  "ch_ms (demo_handler bs) = content_mapset" "ch_C (demo_handler bs) = demo_crypto"
  "ch_K (demo_handler bs) = demo_codec bs" "ch_ps (demo_handler bs) = ref_pubsub"
  "ch_privKey (demo_handler bs) = [7]" "ch_address (demo_handler bs) = peer_of_key [7]"
  "env_eth (ch_env (demo_handler bs)) = demo_eth"
  by (simp_all add: demo_handler_def)

text \<open>The node mines and proposes a block, then receives a commit vote of peer 8 for it.\<close>

definition demo_vote :: "Block \<Rightarrow> PubSubMessage" where
  "demo_vote b = \<lparr>pm_Type = CommitMessageType, pm_From = peer_of_key [8],
     pm_Payload = frame_bytes [hd_Hash (blk_Header b)] @ ([8] @ hd_Hash (blk_Header b))\<rparr>"

definition own_preprepare :: "Block \<Rightarrow> ConsensusMessage" where
  "own_preprepare b = \<lparr>cm_Type = ConsensusMessageTypePrePrepare, cm_Blockhash = hd_Hash (blk_Header b),
     cm_Signature = [], cm_Block = Some b, cm_From = peer_of_key [7]\<rparr>"

definition peer_commit :: "Block \<Rightarrow> ConsensusMessage" where
  "peer_commit b = \<lparr>cm_Type = ConsensusMessageTypeCommit, cm_Blockhash = hd_Hash (blk_Header b),
     cm_Signature = [8] @ hd_Hash (blk_Header b), cm_Block = None, cm_From = peer_of_key [8]\<rparr>"

definition committed_info :: "Block \<Rightarrow> ConsensusMessage list ConsensusInfo" where
  "committed_info b = \<lparr>ci_Blockhash = hd_Hash (blk_Header b), ci_Block = Some b, ci_State = StateStatusCommited,
     ci_MessageLog = [own_preprepare b, peer_commit b]\<rparr>"

lemma demo_insert_own:
  "InsertMessageIntoLog content_mapset (own_preprepare b) (NewConsensusManager 1) =
    (\<lparr>con_infos = [(hex_EncodeToString (hd_Hash (blk_Header b)),
        \<lparr>ci_Blockhash = hd_Hash (blk_Header b), ci_Block = Some b, ci_State = StateStatusPrepared,
         ci_MessageLog = [own_preprepare b]\<rparr>)], con_minApprovals = 1\<rparr>,
     [Ev_consensus_newState (Some b) StateStatusPrePrepared, Ev_consensus_newState (Some b) StateStatusPrepared], Ok ())"
  by (simp add: InsertMessageIntoLog_def NewConsensusManager_def Let_def new_info_def log_AddMessage_def
      content_mapset_def maybeUpdateConsensusState_def try_preprepare_def try_prepare_def try_commit_def
      own_preprepare_def log_Get_def state_defs message_type_defs)

lemma demo_insert_commit:
  "InsertMessageIntoLog content_mapset (peer_commit b) (fst (InsertMessageIntoLog content_mapset (own_preprepare b)
      (NewConsensusManager 1))) =
    (\<lparr>con_infos = [(hex_EncodeToString (hd_Hash (blk_Header b)), committed_info b)], con_minApprovals = 1\<rparr>,
     [Ev_consensus_newState (Some b) StateStatusCommited], Ok ())"
  unfolding demo_insert_own fst_conv
  by (simp add: InsertMessageIntoLog_def Let_def log_AddMessage_def committed_info_def
      content_mapset_def maybeUpdateConsensusState_def try_preprepare_def try_prepare_def try_commit_def
      own_preprepare_def peer_commit_def log_Get_def msg_hash_def state_defs message_type_defs)

lemma demo_propose:
  assumes "MineBlock demo_env (inmemory_Cache ref_gocache) 0 task_heap task_pool 77 demo_miner [5, 5] 8 = (m', Ok (Some b))"
  shows "\<exists>effs. onNewBeaconEntry (demo_handler [b]) demo_choices (NewBeaconEntry 8 [5, 5] []) (demo_node 1)
    = ((demo_node 1)\<lparr>ns_miner := m', ns_consensus := fst (InsertMessageIntoLog content_mapset (own_preprepare b) (NewConsensusManager 1))\<rparr>,
       effs, Ok ())"
proof -
  have sel: "env_eth (e\<lparr>env_K := K\<rparr>) = env_eth e" "env_C (e\<lparr>env_K := K\<rparr>) = env_C e"
    "env_M (e\<lparr>env_K := K\<rparr>) = env_M e" for e :: "mem_value ecache chain_env" and K
    by simp_all
  have mine: "MineBlock (demo_env\<lparr>env_K := K\<rparr>) ca clk h c ts m rnd rr = MineBlock demo_env ca clk h c ts m rnd rr" for K ca clk h c ts m rnd rr
    unfolding MineBlock_def sel by (rule refl)
  have latest: "db_GetLatestBlockHeight (memory_Database ref_gocache 0) demo_db1 \<noteq> Panic"
    by (simp add: demo_latest)
  have m: "NewMessage C (demo_codec [b]) (own_preprepare b) sk
      = Ok \<lparr>pm_Type = PrePrepareMessageType, pm_From = [], pm_Payload = [1]\<rparr>" for C sk
    by (simp add: NewMessage_def own_preprepare_def demo_codec_def ref_codec_def tbl_marshal_def)
  have bc: "BroadcastToServiceTopic ref_pubsub \<lparr>pm_Type = PrePrepareMessageType, pm_From = [], pm_Payload = [1]\<rparr> = Ok [1, 1]"
    by (simp add: BroadcastToServiceTopic_def ref_pubsub_def PrePrepareMessageType_def)
  have "\<exists>effs. propose (demo_handler [b]) b s = (s\<lparr>ns_consensus := fst (InsertMessageIntoLog content_mapset (own_preprepare b) (NewConsensusManager 1))\<rparr>, effs, Ok ())"
    if "ns_consensus s = NewConsensusManager 1" for s
    by (simp add: propose_def own_preprepare_def [symmetric] m insert_message_def that demo_insert_own bc)
  moreover have "commitAcceptedBlocks (demo_handler [b]) demo_choices (demo_node 1) = (demo_node 1, [], Ok (None, Some ErrNoAcceptedBlocks))"
    by (simp add: commitAcceptedBlocks_def GetAllBlocksWithCommit_def demo_node_def NewConsensusManager_def demo_choices_def)
  moreover obtain effs where "propose (demo_handler [b]) b ((demo_node 1)\<lparr>ns_miner := m'\<rparr>) =
      ((demo_node 1)\<lparr>ns_miner := m', ns_consensus := fst (InsertMessageIntoLog content_mapset (own_preprepare b) (NewConsensusManager 1))\<rparr>, effs, Ok ())"
    using calculation(1) [of "(demo_node 1)\<lparr>ns_miner := m'\<rparr>"] by (auto simp: demo_node_def)
  moreover have "ch_env (demo_handler [b]) = demo_env\<lparr>env_K := demo_codec [b]\<rparr>"
      "ch_ca (demo_handler [b]) = inmemory_Cache ref_gocache" by (simp_all add: demo_handler_def)
  ultimately show ?thesis
    using assms latest
    by (simp add: onNewBeaconEntry_def demo_choices_def mine_and_propose_def mine NewBeaconEntry_def Let_def)
      (simp add: demo_node_def)
qed

lemma demo_commit_vote:
  assumes "ns_consensus s = fst (InsertMessageIntoLog content_mapset (own_preprepare b) (NewConsensusManager 1))"
  shows "run_hook (demo_handler [b]) demo_choices HandleCommit (demo_vote b) s
    = (s\<lparr>ns_consensus := \<lparr>con_infos = [(hex_EncodeToString (hd_Hash (blk_Header b)), committed_info b)], con_minApprovals = 1\<rparr>\<rparr>,
       [Published (Ev_consensus_newState (Some b) StateStatusCommited)], Ok ())"
proof -
  have u: "unmarshal_vote (demo_codec [b]) (pm_Payload (demo_vote b)) = Ok (hd_Hash (blk_Header b), [8] @ hd_Hash (blk_Header b))"
    unfolding demo_codec_def by (rule ref_cbor.vote_roundtrip) (simp add: ref_codec_def demo_vote_def)
  have "pm_From (demo_vote b) = peer_of_key [8]" by (simp add: demo_vote_def)
  with u show ?thesis
    by (simp add: handleCommit_def accept_message_def Valid_def checkSignatureForBlockhash_def
        insert_message_def assms demo_handler_def message_type_defs
        demo_insert_commit [unfolded peer_commit_def message_type_defs, simplified])
qed

lemma demo_committed:
  obtains b s where "node_reachable (demo_handler [b]) 1 s"
    "GetAllBlocksWithCommit id (ns_consensus s) = [committed_info b]"
proof -
  obtain m' b where mined: "MineBlock demo_env (inmemory_Cache ref_gocache) 0 task_heap task_pool 77 demo_miner [5, 5] 8
      = (m', Ok (Some b))"
    using demo_mined by blast
  let ?s1 = "(demo_node 1)\<lparr>ns_miner := m', ns_consensus :=
    fst (InsertMessageIntoLog content_mapset (own_preprepare b) (NewConsensusManager 1))\<rparr>"
  obtain effs where p: "onNewBeaconEntry (demo_handler [b]) demo_choices (NewBeaconEntry 8 [5, 5] []) (demo_node 1)
      = (?s1, effs, Ok ())"
    using demo_propose [OF mined] by blast
  have "node_reachable (demo_handler [b]) 1 (demo_node 1)"
    by (rule node_reachable.start) (simp add: demo_node_def)
  then have r: "node_reachable (demo_handler [b]) 1 ?s1" by (rule node_reachable.beacon [OF _ p])
  have c: "ns_consensus ?s1 = fst (InsertMessageIntoLog content_mapset (own_preprepare b) (NewConsensusManager 1))" by simp
  from node_reachable.gossip [OF r demo_commit_vote [OF c]] have "node_reachable (demo_handler [b]) 1
      (?s1\<lparr>ns_consensus := \<lparr>con_infos = [(hex_EncodeToString (hd_Hash (blk_Header b)), committed_info b)], con_minApprovals = 1\<rparr>\<rparr>)"
    by simp
  then show thesis
    by (rule that) (simp add: GetAllBlocksWithCommit_def committed_info_def)
qed

section \<open>Properties\<close>

text \<open>C5. A block that a node counts as committed is backed by signed votes: whatever messages and
  beacon entries arrived, its log holds at least \<open>minApprovals\<close> commit messages for its hash,
  each signed over that hash by the peer it came from; and the block itself passed validation
  unless the node proposed it.\<close>

theorem committed_block_backed:
  assumes "message_set (ch_ms H)" "node_reachable H n s" "\<And>xs. mset (ord xs) = mset xs"
    and "ci \<in> set (GetAllBlocksWithCommit ord (ns_consensus s))"
  shows "(\<exists>b. ci_Block ci = Some b \<and> hd_Hash (blk_Header b) = ci_Blockhash ci
      \<and> ((\<exists>sched d. ValidateBlock (ch_env H) sched d b = Ok ())
        \<or> (\<exists>m \<in> set (ms_Iter (ch_ms H) (ci_MessageLog ci)). cm_Block m = Some b \<and> cm_From m = ch_address H)))
    \<and> n \<le> int (length (log_Get (ch_ms H) (ci_MessageLog ci) ConsensusMessageTypeCommit (ci_Blockhash ci)))
    \<and> (\<forall>m \<in> set (log_Get (ch_ms H) (ci_MessageLog ci) ConsensusMessageTypeCommit (ci_Blockhash ci)).
        cm_Blockhash m = ci_Blockhash ci \<and> checkSignatureForBlockhash (ch_C H) m = Ok True)"
proof -
  have ok: "manager_reachable (ch_ms H) n (ns_consensus s)" "logs_valid H (ns_consensus s)"
    using reachable_node_ok [OF assms(1,2)] by (simp_all add: node_ok_def)
  have m: "manager_ok (ch_ms H) (ns_consensus s)" "con_minApprovals (ns_consensus s) = n"
    using reachable_ok [OF assms(1) ok(1)] by blast+
  have e: "map_of (con_infos (ns_consensus s)) (hex_EncodeToString (ci_Blockhash ci)) = Some ci"
    "info_ok (ch_ms H) n ci" "ci_State ci = StateStatusCommited"
    using committed_entry [OF m(1) assms(3,4)] m(2) by simp_all
  have v: "msg_valid H x" if "x \<in> set (ms_Iter (ch_ms H) (ci_MessageLog ci))" for x
    using ok(2) e(1) that unfolding logs_valid_def by blast
  have st: "StateStatusPrePrepared \<le> ci_State ci" "StateStatusCommited \<le> ci_State ci"
    using e(3) by (simp_all add: state_defs)
  then obtain b x where b: "ci_Block ci = Some b" "hd_Hash (blk_Header b) = ci_Blockhash ci"
      "x \<in> set (ms_Iter (ch_ms H) (ci_MessageLog ci))" "cm_Type x = ConsensusMessageTypePrePrepare" "cm_Block x = Some b"
    using e(2) unfolding info_ok_def by blast
  moreover have "n \<le> int (votes (ch_ms H) ci ConsensusMessageTypeCommit)"
    using e(2) st(2) unfolding info_ok_def by blast
  moreover have "cm_Blockhash x = ci_Blockhash ci \<and> checkSignatureForBlockhash (ch_C H) x = Ok True"
    if "x \<in> set (log_Get (ch_ms H) (ci_MessageLog ci) ConsensusMessageTypeCommit (ci_Blockhash ci))" for x
    using that v [of x] e(2) by (simp add: log_Get_def msg_valid_def info_ok_def)
  ultimately show ?thesis using v [OF b(3)] by (auto simp: msg_valid_def votes_def)
qed

theorem committed_block_backed_witness:
  "\<exists>b s. node_reachable (demo_handler [b]) 1 s \<and> GetAllBlocksWithCommit id (ns_consensus s) = [committed_info b]
     \<and> (\<forall>m \<in> set (log_Get content_mapset (ci_MessageLog (committed_info b)) ConsensusMessageTypeCommit (hd_Hash (blk_Header b))).
          checkSignatureForBlockhash demo_crypto m = Ok True)"
proof -
  obtain b s where r: "node_reachable (demo_handler [b]) 1 s"
      "GetAllBlocksWithCommit id (ns_consensus s) = [committed_info b]"
    by (rule demo_committed)
  from committed_block_backed [OF _ r(1), of id "committed_info b"] r(2)
  have "\<forall>m \<in> set (log_Get content_mapset (ci_MessageLog (committed_info b)) ConsensusMessageTypeCommit (hd_Hash (blk_Header b))).
          checkSignatureForBlockhash demo_crypto m = Ok True"
    by (simp add: by_content.message_set_axioms committed_info_def)
  with r show ?thesis by blast
qed



text \<open>C8. While the staking contract answers, the block that ends a round is a committed one whose
  proposer has the largest stake, and among those with the same stake the one with the latest
  timestamp; afterwards no block is under consideration any more.\<close>

theorem selected_block_maximal:
  assumes "commitAcceptedBlocks H R s = (s', effs, Ok (Some b, err))"
    and "\<And>a. \<exists>x. eth_GetMinerStake (env_eth (ch_env H)) a = Ok x"
  shows "(\<exists>ci \<in> set (GetAllBlocksWithCommit (r_ord R) (ns_consensus s)). ci_Block ci = Some b)
    \<and> (\<forall>ci \<in> set (GetAllBlocksWithCommit (r_ord R) (ns_consensus s)). \<exists>b' x x'. ci_Block ci = Some b'
        \<and> eth_GetMinerStake (env_eth (ch_env H)) (hd_ProposerEth (blk_Header b)) = Ok x
        \<and> eth_GetMinerStake (env_eth (ch_env H)) (hd_ProposerEth (blk_Header b')) = Ok x'
        \<and> (x' < x \<or> (x' = x \<and> sint (hd_Timestamp (blk_Header b')) \<le> sint (hd_Timestamp (blk_Header b)))))
    \<and> con_infos (ns_consensus s') = []"
  using assms(1)
proof (cases rule: commit_cases)
  case (stored p)
  have b: "b = selected H R s" and empty: "con_infos (ns_consensus s') = []"
    using store_selected_result [OF stored(4)] by simp_all
  obtain ci where ci: "ci \<in> set (candidates R s)" "ci_Block ci = Some b"
    using selected_in [OF stored(1), of H] stored(2) b by force
  have "\<exists>b' x x'. ci_Block cj = Some b'
      \<and> eth_GetMinerStake (env_eth (ch_env H)) (hd_ProposerEth (blk_Header b)) = Ok x
      \<and> eth_GetMinerStake (env_eth (ch_env H)) (hd_ProposerEth (blk_Header b')) = Ok x'
      \<and> (x' < x \<or> (x' = x \<and> sint (hd_Timestamp (blk_Header b')) \<le> sint (hd_Timestamp (blk_Header b))))"
    if cj: "cj \<in> set (candidates R s)" for cj
  proof -
    obtain b' where b': "ci_Block cj = Some b'" using cj stored(2) by auto
    have "\<not> block_less (env_eth (ch_env H)) b' b"
      unfolding b selected_def
      by (rule sort_Slice_hd [OF block_less_strict_weak [OF assms(2)]]) (use cj b' in force)
    moreover obtain x x' where "eth_GetMinerStake (env_eth (ch_env H)) (hd_ProposerEth (blk_Header b)) = Ok x"
        "eth_GetMinerStake (env_eth (ch_env H)) (hd_ProposerEth (blk_Header b')) = Ok x'"
      using assms(2) by blast
    ultimately show ?thesis using b' by (auto simp: block_less_def split: if_splits)
  qed
  with ci empty show ?thesis unfolding candidates_def by blast
qed blast

text \<open>Two committed blocks of height 0 with equal stakes, for the witnesses.\<close>

definition demo_block :: "i64 \<Rightarrow> Block" where
  "demo_block ts = \<lparr>blk_Header = genesis_header\<lparr>hd_Hash := [ucast ts], hd_Timestamp := ts,
     hd_Proposer := Some (peer_of_key [7]), hd_ElectionProof := Some \<lparr>ep_WinCount = 1, ep_VRFProof = [], ep_RandomnessRound = 0\<rparr>\<rparr>,
     blk_Data = [Some \<lparr>tx_Hash = [], tx_MerkleProof = zero_proof, tx_Timestamp = 0, tx_Data = []\<rparr>]\<rparr>"

definition demo_round :: "(ConsensusMessage list, Transaction iface ecache, mem_value ecache) node_state" where
  "demo_round = \<lparr>ns_consensus = \<lparr>con_infos = [(''x'', committed_info (demo_block 3)), (''y'', committed_info (demo_block 5))],
       con_minApprovals = 1\<rparr>,
     ns_pool = inmem_NewCache ref_gocache, ns_db = demo_db0, ns_miner = NewMiner [] []\<rparr>"

lemma demo_round_commits:
  "\<exists>s' effs. commitAcceptedBlocks (demo_handler []) demo_choices demo_round = (s', effs, Ok (Some (demo_block 5), None))"
proof -
  have "snd (snd (commitAcceptedBlocks (demo_handler []) demo_choices demo_round)) = Ok (Some (demo_block 5), None)"
    by code_simp
  then show ?thesis by (metis prod.collapse)
qed

theorem selected_block_maximal_witness:
  "\<exists>s' effs. commitAcceptedBlocks (demo_handler []) demo_choices demo_round = (s', effs, Ok (Some (demo_block 5), None))
     \<and> con_infos (ns_consensus s') = []"
proof -
  obtain s' effs where c: "commitAcceptedBlocks (demo_handler []) demo_choices demo_round = (s', effs, Ok (Some (demo_block 5), None))"
    using demo_round_commits by blast
  from selected_block_maximal [OF c] c show ?thesis by (simp add: demo_eth_def)
qed

text \<open>C9. Only the proposer answers: a task that a node submits to Ethereum at the end of a round
  comes from a committed block that this node itself proposed, and request number and payload
  are those of one of its transactions.\<close>

theorem submissions_from_own_block:
  assumes "onNewBeaconEntry H R entry s = (s', effs, r)" "Submitted i p \<in> set effs"
  shows "\<exists>ci b q tx task. ci \<in> set (GetAllBlocksWithCommit (r_ord R) (ns_consensus s)) \<and> ci_Block ci = Some b
    \<and> hd_Proposer (blk_Header b) = Some q \<and> cr_peerString (ch_C H) q = cr_peerString (ch_C H) (ch_address H)
    \<and> Some tx \<in> set (blk_Data b) \<and> unmarshal_task (ch_K H) (tx_Data tx) = (task, None)
    \<and> big_SetString (tk_RequestID task) = Some i \<and> tk_Payload task = p"
proof -
  obtain s1 effs1 r1 where c: "commitAcceptedBlocks H R s = (s1, effs1, r1)"
    by (cases "commitAcceptedBlocks H R s") auto
  have no1: "Submitted i p \<notin> set effs1"
    using c by (cases rule: commit_cases) (auto dest: store_selected_effects)
  have no3: "mine_and_propose H R entry s2 = (s3, effs3, r3) \<Longrightarrow> Submitted i p \<notin> set effs3" for s2 s3 effs3 r3
    using mine_and_propose_no_submit [of i p H R entry s2] by simp
  have "\<exists>b err. r1 = Ok (Some b, err) \<and> Submitted i p \<in> set (fst (announce_block H b))"
    using assms no1 no3 unfolding onNewBeaconEntry_def c
    by (auto simp: Let_def split: res.splits option.splits prod.splits if_splits)
  then obtain b err where b: "r1 = Ok (Some b, err)" "Submitted i p \<in> set (fst (announce_block H b))"
    by blast
  from c show ?thesis
  proof (cases rule: commit_cases)
    case (stored q)
    have sel: "b = selected H R s" using store_selected_result(1) stored(4) b(1) by blast
    obtain ci where "ci \<in> set (candidates R s)" "ci_Block ci = Some b"
      using selected_in [OF stored(1), of H] stored(2) sel by force
    then show ?thesis
      using announce_block_submits [OF b(2)] unfolding candidates_def by blast
  qed (use b(1) in blast)
qed

theorem submissions_from_own_block_witness:
  "\<exists>s' effs r. onNewBeaconEntry (demo_handler []) demo_choices (NewBeaconEntry 8 [] []) demo_round = (s', effs, r)
     \<and> Submitted 12 [4, 2] \<in> set effs
     \<and> (\<exists>ci \<in> set (GetAllBlocksWithCommit id (ns_consensus demo_round)). \<exists>b. ci_Block ci = Some b
          \<and> hd_Proposer (blk_Header b) = Some (peer_of_key [7]))"
proof -
  let ?run = "onNewBeaconEntry (demo_handler []) demo_choices (NewBeaconEntry 8 [] []) demo_round"
  have s: "Submitted 12 [4, 2] \<in> set (fst (snd ?run))" by code_simp
  obtain s' effs r where run: "?run = (s', effs, r)" by (cases ?run) auto
  have id: "cr_peerString demo_crypto q = q" for q by (simp add: demo_crypto_def ref_crypto_def)
  from submissions_from_own_block [OF run, of 12 "[4, 2]"] s run show ?thesis
    by (auto simp: id demo_choices_def)
qed

end
