(* ===== verification/Network_Service.thy ===== *)
theory Network_Service
  imports Blockchain Mempool
begin

text \<open>
  The service a node offers to its peers (\<open>node/network_service.go\<close>, \<open>node/wire\<close>): its latest
  height, ranges of its blocks, the inventory of its pool and pooled transactions by hash.

  The loop over a range compares 64-bit heights, so it does not end when the last height is
  the largest one; it is a partial function whose value \<open>None\<close> means that it never returns.
\<close>

section \<open>Model\<close>

definition MaxBlockCountForRetrieving :: u64 where "MaxBlockCountForRetrieving = 500"

definition MaxTransactionCountForRetrieving :: nat where "MaxTransactionCountForRetrieving = 50000"

record GetRangeOfBlocksArg =
  ra_From :: u64
  ra_To :: u64

record GetRangeOfBlocksReply =
  rr_Blocks :: "Block list"
  rr_FailedBlockHeights :: "u64 list"

record GetMempoolTxsReply =
  tr_Transactions :: "Transaction list"
  tr_NotFoundTxs :: "bytes list"

definition TxInvType :: int where "TxInvType = 1"

record InvItem =
  inv_Type :: int
  inv_Hash :: bytes

definition LastBlockHeight :: "'d chain_env \<Rightarrow> 'd \<Rightarrow> u64 res" where
  "LastBlockHeight env d = bc_GetLatestBlockHeight env d"

partial_function (option) range_loop ::
  "'d chain_env \<Rightarrow> 'd \<Rightarrow> u64 \<Rightarrow> u64 \<Rightarrow> GetRangeOfBlocksReply \<Rightarrow> GetRangeOfBlocksReply res option" where
  "range_loop env d i to reply =
     (if i \<le> to
      then (case bc_FetchBlockByHeight env d i of
          Ok block \<Rightarrow> range_loop env d (i + 1) to (reply\<lparr>rr_Blocks := rr_Blocks reply @ [block]\<rparr>)
        | Err e \<Rightarrow> range_loop env d (i + 1) to
            (reply\<lparr>rr_FailedBlockHeights := rr_FailedBlockHeights reply @ [i]\<rparr>)
        | Panic \<Rightarrow> Some Panic)
      else Some (Ok reply))"

definition GetRangeOfBlocks ::
  "'d chain_env \<Rightarrow> 'd \<Rightarrow> GetRangeOfBlocksArg \<Rightarrow> GetRangeOfBlocksReply res option" where
  "GetRangeOfBlocks env d arg =
     (if ra_To arg < ra_From arg then Some (Err (Errorf ''incorrect arguments: from > to''))
      else if MaxBlockCountForRetrieving < ra_To arg - ra_From arg
      then Some (Err (Errorf ''incorrect arguments: count of block for retrieving is exceeded the limit''))
      else range_loop env d (ra_From arg) (ra_To arg) \<lparr>rr_Blocks = [], rr_FailedBlockHeights = []\<rparr>)"

definition NetworkService_Mempool ::
  "('c, Transaction) Cache \<Rightarrow> int \<Rightarrow> Transaction heap \<Rightarrow> 'c \<Rightarrow> InvItem list res" where
  "NetworkService_Mempool ca now h c =
     bind_res (GetAllTransactions ca now h c) (\<lambda>txs.
       Ok (map (\<lambda>v. \<lparr>inv_Type = TxInvType, inv_Hash = tx_Hash v\<rparr>) txs))"

text \<open>After a hash that is not found the loop still dereferences the nil transaction.\<close>

fun mempool_txs_loop ::
  "('c, Transaction) Cache \<Rightarrow> int \<Rightarrow> Transaction heap \<Rightarrow> 'c \<Rightarrow> bytes list \<Rightarrow> GetMempoolTxsReply \<Rightarrow>
   GetMempoolTxsReply res" where
  "mempool_txs_loop ca now h c [] reply = Ok reply"
| "mempool_txs_loop ca now h c (v # vs) reply =
     (case GetTransaction ca now h c v of
        Ok tx \<Rightarrow> mempool_txs_loop ca now h c vs (reply\<lparr>tr_Transactions := tr_Transactions reply @ [tx]\<rparr>)
      | Err e \<Rightarrow> if errors_Is e ErrTxNotFound then Panic else Err e
      | Panic \<Rightarrow> Panic)"

definition GetMempoolTxs ::
  "('c, Transaction) Cache \<Rightarrow> int \<Rightarrow> Transaction heap \<Rightarrow> 'c \<Rightarrow> bytes list \<Rightarrow> GetMempoolTxsReply res" where
  "GetMempoolTxs ca now h c items =
     (if MaxTransactionCountForRetrieving < length items then Err (Errorf ''max tx count limit exceeded'')
      else mempool_txs_loop ca now h c items \<lparr>tr_Transactions = [], tr_NotFoundTxs = []\<rparr>)"

section \<open>The range loop\<close>

text \<open>What a range of heights gives, by recursion on its length.\<close>

fun range_ref :: "'d chain_env \<Rightarrow> 'd \<Rightarrow> nat list \<Rightarrow> GetRangeOfBlocksReply \<Rightarrow> GetRangeOfBlocksReply res" where
  "range_ref env d [] reply = Ok reply"
| "range_ref env d (n # ns) reply =
     (case bc_FetchBlockByHeight env d (of_nat n) of
        Ok block \<Rightarrow> range_ref env d ns (reply\<lparr>rr_Blocks := rr_Blocks reply @ [block]\<rparr>)
      | Err e \<Rightarrow> range_ref env d ns (reply\<lparr>rr_FailedBlockHeights := rr_FailedBlockHeights reply @ [of_nat n]\<rparr>)
      | Panic \<Rightarrow> Panic)"

lemma unat_of_nat_u64:
  assumes "n \<le> unat (b :: u64)"
  shows "unat (of_nat n :: u64) = n"
proof -
  have "n < 2 ^ 64" using assms unsigned_less [of b, where ?'a = nat] by simp
  then show ?thesis by (simp add: unat_of_nat)
qed

lemma unat_next:
  assumes "(i :: u64) \<le> to" "to \<noteq> - 1"
  shows "unat (i + 1) = Suc (unat i)"
proof -
  have "unat (- 1 :: u64) = 18446744073709551615" by (simp add: unsigned_minus_1_eq_mask mask_eq_exp_minus_1)
  then have "unat to \<noteq> 18446744073709551615" using assms(2) by (metis word_unat_eq_iff)
  moreover have "unat to < 18446744073709551616" using unsigned_less [of to, where ?'a = nat] by simp
  moreover have "unat i \<le> unat to" using assms(1) by (simp add: word_le_nat_alt)
  ultimately have "unat i + 1 < 18446744073709551616" by linarith
  then show ?thesis by (simp add: unat_word_ariths)
qed

lemma card_range:
  assumes "\<not> b < (a :: u64)"
  shows "card {a..b} = Suc (unat (b - a))"
proof -
  have "{a..b} = of_nat ` {unat a..unat b}"
  proof (intro equalityI subsetI)
    fix x assume "x \<in> {a..b}"
    then show "x \<in> of_nat ` {unat a..unat b}"
      by (intro image_eqI [of _ _ "unat x"]) (simp_all add: word_le_nat_alt)
  next
    fix x :: u64 assume "x \<in> of_nat ` {unat a..unat b}"
    then obtain n where n: "x = of_nat n" "unat a \<le> n" "n \<le> unat b" by auto
    then have "unat x = n" using unat_of_nat_u64 [of n b] by simp
    then show "x \<in> {a..b}" using n by (simp add: word_le_nat_alt)
  qed
  moreover have "inj_on (of_nat :: nat \<Rightarrow> u64) {unat a..unat b}"
  proof (rule inj_on_inverseI)
    fix n assume "n \<in> {unat a..unat b}"
    then show "unat (of_nat n :: u64) = n" using unat_of_nat_u64 [of n b] by simp
  qed
  ultimately have "card {a..b} = Suc (unat b) - unat a" by (simp add: card_image)
  moreover have "unat (b - a) = unat b - unat a" "unat a \<le> unat b"
    using assms by (simp_all add: unat_sub word_le_nat_alt not_less)
  ultimately show ?thesis by simp
qed

lemma range_loop_ends:
  assumes "to \<noteq> - 1"
  shows "range_loop env d i to reply = Some (range_ref env d [unat i..<Suc (unat to)] reply)"
proof (induction "Suc (unat to) - unat i" arbitrary: i reply)
  case 0
  then have "\<not> i \<le> to" by (simp add: word_le_nat_alt)
  with 0 show ?case by (subst range_loop.simps) simp
next
  case (Suc n)
  then have le: "i \<le> to" by (simp add: word_le_nat_alt)
  have s: "unat (i + 1) = Suc (unat i)" by (rule unat_next [OF le assms])
  have "[unat i..<Suc (unat to)] = unat i # [unat (i + 1)..<Suc (unat to)]"
    using le unfolding s by (subst upt_rec) (simp add: word_le_nat_alt)
  moreover have "range_loop env d (i + 1) to r = Some (range_ref env d [unat (i + 1)..<Suc (unat to)] r)" for r
    using Suc(2) by (intro Suc(1)) (simp add: s)
  ultimately show ?case
    using le by (subst range_loop.simps) (auto split: res.splits)
qed

text \<open>Every height is at most the largest one, so the loop up to it never returns.\<close>

lemma range_loop_diverges:
  assumes "\<And>n. bc_FetchBlockByHeight env d n \<noteq> Panic"
  shows "range_loop env d i (- 1) reply = None"
proof -
  have "(\<forall>n. bc_FetchBlockByHeight env d n \<noteq> Panic) \<longrightarrow> to \<noteq> - 1" if "range_loop env d i to reply = Some r" for to r
    using _ that
  proof (rule range_loop.raw_induct [where P = "\<lambda>env d i to reply r. (\<forall>n. bc_FetchBlockByHeight env d n \<noteq> Panic) \<longrightarrow> to \<noteq> - 1"])
    fix rec env d i to reply r
    assume IH: "\<And>env d i to reply r. rec env d i to reply = Some r \<Longrightarrow>
        (\<forall>n. bc_FetchBlockByHeight env d n \<noteq> Panic) \<longrightarrow> to \<noteq> - 1"
      and body: "(if i \<le> to then case bc_FetchBlockByHeight env d i of
          Ok block \<Rightarrow> rec env d (i + 1) to (reply\<lparr>rr_Blocks := rr_Blocks reply @ [block]\<rparr>)
        | Err e \<Rightarrow> rec env d (i + 1) to (reply\<lparr>rr_FailedBlockHeights := rr_FailedBlockHeights reply @ [i]\<rparr>)
        | Panic \<Rightarrow> Some Panic
        else Some (Ok reply)) = Some r"
    show "(\<forall>n. bc_FetchBlockByHeight env d n \<noteq> Panic) \<longrightarrow> to \<noteq> - 1"
    proof (cases "i \<le> to")
      case True
      then show ?thesis using body IH by (cases "bc_FetchBlockByHeight env d i") auto
    qed auto
  qed
  then show ?thesis using assms by (cases "range_loop env d i (- 1) reply") auto
qed

context block_database
begin

lemma range_ref_found:
  assumes "env_db env = db" "inv d"
  shows "range_ref env d ns reply = Ok
    \<lparr>rr_Blocks = rr_Blocks reply @ List.map_filter (\<lambda>n. abs_by_height (\<alpha> d) (of_nat n)) ns,
     rr_FailedBlockHeights = rr_FailedBlockHeights reply @
       map of_nat (filter (\<lambda>n. abs_by_height (\<alpha> d) (of_nat n) = None) ns)\<rparr>"
proof (induction ns arbitrary: reply)
  case (Cons n ns)
  show ?case
    by (cases "abs_by_height (\<alpha> d) (of_nat n)")
      (simp_all add: Cons bc_reads assms(1) fetch_by_height [OF assms(2)] map_filter_simps)
qed (simp add: map_filter_simps)

end

section \<open>The pool\<close>

context tx_cache
begin

lemma mempool_txs_loop_spec:
  assumes "inv c"
  shows "mempool_txs_loop ca now h c vs reply =
    (if \<exists>v \<in> set vs. view now h c (tx_key v) = None then Panic
     else Ok (reply\<lparr>tr_Transactions := tr_Transactions reply @ map (\<lambda>v. the (view now h c (tx_key v))) vs\<rparr>))"
proof (induction vs arbitrary: reply)
  case (Cons v vs)
  then show ?case
    by (cases "view now h c (tx_key v)") (auto simp: GetTransaction_spec [OF assms])
qed simp

end

section \<open>Properties\<close>

text \<open>C21. What \<open>GetRangeOfBlocks\<close> answers, on every argument: an error for an inverted range or
  one of more than 501 heights; no answer at all, because its loop never ends, when the last
  height is the largest 64-bit number; otherwise the stored blocks of the range in ascending
  order and the heights that are missing.\<close>

theorem get_range_of_blocks:
  assumes "block_database (env_db env) I \<alpha>" "I d"
  shows "GetRangeOfBlocks env d \<lparr>ra_From = a, ra_To = b\<rparr> =
    (if b < a then Some (Err (Errorf ''incorrect arguments: from > to''))
     else if 501 < card {a..b}
     then Some (Err (Errorf ''incorrect arguments: count of block for retrieving is exceeded the limit''))
     else if b = - 1 then None
     else Some (Ok \<lparr>rr_Blocks = List.map_filter (\<lambda>n. abs_by_height (\<alpha> d) (of_nat n)) [unat a..<Suc (unat b)],
       rr_FailedBlockHeights = map of_nat (filter (\<lambda>n. abs_by_height (\<alpha> d) (of_nat n) = None) [unat a..<Suc (unat b)])\<rparr>))"
proof -
  have "bc_FetchBlockByHeight env d n \<noteq> Panic" for n
    by (cases "abs_by_height (\<alpha> d) n") (simp_all add: bc_reads block_database.fetch_by_height [OF assms])
  note div = range_loop_diverges [of env d, OF this]
  have "MaxBlockCountForRetrieving < b - a \<longleftrightarrow> 501 < card {a..b}" if "\<not> b < a"
    by (simp add: card_range [OF that] MaxBlockCountForRetrieving_def word_less_nat_alt)
  then show ?thesis
    using div range_loop_ends [of b env d a] block_database.range_ref_found [OF assms(1) refl assms(2)]
    by (auto simp: GetRangeOfBlocks_def)
qed

theorem get_range_of_blocks_witness:
  "\<exists>(env :: mem_value ecache chain_env) d. GetRangeOfBlocks env d \<lparr>ra_From = 0 :: u64, ra_To = 1\<rparr>
     = Some (Ok \<lparr>rr_Blocks = [], rr_FailedBlockHeights = [0, 1]\<rparr>)
   \<and> GetRangeOfBlocks env d \<lparr>ra_From = - 2, ra_To = - 1\<rparr> = None"
proof -
  let ?env = "\<lparr>env_db = memory_Database ref_gocache 0, env_C = ref_crypto, env_M = ref_merkle,
     env_K = ref_codec no_tables, env_eth = undefined, env_Entry = undefined, env_validations = program_validations\<rparr>"
  let ?d = "mem_NewDatabase ref_gocache"
  have db: "block_database (env_db ?env) (mem_inv ref_gocache 0) (mem_abs ref_gocache 0)" "mem_inv ref_gocache 0 ?d"
    "mem_abs ref_gocache 0 ?d = abs_empty"
    using ref_mem.mem_block_database by (simp_all add: ref_mem.mem_new)
  have c: "card {0 .. 1 :: u64} = 2" "card {- 2 .. - 1 :: u64} = 2" by (simp_all add: card_range)
  have u: "[unat (0 :: u64)..<Suc (unat (1 :: u64))] = [0, 1]" by (simp add: upt_rec)
  from get_range_of_blocks [OF db(1,2), of 0 1] get_range_of_blocks [OF db(1,2), of "- 2" "- 1"]
  show ?thesis
    by (intro exI [of _ ?env] exI [of _ ?d])
      (simp add: c u db(3) abs_empty_def abs_by_height_def map_filter_simps)
qed

text \<open>A request for pooled transactions returns them in the order asked for when all of them
  are in the pool; one hash that is not (or no longer) pooled makes the service panic.\<close>

lemma get_mempool_txs:
  assumes "go_cache gc" "pool_reachable gc h c" "length items \<le> 50000"
  shows "GetMempoolTxs (inmemory_Cache gc) now h c items =
    (if \<exists>v \<in> set items. GetTransaction (inmemory_Cache gc) now h c v = Err ErrTxNotFound then Panic
     else Ok \<lparr>tr_Transactions = map (\<lambda>v. the (inmem_view gc now h c (tx_key v))) items, tr_NotFoundTxs = []\<rparr>)"
proof -
  have tb: "tx_backend gc" using assms(1) by (simp add: tx_backend_def inmem_backend_def)
  then have tc: "tx_cache (inmemory_Cache gc) (inmem_inv gc) (inmem_view gc)"
    by (rule tx_backend.pool_tx_cache)
  have i: "inmem_inv gc c" using tx_backend.reachable_inv [OF tb assms(2)] by blast
  have "GetTransaction (inmemory_Cache gc) now h c v = Err ErrTxNotFound \<longleftrightarrow> inmem_view gc now h c (tx_key v) = None" for v
    by (simp add: tx_cache.GetTransaction_spec [OF tc i] split: option.splits)
  then show ?thesis
    using assms(3)
    by (simp add: GetMempoolTxs_def MaxTransactionCountForRetrieving_def tx_cache.mempool_txs_loop_spec [OF tc i])
qed

end
