(* ===== verification/Sync_Manager.thy ===== *)
theory Sync_Manager
  imports Network_Service Pubsub Block_Validation
begin

text \<open>
  Synchronisation with a bootstrap peer and reception of gossiped blocks and transactions
  (\<open>blockchain/sync/sync_mgr.go\<close>). The peer is reached over go-libp2p-gorpc, the record
  \<open>sync_rpc\<close>: what a remote \<open>NetworkService\<close> answers.

  The pool keeps pointers, so the heap of transactions is part of the state. The loop over
  received transactions takes the address of its loop variable, which is one variable for the
  whole loop (the module is a Go 1.16 one).
\<close>

section \<open>State\<close>

record sync_rpc =
  rpc_LastBlockHeight :: "peer_id \<Rightarrow> u64 res"
  rpc_GetRangeOfBlocks :: "peer_id \<Rightarrow> GetRangeOfBlocksArg \<Rightarrow> GetRangeOfBlocksReply res"
  rpc_Mempool :: "peer_id \<Rightarrow> InvItem list res"
  rpc_GetMempoolTxs :: "peer_id \<Rightarrow> bytes list \<Rightarrow> GetMempoolTxsReply res"

record ('c, 'd) syncManager =
  sm_env :: "'d chain_env"
  sm_ca :: "('c, Transaction) Cache"
  sm_rpc :: sync_rpc
  sm_initialSyncCompleted :: bool
  sm_bootstrapPeer :: peer_id

record ('c, 'd) sync_state =
  sy_pool :: 'c
  sy_db :: 'd
  sy_heap :: "Transaction heap"
  sy_next :: loc

text \<open>Only the first bootstrap address is used; one that does not parse ends the process.\<close>

definition NewSyncManager ::
  "'d chain_env \<Rightarrow> ('c, Transaction) Cache \<Rightarrow> sync_rpc \<Rightarrow> ('a \<Rightarrow> peer_id res) \<Rightarrow> 'a list option \<Rightarrow>
   ('c, 'd) syncManager res" where
  "NewSyncManager env ca rpc addrInfo bootstrapAddresses =
     bind_res (case bootstrapAddresses of
         None \<Rightarrow> Ok []
       | Some [] \<Rightarrow> Panic
       | Some (a # _) \<Rightarrow> (case addrInfo a of Ok i \<Rightarrow> Ok i | _ \<Rightarrow> Panic)) (\<lambda>bootstrapPeer.
       Ok \<lparr>sm_env = env, sm_ca = ca, sm_rpc = rpc, sm_initialSyncCompleted = False,
           sm_bootstrapPeer = bootstrapPeer\<rparr>)"

section \<open>Blocks\<close>

definition verify_all :: "crypto \<Rightarrow> merkle \<Rightarrow> BlockHeader \<Rightarrow> Transaction option list \<Rightarrow> unit res" where
  "verify_all C M hdr txs = fold (\<lambda>tx r. bind_res r (\<lambda>_. VerifyTx C M hdr tx)) txs (Ok ())"

definition processReceivedBlock ::
  "'d chain_env \<Rightarrow> nat list \<Rightarrow> 'd \<Rightarrow> Block \<Rightarrow> 'd \<times> event list \<times> unit res" where
  "processReceivedBlock env sched d block =
     (let hdr = blk_Header block in
      case (case bc_FetchBlockHeaderByHeight env d (hd_Height hdr - 1) of
          Err e \<Rightarrow> Err (Errorf ''failed to retrieve previous block'')
        | Panic \<Rightarrow> Panic
        | Ok previousBlockHeader \<Rightarrow>
            bind_res (guard_res (hd_LastHash hdr = hd_Hash previousBlockHeader)
              ''block header has invalid last block hash'') (\<lambda>_.
            bind_res (wrap_res ''failed to verify last block hash merkle proof''
              (mt_VerifyProofUsing (env_M env) (hd_Hash previousBlockHeader) False (hd_LastHashProof hdr) [hd_Hash hdr]))
              (\<lambda>verified.
            bind_res (guard_res verified ''merkle hash of current block doesn't contain hash of previous block'') (\<lambda>_.
              verify_all (env_C env) (env_M env) hdr (blk_Data block))))) of
        Err e \<Rightarrow> (d, [], Err e)
      | Panic \<Rightarrow> (d, [], Panic)
      | Ok _ \<Rightarrow> (case StoreBlock env sched d block of
            (d', ev, Err e) \<Rightarrow> (d', ev, Err (Errorf ''failed to store block in blockpool''))
          | (d', ev, r) \<Rightarrow> (d', ev, r)))"

text \<open>A block that cannot be processed is logged and skipped.\<close>

fun process_blocks ::
  "'d chain_env \<Rightarrow> nat list \<Rightarrow> 'd \<Rightarrow> Block list \<Rightarrow> 'd \<times> event list \<times> unit res" where
  "process_blocks env sched d [] = (d, [], Ok ())"
| "process_blocks env sched d (b # bs) =
     (case processReceivedBlock env sched d b of
        (d1, ev1, Panic) \<Rightarrow> (d1, ev1, Panic)
      | (d1, ev1, _) \<Rightarrow> (case process_blocks env sched d1 bs of (d2, ev2, r) \<Rightarrow> (d2, ev1 @ ev2, r)))"

lemma rest_smaller:
  assumes "heightCount \<noteq> (0 :: u64)"
  shows "unat (heightCount - (if heightCount < MaxBlockCountForRetrieving then heightCount else MaxBlockCountForRetrieving))
    = unat heightCount - 500"
  using assms by (auto simp: MaxBlockCountForRetrieving_def unat_sub word_le_nat_alt word_less_nat_alt not_less)

function fetch_blocks :: "sync_rpc \<Rightarrow> peer_id \<Rightarrow> u64 \<Rightarrow> u64 \<Rightarrow> Block list \<Rightarrow> Block list res" where
  "fetch_blocks rpc peer heightCount to receivedBlocks =
     (if heightCount = 0 then Ok receivedBlocks
      else let from = to + 1;
               addedVal = (if heightCount < MaxBlockCountForRetrieving then heightCount
                           else MaxBlockCountForRetrieving)
           in case rpc_GetRangeOfBlocks rpc peer \<lparr>ra_From = from, ra_To = to + addedVal\<rparr> of
                Ok reply \<Rightarrow> fetch_blocks rpc peer (heightCount - addedVal) (to + addedVal)
                  (receivedBlocks @ rr_Blocks reply)
              | Err e \<Rightarrow> Err e
              | Panic \<Rightarrow> Panic)"
  by pat_completeness auto

termination
  by (relation "measure (\<lambda>(rpc, peer, heightCount, to, received). unat heightCount)")
    (auto simp: rest_smaller unat_gt_0 simp del: word_less_nat_alt)

declare fetch_blocks.simps [simp del]

definition doInitialBlockPoolSync ::
  "('c, 'd) syncManager \<Rightarrow> nat list \<Rightarrow> ('c, 'd) sync_state \<Rightarrow> ('c, 'd) sync_state \<times> event list \<times> unit res" where
  "doInitialBlockPoolSync sm sched s =
     (if sm_initialSyncCompleted sm then (s, [], Ok ())
      else let ourLastHeight = (case bc_GetLatestBlockHeight (sm_env sm) (sy_db s) of Ok n \<Rightarrow> n | _ \<Rightarrow> 0) in
      if sm_bootstrapPeer sm = [] then (s, [], Ok ())
      else case rpc_LastBlockHeight (sm_rpc sm) (sm_bootstrapPeer sm) of
        Err e \<Rightarrow> (s, [], Err e)
      | Panic \<Rightarrow> (s, [], Panic)
      | Ok replyHeight \<Rightarrow>
          if ourLastHeight < replyHeight
          then (case fetch_blocks (sm_rpc sm) (sm_bootstrapPeer sm) (replyHeight - ourLastHeight) ourLastHeight [] of
              Err e \<Rightarrow> (s, [], Err e)
            | Panic \<Rightarrow> (s, [], Panic)
            | Ok receivedBlocks \<Rightarrow> (case process_blocks (sm_env sm) sched (sy_db s) receivedBlocks of
                (d, ev, r) \<Rightarrow> (s\<lparr>sy_db := d\<rparr>, ev, r)))
          else (s, [], Ok ()))"

section \<open>Transactions\<close>

fun txs_to_retrieve ::
  "('c, Transaction) Cache \<Rightarrow> int \<Rightarrow> Transaction heap \<Rightarrow> 'c \<Rightarrow> InvItem list \<Rightarrow> bytes list res" where
  "txs_to_retrieve ca now h c [] = Ok []"
| "txs_to_retrieve ca now h c (v # vs) =
     (case GetTransaction ca now h c (inv_Hash v) of
        Panic \<Rightarrow> Panic
      | Err e \<Rightarrow> if errors_Is e ErrTxNotFound
          then bind_res (txs_to_retrieve ca now h c vs) (\<lambda>hs. Ok (inv_Hash v # hs))
          else txs_to_retrieve ca now h c vs
      | Ok _ \<Rightarrow> txs_to_retrieve ca now h c vs)"

text \<open>The loop variable lives at \<open>l\<close>: each turn writes the transaction there and stores \<open>l\<close>.\<close>

fun store_received ::
  "('c, Transaction) Cache \<Rightarrow> int \<Rightarrow> loc \<Rightarrow> Transaction list \<Rightarrow> Transaction heap \<Rightarrow> 'c \<Rightarrow>
   Transaction heap \<times> 'c \<times> event list \<times> unit res" where
  "store_received ca now l [] h c = (h, c, [], Ok ())"
| "store_received ca now l (v # vs) h c =
     (case StoreTx ca now (h(l := v)) c l of
        (c1, ev1, Panic) \<Rightarrow> (h(l := v), c1, ev1, Panic)
      | (c1, ev1, _) \<Rightarrow> (case store_received ca now l vs (h(l := v)) c1 of
            (h2, c2, ev2, r) \<Rightarrow> (h2, c2, ev1 @ ev2, r)))"

function fetch_txs ::
  "('c, 'd) syncManager \<Rightarrow> int \<Rightarrow> bytes list \<Rightarrow> ('c, 'd) sync_state \<Rightarrow>
   ('c, 'd) sync_state \<times> event list \<times> unit res" where
  "fetch_txs sm now txsToRetrieve s =
     (if txsToRetrieve = [] then (s, [], Ok ())
      else case (if MaxTransactionCountForRetrieving < length txsToRetrieve
                 then (take MaxTransactionCountForRetrieving txsToRetrieve, drop MaxTransactionCountForRetrieving txsToRetrieve)
                 else (txsToRetrieve, [])) of
        (txHashes, rest) \<Rightarrow>
          (case rpc_GetMempoolTxs (sm_rpc sm) (sm_bootstrapPeer sm) txHashes of
             Err e \<Rightarrow> (s, [], Err e)
           | Panic \<Rightarrow> (s, [], Panic)
           | Ok reply \<Rightarrow>
               (case store_received (sm_ca sm) now (sy_next s) (tr_Transactions reply) (sy_heap s) (sy_pool s) of
                  (h, c, ev, Panic) \<Rightarrow> (s\<lparr>sy_heap := h, sy_pool := c, sy_next := Suc (sy_next s)\<rparr>, ev, Panic)
                | (h, c, ev, _) \<Rightarrow>
                    (case fetch_txs sm now rest (s\<lparr>sy_heap := h, sy_pool := c, sy_next := Suc (sy_next s)\<rparr>) of
                       (s', ev', r) \<Rightarrow> (s', ev @ ev', r)))))"
  by pat_completeness auto

termination
  by (relation "measure (\<lambda>(sm, now, txs, s). length txs)")
    (auto simp: MaxTransactionCountForRetrieving_def split: if_splits)

declare fetch_txs.simps [simp del]

definition doInitialMempoolSync ::
  "('c, 'd) syncManager \<Rightarrow> int \<Rightarrow> ('c, 'd) sync_state \<Rightarrow> ('c, 'd) sync_state \<times> event list \<times> unit res" where
  "doInitialMempoolSync sm now s =
     (if sm_bootstrapPeer sm = [] then (s, [], Ok ())
      else case bind_res (rpc_Mempool (sm_rpc sm) (sm_bootstrapPeer sm))
          (\<lambda>inventory. txs_to_retrieve (sm_ca sm) now (sy_heap s) (sy_pool s) inventory) of
        Err e \<Rightarrow> (s, [], Err e)
      | Panic \<Rightarrow> (s, [], Panic)
      | Ok txsToRetrieve \<Rightarrow> fetch_txs sm now txsToRetrieve s)"

definition initialSync ::
  "('c, 'd) syncManager \<Rightarrow> nat list \<Rightarrow> int \<Rightarrow> ('c, 'd) sync_state \<Rightarrow> ('c, 'd) sync_state \<times> event list \<times> unit res" where
  "initialSync sm sched now s =
     (case doInitialBlockPoolSync sm sched s of
        (s1, ev1, Ok _) \<Rightarrow> (case doInitialMempoolSync sm now s1 of
            (s2, ev2, Ok _) \<Rightarrow> (s2, ev1 @ ev2 @ [Ev_initialSyncCompleted], Ok ())
          | (s2, ev2, r) \<Rightarrow> (s2, ev1 @ ev2, r))
      | (s1, ev1, r) \<Rightarrow> (s1, ev1, r))"

section \<open>Gossip\<close>

definition onNewTransaction ::
  "('c, 'd) syncManager \<Rightarrow> int \<Rightarrow> PubSubMessage \<Rightarrow> ('c, 'd) sync_state \<Rightarrow> ('c, 'd) sync_state \<times> event list \<times> unit res" where
  "onNewTransaction sm now message s =
     (case unmarshal_tx (env_K (sm_env sm)) (pm_Payload message) of
        Err e \<Rightarrow> (s, [], Ok ())
      | Panic \<Rightarrow> (s, [], Panic)
      | Ok tx \<Rightarrow>
          let l = sy_next s; s1 = s\<lparr>sy_heap := (sy_heap s)(l := tx), sy_next := Suc l\<rparr> in
          if \<not> ValidateHash (env_C (sm_env sm)) tx then (s1, [], Ok ())
          else (case StoreTx (sm_ca sm) now (sy_heap s1) (sy_pool s1) l of
              (c, ev, Panic) \<Rightarrow> (s1\<lparr>sy_pool := c\<rparr>, ev, Panic)
            | (c, ev, _) \<Rightarrow> (s1\<lparr>sy_pool := c\<rparr>, ev, Ok ())))"

text \<open>A decoded block without a header makes \<open>StoreBlock\<close> panic.\<close>

definition onNewBlock ::
  "('c, 'd) syncManager \<Rightarrow> nat list \<Rightarrow> PubSubMessage \<Rightarrow> ('c, 'd) sync_state \<Rightarrow> ('c, 'd) sync_state \<times> event list \<times> unit res" where
  "onNewBlock sm sched message s =
     (case unmarshal_block (env_K (sm_env sm)) (pm_Payload message) of
        Err e \<Rightarrow> (s, [], Ok ())
      | Panic \<Rightarrow> (s, [], Panic)
      | Ok None \<Rightarrow> (s, [], Panic)
      | Ok (Some block) \<Rightarrow> (case StoreBlock (sm_env sm) sched (sy_db s) block of
            (d, ev, Panic) \<Rightarrow> (s\<lparr>sy_db := d\<rparr>, ev, Panic)
          | (d, ev, _) \<Rightarrow> (s\<lparr>sy_db := d\<rparr>, ev, Ok ())))"

definition sync_Run_hooks :: "'h \<Rightarrow> 'h \<Rightarrow> 'h PubSubRouter \<Rightarrow> 'h PubSubRouter" where
  "sync_Run_hooks onTx onBlock psb = Hook NewBlockMessageType onBlock (Hook NewTxMessageType onTx psb)"

end
