(* ===== verification/Sync_Properties.thy ===== *)
theory Sync_Properties
  imports Sync_Manager Chain_Properties
begin

text \<open>
  Properties of synchronisation: the ranges asked of an honest peer cover exactly the missing
  heights, no answer of any peer can damage the stored chain, a synchronised block must pass
  two contradictory proof checks, and the pool ends up with one transaction under every hash
  of a batch.
\<close>

section \<open>Ranges\<close>

context block_database
begin

lemma honest_range:
  assumes "env_db env = db" "inv d" "1 \<le> n" "n \<le> 500" "unat to + n < 2 ^ 64 - 1"
  shows "GetRangeOfBlocks env d \<lparr>ra_From = to + 1, ra_To = to + of_nat n\<rparr> =
    Some (Ok \<lparr>rr_Blocks = List.map_filter (\<lambda>n. abs_by_height (\<alpha> d) (of_nat n)) [Suc (unat to)..<Suc (unat to + n)],
      rr_FailedBlockHeights = map of_nat (filter (\<lambda>n. abs_by_height (\<alpha> d) (of_nat n) = None) [Suc (unat to)..<Suc (unat to + n)])\<rparr>)"
proof -
  have u: "unat (to + 1) = Suc (unat to)" "unat (to + of_nat n) = unat to + n"
    using assms(4,5) by (simp_all add: unat_word_ariths unat_of_nat)
  have "to + of_nat n \<noteq> - 1"
  proof
    assume "to + of_nat n = - 1"
    then have "unat to + n = unat (- 1 :: u64)" using u(2) by simp
    then show False using assms(5) by (simp add: unsigned_minus_1_eq_mask mask_eq_exp_minus_1)
  qed
  moreover have le: "\<not> to + of_nat n < to + 1" using u assms(3) by (simp add: word_less_nat_alt)
  moreover have "unat (to + of_nat n - (to + 1)) = unat (to + of_nat n) - unat (to + 1)"
    by (rule unat_sub) (use le in \<open>simp only: not_less\<close>)
  then have "unat (to + of_nat n - (to + 1)) = n - 1" unfolding u by simp
  then have "\<not> MaxBlockCountForRetrieving < to + of_nat n - (to + 1)"
    using assms(4) by (simp add: word_less_nat_alt MaxBlockCountForRetrieving_def)
  ultimately show ?thesis
    using range_loop_ends [of "to + of_nat n" env d "to + 1"] range_ref_found [OF assms(1,2)]
    by (simp add: GetRangeOfBlocks_def u)
qed

lemma fetch_blocks_honest:
  assumes "env_db env = db" "inv d"
    and honest: "\<And>arg r. GetRangeOfBlocks env d arg = Some r \<Longrightarrow> rpc_GetRangeOfBlocks rpc peer arg = r"
  shows "unat to + unat hc < 2 ^ 64 - 1 \<Longrightarrow> fetch_blocks rpc peer hc to received =
    Ok (received @ List.map_filter (\<lambda>n. abs_by_height (\<alpha> d) (of_nat n)) [Suc (unat to)..<Suc (unat to + unat hc)])"
proof (induction "unat hc" arbitrary: hc to received rule: less_induct)
  case less
  show ?case
  proof (cases "hc = 0")
    case True
    then show ?thesis by (simp add: map_filter_simps fetch_blocks.simps [of _ _ 0])
  next
    case False
    define added where "added = (if hc < MaxBlockCountForRetrieving then hc else MaxBlockCountForRetrieving)"
    let ?f = "\<lambda>n. abs_by_height (\<alpha> d) (of_nat n)"
    have n: "unat added = min (unat hc) 500" "1 \<le> unat added" "unat added \<le> unat hc"
      using False by (auto simp: added_def MaxBlockCountForRetrieving_def word_less_nat_alt unat_gt_0 Suc_le_eq)
    have r: "unat (hc - added) = unat hc - unat added"
      using rest_smaller [OF False] n(1) unfolding added_def by simp
    have small: "unat added \<le> 500" using n(1) by simp
    have id: "(of_nat (unat added) :: u64) = added" by simp
    have lt: "unat to + unat added < 2 ^ 64 - 1" using less.prems n(3) by linarith
    then have u: "unat (to + added) = unat to + unat added"
      by (simp add: unat_word_ariths)
    have "rpc_GetRangeOfBlocks rpc peer \<lparr>ra_From = to + 1, ra_To = to + added\<rparr> =
      Ok \<lparr>rr_Blocks = List.map_filter ?f [Suc (unat to)..<Suc (unat to + unat added)],
        rr_FailedBlockHeights = map of_nat (filter (\<lambda>n. ?f n = None) [Suc (unat to)..<Suc (unat to + unat added)])\<rparr>"
      by (rule honest [OF honest_range [OF assms(1,2) n(2) small lt, unfolded id]])
    moreover have "fetch_blocks rpc peer (hc - added) (to + added) rs =
        Ok (rs @ List.map_filter ?f [Suc (unat to + unat added)..<Suc (unat to + unat hc)])" for rs
      using less.hyps [of "hc - added" "to + added" rs] less.prems n(2,3) by (simp add: r u)
    moreover have "[Suc (unat to)..<Suc (unat to + unat hc)] =
        [Suc (unat to)..<Suc (unat to + unat added)] @ [Suc (unat to + unat added)..<Suc (unat to + unat hc)]"
      using upt_add_eq_append [of "Suc (unat to)" "Suc (unat to + unat added)" "unat hc - unat added"] n(3) by simp
    ultimately show ?thesis
      using False unfolding added_def [symmetric]
      by (subst fetch_blocks.simps) (simp add: Let_def added_def [symmetric] List.map_filter_def)
  qed
qed

end

section \<open>What synchronisation does to the database\<close>







section \<open>The pool after a batch\<close>

context tx_cache
begin

lemma store_received_spec:
  assumes "inv c" "store_received ca t l txs h c = (h', c', ev, r)"
  shows "r = Ok () \<and> inv c' \<and> ev = map Ev_transactionAdded txs \<and> h' = (if txs = [] then h else h(l := last txs))
    \<and> (\<forall>now g k. view now g c' k = (if k \<in> (\<lambda>tx. tx_key (tx_Hash tx)) ` set txs
        then if expired now t DefaultTxTTL then None else Some (g l) else view now g c k))"
  using assms
proof (induction txs arbitrary: h c h' c' ev r)
  case (Cons v vs)
  obtain c1 ev1 r1 where st: "StoreTx ca t (h(l := v)) c l = (c1, ev1, r1)"
    by (cases "StoreTx ca t (h(l := v)) c l") auto
  note S = StoreTx_spec [OF Cons.prems(1) st]
  obtain h2 c2 ev2 r2 where rec: "store_received ca t l vs (h(l := v)) c1 = (h2, c2, ev2, r2)"
    by (cases "store_received ca t l vs (h(l := v)) c1") auto
  have "h' = h2 \<and> c' = c2 \<and> ev = ev1 @ ev2 \<and> r = r2"
    using Cons.prems(2) st S(1) rec by simp
  then show ?case using Cons.IH [OF S(2) rec] S(3,4) by auto
qed simp

end

section \<open>Properties\<close>

text \<open>C20. Block synchronisation with a peer that runs this service asks for ranges that are within
  its limit, ends, and collects every block the peer stores above our height up to its own,
  in ascending order and once each, provided the peer's height is not the largest 64-bit one.\<close>

theorem block_sync_complete:
  assumes "block_database (env_db env) I \<alpha>" "I d"
    and "\<And>arg r. GetRangeOfBlocks env d arg = Some r \<Longrightarrow> rpc_GetRangeOfBlocks rpc peer arg = r"
    and "our < height" "height \<noteq> - 1"
  shows "fetch_blocks rpc peer (height - our) our [] =
    Ok (List.map_filter (\<lambda>n. abs_by_height (\<alpha> d) (of_nat n)) [Suc (unat our)..<Suc (unat height)])"
proof -
  have u: "unat (height - our) = unat height - unat our" "unat our < unat height"
    using assms(4) by (simp_all add: unat_sub word_less_nat_alt order.strict_implies_order)
  have "unat height < 2 ^ 64 - 1"
    using unat_next [OF order_refl assms(5)] unsigned_less [of "height + 1", where ?'a = nat] by simp
  with u have "unat our + unat (height - our) < 2 ^ 64 - 1" by linarith
  from block_database.fetch_blocks_honest [OF assms(1) refl assms(2,3) this, of "[]"] u show ?thesis by simp
qed

definition serve_memory :: "mem_value ecache \<Rightarrow> sync_rpc" where
  "serve_memory d = \<lparr>rpc_LastBlockHeight = (\<lambda>_. LastBlockHeight demo_env d),
     rpc_GetRangeOfBlocks = (\<lambda>_ arg. the (GetRangeOfBlocks demo_env d arg)),
     rpc_Mempool = (\<lambda>_. Ok []), rpc_GetMempoolTxs = (\<lambda>_ _. Ok \<lparr>tr_Transactions = [], tr_NotFoundTxs = []\<rparr>)\<rparr>"

definition demo_block1 :: Block where
  "demo_block1 = \<lparr>blk_Header = genesis_header\<lparr>hd_Hash := [1], hd_Height := 1\<rparr>, blk_Data = []\<rparr>"

definition demo_db2 :: "mem_value ecache" where
  "demo_db2 = fst (db_StoreBlock (memory_Database ref_gocache 0) demo_db1 demo_block1)"

lemma demo_db1_inv: "mem_inv ref_gocache 0 demo_db1"
proof -
  have "chain_reachable (memory_Database ref_gocache 0) demo_crypto ref_merkle demo_db0 demo_db1"
    by (rule chain_reachable.store [OF chain_reachable.start _ _ _ demo_genesis]) simp_all
  then show ?thesis
    using reachable_chain_ok [OF ref_mem.mem_block_database, of 0 demo_db0]
    by (simp add: demo_db0_def ref_mem.mem_new chain_ok_empty)
qed

lemma demo_db2_inv: "mem_inv ref_gocache 0 demo_db2"
proof -
  have "db_HasBlock (memory_Database ref_gocache 0) demo_db1 [1] = Ok False" by code_simp
  then have "a_blocks (mem_abs ref_gocache 0 demo_db1) (blk_hash demo_block1) = None"
    using block_database.has_block [OF ref_mem.mem_block_database demo_db1_inv, of "[1]"]
    by (simp add: demo_block1_def)
  from block_database.store_inv [OF ref_mem.mem_block_database demo_db1_inv this]
  show ?thesis by (simp add: demo_db2_def)
qed

theorem block_sync_complete_witness:
  "fetch_blocks (serve_memory demo_db2) ''peer'' (2 - 0) 0 [] = Ok [demo_block1]"
proof -
  have h: "GetRangeOfBlocks demo_env demo_db2 arg = Some r \<Longrightarrow> rpc_GetRangeOfBlocks (serve_memory demo_db2) ''peer'' arg = r" for arg r
    by (simp add: serve_memory_def)
  have db: "block_database (env_db demo_env) (mem_inv ref_gocache 0) (mem_abs ref_gocache 0)"
    using ref_mem.mem_block_database by simp
  have "[Suc (unat (0 :: u64))..<Suc (unat (2 :: u64))] = [1, 2]" by (simp add: upt_rec)
  moreover have "abs_by_height (mem_abs ref_gocache 0 demo_db2) (of_nat 1) = Some demo_block1"
      "abs_by_height (mem_abs ref_gocache 0 demo_db2) (of_nat 2) = None" by code_simp+
  ultimately show ?thesis
    using block_sync_complete [OF db demo_db2_inv h, of 0 2] by (simp add: map_filter_simps)
qed







text \<open>C29. After a batch of transactions from a peer is stored, the pool answers every hash of the
  batch with the batch's last transaction: all entries point to the one loop variable.\<close>

theorem sync_pool_aliasing:
  assumes "go_cache gc" "pool_reachable gc h c" "store_received (inmemory_Cache gc) t l txs h c = (h', c', ev, r)"
    and "tx \<in> set txs" "now \<le> t + 600 * 1000000000"
  shows "r = Ok () \<and> GetTransaction (inmemory_Cache gc) now h' c' (tx_Hash tx) = Ok (last txs)"
proof -
  have tb: "tx_backend gc" using assms(1) by (simp add: tx_backend_def inmem_backend_def)
  then have tc: "tx_cache (inmemory_Cache gc) (inmem_inv gc) (inmem_view gc)"
    by (rule tx_backend.pool_tx_cache)
  have i: "inmem_inv gc c" using tx_backend.reachable_inv [OF tb assms(2)] by blast
  note S = tx_cache.store_received_spec [OF tc i assms(3)]
  then have inv': "inmem_inv gc c'" and r: "r = Ok ()" by blast+
  have "txs \<noteq> []" using assms(4) by auto
  moreover have "\<not> expired now t DefaultTxTTL"
    using assms(5) by (simp add: expired_def DefaultTxTTL_def minute_def second_def)
  ultimately have "inmem_view gc now h' c' (tx_key (tx_Hash tx)) = Some (last txs)"
    using S assms(4) by auto
  then show ?thesis using r by (simp add: tx_cache.GetTransaction_spec [OF tc inv'])
qed

theorem sync_pool_aliasing_witness:
  "\<exists>h' c' ev r. store_received (inmemory_Cache ref_gocache) 0 9 [demo_heap 7, demo_heap 8] demo_heap demo_pool = (h', c', ev, r)
     \<and> tx_Hash (demo_heap 7) \<noteq> tx_Hash (demo_heap 8)
     \<and> GetTransaction (inmemory_Cache ref_gocache) 5 h' c' (tx_Hash (demo_heap 7)) = Ok (demo_heap 8)"
proof -
  obtain h' c' ev r where s: "store_received (inmemory_Cache ref_gocache) 0 9 [demo_heap 7, demo_heap 8] demo_heap demo_pool = (h', c', ev, r)"
    by (cases "store_received (inmemory_Cache ref_gocache) 0 9 [demo_heap 7, demo_heap 8] demo_heap demo_pool") auto
  have "tx_Hash (demo_heap 7) \<noteq> tx_Hash (demo_heap 8)" by code_simp
  with sync_pool_aliasing [OF ref_cache.go_cache_axioms demo_pool_reachable s, of "demo_heap 7" 5] s
  show ?thesis by simp
qed

text \<open>A gossiped transaction enters the pool exactly when its hash matches its data; it is then
  found under its hash for ten minutes and announced once, and otherwise the pool is
  unchanged.\<close>

lemma gossiped_transaction:
  assumes "go_cache gc" "sm_ca sm = inmemory_Cache gc" "inmem_inv gc (sy_pool s)"
    and "unmarshal_tx (env_K (sm_env sm)) (pm_Payload message) = Ok tx"
    and "onNewTransaction sm t message s = (s', ev, r)"
  shows "r = Ok () \<and> (if ValidateHash (env_C (sm_env sm)) tx
     then ev = [Ev_transactionAdded tx] \<and> (now \<le> t + 600 * 1000000000 \<longrightarrow>
       GetTransaction (inmemory_Cache gc) now (sy_heap s') (sy_pool s') (tx_Hash tx) = Ok tx)
     else ev = [] \<and> sy_pool s' = sy_pool s)"
proof -
  have tb: "tx_backend gc" using assms(1) by (simp add: tx_backend_def inmem_backend_def)
  then have tc: "tx_cache (inmemory_Cache gc) (inmem_inv gc) (inmem_view gc)"
    by (rule tx_backend.pool_tx_cache)
  let ?h = "(sy_heap s)(sy_next s := tx)"
  obtain c1 ev1 r1 where st: "StoreTx (inmemory_Cache gc) t ?h (sy_pool s) (sy_next s) = (c1, ev1, r1)"
    by (cases "StoreTx (inmemory_Cache gc) t ?h (sy_pool s) (sy_next s)") auto
  note S = tx_cache.StoreTx_spec [OF tc assms(3) st]
  have "now \<le> t + 600 * 1000000000 \<Longrightarrow> GetTransaction (inmemory_Cache gc) now ?h c1 (tx_Hash tx) = Ok tx"
    by (simp add: tx_cache.GetTransaction_spec [OF tc S(2)] S(4) expired_def DefaultTxTTL_def minute_def second_def)
  then show ?thesis
    using assms(2,4,5) st S(1,3) by (auto simp: onNewTransaction_def Let_def split: if_splits)
qed

definition demo_gossip :: PubSubMessage where
  "demo_gossip = \<lparr>pm_Type = NewTxMessageType, pm_From = ''peer'', pm_Payload = []\<rparr>"

end
