(* ===== verification/Abi_Bind.thy ===== *)
theory Abi_Bind
  imports Dione_Prelude
begin

text \<open>
  What the generated contract bindings (\<open>contracts\<close>) have in common. The library they are built
  on, go-ethereum's \<open>bind\<close>, is the record \<open>bind_lib\<close>; the values that it packs and unpacks are
  the constructors of \<open>go_value\<close>. The generator writes the same code for every method and
  every event; that code is here, with the name and the types as arguments, and the theories
  of the three contracts instantiate it.

  A subscription stands for its channel of logs as well. Which case of a \<open>select\<close> is taken is an
  argument.
\<close>

section \<open>Library\<close>

datatype go_value = GAddress address | GBig int | GBytes32 bytes | GBool bool | GBytes bytes | GString string
  | GUint8 u8 | GBytes4 bytes | GAddresses "address list"

text \<open>The text of an ABI, as the list of its entries: names and types of inputs and outputs.\<close>

datatype abi_entry = Constructor "string list" | Event string "string list" | Function string "string list" "string list"

record CallOpts =
  opt_Pending :: bool
  opt_CallFrom :: address

record 'sg TransactOpts =
  opt_From :: address
  opt_Signer :: 'sg
  opt_GasLimit :: u64
  opt_GasPrice :: "int option"

record FilterOpts =
  opt_FilterStart :: u64
  opt_FilterEnd :: "u64 option"

record WatchOpts =
  opt_WatchStart :: "u64 option"

record ('b, 'cl, 'sg, 'tx, 'lg, 'su) bind_lib =
  bi_abi_JSON :: "abi_entry list \<Rightarrow> abi_entry list res"
  bi_NewBoundContract :: "address \<Rightarrow> abi_entry list \<Rightarrow> 'cl option \<Rightarrow> 'cl option \<Rightarrow> 'cl option \<Rightarrow> 'b"
  bi_Call :: "'b \<Rightarrow> CallOpts \<Rightarrow> string \<Rightarrow> go_value list \<Rightarrow> go_value list res"
  bi_Transact :: "'b \<Rightarrow> 'sg TransactOpts \<Rightarrow> string \<Rightarrow> go_value list \<Rightarrow> 'tx res"
  bi_Transfer :: "'b \<Rightarrow> 'sg TransactOpts \<Rightarrow> 'tx res"
  bi_FilterLogs :: "'b \<Rightarrow> FilterOpts \<Rightarrow> string \<Rightarrow> go_value list list \<Rightarrow> 'su res"
  bi_WatchLogs :: "'b \<Rightarrow> WatchOpts \<Rightarrow> string \<Rightarrow> go_value list list \<Rightarrow> 'su res"
  bi_UnpackLog :: "'b \<Rightarrow> string \<Rightarrow> 'lg \<Rightarrow> go_value list res"

text \<open>A type assertion that fails is a panic.\<close>

fun as_Address :: "go_value \<Rightarrow> address res" where
  "as_Address (GAddress a) = Ok a"
| "as_Address _ = Panic"

fun as_Big :: "go_value \<Rightarrow> int res" where
  "as_Big (GBig i) = Ok i"
| "as_Big _ = Panic"

fun as_Bool :: "go_value \<Rightarrow> bool res" where
  "as_Bool (GBool b) = Ok b"
| "as_Bool _ = Panic"

section \<open>Bindings\<close>

text \<open>The read-only, the write-only and the log part of a binding each hold the bound contract.\<close>

record 'b Binding =
  bnd_Caller :: 'b
  bnd_Transactor :: 'b
  bnd_Filterer :: 'b

record ('b, 'sg) session =
  se_Contract :: "'b Binding"
  se_CallOpts :: CallOpts
  se_TransactOpts :: "'sg TransactOpts"

record 'b caller_session =
  cs_Contract :: 'b
  cs_CallOpts :: CallOpts

record ('b, 'sg) transactor_session =
  ts_Contract :: 'b
  ts_TransactOpts :: "'sg TransactOpts"

text \<open>
  The generator writes every method three times: with explicit options, for a session and for a
  session of one part only. The receiver says which one is called.
\<close>

datatype ('b, 'sg) call_receiver = CallWith 'b CallOpts | CallOn "('b, 'sg) session" | CallOnCaller "'b caller_session"

datatype ('b, 'sg) send_receiver =
  SendWith 'b "'sg TransactOpts" | SendOn "('b, 'sg) session" | SendOnTransactor "('b, 'sg) transactor_session"

fun call_target :: "('b, 'sg) call_receiver \<Rightarrow> 'b \<times> CallOpts" where
  "call_target (CallWith c opts) = (c, opts)"
| "call_target (CallOn s) = (bnd_Caller (se_Contract s), se_CallOpts s)"
| "call_target (CallOnCaller s) = (cs_Contract s, cs_CallOpts s)"

fun send_target :: "('b, 'sg) send_receiver \<Rightarrow> 'b \<times> 'sg TransactOpts" where
  "send_target (SendWith c opts) = (c, opts)"
| "send_target (SendOn s) = (bnd_Transactor (se_Contract s), se_TransactOpts s)"
| "send_target (SendOnTransactor s) = (ts_Contract s, ts_TransactOpts s)"

definition bind_contract ::
  "('b, 'cl, 'sg, 'tx, 'lg, 'su, 'm) bind_lib_scheme \<Rightarrow> abi_entry list \<Rightarrow> address
     \<Rightarrow> 'cl option \<Rightarrow> 'cl option \<Rightarrow> 'cl option \<Rightarrow> 'b res" where
  "bind_contract B abi a caller transactor filterer =
     bind_res (bi_abi_JSON B abi) (\<lambda>parsed. Ok (bi_NewBoundContract B a parsed caller transactor filterer))"

text \<open>The constructors of one part only.\<close>

datatype part = CallerPart | TransactorPart | FiltererPart

definition bind_part ::
  "('cl option \<Rightarrow> 'cl option \<Rightarrow> 'cl option \<Rightarrow> 'b res) \<Rightarrow> part \<Rightarrow> 'cl \<Rightarrow> 'b res" where
  "bind_part f p backend =
     (case p of
        CallerPart \<Rightarrow> f (Some backend) None None
      | TransactorPart \<Rightarrow> f None (Some backend) None
      | FiltererPart \<Rightarrow> f None None (Some backend))"

text \<open>A method that reads one value, and one that sends a transaction.\<close>

definition call_method ::
  "('b, 'cl, 'sg, 'tx, 'lg, 'su, 'm) bind_lib_scheme \<Rightarrow> (go_value \<Rightarrow> 'r res) \<Rightarrow> string \<Rightarrow> ('b, 'sg) call_receiver
     \<Rightarrow> go_value list \<Rightarrow> 'r res" where
  "call_method B conv method r args =
     (case call_target r of (c, opts) \<Rightarrow>
        bind_res (bi_Call B c opts method args) (\<lambda>out. case out of [] \<Rightarrow> Panic | v # _ \<Rightarrow> conv v))"

definition transact ::
  "('b, 'cl, 'sg, 'tx, 'lg, 'su, 'm) bind_lib_scheme \<Rightarrow> string \<Rightarrow> ('b, 'sg) send_receiver \<Rightarrow> go_value list \<Rightarrow> 'tx res" where
  "transact B method r args = (case send_target r of (c, opts) \<Rightarrow> bi_Transact B c opts method args)"

text \<open>The raw bindings, of a whole binding or of one part.\<close>

record ('c, 'd, 'sg, 'tx) raw_ops =
  raw_Call :: "'c \<Rightarrow> CallOpts \<Rightarrow> string \<Rightarrow> go_value list \<Rightarrow> go_value list res"
  raw_Transfer :: "'d \<Rightarrow> 'sg TransactOpts \<Rightarrow> 'tx res"
  raw_Transact :: "'d \<Rightarrow> 'sg TransactOpts \<Rightarrow> string \<Rightarrow> go_value list \<Rightarrow> 'tx res"

definition raw_binding :: "('b, 'cl, 'sg, 'tx, 'lg, 'su, 'm) bind_lib_scheme \<Rightarrow> ('b Binding, 'b Binding, 'sg, 'tx) raw_ops" where
  "raw_binding B = \<lparr>raw_Call = (\<lambda>c. bi_Call B (bnd_Caller c)), raw_Transfer = (\<lambda>c. bi_Transfer B (bnd_Transactor c)),
     raw_Transact = (\<lambda>c. bi_Transact B (bnd_Transactor c))\<rparr>"

definition raw_parts :: "('b, 'cl, 'sg, 'tx, 'lg, 'su, 'm) bind_lib_scheme \<Rightarrow> ('b, 'b, 'sg, 'tx) raw_ops" where
  "raw_parts B = \<lparr>raw_Call = bi_Call B, raw_Transfer = bi_Transfer B, raw_Transact = bi_Transact B\<rparr>"

section \<open>Events\<close>

text \<open>An event comes with the log it was unpacked from. An event that could not be unpacked is None.\<close>

record ('b, 'e, 'lg, 'su) Iterator =
  it_Event :: "('e \<times> 'lg) option"
  it_contract :: 'b
  it_event :: string
  it_sub :: 'su
  it_done :: bool
  it_fail :: "go_error option"

datatype 'lg received = GotLog 'lg | SubErr "go_error option"

definition unpack_log ::
  "('b, 'cl, 'sg, 'tx, 'lg, 'su, 'm) bind_lib_scheme \<Rightarrow> (go_value list \<Rightarrow> 'e res) \<Rightarrow> string \<Rightarrow> 'b \<Rightarrow> 'lg \<Rightarrow> ('e \<times> 'lg) res" where
  "unpack_log B decode event c log =
     bind_res (bi_UnpackLog B c event log) (\<lambda>vs. bind_res (decode vs) (\<lambda>e. Ok (e, log)))"

definition iter_take ::
  "('b, 'cl, 'sg, 'tx, 'lg, 'su, 'm) bind_lib_scheme \<Rightarrow> (go_value list \<Rightarrow> 'e res) \<Rightarrow> ('b, 'e, 'lg, 'su) Iterator \<Rightarrow> 'lg
     \<Rightarrow> (('b, 'e, 'lg, 'su) Iterator \<times> bool) res" where
  "iter_take B decode it log =
     (case unpack_log B decode (it_event it) (it_contract it) log of
        Ok e \<Rightarrow> Ok (it\<lparr>it_Event := Some e\<rparr>, True)
      | Err x \<Rightarrow> Ok (it\<lparr>it_Event := None, it_fail := Some x\<rparr>, False)
      | Panic \<Rightarrow> Panic)"

text \<open>
  The argument \<open>r\<close> is what arrives first while the iterator waits, \<open>waiting\<close> the log that is in
  the channel once the subscription has ended.
\<close>

function iter_Next ::
  "('b, 'cl, 'sg, 'tx, 'lg, 'su, 'm) bind_lib_scheme \<Rightarrow> (go_value list \<Rightarrow> 'e res) \<Rightarrow> 'lg received \<Rightarrow> 'lg option
     \<Rightarrow> ('b, 'e, 'lg, 'su) Iterator \<Rightarrow> (('b, 'e, 'lg, 'su) Iterator \<times> bool) res" where
  "iter_Next B decode r waiting it =
     (if it_fail it \<noteq> None then Ok (it, False)
      else if it_done it then (case waiting of Some log \<Rightarrow> iter_take B decode it log | None \<Rightarrow> Ok (it, False))
      else case r of
        GotLog log \<Rightarrow> iter_take B decode it log
      | SubErr e \<Rightarrow> iter_Next B decode r waiting (it\<lparr>it_done := True, it_fail := e\<rparr>))"
  by pat_completeness auto
termination
  by (relation "measure (\<lambda>(B, decode, r, waiting, it). if it_done it then 0 else 1)") auto

lemmas [simp del] = iter_Next.simps

definition filter_event ::
  "('b, 'cl, 'sg, 'tx, 'lg, 'su, 'm) bind_lib_scheme \<Rightarrow> string \<Rightarrow> 'b \<Rightarrow> FilterOpts \<Rightarrow> go_value list list
     \<Rightarrow> ('b, 'e, 'lg, 'su) Iterator res" where
  "filter_event B event c opts rules =
     bind_res (bi_FilterLogs B c opts event rules) (\<lambda>sub.
       Ok \<lparr>it_Event = None, it_contract = c, it_event = event, it_sub = sub, it_done = False, it_fail = None\<rparr>)"

text \<open>
  The loop of a subscription: each log that arrives is sent to the user, unless the
  subscription fails or is given up while it waits for the receiver. The result is missing as
  long as the loop runs.
\<close>

datatype delivery = Sent | SendErr "go_error option" | SendQuit

datatype 'lg watch_input = LogArrives 'lg delivery | SubFails "go_error option" | Quit

fun error_result :: "go_error option \<Rightarrow> unit res" where
  "error_result None = Ok ()"
| "error_result (Some e) = Err e"

fun watch_loop ::
  "('b, 'cl, 'sg, 'tx, 'lg, 'su, 'm) bind_lib_scheme \<Rightarrow> (go_value list \<Rightarrow> 'e res) \<Rightarrow> string \<Rightarrow> 'b
     \<Rightarrow> 'lg watch_input list \<Rightarrow> ('e \<times> 'lg) list \<times> unit res option" where
  "watch_loop B decode event c [] = ([], None)"
| "watch_loop B decode event c (SubFails e # is) = ([], Some (error_result e))"
| "watch_loop B decode event c (Quit # is) = ([], Some (Ok ()))"
| "watch_loop B decode event c (LogArrives log d # is) =
     (case unpack_log B decode event c log of
        Err x \<Rightarrow> ([], Some (Err x))
      | Panic \<Rightarrow> ([], Some Panic)
      | Ok e \<Rightarrow> (case d of
          Sent \<Rightarrow> (case watch_loop B decode event c is of (es, r) \<Rightarrow> (e # es, r))
        | SendErr x \<Rightarrow> ([], Some (error_result x))
        | SendQuit \<Rightarrow> ([], Some (Ok ()))))"

definition watch_event ::
  "('b, 'cl, 'sg, 'tx, 'lg, 'su, 'm) bind_lib_scheme \<Rightarrow> (go_value list \<Rightarrow> 'e res) \<Rightarrow> string \<Rightarrow> 'b \<Rightarrow> WatchOpts
     \<Rightarrow> go_value list list \<Rightarrow> ('su \<times> ('lg watch_input list \<Rightarrow> ('e \<times> 'lg) list \<times> unit res option)) res" where
  "watch_event B decode event c opts rules =
     bind_res (bi_WatchLogs B c opts event rules) (\<lambda>sub. Ok (sub, watch_loop B decode event c))"

text \<open>The operations of an iterator, of which \<open>Close\<close> gives up the subscription, and those of the part of a binding that reads the logs of an event.\<close>

record ('b, 'e, 'lg, 'su) iterator_ops =
  iter_ops_Next :: "'lg received \<Rightarrow> 'lg option \<Rightarrow> ('b, 'e, 'lg, 'su) Iterator \<Rightarrow> (('b, 'e, 'lg, 'su) Iterator \<times> bool) res"
  iter_ops_Error :: "('b, 'e, 'lg, 'su) Iterator \<Rightarrow> go_error option"
  iter_ops_Close :: "('b, 'e, 'lg, 'su) Iterator \<Rightarrow> 'su \<times> unit res"

definition event_iterator :: "('b, 'cl, 'sg, 'tx, 'lg, 'su, 'm) bind_lib_scheme \<Rightarrow> (go_value list \<Rightarrow> 'e res) \<Rightarrow> ('b, 'e, 'lg, 'su) iterator_ops" where
  "event_iterator B decode = \<lparr>iter_ops_Next = iter_Next B decode, iter_ops_Error = it_fail, iter_ops_Close = (\<lambda>it. (it_sub it, Ok ()))\<rparr>"

type_synonym ('e, 'lg, 'su) subscription = "'su \<times> ('lg watch_input list \<Rightarrow> ('e \<times> 'lg) list \<times> unit res option)"

record ('b, 'r, 'e, 'lg, 'su) event_ops =
  ev_Filter :: "FilterOpts \<Rightarrow> 'r \<Rightarrow> ('b, 'e, 'lg, 'su) Iterator res"
  ev_Watch :: "WatchOpts \<Rightarrow> 'r \<Rightarrow> ('e, 'lg, 'su) subscription res"
  ev_Parse :: "'lg \<Rightarrow> ('e \<times> 'lg) res"

text \<open>The argument \<open>rule\<close> turns the values that an event is filtered by into rules.\<close>

definition event_filterer ::
  "('b, 'cl, 'sg, 'tx, 'lg, 'su, 'm) bind_lib_scheme \<Rightarrow> (go_value list \<Rightarrow> 'e res) \<Rightarrow> string \<Rightarrow> ('r \<Rightarrow> go_value list list) \<Rightarrow> 'b
     \<Rightarrow> ('b, 'r, 'e, 'lg, 'su) event_ops" where
  "event_filterer B decode event rule c =
     \<lparr>ev_Filter = (\<lambda>opts x. filter_event B event c opts (rule x)),
      ev_Watch = (\<lambda>opts x. watch_event B decode event c opts (rule x)),
      ev_Parse = unpack_log B decode event c\<rparr>"

text \<open>What \<open>UnpackLog\<close> says when the log is not that of the event.\<close>

definition abi_mismatch :: "'a res" where
  "abi_mismatch = Err (Errorf ''abi: cannot unmarshal event'')"

section \<open>Lemmas\<close>

lemma unpack_log_Ok:
  "unpack_log B decode event c log = Ok p \<longleftrightarrow> (\<exists>vs e. bi_UnpackLog B c event log = Ok vs \<and> decode vs = Ok e \<and> p = (e, log))"
  by (auto simp: unpack_log_def res_simps)

text \<open>As long as nothing fails, the user gets the event of every log in the order of the logs.\<close>

lemma watch_loop_forwards:
  assumes "\<And>log. log \<in> set logs \<Longrightarrow> unpack_log B decode event c log = Ok (ev log, log)"
  shows "watch_loop B decode event c (map (\<lambda>l. LogArrives l Sent) logs @ is) =
    (map (\<lambda>l. (ev l, l)) logs @ fst (watch_loop B decode event c is), snd (watch_loop B decode event c is))"
  using assms by (induction logs) (simp_all add: case_prod_beta)

text \<open>Whatever happens, the events sent are those of a prefix of the logs that arrived.\<close>

lemma watch_loop_prefix:
  "\<exists>k. map snd (fst (watch_loop B decode event c is)) = take k [log. LogArrives log d \<leftarrow> is]"
proof (induction "is")
  case (Cons i "is")
  show ?case
  proof (cases i)
    case (LogArrives log d)
    show ?thesis
    proof (cases "\<exists>e. unpack_log B decode event c log = Ok e \<and> d = Sent")
      case True
      then obtain e where e: "unpack_log B decode event c log = Ok e" "d = Sent" by blast
      then have "snd e = log" by (auto simp: unpack_log_Ok)
      moreover obtain k where "map snd (fst (watch_loop B decode event c is)) = take k [log. LogArrives log d \<leftarrow> is]"
        using Cons.IH by blast
      ultimately have "map snd (fst (watch_loop B decode event c (i # is))) = take (Suc k) [log. LogArrives log d \<leftarrow> i # is]"
        using e LogArrives by (simp add: case_prod_beta)
      then show ?thesis by blast
    next
      case False
      then have "fst (watch_loop B decode event c (i # is)) = []"
        using LogArrives by (auto split: res.splits delivery.splits)
      then show ?thesis by (auto intro: exI [of _ 0])
    qed
  qed (auto intro: exI [of _ 0])
qed simp

text \<open>The iterator delivers every log that arrives, and after the end of the subscription the waiting ones.\<close>

lemma iter_Next_got:
  assumes "it_fail it = None" "\<not> it_done it" "unpack_log B decode (it_event it) (it_contract it) log = Ok e"
  shows "iter_Next B decode (GotLog log) waiting it = Ok (it\<lparr>it_Event := Some e\<rparr>, True)"
  using assms by (simp add: iter_Next.simps iter_take_def)

lemma iter_Next_waiting:
  assumes "it_fail it = None" "it_done it \<or> r = SubErr None" "unpack_log B decode (it_event it) (it_contract it) log = Ok e"
  shows "iter_Next B decode r (Some log) it = Ok (it\<lparr>it_Event := Some e, it_done := True\<rparr>, True)"
  using assms by (cases "it_done it") (simp_all add: iter_Next.simps [of B decode] iter_take_def)

text \<open>An iterator that has failed stays where it is.\<close>

lemma iter_Next_failed: "it_fail it \<noteq> None \<Longrightarrow> iter_Next B decode r waiting it = Ok (it, False)"
  by (simp add: iter_Next.simps)

lemma iter_Next_end: "it_fail it = None \<Longrightarrow> \<not> it_done it \<Longrightarrow>
    iter_Next B decode (SubErr e) None it = Ok (it\<lparr>it_done := True, it_fail := e\<rparr>, False)"
  by (simp add: iter_Next.simps [of B decode])

end
