(* ===== verification/Dispute_Binding.thy ===== *)
theory Dispute_Binding
  imports Abi_Bind
begin

text \<open>
  The binding of the dispute contract (\<open>contracts/dioneDispute\<close>).
\<close>

section \<open>Types and constructors\<close>

definition DioneDisputeABI ::
  "abi_entry list" where
  "DioneDisputeABI =
     [Constructor [''address''],
      Event ''DisputeFinished'' [''bytes32'', ''bool''],
      Event ''NewDispute'' [''bytes32'', ''uint256'', ''address'', ''address''],
      Event ''NewVote'' [''bytes32'', ''address''],
      Function ''dioneStaking'' [] [''address''],
      Function ''beginDispute'' [''address'', ''uint256''] [],
      Function ''vote'' [''bytes32'', ''bool''] [],
      Function ''finishDispute'' [''bytes32''] []]"

definition bindDioneDispute ::
  "('b, 'cl, 'sg, 'tx, 'lg, 'su, 'm) bind_lib_scheme \<Rightarrow> address \<Rightarrow> 'cl option \<Rightarrow> 'cl option \<Rightarrow> 'cl option \<Rightarrow> 'b res" where
  "bindDioneDispute B a caller transactor filterer = bind_contract B DioneDisputeABI a caller transactor filterer"

definition NewDioneDispute ::
  "('b, 'cl, 'sg, 'tx, 'lg, 'su, 'm) bind_lib_scheme \<Rightarrow> address \<Rightarrow> 'cl \<Rightarrow> 'b Binding res" where
  "NewDioneDispute B a backend =
     bind_res (bindDioneDispute B a (Some backend) (Some backend) (Some backend)) (\<lambda>contract.
       Ok \<lparr>bnd_Caller = contract, bnd_Transactor = contract, bnd_Filterer = contract\<rparr>)"

definition NewDioneDispute_part ::
  "('b, 'cl, 'sg, 'tx, 'lg, 'su, 'm) bind_lib_scheme \<Rightarrow> part \<Rightarrow> address \<Rightarrow> 'cl \<Rightarrow> 'b res" where
  "NewDioneDispute_part B p a = bind_part (bindDioneDispute B a) p"

definition DioneDisputeRaw ::
  "('b, 'cl, 'sg, 'tx, 'lg, 'su, 'm) bind_lib_scheme \<Rightarrow>
     ('b Binding, 'b Binding, 'sg, 'tx) raw_ops \<times> ('b, 'b, 'sg, 'tx) raw_ops" where
  "DioneDisputeRaw B = (raw_binding B, raw_parts B)"

section \<open>Methods\<close>

definition DioneDispute_DioneStaking ::
  "('b, 'cl, 'sg, 'tx, 'lg, 'su, 'm) bind_lib_scheme \<Rightarrow> ('b, 'sg) call_receiver \<Rightarrow> address res" where
  "DioneDispute_DioneStaking B r = call_method B as_Address ''dioneStaking'' r []"

definition DioneDispute_BeginDispute ::
  "('b, 'cl, 'sg, 'tx, 'lg, 'su, 'm) bind_lib_scheme \<Rightarrow> ('b, 'sg) send_receiver \<Rightarrow> address \<Rightarrow> int \<Rightarrow> 'tx res" where
  "DioneDispute_BeginDispute B r miner requestID = transact B ''beginDispute'' r [GAddress miner, GBig requestID]"

definition DioneDispute_FinishDispute ::
  "('b, 'cl, 'sg, 'tx, 'lg, 'su, 'm) bind_lib_scheme \<Rightarrow> ('b, 'sg) send_receiver \<Rightarrow> bytes \<Rightarrow> 'tx res" where
  "DioneDispute_FinishDispute B r dhash = transact B ''finishDispute'' r [GBytes32 dhash]"

definition DioneDispute_Vote ::
  "('b, 'cl, 'sg, 'tx, 'lg, 'su, 'm) bind_lib_scheme \<Rightarrow> ('b, 'sg) send_receiver \<Rightarrow> bytes \<Rightarrow> bool \<Rightarrow> 'tx res" where
  "DioneDispute_Vote B r dhash voteStatus = transact B ''vote'' r [GBytes32 dhash, GBool voteStatus]"

section \<open>Event DisputeFinished\<close>

record DisputeFinished_event =
  df_Dhash :: bytes
  df_Status :: bool

definition decode_DisputeFinished ::
  "go_value list \<Rightarrow> DisputeFinished_event res" where
  "decode_DisputeFinished vs =
     (case vs of [GBytes32 v0, GBool v1] \<Rightarrow> Ok \<lparr>df_Dhash = v0, df_Status = v1\<rparr>
      | _ \<Rightarrow> abi_mismatch)"

definition DioneDisputeDisputeFinishedIterator ::
  "('b, 'cl, 'sg, 'tx, 'lg, 'su, 'm) bind_lib_scheme \<Rightarrow> ('b, DisputeFinished_event, 'lg, 'su) iterator_ops" where
  "DioneDisputeDisputeFinishedIterator B = event_iterator B decode_DisputeFinished"

definition DioneDisputeFilterer_DisputeFinished ::
  "('b, 'cl, 'sg, 'tx, 'lg, 'su, 'm) bind_lib_scheme \<Rightarrow> 'b \<Rightarrow> ('b, unit, DisputeFinished_event, 'lg, 'su) event_ops" where
  "DioneDisputeFilterer_DisputeFinished B c = event_filterer B decode_DisputeFinished ''DisputeFinished'' (\<lambda>_. []) c"

section \<open>Event NewDispute\<close>

record NewDispute_event =
  nd_Dhash :: bytes
  nd_RequestID :: int
  nd_Miner :: address
  nd_DisputeInitiator :: address

definition decode_NewDispute ::
  "go_value list \<Rightarrow> NewDispute_event res" where
  "decode_NewDispute vs =
     (case vs of [GBytes32 v0, GBig v1, GAddress v2, GAddress v3] \<Rightarrow> Ok \<lparr>nd_Dhash = v0, nd_RequestID = v1, nd_Miner = v2, nd_DisputeInitiator = v3\<rparr>
      | _ \<Rightarrow> abi_mismatch)"

definition DioneDisputeNewDisputeIterator ::
  "('b, 'cl, 'sg, 'tx, 'lg, 'su, 'm) bind_lib_scheme \<Rightarrow> ('b, NewDispute_event, 'lg, 'su) iterator_ops" where
  "DioneDisputeNewDisputeIterator B = event_iterator B decode_NewDispute"

definition DioneDisputeFilterer_NewDispute ::
  "('b, 'cl, 'sg, 'tx, 'lg, 'su, 'm) bind_lib_scheme \<Rightarrow> 'b \<Rightarrow> ('b, (address list \<times> address list), NewDispute_event, 'lg, 'su) event_ops" where
  "DioneDisputeFilterer_NewDispute B c = event_filterer B decode_NewDispute ''NewDispute'' (\<lambda>(miner, disputeInitiator). [map GAddress miner, map GAddress disputeInitiator]) c"

section \<open>Event NewVote\<close>

record NewVote_event =
  nv_Dhash :: bytes
  nv_VotedMiner :: address

definition decode_NewVote ::
  "go_value list \<Rightarrow> NewVote_event res" where
  "decode_NewVote vs =
     (case vs of [GBytes32 v0, GAddress v1] \<Rightarrow> Ok \<lparr>nv_Dhash = v0, nv_VotedMiner = v1\<rparr>
      | _ \<Rightarrow> abi_mismatch)"

definition DioneDisputeNewVoteIterator ::
  "('b, 'cl, 'sg, 'tx, 'lg, 'su, 'm) bind_lib_scheme \<Rightarrow> ('b, NewVote_event, 'lg, 'su) iterator_ops" where
  "DioneDisputeNewVoteIterator B = event_iterator B decode_NewVote"

definition DioneDisputeFilterer_NewVote ::
  "('b, 'cl, 'sg, 'tx, 'lg, 'su, 'm) bind_lib_scheme \<Rightarrow> 'b \<Rightarrow> ('b, address list, NewVote_event, 'lg, 'su) event_ops" where
  "DioneDisputeFilterer_NewVote B c = event_filterer B decode_NewVote ''NewVote'' (\<lambda>votedMiner. [map GAddress votedMiner]) c"

end
