(* ===== verification/Oracle_Binding.thy ===== *)
theory Oracle_Binding
  imports Abi_Bind
begin

text \<open>
  The binding of the oracle contract (\<open>contracts/dioneOracle\<close>).
\<close>

section \<open>Types and constructors\<close>

definition DioneOracleABI ::
  "abi_entry list" where
  "DioneOracleABI =
     [Constructor [''address''],
      Event ''CancelOracleRequest'' [''uint256''],
      Event ''NewOracleRequest'' [''uint8'', ''string'', ''string'', ''uint256'', ''uint256''],
      Event ''SubmittedOracleRequest'' [''uint256'', ''bytes''],
      Function ''MAXIMUM_DELAY'' [] [''uint256''],
      Function ''cancelOracleRequest'' [''uint256''] [],
      Function ''dioneStaking'' [] [''address''],
      Function ''minimumDisputeFee'' [] [''uint256''],
      Function ''requestOracles'' [''uint8'', ''string'', ''string'', ''address'', ''bytes4''] [''uint256''],
      Function ''submitOracleRequest'' [''uint256'', ''bytes''] [''bool'']]"

definition bindDioneOracle ::
  "('b, 'cl, 'sg, 'tx, 'lg, 'su, 'm) bind_lib_scheme \<Rightarrow> address \<Rightarrow> 'cl option \<Rightarrow> 'cl option \<Rightarrow> 'cl option \<Rightarrow> 'b res" where
  "bindDioneOracle B a caller transactor filterer = bind_contract B DioneOracleABI a caller transactor filterer"

definition NewDioneOracle ::
  "('b, 'cl, 'sg, 'tx, 'lg, 'su, 'm) bind_lib_scheme \<Rightarrow> address \<Rightarrow> 'cl \<Rightarrow> 'b Binding res" where
  "NewDioneOracle B a backend =
     bind_res (bindDioneOracle B a (Some backend) (Some backend) (Some backend)) (\<lambda>contract.
       Ok \<lparr>bnd_Caller = contract, bnd_Transactor = contract, bnd_Filterer = contract\<rparr>)"

definition NewDioneOracle_part ::
  "('b, 'cl, 'sg, 'tx, 'lg, 'su, 'm) bind_lib_scheme \<Rightarrow> part \<Rightarrow> address \<Rightarrow> 'cl \<Rightarrow> 'b res" where
  "NewDioneOracle_part B p a = bind_part (bindDioneOracle B a) p"

definition DioneOracleRaw ::
  "('b, 'cl, 'sg, 'tx, 'lg, 'su, 'm) bind_lib_scheme \<Rightarrow>
     ('b Binding, 'b Binding, 'sg, 'tx) raw_ops \<times> ('b, 'b, 'sg, 'tx) raw_ops" where
  "DioneOracleRaw B = (raw_binding B, raw_parts B)"

section \<open>Methods\<close>

definition DioneOracle_MAXIMUMDELAY ::
  "('b, 'cl, 'sg, 'tx, 'lg, 'su, 'm) bind_lib_scheme \<Rightarrow> ('b, 'sg) call_receiver \<Rightarrow> int res" where
  "DioneOracle_MAXIMUMDELAY B r = call_method B as_Big ''MAXIMUM_DELAY'' r []"

definition DioneOracle_DioneStaking ::
  "('b, 'cl, 'sg, 'tx, 'lg, 'su, 'm) bind_lib_scheme \<Rightarrow> ('b, 'sg) call_receiver \<Rightarrow> address res" where
  "DioneOracle_DioneStaking B r = call_method B as_Address ''dioneStaking'' r []"

definition DioneOracle_MinimumDisputeFee ::
  "('b, 'cl, 'sg, 'tx, 'lg, 'su, 'm) bind_lib_scheme \<Rightarrow> ('b, 'sg) call_receiver \<Rightarrow> int res" where
  "DioneOracle_MinimumDisputeFee B r = call_method B as_Big ''minimumDisputeFee'' r []"

definition DioneOracle_CancelOracleRequest ::
  "('b, 'cl, 'sg, 'tx, 'lg, 'su, 'm) bind_lib_scheme \<Rightarrow> ('b, 'sg) send_receiver \<Rightarrow> int \<Rightarrow> 'tx res" where
  "DioneOracle_CancelOracleRequest B r reqID = transact B ''cancelOracleRequest'' r [GBig reqID]"

definition DioneOracle_RequestOracles ::
  "('b, 'cl, 'sg, 'tx, 'lg, 'su, 'm) bind_lib_scheme \<Rightarrow> ('b, 'sg) send_receiver \<Rightarrow> u8 \<Rightarrow> string \<Rightarrow> string \<Rightarrow> address \<Rightarrow> bytes \<Rightarrow> 'tx res" where
  "DioneOracle_RequestOracles B r originChain requestType requestParams callbackAddress callbackMethodID = transact B ''requestOracles'' r [GUint8 originChain, GString requestType, GString requestParams, GAddress callbackAddress, GBytes4 callbackMethodID]"

definition DioneOracle_SubmitOracleRequest ::
  "('b, 'cl, 'sg, 'tx, 'lg, 'su, 'm) bind_lib_scheme \<Rightarrow> ('b, 'sg) send_receiver \<Rightarrow> int \<Rightarrow> bytes \<Rightarrow> 'tx res" where
  "DioneOracle_SubmitOracleRequest B r reqID dat = transact B ''submitOracleRequest'' r [GBig reqID, GBytes dat]"

section \<open>Event CancelOracleRequest\<close>

record CancelOracleRequest_event =
  cr_ReqID :: int

definition decode_CancelOracleRequest ::
  "go_value list \<Rightarrow> CancelOracleRequest_event res" where
  "decode_CancelOracleRequest vs =
     (case vs of [GBig v0] \<Rightarrow> Ok \<lparr>cr_ReqID = v0\<rparr>
      | _ \<Rightarrow> abi_mismatch)"

definition DioneOracleCancelOracleRequestIterator ::
  "('b, 'cl, 'sg, 'tx, 'lg, 'su, 'm) bind_lib_scheme \<Rightarrow> ('b, CancelOracleRequest_event, 'lg, 'su) iterator_ops" where
  "DioneOracleCancelOracleRequestIterator B = event_iterator B decode_CancelOracleRequest"

definition DioneOracleFilterer_CancelOracleRequest ::
  "('b, 'cl, 'sg, 'tx, 'lg, 'su, 'm) bind_lib_scheme \<Rightarrow> 'b \<Rightarrow> ('b, unit, CancelOracleRequest_event, 'lg, 'su) event_ops" where
  "DioneOracleFilterer_CancelOracleRequest B c = event_filterer B decode_CancelOracleRequest ''CancelOracleRequest'' (\<lambda>_. []) c"

section \<open>Event NewOracleRequest\<close>

record NewOracleRequest_event =
  or_OriginChain :: u8
  or_RequestType :: string
  or_RequestParams :: string
  or_ReqID :: int
  or_Deadline :: int

definition decode_NewOracleRequest ::
  "go_value list \<Rightarrow> NewOracleRequest_event res" where
  "decode_NewOracleRequest vs =
     (case vs of [GUint8 v0, GString v1, GString v2, GBig v3, GBig v4] \<Rightarrow> Ok \<lparr>or_OriginChain = v0, or_RequestType = v1, or_RequestParams = v2, or_ReqID = v3, or_Deadline = v4\<rparr>
      | _ \<Rightarrow> abi_mismatch)"

definition DioneOracleNewOracleRequestIterator ::
  "('b, 'cl, 'sg, 'tx, 'lg, 'su, 'm) bind_lib_scheme \<Rightarrow> ('b, NewOracleRequest_event, 'lg, 'su) iterator_ops" where
  "DioneOracleNewOracleRequestIterator B = event_iterator B decode_NewOracleRequest"

definition DioneOracleFilterer_NewOracleRequest ::
  "('b, 'cl, 'sg, 'tx, 'lg, 'su, 'm) bind_lib_scheme \<Rightarrow> 'b \<Rightarrow> ('b, unit, NewOracleRequest_event, 'lg, 'su) event_ops" where
  "DioneOracleFilterer_NewOracleRequest B c = event_filterer B decode_NewOracleRequest ''NewOracleRequest'' (\<lambda>_. []) c"

section \<open>Event SubmittedOracleRequest\<close>

record SubmittedOracleRequest_event =
  so_ReqID :: int
  so_Data :: bytes

definition decode_SubmittedOracleRequest ::
  "go_value list \<Rightarrow> SubmittedOracleRequest_event res" where
  "decode_SubmittedOracleRequest vs =
     (case vs of [GBig v0, GBytes v1] \<Rightarrow> Ok \<lparr>so_ReqID = v0, so_Data = v1\<rparr>
      | _ \<Rightarrow> abi_mismatch)"

definition DioneOracleSubmittedOracleRequestIterator ::
  "('b, 'cl, 'sg, 'tx, 'lg, 'su, 'm) bind_lib_scheme \<Rightarrow> ('b, SubmittedOracleRequest_event, 'lg, 'su) iterator_ops" where
  "DioneOracleSubmittedOracleRequestIterator B = event_iterator B decode_SubmittedOracleRequest"

definition DioneOracleFilterer_SubmittedOracleRequest ::
  "('b, 'cl, 'sg, 'tx, 'lg, 'su, 'm) bind_lib_scheme \<Rightarrow> 'b \<Rightarrow> ('b, unit, SubmittedOracleRequest_event, 'lg, 'su) event_ops" where
  "DioneOracleFilterer_SubmittedOracleRequest B c = event_filterer B decode_SubmittedOracleRequest ''SubmittedOracleRequest'' (\<lambda>_. []) c"

end
