(* ===== verification/Dispute.thy ===== *)
theory Dispute
  imports Blockchain Kv_Cache Mempool Dispute_Binding Oracle_Binding
begin

text \<open>
  The dispute manager (\<open>consensus/dispute_manager.go\<close>): it compares every answer submitted to
  the oracle contract with the answer the chain holds, opens a dispute when they differ, votes
  on disputes of others and finishes its own after the vote window.

  The search for the task of a request walks down the heights; the height is a 64-bit number
  that wraps below 0, so the loop is a partial function. Submissions and disputes are cached
  as pointers into the heaps of the state, except that a finished dispute is cached as a
  value. The timer that ends a vote window is an input of its own. \<open>sha3.Sum256\<close> and
  \<open>common.Address.Hex\<close> are parameters.
\<close>

section \<open>State\<close>

record Dispute =
  dp_Dhash :: bytes
  dp_RequestID :: int
  dp_Miner :: address
  dp_DisputeInitiator :: address
  dp_Timestamp :: i64
  dp_Voted :: bool
  dp_Finished :: bool

record Submission =
  sb_ReqID :: int
  sb_Data :: bytes
  sb_Timestamp :: i64
  sb_Checked :: bool

record ('cs, 'cd, 'd) DisputeManager =
  dm_env :: "'d chain_env"
  dm_submissionCache :: "('cs, Submission) Cache"
  dm_disputeCache :: "('cd, Dispute) Cache"
  dm_sha3 :: "bytes \<Rightarrow> bytes"
  dm_Hex :: "address \<Rightarrow> string"
  dm_voteWindow :: int

record ('cs, 'cd, 'd) dispute_state =
  ds_submissions :: 'cs
  ds_disputes :: 'cd
  ds_sheap :: "Submission heap"
  ds_snext :: loc
  ds_dheap :: "Dispute heap"
  ds_dnext :: loc
  ds_db :: 'd

datatype dispute_effect =
    BeganDispute address int
  | VotedDispute bytes bool
  | FinishedDispute bytes
  | StartedTimer int int

text \<open>The vote window is configured in seconds.\<close>

definition NewDisputeManager ::
  "'d chain_env \<Rightarrow> ('cs, Submission) Cache \<Rightarrow> ('cd, Dispute) Cache \<Rightarrow> (bytes \<Rightarrow> bytes) \<Rightarrow> (address \<Rightarrow> string) \<Rightarrow>
   unit res \<Rightarrow> unit res \<Rightarrow> int \<Rightarrow> ('cs, 'cd, 'd) DisputeManager res" where
  "NewDisputeManager env cs cd sha3 Hex subscribeSubmissions subscribeDisputes window =
     bind_res subscribeSubmissions (\<lambda>_.
     bind_res subscribeDisputes (\<lambda>_.
       Ok \<lparr>dm_env = env, dm_submissionCache = cs, dm_disputeCache = cd, dm_sha3 = sha3, dm_Hex = Hex,
           dm_voteWindow = window * second\<rparr>))"

definition wrapDispute :: "NewDispute_event \<Rightarrow> Dispute" where
  "wrapDispute d = \<lparr>dp_Dhash = nd_Dhash d, dp_RequestID = nd_RequestID d, dp_Miner = nd_Miner d,
     dp_DisputeInitiator = nd_DisputeInitiator d, dp_Timestamp = 0, dp_Voted = False, dp_Finished = False\<rparr>"

definition wrapSubmission :: "SubmittedOracleRequest_event \<Rightarrow> Submission" where
  "wrapSubmission s = \<lparr>sb_ReqID = so_ReqID s, sb_Data = so_Data s, sb_Timestamp = 0, sb_Checked = False\<rparr>"

section \<open>Search for a task\<close>

fun find_in_block :: "codec \<Rightarrow> string \<Rightarrow> Transaction option list \<Rightarrow> DioneTask option res" where
  "find_in_block K requestID [] = Ok None"
| "find_in_block K requestID (None # vs) = Panic"
| "find_in_block K requestID (Some v # vs) =
     (case unmarshal_task K (tx_Data v) of
        (task, Some e) \<Rightarrow> find_in_block K requestID vs
      | (task, None) \<Rightarrow>
          if tk_RequestID task = requestID then Ok (Some task) else find_in_block K requestID vs)"

partial_function (option) find_loop ::
  "'d chain_env \<Rightarrow> 'd \<Rightarrow> string \<Rightarrow> u64 \<Rightarrow> (DioneTask \<times> Block) res option" where
  "find_loop env d requestID height =
     (case bc_FetchBlockByHeight env d height of
        Err e \<Rightarrow> Some (Err e)
      | Panic \<Rightarrow> Some Panic
      | Ok block \<Rightarrow> (case find_in_block (env_K env) requestID (blk_Data block) of
            Err e \<Rightarrow> Some (Err e)
          | Panic \<Rightarrow> Some Panic
          | Ok (Some task) \<Rightarrow> Some (Ok (task, block))
          | Ok None \<Rightarrow> find_loop env d requestID (height - 1)))"

definition findTaskAndBlockWithRequestID ::
  "'d chain_env \<Rightarrow> 'd \<Rightarrow> string \<Rightarrow> (DioneTask \<times> Block) res option" where
  "findTaskAndBlockWithRequestID env d requestID =
     (case bc_GetLatestBlockHeight env d of
        Err e \<Rightarrow> Some (Err e)
      | Panic \<Rightarrow> Some Panic
      | Ok height \<Rightarrow> find_loop env d requestID height)"

section \<open>Handlers\<close>

text \<open>
  Storing a pointer in one of the caches; its error is dropped. The result of a handler is
  \<open>None\<close> when the search it calls never returns.
\<close>

definition store_submission ::
  "('cs, 'cd, 'd) DisputeManager \<Rightarrow> int \<Rightarrow> loc \<Rightarrow> Submission \<Rightarrow> ('cs, 'cd, 'd) dispute_state \<Rightarrow> ('cs, 'cd, 'd) dispute_state" where
  "store_submission dm now l sub s =
     (let h = (ds_sheap s)(l := sub) in
      s\<lparr>ds_sheap := h,
        ds_submissions := fst (ca_Store (dm_submissionCache dm) now h (ds_submissions s) (big_String (sb_ReqID sub)) (Ptr l))\<rparr>)"

definition store_dispute ::
  "('cs, 'cd, 'd) DisputeManager \<Rightarrow> int \<Rightarrow> loc \<Rightarrow> Dispute \<Rightarrow> ('cs, 'cd, 'd) dispute_state \<Rightarrow> ('cs, 'cd, 'd) dispute_state" where
  "store_dispute dm now l dsp s =
     (let h = (ds_dheap s)(l := dsp) in
      s\<lparr>ds_dheap := h,
        ds_disputes := fst (ca_Store (dm_disputeCache dm) now h (ds_disputes s) (big_String (dp_RequestID dsp)) (Ptr l))\<rparr>)"

definition same_answer :: "('cs, 'cd, 'd) DisputeManager \<Rightarrow> bytes \<Rightarrow> bytes \<Rightarrow> bool" where
  "same_answer dm submitted local \<longleftrightarrow>
     hex_EncodeToString (dm_sha3 dm submitted) = hex_EncodeToString (dm_sha3 dm local)"

definition onNewSubmission ::
  "('cs, 'cd, 'd) DisputeManager \<Rightarrow> int \<Rightarrow> i64 \<Rightarrow> SubmittedOracleRequest_event \<Rightarrow> ('cs, 'cd, 'd) dispute_state \<Rightarrow>
   (('cs, 'cd, 'd) dispute_state \<times> dispute_effect list \<times> unit res) option" where
  "onNewSubmission dm now unix submission st =
     (let l = ds_snext st;
          s = (wrapSubmission submission)\<lparr>sb_Timestamp := unix\<rparr>;
          st1 = store_submission dm now l s (st\<lparr>ds_snext := Suc l\<rparr>);
          finish = (\<lambda>effs. Some (store_submission dm now l (s\<lparr>sb_Checked := True\<rparr>) st1, effs, Ok ()))
      in case findTaskAndBlockWithRequestID (dm_env dm) (ds_db st1) (big_String (so_ReqID submission)) of
           None \<Rightarrow> None
         | Some Panic \<Rightarrow> Some (st1, [], Panic)
         | Some (Err e) \<Rightarrow> Some (st1, [], Ok ())
         | Some (Ok (task, block)) \<Rightarrow>
             if same_answer dm (sb_Data s) (tk_Payload task) then finish []
             else (case eth_BeginDispute (env_eth (dm_env dm)) (hd_ProposerEth (blk_Header block)) (sb_ReqID s) of
                 Panic \<Rightarrow> Some (st1, [], Panic)
               | Err e \<Rightarrow> Some (st1, [], Ok ())
               | Ok _ \<Rightarrow> finish [BeganDispute (hd_ProposerEth (blk_Header block)) (sb_ReqID s),
                   StartedTimer (sb_ReqID s) (dm_voteWindow dm)]))"

text \<open>The goroutine of the timer: it caches the finished dispute as a value, not a pointer.\<close>

definition onDisputeFinishTimer ::
  "('cs, 'cd, 'd) DisputeManager \<Rightarrow> int \<Rightarrow> int \<Rightarrow> ('cs, 'cd, 'd) dispute_state \<Rightarrow>
   ('cs, 'cd, 'd) dispute_state \<times> dispute_effect list \<times> unit res" where
  "onDisputeFinishTimer dm now reqID st =
     (case ca_Get (dm_disputeCache dm) now (ds_dheap st) (ds_disputes st) (big_String reqID) of
        Err e \<Rightarrow> (st, [], Ok ())
      | Panic \<Rightarrow> (st, [], Panic)
      | Ok d \<Rightarrow> (case eth_FinishDispute (env_eth (dm_env dm)) (dp_Dhash d) of
            Err e \<Rightarrow> (st, [], Ok ())
          | Panic \<Rightarrow> (st, [], Panic)
          | Ok _ \<Rightarrow>
              (st\<lparr>ds_disputes := fst (ca_Store (dm_disputeCache dm) now (ds_dheap st) (ds_disputes st)
                   (big_String (dp_RequestID d)) (Val (d\<lparr>dp_Finished := True\<rparr>)))\<rparr>,
               [FinishedDispute (dp_Dhash d)], Ok ())))"

definition onNewDispute ::
  "('cs, 'cd, 'd) DisputeManager \<Rightarrow> int \<Rightarrow> i64 \<Rightarrow> NewDispute_event \<Rightarrow> ('cs, 'cd, 'd) dispute_state \<Rightarrow>
   (('cs, 'cd, 'd) dispute_state \<times> dispute_effect list \<times> unit res) option" where
  "onNewDispute dm now unix dispute st =
     (let l = ds_dnext st;
          d = (wrapDispute dispute)\<lparr>dp_Timestamp := unix\<rparr>;
          key = big_String (dp_RequestID d);
          st1 = store_dispute dm now l d (st\<lparr>ds_dnext := Suc l\<rparr>);
          voted = store_dispute dm now l (d\<lparr>dp_Voted := True\<rparr>) st1
      in case findTaskAndBlockWithRequestID (dm_env dm) (ds_db st1) key of
           None \<Rightarrow> None
         | Some Panic \<Rightarrow> Some (st1, [], Panic)
         | Some (Err e) \<Rightarrow> Some (st1, [], Ok ())
         | Some (Ok (task, _)) \<Rightarrow>
             (case ca_Get (dm_submissionCache dm) now (ds_sheap st1) (ds_submissions st1) key of
                Err e \<Rightarrow> Some (st1, [], Ok ())
              | Panic \<Rightarrow> Some (st1, [], Panic)
              | Ok s \<Rightarrow>
                  if dm_Hex dm (nd_DisputeInitiator dispute) = dm_Hex dm (eth_GetEthAddress (env_eth (dm_env dm)))
                  then Some (voted, [], Ok ())
                  else let vote = \<not> same_answer dm (sb_Data s) (tk_Payload task) in
                    (case eth_VoteDispute (env_eth (dm_env dm)) (dp_Dhash d) vote of
                       Err e \<Rightarrow> Some (st1, [], Ok ())
                     | Panic \<Rightarrow> Some (st1, [], Panic)
                     | Ok _ \<Rightarrow> Some (voted, [VotedDispute (dp_Dhash d) vote], Ok ()))))"

text \<open>One turn of the loop of \<open>Run\<close>, or the end of a vote window.\<close>

datatype dispute_input =
    NewSubmission SubmittedOracleRequest_event
  | NewDispute NewDispute_event
  | DisputeFinishTimer int

fun dispute_step ::
  "('cs, 'cd, 'd) DisputeManager \<Rightarrow> int \<Rightarrow> i64 \<Rightarrow> dispute_input \<Rightarrow> ('cs, 'cd, 'd) dispute_state \<Rightarrow>
   (('cs, 'cd, 'd) dispute_state \<times> dispute_effect list \<times> unit res) option" where
  "dispute_step dm now unix (NewSubmission s) st = onNewSubmission dm now unix s st"
| "dispute_step dm now unix (NewDispute d) st = onNewDispute dm now unix d st"
| "dispute_step dm now unix (DisputeFinishTimer r) st = Some (onDisputeFinishTimer dm now r st)"

end
