(* ===== verification/Dispute_Properties.thy ===== *)
theory Dispute_Properties
  imports Dispute Chain_Properties
begin

text \<open>
  Properties of the dispute manager: which task the search finds and when it ends, when a
  dispute is begun, how the node votes, and what a second end of a vote window does.
\<close>

section \<open>Search\<close>

lemma find_in_block_no_panic:
  "None \<notin> set vs \<Longrightarrow> \<exists>t. find_in_block K requestID vs = Ok t"
proof (induction vs)
  case (Cons v vs)
  then obtain tx where "v = Some tx" by (cases v) auto
  with Cons show ?case
    by (cases "unmarshal_task K (tx_Data tx)"; cases "snd (unmarshal_task K (tx_Data tx))") auto
qed simp

definition hit :: "'d chain_env \<Rightarrow> string \<Rightarrow> Block \<Rightarrow> (DioneTask \<times> Block) option" where
  "hit env requestID b =
     (case find_in_block (env_K env) requestID (blk_Data b) of Ok (Some task) \<Rightarrow> Some (task, b) | _ \<Rightarrow> None)"

lemma hit_Some:
  assumes "hit env requestID b = Some (task, b')"
  shows "b' = b \<and> tk_RequestID task = requestID
    \<and> (\<exists>tx. Some tx \<in> set (blk_Data b) \<and> unmarshal_task (env_K env) (tx_Data tx) = (task, None))"
proof -
  have "find_in_block K requestID vs = Ok (Some task) \<Longrightarrow> tk_RequestID task = requestID
    \<and> (\<exists>tx. Some tx \<in> set vs \<and> unmarshal_task K (tx_Data tx) = (task, None))" for K vs
    by (induction K requestID vs rule: find_in_block.induct) (auto split: prod.splits option.splits if_splits)
  with assms show ?thesis by (auto simp: hit_def split: res.splits option.splits)
qed

lemma find_loop_walk:
  assumes "\<And>k. k \<le> unat h \<Longrightarrow> bc_FetchBlockByHeight env d (of_nat k) = Ok (bs k) \<and> None \<notin> set (blk_Data (bs k))"
    and "bc_FetchBlockByHeight env d (- 1) = Err ErrBlockNotFound"
  shows "find_loop env d requestID h =
    Some (case List.map_filter (\<lambda>k. hit env requestID (bs k)) (rev [0..<Suc (unat h)]) of
      [] \<Rightarrow> Err ErrBlockNotFound | x # _ \<Rightarrow> Ok x)"
  using assms(1)
proof (induction "unat h" arbitrary: h)
  case 0
  then have h: "h = 0" by (simp add: unat_eq_0)
  obtain t where t: "find_in_block (env_K env) requestID (blk_Data (bs 0)) = Ok t"
    using find_in_block_no_panic 0(2) [of 0] by blast
  have "find_loop env d requestID (- 1) = Some (Err ErrBlockNotFound)"
    by (subst find_loop.simps) (simp add: assms(2))
  then show ?case
    using 0(2) [of 0] t by (subst find_loop.simps) (auto simp: h hit_def map_filter_simps split: option.splits)
next
  case (Suc n)
  obtain t where t: "find_in_block (env_K env) requestID (blk_Data (bs (Suc n))) = Ok t"
    using find_in_block_no_panic [of "blk_Data (bs (Suc n))"] Suc.prems [of "Suc n"] Suc(2) by auto
  have f: "bc_FetchBlockByHeight env d h = Ok (bs (Suc n))" using Suc(2) Suc.prems [of "Suc n"] by simp
  have "h \<noteq> 0" using Suc(2) by auto
  then have u: "unat (h - 1) = n" using Suc(2) by (simp add: unat_minus_one)
  then have "find_loop env d requestID (h - 1) =
      Some (case List.map_filter (\<lambda>k. hit env requestID (bs k)) (rev [0..<Suc n]) of
        [] \<Rightarrow> Err ErrBlockNotFound | x # _ \<Rightarrow> Ok x)"
    using Suc.hyps(1) [of "h - 1"] Suc(2) Suc.prems by simp
  then show ?case
    unfolding Suc(2) [symmetric] using f t
    by (subst find_loop.simps) (auto simp: hit_def map_filter_simps split: option.splits)
qed

lemma newest_hit:
  "case List.map_filter f (rev [0..<Suc m]) of
     [] \<Rightarrow> \<forall>j \<le> m. f j = None
   | x # _ \<Rightarrow> \<exists>k \<le> m. f k = Some x \<and> (\<forall>j. k < j \<and> j \<le> m \<longrightarrow> f j = None)"
proof (induction m)
  case 0
  show ?case by (auto simp: map_filter_simps split: option.splits)
next
  case (Suc m)
  show ?case
  proof (cases "f (Suc m)")
    case None
    then have eq: "List.map_filter f (rev [0..<Suc (Suc m)]) = List.map_filter f (rev [0..<Suc m])"
      by (simp add: map_filter_simps)
    show ?thesis
    proof (cases "List.map_filter f (rev [0..<Suc m])")
      case Nil
      then show ?thesis using Suc None unfolding eq by (auto simp: le_Suc_eq)
    next
      case (Cons x xs)
      then obtain k where "k \<le> m" "f k = Some x" "\<forall>j. k < j \<and> j \<le> m \<longrightarrow> f j = None"
        using Suc by auto
      then show ?thesis unfolding eq Cons using None by (auto simp: le_Suc_eq intro!: exI [of _ k])
    qed
  next
    case (Some x)
    then show ?thesis by (auto simp: map_filter_simps)
  qed
qed

lemma same_answer_iff: "same_answer dm a b \<longleftrightarrow> dm_sha3 dm a = dm_sha3 dm b"
  by (simp add: same_answer_def)

section \<open>Properties\<close>

text \<open>C32. On a chain without gaps whose blocks hold no nil transactions the search for a request
  ends: it returns the task of the newest block that holds one with this request id, and
  reports a missing block when there is none (its height wraps around after the first block).\<close>

theorem find_task_newest:
  assumes "bc_GetLatestBlockHeight env d = Ok n"
    and "\<And>k. k \<le> unat n \<Longrightarrow> bc_FetchBlockByHeight env d (of_nat k) = Ok (bs k) \<and> None \<notin> set (blk_Data (bs k))"
    and "bc_FetchBlockByHeight env d (- 1) = Err ErrBlockNotFound"
  shows "\<exists>r. findTaskAndBlockWithRequestID env d requestID = Some r
    \<and> (case r of
         Ok (task, b) \<Rightarrow> tk_RequestID task = requestID
           \<and> (\<exists>tx. Some tx \<in> set (blk_Data b) \<and> unmarshal_task (env_K env) (tx_Data tx) = (task, None))
           \<and> (\<exists>k \<le> unat n. b = bs k \<and> (\<forall>j. k < j \<and> j \<le> unat n \<longrightarrow> find_in_block (env_K env) requestID (blk_Data (bs j)) = Ok None))
       | Err e \<Rightarrow> e = ErrBlockNotFound \<and> (\<forall>j \<le> unat n. find_in_block (env_K env) requestID (blk_Data (bs j)) = Ok None)
       | Panic \<Rightarrow> False)"
proof -
  let ?hits = "List.map_filter (\<lambda>k. hit env requestID (bs k)) (rev [0..<Suc (unat n)])"
  have f: "findTaskAndBlockWithRequestID env d requestID =
      Some (case ?hits of [] \<Rightarrow> Err ErrBlockNotFound | x # _ \<Rightarrow> Ok x)"
    using find_loop_walk [OF assms(2,3)] assms(1) by (simp add: findTaskAndBlockWithRequestID_def)
  have none: "find_in_block (env_K env) requestID (blk_Data (bs j)) = Ok None"
    if j: "hit env requestID (bs j) = None" "j \<le> unat n" for j
  proof -
    obtain t where "find_in_block (env_K env) requestID (blk_Data (bs j)) = Ok t"
      using find_in_block_no_panic assms(2) [OF j(2)] by blast
    then show ?thesis using j(1) by (cases t) (simp_all add: hit_def)
  qed
  show ?thesis
  proof (cases ?hits)
    case Nil
    then have "\<forall>j \<le> unat n. hit env requestID (bs j) = None"
      using newest_hit [where f = "\<lambda>k. hit env requestID (bs k)" and m = "unat n"] by simp
    then show ?thesis using f Nil none by simp
  next
    case (Cons x xs)
    then obtain k where k: "k \<le> unat n" "hit env requestID (bs k) = Some x"
        "\<forall>j. k < j \<and> j \<le> unat n \<longrightarrow> hit env requestID (bs j) = None"
      using newest_hit [where f = "\<lambda>k. hit env requestID (bs k)" and m = "unat n"] by auto
    obtain task b where x: "x = (task, b)" by (cases x)
    show ?thesis
      using f Cons none k hit_Some [OF k(2) [unfolded x]] unfolding x
      by (intro exI [of _ "Ok (task, b)"]) auto
  qed
qed

text \<open>A chain of one block that answers request 12, for the witnesses.\<close>

definition answer_block :: Block where
  "answer_block = \<lparr>blk_Header = genesis_header\<lparr>hd_ProposerEth := [9]\<rparr>,
     blk_Data = [Some \<lparr>tx_Hash = [], tx_MerkleProof = zero_proof, tx_Timestamp = 0, tx_Data = []\<rparr>]\<rparr>"

definition answer_db :: "mem_value ecache" where
  "answer_db = fst (StoreBlock demo_env [] demo_db0 answer_block)"

lemma answer_db_facts:
  "bc_GetLatestBlockHeight demo_env answer_db = Ok 0"
  "bc_FetchBlockByHeight demo_env answer_db 0 = Ok answer_block"
  "find_in_block (env_K demo_env) ''12'' (blk_Data answer_block) = Ok (Some demo_task)"
  by code_simp+

lemma answer_db_end: "bc_FetchBlockByHeight demo_env answer_db (- 1) = Err ErrBlockNotFound"
  by (simp add: bc_reads answer_db_def StoreBlock_def set_latest_and_publish_def demo_db0_def memory_Database_def
      mem_HasBlock_def mem_NewDatabase_def answer_block_def genesis_header_def mem_StoreBlock_def
      mem_GetLatestBlockHeight_def mem_SetLatestBlockHeight_def mem_FetchBlockByHeight_def ref_cache.get_set Let_def key_simps)

theorem find_task_newest_witness:
  "\<exists>r. findTaskAndBlockWithRequestID demo_env answer_db ''99'' = Some r
     \<and> (case r of Ok (task, b) \<Rightarrow> tk_RequestID task = ''99'' | Err e \<Rightarrow> e = ErrBlockNotFound | Panic \<Rightarrow> False)"
proof -
  have "k \<le> unat (0 :: u64) \<Longrightarrow> bc_FetchBlockByHeight demo_env answer_db (of_nat k) = Ok answer_block
      \<and> None \<notin> set (blk_Data answer_block)" for k
    using answer_db_facts(2) by (simp add: answer_block_def)
  from find_task_newest [OF answer_db_facts(1) this answer_db_end, of "''99''"] show ?thesis
    by (auto split: res.splits)
qed

text \<open>C33. When an answer to a request is submitted whose task the chain holds, the node opens a
  dispute against the proposer of the task's block, and starts the timer of the vote window,
  exactly when the submitted data does not hash to the same value as the chain's answer; in
  either case the submission is then cached as checked.\<close>

theorem submission_disputed_iff_wrong:
  assumes "kv_cache (dm_submissionCache dm) I view" "I (ds_submissions st)"
    and "findTaskAndBlockWithRequestID (dm_env dm) (ds_db st) (big_String (so_ReqID sub)) = Some (Ok (task, b))"
    and "eth_BeginDispute (env_eth (dm_env dm)) (hd_ProposerEth (blk_Header b)) (so_ReqID sub) = Ok ()"
  shows "\<exists>st' s'. onNewSubmission dm now unix sub st = Some (st',
      (if dm_sha3 dm (so_Data sub) = dm_sha3 dm (tk_Payload task) then []
       else [BeganDispute (hd_ProposerEth (blk_Header b)) (so_ReqID sub), StartedTimer (so_ReqID sub) (dm_voteWindow dm)]), Ok ())
    \<and> ca_Get (dm_submissionCache dm) later (ds_sheap st') (ds_submissions st') (big_String (so_ReqID sub)) = Ok s'
    \<and> sb_Checked s' \<and> sb_Data s' = so_Data sub"
proof -
  define s0 where "s0 = (wrapSubmission sub)\<lparr>sb_Timestamp := unix\<rparr>"
  define st1 where "st1 = store_submission dm now (ds_snext st) s0 (st\<lparr>ds_snext := Suc (ds_snext st)\<rparr>)"
  define st2 where "st2 = store_submission dm now (ds_snext st) (s0\<lparr>sb_Checked := True\<rparr>) st1"
  have s0: "sb_ReqID s0 = so_ReqID sub" "sb_Data s0 = so_Data sub" by (simp_all add: s0_def wrapSubmission_def)
  have db: "ds_db st1 = ds_db st" by (simp add: st1_def store_submission_def Let_def)
  have "onNewSubmission dm now unix sub st = Some (st2,
      (if dm_sha3 dm (so_Data sub) = dm_sha3 dm (tk_Payload task) then []
       else [BeganDispute (hd_ProposerEth (blk_Header b)) (so_ReqID sub), StartedTimer (so_ReqID sub) (dm_voteWindow dm)]), Ok ())"
    using assms(3,4) unfolding onNewSubmission_def Let_def s0_def [symmetric] st1_def [symmetric] st2_def [symmetric]
    by (simp add: s0 db same_answer_iff)
  moreover have i1: "I (ds_submissions st1)"
    using kv_cache.store_inv [OF assms(1,2)] by (simp add: st1_def store_submission_def Let_def)
  then have "I (ds_submissions st2)"
    using kv_cache.store_inv [OF assms(1)] by (simp add: st2_def store_submission_def Let_def)
  then have "ca_Get (dm_submissionCache dm) later (ds_sheap st2) (ds_submissions st2) (big_String (so_ReqID sub))
      = Ok (s0\<lparr>sb_Checked := True\<rparr>)"
    using kv_cache.store_view [OF assms(1) i1] s0
    by (simp add: kv_cache.get [OF assms(1)] st2_def store_submission_def Let_def)
  ultimately show ?thesis using s0(2) by fastforce
qed

definition demo_disputes ::
  "(Submission iface ecache, Dispute iface ecache, mem_value ecache) DisputeManager" where
  "demo_disputes = \<lparr>dm_env = demo_env, dm_submissionCache = inmemory_Cache ref_gocache,
     dm_disputeCache = inmemory_Cache ref_gocache, dm_sha3 = id, dm_Hex = hex_EncodeToString, dm_voteWindow = 5\<rparr>"

definition demo_dispute_state ::
  "(Submission iface ecache, Dispute iface ecache, mem_value ecache) dispute_state" where
  "demo_dispute_state = \<lparr>ds_submissions = inmem_NewCache ref_gocache, ds_disputes = inmem_NewCache ref_gocache,
     ds_sheap = (\<lambda>_. wrapSubmission \<lparr>so_ReqID = 0, so_Data = []\<rparr>), ds_snext = 0,
     ds_dheap = (\<lambda>_. wrapDispute \<lparr>nd_Dhash = [], nd_RequestID = 0, nd_Miner = [], nd_DisputeInitiator = []\<rparr>),
     ds_dnext = 0, ds_db = answer_db\<rparr>"

lemma answer_found:
  "findTaskAndBlockWithRequestID demo_env answer_db (big_String 12) = Some (Ok (demo_task, answer_block))"
proof -
  have "find_loop demo_env answer_db ''12'' 0 = Some (Ok (demo_task, answer_block))"
    by (subst find_loop.simps) (simp add: answer_db_facts del: demo_env_sel)
  moreover have "big_String 12 = ''12''" by code_simp
  ultimately show ?thesis by (simp add: findTaskAndBlockWithRequestID_def answer_db_facts)
qed

theorem submission_disputed_iff_wrong_witness:
  "\<exists>st'. onNewSubmission demo_disputes 0 7 \<lparr>so_ReqID = 12, so_Data = [0]\<rparr> demo_dispute_state
     = Some (st', [BeganDispute [9] 12, StartedTimer 12 5], Ok ())"
proof -
  have kv: "kv_cache (dm_submissionCache demo_disputes) (inmem_inv ref_gocache) (inmem_view ref_gocache)"
    "inmem_inv ref_gocache (ds_submissions demo_dispute_state)"
    by (simp_all add: demo_disputes_def demo_dispute_state_def ref_inmem.inmem_contract ref_inmem.inmem_new)
  have f: "findTaskAndBlockWithRequestID (dm_env demo_disputes) (ds_db demo_dispute_state)
      (big_String (so_ReqID \<lparr>so_ReqID = 12, so_Data = [0]\<rparr>)) = Some (Ok (demo_task, answer_block))"
    using answer_found by (simp add: demo_disputes_def demo_dispute_state_def)
  from submission_disputed_iff_wrong [OF kv f, of 0 7 0] show ?thesis
    by (auto simp: demo_disputes_def demo_eth_def demo_task_def answer_block_def)
qed

text \<open>C38. The vote on a dispute of another node about a request whose task the chain and whose
  submission the cache hold supports the dispute exactly when the submission does not hash to
  the same value as the chain's answer; it is cast once, and the dispute is then cached as
  voted.\<close>

theorem dispute_vote:
  assumes "kv_cache (dm_disputeCache dm) I view" "I (ds_disputes st)"
    and "findTaskAndBlockWithRequestID (dm_env dm) (ds_db st) (big_String (nd_RequestID d)) = Some (Ok (task, b))"
    and "ca_Get (dm_submissionCache dm) now (ds_sheap st) (ds_submissions st) (big_String (nd_RequestID d)) = Ok s"
    and "dm_Hex dm (nd_DisputeInitiator d) \<noteq> dm_Hex dm (eth_GetEthAddress (env_eth (dm_env dm)))"
    and "\<And>v. eth_VoteDispute (env_eth (dm_env dm)) (nd_Dhash d) v = Ok ()"
  shows "\<exists>st' d'. onNewDispute dm now unix d st =
      Some (st', [VotedDispute (nd_Dhash d) (dm_sha3 dm (sb_Data s) \<noteq> dm_sha3 dm (tk_Payload task))], Ok ())
    \<and> ca_Get (dm_disputeCache dm) later (ds_dheap st') (ds_disputes st') (big_String (nd_RequestID d)) = Ok d'
    \<and> dp_Voted d' \<and> dp_Dhash d' = nd_Dhash d"
proof -
  define d0 where "d0 = (wrapDispute d)\<lparr>dp_Timestamp := unix\<rparr>"
  define st1 where "st1 = store_dispute dm now (ds_dnext st) d0 (st\<lparr>ds_dnext := Suc (ds_dnext st)\<rparr>)"
  define st2 where "st2 = store_dispute dm now (ds_dnext st) (d0\<lparr>dp_Voted := True\<rparr>) st1"
  have d0: "dp_RequestID d0 = nd_RequestID d" "dp_Dhash d0 = nd_Dhash d" by (simp_all add: d0_def wrapDispute_def)
  have fr: "ds_db st1 = ds_db st" "ds_sheap st1 = ds_sheap st" "ds_submissions st1 = ds_submissions st"
    by (simp_all add: st1_def store_dispute_def Let_def)
  have "onNewDispute dm now unix d st =
      Some (st2, [VotedDispute (nd_Dhash d) (dm_sha3 dm (sb_Data s) \<noteq> dm_sha3 dm (tk_Payload task))], Ok ())"
    using assms(3-6) unfolding onNewDispute_def Let_def d0_def [symmetric] st1_def [symmetric] st2_def [symmetric]
    by (simp add: d0 fr same_answer_iff)
  moreover have i1: "I (ds_disputes st1)"
    using kv_cache.store_inv [OF assms(1,2)] by (simp add: st1_def store_dispute_def Let_def)
  then have "I (ds_disputes st2)"
    using kv_cache.store_inv [OF assms(1)] by (simp add: st2_def store_dispute_def Let_def)
  then have "ca_Get (dm_disputeCache dm) later (ds_dheap st2) (ds_disputes st2) (big_String (nd_RequestID d))
      = Ok (d0\<lparr>dp_Voted := True\<rparr>)"
    using kv_cache.store_view [OF assms(1) i1] d0
    by (simp add: kv_cache.get [OF assms(1)] st2_def store_dispute_def Let_def)
  ultimately show ?thesis using d0(2) by fastforce
qed

definition demo_submitted ::
  "(Submission iface ecache, Dispute iface ecache, mem_value ecache) dispute_state" where
  "demo_submitted = store_submission demo_disputes 0 0 (wrapSubmission \<lparr>so_ReqID = 12, so_Data = [0]\<rparr>) demo_dispute_state"

theorem dispute_vote_witness:
  "\<exists>st'. onNewDispute demo_disputes 0 7 \<lparr>nd_Dhash = [3], nd_RequestID = 12, nd_Miner = [9], nd_DisputeInitiator = [1]\<rparr> demo_submitted
     = Some (st', [VotedDispute [3] True], Ok ())"
proof -
  let ?d = "\<lparr>nd_Dhash = [3], nd_RequestID = 12, nd_Miner = [9], nd_DisputeInitiator = [1]\<rparr>"
  have kv: "kv_cache (dm_disputeCache demo_disputes) (inmem_inv ref_gocache) (inmem_view ref_gocache)"
    "inmem_inv ref_gocache (ds_disputes demo_submitted)"
    by (simp_all add: demo_disputes_def demo_submitted_def store_submission_def Let_def demo_dispute_state_def
        ref_inmem.inmem_contract ref_inmem.inmem_new)
  have f: "findTaskAndBlockWithRequestID (dm_env demo_disputes) (ds_db demo_submitted) (big_String (nd_RequestID ?d))
      = Some (Ok (demo_task, answer_block))"
    using answer_found by (simp add: demo_disputes_def demo_submitted_def store_submission_def Let_def demo_dispute_state_def)
  have g: "ca_Get (dm_submissionCache demo_disputes) 0 (ds_sheap demo_submitted) (ds_submissions demo_submitted)
      (big_String (nd_RequestID ?d)) = Ok (wrapSubmission \<lparr>so_ReqID = 12, so_Data = [0]\<rparr>)" by code_simp
  from dispute_vote [OF kv f g, of 7 0] show ?thesis
    by (auto simp: demo_disputes_def demo_eth_def demo_task_def wrapSubmission_def hex_digit_def)
qed

text \<open>A finished dispute is cached as a value where the cache expects a pointer: when the vote
  window of the same request ends a second time, reading it panics.\<close>

lemma finished_dispute_unreadable:
  assumes "go_cache gc" "dm_disputeCache dm = inmemory_Cache gc"
    and "onDisputeFinishTimer dm now reqID st = (st', [FinishedDispute h], Ok ())"
    and "inmem_view gc now (ds_dheap st) (ds_disputes st) (big_String reqID) = Some d" "dp_RequestID d = reqID"
    and "inmem_inv gc (ds_disputes st)"
  shows "snd (snd (onDisputeFinishTimer dm later reqID st')) = Panic"
proof -
  have ib: "inmem_backend gc" using assms(1) by (simp add: inmem_backend_def)
  have "ca_Get (inmemory_Cache gc) now (ds_dheap st) (ds_disputes st) (big_String reqID) = Ok d"
    using inmem_backend.inmem_get [OF ib assms(6)] assms(4) by (simp add: inmemory_Cache_def)
  then have "ds_disputes st' = gc_Set gc now (ds_disputes st) (big_String reqID) (Val (d\<lparr>dp_Finished := True\<rparr>)) NoExpiration"
    using assms(2,3,5) by (auto simp: onDisputeFinishTimer_def inmemory_Cache_def inmem_Store_def split: res.splits)
  then have "gc_Get gc later (ds_disputes st') (big_String reqID) = Some (Val (d\<lparr>dp_Finished := True\<rparr>))"
    by (simp add: go_cache.get_set [OF assms(1)] lifetime_def NoExpiration_def DefaultExpiration_def expired_def)
  then show ?thesis
    using assms(2) by (simp add: onDisputeFinishTimer_def inmemory_Cache_def inmem_Get_def inmem_Get_into_def)
qed

definition demo_disputed ::
  "(Submission iface ecache, Dispute iface ecache, mem_value ecache) dispute_state" where
  "demo_disputed = store_dispute demo_disputes 0 0
     (wrapDispute \<lparr>nd_Dhash = [3], nd_RequestID = 12, nd_Miner = [9], nd_DisputeInitiator = [1]\<rparr>) demo_dispute_state"

end
