(* ===== verification/Signatures.thy ===== *)
theory Signatures
  imports Dione_Prelude
begin

text \<open>
  Signatures as values and their two encodings (\<open>types/signature.go\<close>), the registry of
  signature schemes (\<open>sigs/sigs.go\<close>) and the two schemes (\<open>sigs/ed25519\<close>, \<open>sigs/secp\<close>).

  A writer is a state with a function that appends bytes and may fail. The CBOR headers of
  cbor-gen are the record \<open>cbg\<close>. The curve arithmetic is the record \<open>curves\<close>; the layout of an
  Ed25519 private key (seed, then public key) is Go's \<open>crypto/ed25519\<close>, and so is the length
  check of its \<open>Sign\<close>.
\<close>

section \<open>Signature values\<close>

definition SigTypeUnknown :: u8 where "SigTypeUnknown = 255"

definition SigTypeSecp256k1 :: u8 where "SigTypeSecp256k1 = 1"

definition SigTypeBLS :: u8 where "SigTypeBLS = 2"

definition SigTypeEd25519 :: u8 where "SigTypeEd25519 = 3"

lemmas sigtype_defs = SigTypeUnknown_def SigTypeSecp256k1_def SigTypeBLS_def SigTypeEd25519_def

definition SigType_Name :: "u8 \<Rightarrow> string res" where
  "SigType_Name t =
     (if t = SigTypeUnknown then Ok ''unknown''
      else if t = SigTypeEd25519 then Ok ''ed25519''
      else if t = SigTypeSecp256k1 then Ok ''secp256k1''
      else if t = SigTypeBLS then Ok ''bls''
      else Err (Errorf ''invalid signature type''))"

definition SignatureMaxLength :: nat where "SignatureMaxLength = 200"

record Signature =
  sg_Type :: u8
  sg_Data :: bytes

definition Signature_Equals :: "Signature option \<Rightarrow> Signature option \<Rightarrow> bool" where
  "Signature_Equals s o' =
     (case s of None \<Rightarrow> o' = None
      | Some s \<Rightarrow> (case o' of None \<Rightarrow> False
          | Some o' \<Rightarrow> sg_Type s = sg_Type o' \<and> sg_Data s = sg_Data o'))"

type_synonym 'w writer = "bytes \<Rightarrow> 'w \<Rightarrow> 'w \<times> unit res"

record cbg =
  cbg_CborNull :: bytes
  cbg_MajByteString :: u8
  cbg_MajArray :: u8
  cbg_CborEncodeMajorType :: "u8 \<Rightarrow> nat \<Rightarrow> bytes"
  cbg_CborReadHeader :: "bytes \<Rightarrow> (u8 \<times> nat \<times> bytes) res"

text \<open>The writes of \<open>MarshalCBOR\<close>, one after the other, until one fails.\<close>

fun write_all :: "'w writer \<Rightarrow> bytes list \<Rightarrow> 'w \<Rightarrow> 'w \<times> unit res" where
  "write_all wr [] w = (w, Ok ())"
| "write_all wr (bs # bss) w =
     (case wr bs w of (w', Ok _) \<Rightarrow> write_all wr bss w' | (w', r) \<Rightarrow> (w', r))"

definition Signature_MarshalCBOR :: "cbg \<Rightarrow> 'w writer \<Rightarrow> Signature option \<Rightarrow> 'w \<Rightarrow> 'w \<times> unit res" where
  "Signature_MarshalCBOR G wr s w =
     (case s of
        None \<Rightarrow> write_all wr [cbg_CborNull G] w
      | Some s \<Rightarrow> write_all wr
          [cbg_CborEncodeMajorType G (cbg_MajByteString G) (length (sg_Data s) + 1), [sg_Type s], sg_Data s] w)"

definition io_ReadFull :: "nat \<Rightarrow> bytes \<Rightarrow> (bytes \<times> bytes) res" where
  "io_ReadFull n bs = (if n \<le> length bs then Ok (take n bs, drop n bs) else Err (ExtErr ''unexpected EOF''))"

text \<open>The decoded signature and the rest of the input.\<close>

definition Signature_UnmarshalCBOR :: "cbg \<Rightarrow> bytes \<Rightarrow> (Signature \<times> bytes) res" where
  "Signature_UnmarshalCBOR G br =
     bind_res (cbg_CborReadHeader G br) (\<lambda>(maj, l, br1).
     bind_res (guard_res (maj = cbg_MajByteString G) ''not a byte string'') (\<lambda>_.
     bind_res (guard_res (l \<le> SignatureMaxLength) ''string too long'') (\<lambda>_.
     bind_res (guard_res (l \<noteq> 0) ''string empty'') (\<lambda>_.
     bind_res (io_ReadFull l br1) (\<lambda>(buf, br2).
     case buf of
       [] \<Rightarrow> Panic
     | t # dat \<Rightarrow>
         if t = SigTypeEd25519 \<or> t = SigTypeSecp256k1 \<or> t = SigTypeBLS
         then Ok (\<lparr>sg_Type = t, sg_Data = dat\<rparr>, br2)
         else Err (Errorf ''invalid signature type in cbor input''))))))"

definition Signature_MarshalBinary :: "Signature \<Rightarrow> bytes" where
  "Signature_MarshalBinary s = sg_Type s # sg_Data s"

definition Signature_UnmarshalBinary :: "bytes \<Rightarrow> Signature res" where
  "Signature_UnmarshalBinary bs =
     (if SignatureMaxLength < length bs then Err (Errorf ''invalid signature bytes, too long'')
      else case bs of
        [] \<Rightarrow> Err (Errorf ''invalid signature bytes of length 0'')
      | t # dat \<Rightarrow> Ok
          \<lparr>sg_Type = (if t = SigTypeEd25519 \<or> t = SigTypeSecp256k1 \<or> t = SigTypeBLS then t else SigTypeUnknown),
           sg_Data = dat\<rparr>)"

section \<open>Registry of schemes\<close>

record SigShim =
  sh_GenPrivate :: "bytes res"
  sh_ToPublic :: "bytes \<Rightarrow> bytes res"
  sh_Sign :: "bytes \<Rightarrow> bytes \<Rightarrow> bytes res"
  sh_Verify :: "bytes \<Rightarrow> bytes \<Rightarrow> bytes \<Rightarrow> unit res"

type_synonym sig_registry = "u8 \<Rightarrow> SigShim option"

definition RegisterSignature :: "u8 \<Rightarrow> SigShim \<Rightarrow> sig_registry \<Rightarrow> sig_registry" where
  "RegisterSignature typ vs sigs = sigs(typ := Some vs)"

definition sigs_Sign :: "sig_registry \<Rightarrow> u8 \<Rightarrow> bytes \<Rightarrow> bytes \<Rightarrow> Signature res" where
  "sigs_Sign sigs sigType privkey msg =
     (case sigs sigType of
        None \<Rightarrow> Err (Errorf ''cannot sign message with signature of unsupported type'')
      | Some sv \<Rightarrow> bind_res (sh_Sign sv privkey msg) (\<lambda>sb. Ok \<lparr>sg_Type = sigType, sg_Data = sb\<rparr>))"

definition sigs_Verify :: "sig_registry \<Rightarrow> Signature option \<Rightarrow> bytes \<Rightarrow> bytes \<Rightarrow> unit res" where
  "sigs_Verify sigs sig addrByte msg =
     (case sig of
        None \<Rightarrow> Err (Errorf ''signature is nil'')
      | Some sig \<Rightarrow> (case sigs (sg_Type sig) of
            None \<Rightarrow> Err (Errorf ''cannot verify signature of unsupported type'')
          | Some sv \<Rightarrow> sh_Verify sv (sg_Data sig) addrByte msg))"

definition sigs_Generate :: "sig_registry \<Rightarrow> u8 \<Rightarrow> bytes res" where
  "sigs_Generate sigs sigType =
     (case sigs sigType of
        None \<Rightarrow> Err (Errorf ''cannot generate private key of unsupported type'')
      | Some sv \<Rightarrow> sh_GenPrivate sv)"

definition sigs_ToPublic :: "sig_registry \<Rightarrow> u8 \<Rightarrow> bytes \<Rightarrow> bytes res" where
  "sigs_ToPublic sigs sigType pk =
     (case sigs sigType of
        None \<Rightarrow> Err (Errorf ''cannot generate public key of unsupported type'')
      | Some sv \<Rightarrow> sh_ToPublic sv pk)"

definition CheckTaskSignature :: "'task \<Rightarrow> 'addr \<Rightarrow> unit res" where
  "CheckTaskSignature task worker = Ok ()"

section \<open>Schemes\<close>

record curves =
  cu_GenerateKey :: "(bytes \<times> bytes) res"
  cu_sign :: "bytes \<Rightarrow> bytes \<Rightarrow> bytes"
  cu_Verify :: "bytes \<Rightarrow> bytes \<Rightarrow> bytes \<Rightarrow> bool"
  cu_IDFromBytes :: "bytes \<Rightarrow> peer_id res"
  cu_ExtractRaw :: "peer_id \<Rightarrow> bytes res"
  cu_secp_GenerateKey :: "bytes res"
  cu_secp_PublicKey :: "bytes \<Rightarrow> bytes"
  cu_secp_Sign :: "bytes \<Rightarrow> bytes \<Rightarrow> bytes res"
  cu_secp_EcRecover :: "bytes \<Rightarrow> bytes \<Rightarrow> bytes res"
  cu_secp_Address :: "bytes \<Rightarrow> string res"
  cu_Blake2b :: "bytes \<Rightarrow> bytes"

text \<open>
  Go's \<open>crypto/ed25519\<close>: a private key has 64 bytes, \<open>Seed\<close> is its first half, \<open>Public\<close> copies
  what lies behind the first half into 32 bytes; \<open>Sign\<close> and \<open>Verify\<close> panic on a key of
  another length.
\<close>

definition ed_Seed :: "bytes \<Rightarrow> bytes res" where
  "ed_Seed priv = (if length priv < 32 then Panic else Ok (take 32 priv))"

definition ed_Public :: "bytes \<Rightarrow> bytes res" where
  "ed_Public priv = (if length priv < 32 then Panic else Ok (take 32 (drop 32 priv @ replicate 32 0)))"

definition ed_Sign :: "curves \<Rightarrow> bytes \<Rightarrow> bytes \<Rightarrow> bytes res" where
  "ed_Sign U priv msg = (if length priv \<noteq> 64 then Panic else Ok (cu_sign U priv msg))"

definition ed_Verify :: "curves \<Rightarrow> bytes \<Rightarrow> bytes \<Rightarrow> bytes \<Rightarrow> bool res" where
  "ed_Verify U pub msg sig = (if length pub \<noteq> 32 then Panic else Ok (cu_Verify U pub msg sig))"

definition ed25519_GenPrivate :: "curves \<Rightarrow> bytes res" where
  "ed25519_GenPrivate U = bind_res (cu_GenerateKey U) (\<lambda>(_, privKey). ed_Seed privKey)"

definition ed25519_ToPublic :: "bytes \<Rightarrow> bytes res" where
  "ed25519_ToPublic priv = ed_Public priv"

definition ed25519_Sign :: "curves \<Rightarrow> bytes \<Rightarrow> bytes \<Rightarrow> bytes res" where
  "ed25519_Sign U p msg = ed_Sign U p msg"

definition ed25519_Verify :: "curves \<Rightarrow> bytes \<Rightarrow> bytes \<Rightarrow> bytes \<Rightarrow> unit res" where
  "ed25519_Verify U sig a msg =
     bind_res (cu_IDFromBytes U a) (\<lambda>i.
     bind_res (cu_ExtractRaw U i) (\<lambda>pKeyRaw.
     bind_res (ed_Verify U pKeyRaw msg sig) (\<lambda>valid.
       guard_res valid ''failed to verify signature'')))"

definition ed25519Signer :: "curves \<Rightarrow> SigShim" where
  "ed25519Signer U = \<lparr>sh_GenPrivate = ed25519_GenPrivate U, sh_ToPublic = ed25519_ToPublic,
     sh_Sign = ed25519_Sign U, sh_Verify = ed25519_Verify U\<rparr>"

definition ed25519_init :: "curves \<Rightarrow> sig_registry \<Rightarrow> sig_registry" where
  "ed25519_init U = RegisterSignature SigTypeEd25519 (ed25519Signer U)"

definition secp_GenPrivate :: "curves \<Rightarrow> bytes res" where
  "secp_GenPrivate U = cu_secp_GenerateKey U"

definition secp_ToPublic :: "curves \<Rightarrow> bytes \<Rightarrow> bytes res" where
  "secp_ToPublic U pk = Ok (cu_secp_PublicKey U pk)"

definition secp_Sign :: "curves \<Rightarrow> bytes \<Rightarrow> bytes \<Rightarrow> bytes res" where
  "secp_Sign U pk msg = cu_secp_Sign U pk (cu_Blake2b U msg)"

definition secp_Verify :: "curves \<Rightarrow> bytes \<Rightarrow> bytes \<Rightarrow> bytes \<Rightarrow> unit res" where
  "secp_Verify U sig a msg =
     bind_res (cu_secp_EcRecover U (cu_Blake2b U msg) sig) (\<lambda>pubk.
     bind_res (cu_secp_Address U pubk) (\<lambda>maybeaddr.
     bind_res (cu_secp_Address U a) (\<lambda>actualAddr.
       guard_res (actualAddr = maybeaddr) ''signature did not match'')))"

definition secpSigner :: "curves \<Rightarrow> SigShim" where
  "secpSigner U = \<lparr>sh_GenPrivate = secp_GenPrivate U, sh_ToPublic = secp_ToPublic U,
     sh_Sign = secp_Sign U, sh_Verify = secp_Verify U\<rparr>"

definition secp_init :: "curves \<Rightarrow> sig_registry \<Rightarrow> sig_registry" where
  "secp_init U = RegisterSignature SigTypeSecp256k1 (secpSigner U)"

section \<open>Lemmas\<close>

text \<open>Reading a header gives back what was written and leaves what follows it.\<close>

locale cbg_headers =
  fixes G :: cbg
  assumes read_header: "maj < 8 \<Longrightarrow> n < 2 ^ 64 \<Longrightarrow>
      cbg_CborReadHeader G (cbg_CborEncodeMajorType G maj n @ rest) = Ok (maj, n, rest)"
    and byte_string: "cbg_MajByteString G < 8"
begin

lemma read_data_header:
  assumes "length dat < SignatureMaxLength"
  shows "cbg_CborReadHeader G (cbg_CborEncodeMajorType G (cbg_MajByteString G) (Suc (length dat)) @ rest)
    = Ok (cbg_MajByteString G, Suc (length dat), rest)"
  using assms by (intro read_header byte_string) (simp add: SignatureMaxLength_def)

lemma unmarshal_marshalled:
  assumes "sg_Type s = SigTypeEd25519 \<or> sg_Type s = SigTypeSecp256k1 \<or> sg_Type s = SigTypeBLS"
    and "length (sg_Data s) < SignatureMaxLength"
  shows "Signature_UnmarshalCBOR G (cbg_CborEncodeMajorType G (cbg_MajByteString G) (length (sg_Data s) + 1)
      @ sg_Type s # sg_Data s @ rest) = Ok (s, rest)"
  using assms
  by (auto simp: Signature_UnmarshalCBOR_def read_data_header io_ReadFull_def guard_res_def)

end

definition buffer :: "bytes writer" where
  "buffer bs w = (w @ bs, Ok ())"

text \<open>
  The headers of RFC 8949: the major type in the three high bits of the first byte, and the
  length in the low five or, big-endian, in the 1, 2, 4 or 8 bytes that follow.
\<close>

definition cbor_header :: "u8 \<Rightarrow> nat \<Rightarrow> bytes" where
  "cbor_header maj n =
     (if n < 24 then [of_nat (unat maj * 32 + n)]
      else if n < 2 ^ 8 then of_nat (unat maj * 32 + 24) # be_list 1 n
      else if n < 2 ^ 16 then of_nat (unat maj * 32 + 25) # be_list 2 n
      else if n < 2 ^ 32 then of_nat (unat maj * 32 + 26) # be_list 4 n
      else of_nat (unat maj * 32 + 27) # be_list 8 n)"

definition cbor_long :: "u8 \<Rightarrow> nat \<Rightarrow> bytes \<Rightarrow> (u8 \<times> nat \<times> bytes) res" where
  "cbor_long maj k bs = bind_res (io_ReadFull k bs) (\<lambda>(l, rest). Ok (maj, be_nat l, rest))"

definition cbor_read :: "bytes \<Rightarrow> (u8 \<times> nat \<times> bytes) res" where
  "cbor_read bs =
     (case bs of
        [] \<Rightarrow> Err (ExtErr ''EOF'')
      | b # bs \<Rightarrow>
          let maj = of_nat (unat b div 32); low = unat b mod 32 in
          if low < 24 then Ok (maj, low, bs)
          else if low = 24 then cbor_long maj 1 bs
          else if low = 25 then cbor_long maj 2 bs
          else if low = 26 then cbor_long maj 4 bs
          else if low = 27 then cbor_long maj 8 bs
          else Err (ExtErr ''invalid header''))"

definition ref_cbg :: cbg where
  "ref_cbg = \<lparr>cbg_CborNull = [246], cbg_MajByteString = 2, cbg_MajArray = 4,
     cbg_CborEncodeMajorType = cbor_header, cbg_CborReadHeader = cbor_read\<rparr>"

lemma first_byte:
  assumes "unat maj < 8" "low < 32"
  shows "unat (of_nat (unat (maj :: u8) * 32 + low) :: u8) div 32 = unat maj"
    "unat (of_nat (unat maj * 32 + low) :: u8) mod 32 = low"
proof -
  have "unat (of_nat (unat maj * 32 + low) :: u8) = unat maj * 32 + low"
    unfolding unat_of_nat using assms by simp
  then show "unat (of_nat (unat maj * 32 + low) :: u8) div 32 = unat maj"
    "unat (of_nat (unat maj * 32 + low) :: u8) mod 32 = low"
    using assms by simp_all
qed

lemma cbor_long_be:
  assumes "n < 256 ^ k"
  shows "cbor_long maj k (be_list k n @ rest) = Ok (maj, n, rest)"
  using be_nat_bytes [OF assms] by (simp add: cbor_long_def io_ReadFull_def)

lemma cbor_read_header:
  assumes "maj < 8" "n < 2 ^ 64"
  shows "cbor_read (cbor_header maj n @ rest) = Ok (maj, n, rest)"
proof -
  have m: "unat maj < 8" using assms(1) by (simp add: word_less_nat_alt)
  have fit: "n < 2 ^ 8 \<Longrightarrow> n < 256 ^ 1" "n < 2 ^ 16 \<Longrightarrow> n < 256 ^ 2" "n < 2 ^ 32 \<Longrightarrow> n < 256 ^ 4" "n < 256 ^ 8"
    using assms(2) by simp_all
  have short: "cbor_read (of_nat (unat maj * 32 + low) # bs) =
      (if low < 24 then Ok (maj, low, bs) else if low = 24 then cbor_long maj 1 bs
       else if low = 25 then cbor_long maj 2 bs else if low = 26 then cbor_long maj 4 bs else cbor_long maj 8 bs)"
    if "low < 28" for low bs
    using that first_byte [OF m, of low] unfolding cbor_read_def Let_def list.case by auto
  consider "n < 24" | "24 \<le> n" "n < 2 ^ 8" | "2 ^ 8 \<le> n" "n < 2 ^ 16" | "2 ^ 16 \<le> n" "n < 2 ^ 32" | "2 ^ 32 \<le> n"
    by linarith
  then show ?thesis
  proof cases
    case 1
    then have "cbor_header maj n @ rest = of_nat (unat maj * 32 + n) # rest" by (simp add: cbor_header_def)
    with short [of n rest] 1 show ?thesis by (simp del: of_nat_add of_nat_mult)
  next
    case 2
    then have "cbor_header maj n @ rest = of_nat (unat maj * 32 + 24) # be_list 1 n @ rest"
      unfolding cbor_header_def by (simp del: of_nat_add of_nat_mult be_list.simps)
    with short [of 24] cbor_long_be [OF fit(1)] 2 show ?thesis by (simp only:) simp
  next
    case 3
    then have "cbor_header maj n @ rest = of_nat (unat maj * 32 + 25) # be_list 2 n @ rest"
      unfolding cbor_header_def by (simp del: of_nat_add of_nat_mult)
    with short [of 25] cbor_long_be [OF fit(2)] 3 show ?thesis by (simp only:) simp
  next
    case 4
    then have "cbor_header maj n @ rest = of_nat (unat maj * 32 + 26) # be_list 4 n @ rest"
      unfolding cbor_header_def by (simp del: of_nat_add of_nat_mult)
    with short [of 26] cbor_long_be [OF fit(3)] 4 show ?thesis by (simp only:) simp
  next
    case 5
    then have "cbor_header maj n @ rest = of_nat (unat maj * 32 + 27) # be_list 8 n @ rest"
      unfolding cbor_header_def by (simp del: of_nat_add of_nat_mult)
    with short [of 27] cbor_long_be [OF fit(4)] show ?thesis by (simp only:) simp
  qed
qed

interpretation ref_headers: cbg_headers ref_cbg
  by unfold_locales (simp_all add: ref_cbg_def cbor_read_header)

text \<open>The private keys that \<open>GenPrivate\<close> returns are seeds: too short to sign with, and all with
  the same public key.\<close>

lemma generated_ed25519_key:
  assumes "ed25519_GenPrivate U = Ok k"
  shows "ed25519_ToPublic k = Ok (replicate 32 0)" "ed25519_Sign U k msg = Panic"
proof -
  have "length k = 32" using assms by (auto simp: ed25519_GenPrivate_def ed_Seed_def res_simps split: if_splits)
  then show "ed25519_ToPublic k = Ok (replicate 32 0)" "ed25519_Sign U k msg = Panic"
    by (simp_all add: ed25519_ToPublic_def ed_Public_def ed25519_Sign_def ed_Sign_def)
qed

section \<open>Properties\<close>

text \<open>Both encodings of a signature of a known type with fewer than 200 bytes of data round
  trip, the CBOR one also when more input follows; a signature of any other type decodes to
  the unknown type from its binary form and is refused from its CBOR form.\<close>

lemma signature_roundtrip:
  assumes "cbg_headers G" "length (sg_Data s) < 200"
  shows "(if sg_Type s \<in> {SigTypeEd25519, SigTypeSecp256k1, SigTypeBLS}
     then Signature_UnmarshalBinary (Signature_MarshalBinary s) = Ok s
       \<and> Signature_UnmarshalCBOR G (fst (Signature_MarshalCBOR G buffer (Some s) []) @ rest) = Ok (s, rest)
     else Signature_UnmarshalBinary (Signature_MarshalBinary s) = Ok (s\<lparr>sg_Type := SigTypeUnknown\<rparr>)
       \<and> Signature_UnmarshalCBOR G (fst (Signature_MarshalCBOR G buffer (Some s) []) @ rest)
           = Err (Errorf ''invalid signature type in cbor input''))"
proof (cases "sg_Type s \<in> {SigTypeEd25519, SigTypeSecp256k1, SigTypeBLS}")
  case True
  then show ?thesis
    using cbg_headers.unmarshal_marshalled [OF assms(1), of s rest] assms(2)
    by (auto simp: Signature_MarshalCBOR_def buffer_def Signature_UnmarshalBinary_def Signature_MarshalBinary_def
        SignatureMaxLength_def)
next
  case False
  then show ?thesis
    using assms(2) cbg_headers.read_data_header [OF assms(1), of "sg_Data s" "sg_Type s # sg_Data s @ rest"]
    by (auto simp: Signature_MarshalCBOR_def buffer_def Signature_UnmarshalBinary_def Signature_MarshalBinary_def
        SignatureMaxLength_def Signature_UnmarshalCBOR_def io_ReadFull_def guard_res_def)
qed

end
