(* ===== verification/Json_Values.thy ===== *)
theory Json_Values
  imports Dione_Prelude
begin

text \<open>
  What the program uses of Go's \<open>encoding/json\<close> and \<open>encoding/base64\<close>: JSON values, the
  decoding of a value into a field of type \<open>string\<close>, \<open>int64\<close> or \<open>[]byte\<close> and of an object into
  a struct. The text of a value is left to the two functions of the record \<open>json_text\<close>.
\<close>

datatype json =
    JNull
  | JBool bool
  | JNumber int
  | JFloat string
  | JString string
  | JArray "json list"
  | JObject "(string \<times> json) list"

record json_text =
  jt_Marshal :: "json \<Rightarrow> bytes"
  jt_Unmarshal :: "bytes \<Rightarrow> json res"

definition type_error :: go_error where
  "type_error = ExtErr ''json: cannot unmarshal''"

section \<open>Base64\<close>

definition b64_digit :: "char \<Rightarrow> nat option" where
  "b64_digit c =
     (let n = of_char c :: nat in
      if 65 \<le> n \<and> n \<le> 90 then Some (n - 65)
      else if 97 \<le> n \<and> n \<le> 122 then Some (n - 97 + 26)
      else if 48 \<le> n \<and> n \<le> 57 then Some (n - 48 + 52)
      else if n = 43 then Some 62
      else if n = 47 then Some 63
      else None)"

definition b64_char :: "nat \<Rightarrow> char" where
  "b64_char v = char_of (if v < 26 then v + 65 else if v < 52 then v - 26 + 97 else if v < 62 then v - 52 + 48
     else if v = 62 then 43 else 47)"

text \<open>A group of four digits holds three bytes; the last one may be padded.\<close>

definition b64_quad :: "nat \<Rightarrow> nat \<Rightarrow> nat \<Rightarrow> nat \<Rightarrow> bytes" where
  "b64_quad a b c d = [of_nat (a * 4 + b div 16), of_nat (b mod 16 * 16 + c div 4), of_nat (c mod 4 * 64 + d)]"

fun b64_groups :: "string \<Rightarrow> bytes option" where
  "b64_groups [] = Some []"
| "b64_groups (w # x # y # z # rest) =
     (case (b64_digit w, b64_digit x) of
        (Some a, Some b) \<Rightarrow>
          (case (b64_digit y, b64_digit z) of
             (Some c, Some d) \<Rightarrow> map_option (\<lambda>bs. b64_quad a b c d @ bs) (b64_groups rest)
           | (Some c, None) \<Rightarrow> if z = CHR ''='' \<and> rest = [] then Some (take 2 (b64_quad a b c 0)) else None
           | (None, _) \<Rightarrow> if y = CHR ''='' \<and> z = CHR ''='' \<and> rest = [] then Some (take 1 (b64_quad a b 0 0)) else None)
      | _ \<Rightarrow> None)"
| "b64_groups _ = None"

text \<open>Line ends are skipped.\<close>

definition b64_decode :: "string \<Rightarrow> bytes option" where
  "b64_decode s = b64_groups (filter (\<lambda>c. (of_char c :: nat) \<noteq> 10 \<and> (of_char c :: nat) \<noteq> 13) s)"

fun b64_encode :: "bytes \<Rightarrow> string" where
  "b64_encode [] = []"
| "b64_encode [x] =
     [b64_char (unat x div 4), b64_char (unat x mod 4 * 16), CHR ''='', CHR ''='']"
| "b64_encode [x, y] =
     [b64_char (unat x div 4), b64_char (unat x mod 4 * 16 + unat y div 16), b64_char (unat y mod 16 * 4), CHR ''='']"
| "b64_encode (x # y # z # rest) =
     b64_char (unat x div 4) # b64_char (unat x mod 4 * 16 + unat y div 16)
       # b64_char (unat y mod 16 * 4 + unat z div 64) # b64_char (unat z mod 64) # b64_encode rest"

section \<open>Fields\<close>

text \<open>Decoding null leaves a field as it is; here it is the zero value.\<close>

definition json_string :: "json \<Rightarrow> string res" where
  "json_string v = (case v of JString s \<Rightarrow> Ok s | JNull \<Rightarrow> Ok [] | _ \<Rightarrow> Err type_error)"

definition json_int64 :: "json \<Rightarrow> int res" where
  "json_int64 v =
     (case v of
        JNumber n \<Rightarrow> if - (2 ^ 63) \<le> n \<and> n < 2 ^ 63 then Ok n else Err type_error
      | JNull \<Rightarrow> Ok 0
      | _ \<Rightarrow> Err type_error)"

definition json_uint8 :: "json \<Rightarrow> u8 res" where
  "json_uint8 v =
     (case v of
        JNumber n \<Rightarrow> if 0 \<le> n \<and> n < 256 then Ok (of_int n) else Err type_error
      | JNull \<Rightarrow> Ok 0
      | _ \<Rightarrow> Err type_error)"

fun collect_res :: "'a res list \<Rightarrow> 'a list res" where
  "collect_res [] = Ok []"
| "collect_res (r # rs) = bind_res r (\<lambda>x. bind_res (collect_res rs) (\<lambda>xs. Ok (x # xs)))"

definition json_bytes :: "json \<Rightarrow> bytes res" where
  "json_bytes v =
     (case v of
        JString s \<Rightarrow> (case b64_decode s of None \<Rightarrow> Err (ExtErr ''illegal base64 data'') | Some bs \<Rightarrow> Ok bs)
      | JArray vs \<Rightarrow> collect_res (map json_uint8 vs)
      | JNull \<Rightarrow> Ok []
      | _ \<Rightarrow> Err type_error)"

definition ascii_lower :: "char \<Rightarrow> char" where
  "ascii_lower c = (let n = of_char c :: nat in if 65 \<le> n \<and> n \<le> 90 then char_of (n + 32) else c)"

text \<open>Field names are compared without case. Each member of the object that names a field
  is decoded into it, so the last one counts.\<close>

definition fold_eq :: "string \<Rightarrow> string \<Rightarrow> bool" where
  "fold_eq s t \<longleftrightarrow> map ascii_lower s = map ascii_lower t"

fun json_members :: "(string \<Rightarrow> json \<Rightarrow> 'r \<Rightarrow> 'r res) \<Rightarrow> (string \<times> json) list \<Rightarrow> 'r \<Rightarrow> 'r res" where
  "json_members f [] r = Ok r"
| "json_members f ((k, v) # ms) r = bind_res (if v = JNull then Ok r else f k v r) (json_members f ms)"

definition json_struct :: "(string \<Rightarrow> json \<Rightarrow> 'r \<Rightarrow> 'r res) \<Rightarrow> 'r \<Rightarrow> json \<Rightarrow> 'r res" where
  "json_struct f zero v = (case v of JObject ms \<Rightarrow> json_members f ms zero | JNull \<Rightarrow> Ok zero | _ \<Rightarrow> Err type_error)"

section \<open>Lemmas\<close>

lemma b64_digit_char [simp]: "v < 64 \<Longrightarrow> b64_digit (b64_char v) = Some v"
  by (auto simp: b64_digit_def b64_char_def Let_def)

lemma b64_digit_pad [simp]: "b64_digit CHR ''='' = None"
  by (simp add: b64_digit_def)

lemma b64_char_no_line_end: "v < 64 \<Longrightarrow> (of_char (b64_char v) :: nat) \<noteq> 10 \<and> (of_char (b64_char v) :: nat) \<noteq> 13"
  by (auto simp: b64_char_def)

lemma byte_lt: "unat (b :: byte) < 256"
  using unsigned_less [of b, where ?'a = nat] by simp

lemma b64_sextets:
  "unat (x :: byte) div 4 < 64" "unat x mod 4 * 16 < 64" "unat x mod 4 * 16 + unat (y :: byte) div 16 < 64"
  "unat y mod 16 * 4 < 64" "unat y mod 16 * 4 + unat (z :: byte) div 64 < 64" "unat z mod 64 < 64"
  using byte_lt [of x] byte_lt [of y] byte_lt [of z] by simp_all

lemma of_nat_byte: "n = unat (b :: byte) \<Longrightarrow> of_nat n = b"
  by simp

lemma digits: "b < m \<Longrightarrow> (a * m + b) div m = a" "b < m \<Longrightarrow> (a * m + b) mod m = (b :: nat)"
  by simp_all

lemma b64_quad_bytes:
  "b64_quad (unat (x :: byte) div 4) (unat x mod 4 * 16 + unat (y :: byte) div 16)
     (unat y mod 16 * 4 + unat (z :: byte) div 64) (unat z mod 64) = [x, y, z]"
proof -
  have "unat x div 4 * 4 + (unat x mod 4 * 16 + unat y div 16) div 16 = unat x"
    "(unat x mod 4 * 16 + unat y div 16) mod 16 * 16 + (unat y mod 16 * 4 + unat z div 64) div 4 = unat y"
    "(unat y mod 16 * 4 + unat z div 64) mod 4 * 64 + unat z mod 64 = unat z"
    using digits [of "unat y div 16" 16] digits [of "unat z div 64" 4] byte_lt [of y] byte_lt [of z] by simp_all
  then show ?thesis unfolding b64_quad_def by (simp only: list.inject of_nat_byte simp_thms)
qed

lemma b64_groups_encode: "b64_groups (b64_encode bs) = Some bs"
proof (induction bs rule: b64_encode.induct)
  case (2 x)
  show ?case using b64_quad_bytes [of x 0 0] by (simp add: b64_sextets)
next
  case (3 x y)
  show ?case using b64_quad_bytes [of x y 0] by (simp add: b64_sextets)
next
  case (4 x y z rest)
  then show ?case by (simp add: b64_sextets b64_quad_bytes del: of_nat_add of_nat_mult)
qed simp

lemma b64_encode_no_line_end:
  "c \<in> set (b64_encode bs) \<Longrightarrow> (of_char c :: nat) \<noteq> 10 \<and> (of_char c :: nat) \<noteq> 13"
  by (induction bs rule: b64_encode.induct) (auto simp: b64_char_no_line_end b64_sextets)

lemma b64_roundtrip [simp]: "b64_decode (b64_encode bs) = Some bs"
proof -
  have "filter (\<lambda>c. (of_char c :: nat) \<noteq> 10 \<and> (of_char c :: nat) \<noteq> 13) (b64_encode bs) = b64_encode bs"
    using b64_encode_no_line_end by (simp add: filter_id_conv)
  then show ?thesis by (simp add: b64_decode_def b64_groups_encode)
qed

end
