(* ===== verification/Wallet.thy ===== *)
theory Wallet
  imports Signatures Json_Values "HOL-Library.AList"
begin

text \<open>
  Keys, the key store and the local wallet (\<open>types/keystore.go\<close>, \<open>wallet\<close>). The key store is
  an interface, the record \<open>KeyStore\<close> with the contract \<open>key_store\<close>; the in-memory one is
  interpreted into it. libp2p's public keys and peer ids and go-address' prefix are the record
  \<open>wallet_lib\<close>. The mutex of the wallet is implicit in the sequential model.
\<close>

section \<open>Keys\<close>

definition KTEd25519 :: string where "KTEd25519 = ''ed25519''"

record KeyInfo =
  ki_Type :: string
  ki_PrivateKey :: bytes

definition zero_KeyInfo :: KeyInfo where
  "zero_KeyInfo = \<lparr>ki_Type = [], ki_PrivateKey = []\<rparr>"

definition KeyType_UnmarshalJSON :: "json_text \<Rightarrow> bytes \<Rightarrow> string res" where
  "KeyType_UnmarshalJSON J bb =
     (case bind_res (jt_Unmarshal J bb) json_string of
        Ok s \<Rightarrow> Ok s
      | Panic \<Rightarrow> Panic
      | Err _ \<Rightarrow>
          bind_res (wrap_res ''could not unmarshal KeyType either as string nor integer''
            (bind_res (jt_Unmarshal J bb) json_uint8)) (\<lambda>bst.
          if bst = SigTypeEd25519 then Ok KTEd25519 else Err (Errorf ''unknown sigtype'')))"

record wallet_lib =
  wl_UnmarshalEd25519PublicKey :: "bytes \<Rightarrow> bytes res"
  wl_IDFromPublicKey :: "bytes \<Rightarrow> peer_id res"
  wl_String :: "peer_id \<Rightarrow> string"
  wl_TestnetPrefix :: string

record Key =
  k_KeyInfo :: KeyInfo
  k_PublicKey :: bytes
  k_Address :: peer_id

definition ActSigType :: "string \<Rightarrow> u8" where
  "ActSigType typ = (if typ = KTEd25519 then SigTypeEd25519 else SigTypeUnknown)"

definition NewKey :: "wallet_lib \<Rightarrow> sig_registry \<Rightarrow> KeyInfo \<Rightarrow> Key res" where
  "NewKey L sigs keyinfo =
     bind_res (sigs_ToPublic sigs (ActSigType (ki_Type keyinfo)) (ki_PrivateKey keyinfo)) (\<lambda>pub.
     if ki_Type keyinfo = KTEd25519
     then bind_res (wrap_res ''failed to unmarshal ed25519 public key'' (wl_UnmarshalEd25519PublicKey L pub)) (\<lambda>pubKey.
          bind_res (wrap_res ''converting Secp256k1 to address'' (wl_IDFromPublicKey L pubKey)) (\<lambda>addr.
            Ok \<lparr>k_KeyInfo = keyinfo, k_PublicKey = pub, k_Address = addr\<rparr>))
     else Err (Errorf ''unsupported key type''))"

definition GenerateKey :: "wallet_lib \<Rightarrow> sig_registry \<Rightarrow> string \<Rightarrow> Key res" where
  "GenerateKey L sigs typ =
     (if ActSigType typ = SigTypeUnknown then Err (Errorf ''unknown sig type'')
      else bind_res (sigs_Generate sigs (ActSigType typ)) (\<lambda>pk.
        NewKey L sigs \<lparr>ki_Type = typ, ki_PrivateKey = pk\<rparr>))"

section \<open>Key store\<close>

record 'k KeyStore =
  ks_List :: "'k \<Rightarrow> string list res"
  ks_Get :: "'k \<Rightarrow> string \<Rightarrow> KeyInfo res"
  ks_Put :: "'k \<Rightarrow> string \<Rightarrow> KeyInfo \<Rightarrow> 'k \<times> unit res"
  ks_Delete :: "'k \<Rightarrow> string \<Rightarrow> 'k \<times> unit res"

locale key_store =
  fixes KS :: "'k KeyStore"
  assumes get_put: "ks_Put KS k n ki = (k', Ok u) \<Longrightarrow> ks_Get KS k' m = (if m = n then Ok ki else ks_Get KS k m)"
    and get_delete: "ks_Delete KS k n = (k', Ok u) \<Longrightarrow>
      ks_Get KS k' m = (if m = n then Err ErrKeyInfoNotFound else ks_Get KS k m)"
    and list_get: "ks_List KS k = Ok ns \<Longrightarrow> n \<in> set ns \<longleftrightarrow> is_Ok (ks_Get KS k n)"
    and get_no_panic: "ks_Get KS k n \<noteq> Panic"

type_synonym mem_keys = "(string \<times> KeyInfo) list"

definition NewMemKeyStore :: mem_keys where
  "NewMemKeyStore = []"

definition mks_List :: "mem_keys \<Rightarrow> string list res" where
  "mks_List m = Ok (map fst m)"

definition mks_Get :: "mem_keys \<Rightarrow> string \<Rightarrow> KeyInfo res" where
  "mks_Get m k = (case map_of m k of None \<Rightarrow> Err ErrKeyInfoNotFound | Some ki \<Rightarrow> Ok ki)"

definition mks_Put :: "mem_keys \<Rightarrow> string \<Rightarrow> KeyInfo \<Rightarrow> mem_keys \<times> unit res" where
  "mks_Put m k ki = (AList.update k ki m, Ok ())"

definition mks_Delete :: "mem_keys \<Rightarrow> string \<Rightarrow> mem_keys \<times> unit res" where
  "mks_Delete m k = (AList.delete k m, Ok ())"

definition MemKeyStore :: "mem_keys KeyStore" where
  "MemKeyStore = \<lparr>ks_List = mks_List, ks_Get = mks_Get, ks_Put = mks_Put, ks_Delete = mks_Delete\<rparr>"

section \<open>Wallet\<close>

definition KNamePrefix :: string where "KNamePrefix = ''wallet-''"

definition KDefault :: string where "KDefault = ''default''"

text \<open>A wallet made from keys alone has no key store.\<close>

record 'k LocalWallet =
  lw_keys :: "peer_id \<Rightarrow> Key option"
  lw_keystore :: "'k option"

definition NewWallet :: "'k \<Rightarrow> 'k LocalWallet" where
  "NewWallet keystore = \<lparr>lw_keys = (\<lambda>_. None), lw_keystore = Some keystore\<rparr>"

definition KeyWallet :: "Key list \<Rightarrow> 'k LocalWallet" where
  "KeyWallet keys = \<lparr>lw_keys = fold (\<lambda>key m. m(k_Address key := Some key)) keys (\<lambda>_. None), lw_keystore = None\<rparr>"

text \<open>The text of a peer id is ASCII, so its runes are its characters.\<close>

definition swapMainnetForTestnetPrefix :: "wallet_lib \<Rightarrow> string \<Rightarrow> string res" where
  "swapMainnetForTestnetPrefix L addr =
     (case wl_TestnetPrefix L of
        [p] \<Rightarrow> (case addr of [] \<Rightarrow> Panic | _ # cs \<Rightarrow> Ok (p # cs))
      | _ \<Rightarrow> Err (Errorf ''unexpected prefix length''))"

definition tryFind :: "'k KeyStore \<Rightarrow> wallet_lib \<Rightarrow> 'k \<Rightarrow> peer_id \<Rightarrow> 'k \<times> KeyInfo res" where
  "tryFind KS L k addr =
     (case ks_Get KS k (KNamePrefix @ wl_String L addr) of
        Ok ki \<Rightarrow> (k, Ok ki)
      | Panic \<Rightarrow> (k, Panic)
      | Err e \<Rightarrow>
          if \<not> errors_Is e ErrKeyInfoNotFound then (k, Err e)
          else (case swapMainnetForTestnetPrefix L (wl_String L addr) of
              Err e \<Rightarrow> (k, Err e)
            | Panic \<Rightarrow> (k, Panic)
            | Ok tAddress \<Rightarrow> (case ks_Get KS k (KNamePrefix @ tAddress) of
                Err e \<Rightarrow> (k, Err e)
              | Panic \<Rightarrow> (k, Panic)
              | Ok ki \<Rightarrow> (case ks_Put KS k (KNamePrefix @ wl_String L addr) ki of
                  (k', Ok _) \<Rightarrow> (k', Ok ki)
                | (k', Err e) \<Rightarrow> (k', Err e)
                | (k', Panic) \<Rightarrow> (k', Panic)))))"

definition findKey ::
  "'k KeyStore \<Rightarrow> wallet_lib \<Rightarrow> sig_registry \<Rightarrow> 'k LocalWallet \<Rightarrow> peer_id \<Rightarrow> 'k LocalWallet \<times> Key option res" where
  "findKey KS L sigs w addr =
     (case lw_keys w addr of
        Some k \<Rightarrow> (w, Ok (Some k))
      | None \<Rightarrow> (case lw_keystore w of
          None \<Rightarrow> (w, Ok None)
        | Some store \<Rightarrow> (case tryFind KS L store addr of
            (store', r) \<Rightarrow>
              let w1 = w\<lparr>lw_keystore := Some store'\<rparr> in
              case r of
                Panic \<Rightarrow> (w1, Panic)
              | Err e \<Rightarrow> if errors_Is e ErrKeyInfoNotFound then (w1, Ok None)
                  else (w1, Err (Wrapf ''getting from keystore'' e))
              | Ok ki \<Rightarrow> (case NewKey L sigs ki of
                    Panic \<Rightarrow> (w1, Panic)
                  | Err e \<Rightarrow> (w1, Err (Wrapf ''decoding from keystore'' e))
                  | Ok k \<Rightarrow> (w1\<lparr>lw_keys := (lw_keys w1)(k_Address k := Some k)\<rparr>, Ok (Some k))))))"

definition wallet_Sign ::
  "'k KeyStore \<Rightarrow> wallet_lib \<Rightarrow> sig_registry \<Rightarrow> 'k LocalWallet \<Rightarrow> peer_id \<Rightarrow> bytes \<Rightarrow> 'k LocalWallet \<times> Signature res" where
  "wallet_Sign KS L sigs w addr msg =
     (case findKey KS L sigs w addr of
        (w', Err e) \<Rightarrow> (w', Err e)
      | (w', Panic) \<Rightarrow> (w', Panic)
      | (w', Ok None) \<Rightarrow> (w', Err (Wrapf ''failed to find private key'' ErrKeyInfoNotFound))
      | (w', Ok (Some k)) \<Rightarrow>
          (w', sigs_Sign sigs (ActSigType (ki_Type (k_KeyInfo k))) (ki_PrivateKey (k_KeyInfo k)) msg))"

text \<open>The remaining operations use the key store without a check for nil.\<close>

definition GetDefault ::
  "'k KeyStore \<Rightarrow> wallet_lib \<Rightarrow> sig_registry \<Rightarrow> 'k LocalWallet \<Rightarrow> peer_id res" where
  "GetDefault KS L sigs w =
     bind_res (deref (lw_keystore w)) (\<lambda>store.
     bind_res (wrap_res ''failed to get default key'' (ks_Get KS store KDefault)) (\<lambda>ki.
     bind_res (wrap_res ''failed to read default key from keystore'' (NewKey L sigs ki)) (\<lambda>k.
       Ok (k_Address k))))"

definition wallet_NewKey ::
  "'k KeyStore \<Rightarrow> wallet_lib \<Rightarrow> sig_registry \<Rightarrow> 'k LocalWallet \<Rightarrow> string \<Rightarrow> 'k LocalWallet \<times> peer_id res" where
  "wallet_NewKey KS L sigs w typ =
     (case GenerateKey L sigs typ of
        Err e \<Rightarrow> (w, Err e)
      | Panic \<Rightarrow> (w, Panic)
      | Ok k \<Rightarrow> (case lw_keystore w of
          None \<Rightarrow> (w, Panic)
        | Some store \<Rightarrow> (case ks_Put KS store (KNamePrefix @ wl_String L (k_Address k)) (k_KeyInfo k) of
            (store1, Err e) \<Rightarrow> (w\<lparr>lw_keystore := Some store1\<rparr>, Err (Wrapf ''saving to keystore'' e))
          | (store1, Panic) \<Rightarrow> (w\<lparr>lw_keystore := Some store1\<rparr>, Panic)
          | (store1, Ok _) \<Rightarrow>
              let w1 = w\<lparr>lw_keystore := Some store1, lw_keys := (lw_keys w)(k_Address k := Some k)\<rparr> in
              (case ks_Get KS store1 KDefault of
                 Ok _ \<Rightarrow> (w1, Ok (k_Address k))
               | Panic \<Rightarrow> (w1, Panic)
               | Err e \<Rightarrow>
                   if \<not> errors_Is e ErrKeyInfoNotFound then (w1, Err e)
                   else (case ks_Put KS store1 KDefault (k_KeyInfo k) of
                       (store2, Ok _) \<Rightarrow> (w1\<lparr>lw_keystore := Some store2\<rparr>, Ok (k_Address k))
                     | (store2, Err e) \<Rightarrow> (w1\<lparr>lw_keystore := Some store2\<rparr>,
                         Err (Wrapf ''failed to set new key as default'' e))
                     | (store2, Panic) \<Rightarrow> (w1\<lparr>lw_keystore := Some store2\<rparr>, Panic))))))"

definition WalletHas ::
  "'k KeyStore \<Rightarrow> wallet_lib \<Rightarrow> sig_registry \<Rightarrow> 'k LocalWallet \<Rightarrow> peer_id \<Rightarrow> 'k LocalWallet \<times> bool res" where
  "WalletHas KS L sigs w addr =
     (case findKey KS L sigs w addr of
        (w', Ok k) \<Rightarrow> (w', Ok (k \<noteq> None))
      | (w', Err e) \<Rightarrow> (w', Err e)
      | (w', Panic) \<Rightarrow> (w', Panic))"

section \<open>Lemmas\<close>

interpretation mem_store: key_store MemKeyStore
proof
  fix k n ki k' u m
  assume "ks_Put MemKeyStore k n ki = (k', Ok u)"
  then show "ks_Get MemKeyStore k' m = (if m = n then Ok ki else ks_Get MemKeyStore k m)"
    by (auto simp: MemKeyStore_def mks_Put_def mks_Get_def update_conv')
next
  fix k n k' u m
  assume "ks_Delete MemKeyStore k n = (k', Ok u)"
  then show "ks_Get MemKeyStore k' m = (if m = n then Err ErrKeyInfoNotFound else ks_Get MemKeyStore k m)"
    by (auto simp: MemKeyStore_def mks_Delete_def mks_Get_def delete_conv')
next
  fix k ns n
  assume "ks_List MemKeyStore k = Ok ns"
  then have "ns = map fst k" by (simp add: MemKeyStore_def mks_List_def)
  then show "n \<in> set ns \<longleftrightarrow> is_Ok (ks_Get MemKeyStore k n)"
    using map_of_eq_None_iff [of k n] by (cases "map_of k n") (auto simp: MemKeyStore_def mks_Get_def)
next
  fix k n
  show "ks_Get MemKeyStore k n \<noteq> Panic" by (simp add: MemKeyStore_def mks_Get_def split: option.splits)
qed

lemma NewKey_Ok:
  assumes "NewKey L sigs ki = Ok k"
  shows "k_KeyInfo k = ki" "ki_Type ki = KTEd25519" "sigs_ToPublic sigs SigTypeEd25519 (ki_PrivateKey ki) = Ok (k_PublicKey k)"
  using assms by (auto simp: NewKey_def ActSigType_def res_simps split: if_splits)

lemma GenerateKey_Ok:
  assumes "GenerateKey L sigs typ = Ok k"
  shows "typ = KTEd25519" "sigs_Generate sigs SigTypeEd25519 = Ok (ki_PrivateKey (k_KeyInfo k))"
    "ki_Type (k_KeyInfo k) = KTEd25519" "NewKey L sigs (k_KeyInfo k) = Ok k"
proof -
  show t: "typ = KTEd25519" using assms by (auto simp: GenerateKey_def ActSigType_def split: if_splits)
  obtain pk where pk: "sigs_Generate sigs SigTypeEd25519 = Ok pk" "NewKey L sigs \<lparr>ki_Type = typ, ki_PrivateKey = pk\<rparr> = Ok k"
    using assms t by (auto simp: GenerateKey_def ActSigType_def res_simps sigtype_defs)
  then show "sigs_Generate sigs SigTypeEd25519 = Ok (ki_PrivateKey (k_KeyInfo k))"
    "ki_Type (k_KeyInfo k) = KTEd25519" "NewKey L sigs (k_KeyInfo k) = Ok k"
    using NewKey_Ok(1) [OF pk(2)] t by simp_all
qed

lemma wallet_NewKey_Ok:
  assumes "wallet_NewKey KS L sigs w typ = (w', Ok addr)"
  obtains k where "GenerateKey L sigs typ = Ok k" "k_Address k = addr" "lw_keys w' = (lw_keys w)(addr := Some k)"
proof -
  have "\<exists>k. GenerateKey L sigs typ = Ok k \<and> k_Address k = addr \<and> lw_keys w' = (lw_keys w)(addr := Some k)"
    using assms
    by (auto simp: wallet_NewKey_def Let_def split: res.splits option.splits prod.splits if_splits)
  with that show thesis by blast
qed

context key_store
begin

text \<open>The first key of a wallet becomes its default.\<close>

lemma first_key_default:
  assumes "wallet_NewKey KS L sigs w typ = (w', Ok addr)" "lw_keystore w = Some store"
    and "ks_Get KS store KDefault = Err ErrKeyInfoNotFound"
  shows "GetDefault KS L sigs w' = Ok addr"
proof -
  obtain k where k: "GenerateKey L sigs typ = Ok k" "k_Address k = addr"
    by (rule wallet_NewKey_Ok [OF assms(1)])
  obtain store1 r1 where p1: "ks_Put KS store (KNamePrefix @ wl_String L addr) (k_KeyInfo k) = (store1, r1)"
    by (cases "ks_Put KS store (KNamePrefix @ wl_String L addr) (k_KeyInfo k)")
  have r1: "r1 = Ok ()"
    using assms(1,2) k p1 by (cases r1) (simp_all add: wallet_NewKey_def)
  have "KDefault \<noteq> KNamePrefix @ x" for x by (simp add: KDefault_def KNamePrefix_def)
  then have "ks_Get KS store1 KDefault = Err ErrKeyInfoNotFound"
    using get_put [OF p1 [unfolded r1]] assms(3) by simp
  moreover obtain store2 r2 where p2: "ks_Put KS store1 KDefault (k_KeyInfo k) = (store2, r2)"
    by (cases "ks_Put KS store1 KDefault (k_KeyInfo k)")
  ultimately have r2: "r2 = Ok ()" "lw_keystore w' = Some store2"
    using assms(1,2) k p1 r1 by (cases r2; auto simp: wallet_NewKey_def Let_def)+
  then show ?thesis
    using get_put [OF p2 [unfolded r2(1)]] GenerateKey_Ok(4) [OF k(1)] k(2)
    by (simp add: GetDefault_def)
qed

end

section \<open>Properties\<close>

text \<open>C40. A key that the wallet generates is in the wallet afterwards and is the default key of a
  fresh one, but it cannot be used: the generator stores the 32-byte seed where the scheme
  expects the 64-byte private key, so signing with it panics, and every generated key gets
  the address of the all-zero public key.\<close>

theorem generated_key_unusable:
  assumes "key_store KS" "sigs SigTypeEd25519 = Some (ed25519Signer U)"
    and "wallet_NewKey KS L sigs w typ = (w', Ok addr)" "lw_keystore w = Some store"
    and "ks_Get KS store KDefault = Err ErrKeyInfoNotFound"
  shows "WalletHas KS L sigs w' addr = (w', Ok True) \<and> GetDefault KS L sigs w' = Ok addr
    \<and> wallet_Sign KS L sigs w' addr msg = (w', Panic)
    \<and> bind_res (wl_UnmarshalEd25519PublicKey L (replicate 32 0)) (wl_IDFromPublicKey L) = Ok addr"
proof -
  obtain k where k: "GenerateKey L sigs typ = Ok k" "k_Address k = addr" "lw_keys w' = (lw_keys w)(addr := Some k)"
    by (rule wallet_NewKey_Ok [OF assms(3)])
  have gen: "ed25519_GenPrivate U = Ok (ki_PrivateKey (k_KeyInfo k))"
    using GenerateKey_Ok(2) [OF k(1)] assms(2) by (simp add: sigs_Generate_def ed25519Signer_def)
  have f: "findKey KS L sigs w' addr = (w', Ok (Some k))" by (simp add: findKey_def k(3))
  then have "wallet_Sign KS L sigs w' addr msg = (w', Panic)"
    using generated_ed25519_key(2) [OF gen] GenerateKey_Ok(3) [OF k(1)] assms(2)
    by (simp add: wallet_Sign_def sigs_Sign_def ActSigType_def ed25519Signer_def)
  moreover have "bind_res (wl_UnmarshalEd25519PublicKey L (replicate 32 0)) (wl_IDFromPublicKey L) = Ok addr"
    using GenerateKey_Ok(3,4) [OF k(1)] generated_ed25519_key(1) [OF gen] k(2) assms(2)
    by (auto simp: NewKey_def sigs_ToPublic_def ActSigType_def ed25519Signer_def res_simps dest: arg_cong [where f = k_Address])
  ultimately show ?thesis
    using f key_store.first_key_default [OF assms(1,3-5)] by (simp add: WalletHas_def)
qed

definition demo_curves :: curves where
  "demo_curves = \<lparr>cu_GenerateKey = Ok (replicate 32 2, replicate 32 1 @ replicate 32 2), cu_sign = (\<lambda>k m. k @ m),
     cu_Verify = (\<lambda>pk m s. True), cu_IDFromBytes = (\<lambda>bs. Ok []), cu_ExtractRaw = (\<lambda>i. Ok []),
     cu_secp_GenerateKey = Ok [1], cu_secp_PublicKey = id, cu_secp_Sign = (\<lambda>k m. Ok (k @ m)),
     cu_secp_EcRecover = (\<lambda>h s. Ok s), cu_secp_Address = (\<lambda>k. Ok []), cu_Blake2b = id\<rparr>"

definition demo_wallet_lib :: wallet_lib where
  "demo_wallet_lib = \<lparr>wl_UnmarshalEd25519PublicKey = Ok, wl_IDFromPublicKey = (\<lambda>pk. Ok (map (\<lambda>b. char_of (unat b)) pk)),
     wl_String = id, wl_TestnetPrefix = ''t''\<rparr>"

theorem generated_key_unusable_witness:
  "\<exists>w' addr. wallet_NewKey MemKeyStore demo_wallet_lib (ed25519_init demo_curves (\<lambda>_. None)) (NewWallet NewMemKeyStore) KTEd25519
      = (w', Ok addr)
    \<and> wallet_Sign MemKeyStore demo_wallet_lib (ed25519_init demo_curves (\<lambda>_. None)) w' addr [5] = (w', Panic)"
proof -
  let ?sigs = "ed25519_init demo_curves (\<lambda>_. None)"
  have s: "?sigs SigTypeEd25519 = Some (ed25519Signer demo_curves)" by (simp add: ed25519_init_def RegisterSignature_def)
  have "\<exists>w' addr. wallet_NewKey MemKeyStore demo_wallet_lib ?sigs (NewWallet NewMemKeyStore) KTEd25519 = (w', Ok addr)"
    by (simp add: wallet_NewKey_def GenerateKey_def ActSigType_def sigtype_defs ed25519_init_def RegisterSignature_def
        sigs_Generate_def ed25519Signer_def ed25519_GenPrivate_def demo_curves_def ed_Seed_def NewKey_def sigs_ToPublic_def
        ed25519_ToPublic_def ed_Public_def demo_wallet_lib_def NewWallet_def MemKeyStore_def mks_Put_def mks_Get_def
        NewMemKeyStore_def KDefault_def KNamePrefix_def Let_def)
  then obtain w' addr where n: "wallet_NewKey MemKeyStore demo_wallet_lib ?sigs (NewWallet NewMemKeyStore) KTEd25519 = (w', Ok addr)"
    by blast
  have "lw_keystore (NewWallet NewMemKeyStore) = Some NewMemKeyStore" "ks_Get MemKeyStore NewMemKeyStore KDefault = Err ErrKeyInfoNotFound"
    by (simp_all add: NewWallet_def MemKeyStore_def mks_Get_def NewMemKeyStore_def)
  from generated_key_unusable [OF mem_store.key_store_axioms s n this, of "[5]"] n show ?thesis by blast
qed

end
