(* ===== verification/Solidity_Base.thy ===== *)
theory Solidity_Base
  imports Dione_Prelude
begin

text \<open>
  What the contracts under \<open>eth-contracts\<close> use of Solidity 0.8 and of OpenZeppelin. A \<open>uint256\<close> is
  a natural number and an \<open>int256\<close> an integer; arithmetic that leaves the range reverts, an
  explicit conversion wraps. A revert is the \<open>Err\<close> of the result type: the caller gets no new
  state. OpenZeppelin's ERC20 is the record \<open>ERC20\<close> with the contract \<open>erc20\<close>; a transaction
  carries its sender, block number and time in the record \<open>msg\<close>.
\<close>

type_synonym uint256 = nat
type_synonym int256 = int

definition address0 :: address where
  "address0 = replicate 20 0"

record msg =
  msg_sender :: address
  block_number :: uint256
  block_timestamp :: uint256

definition require :: "bool \<Rightarrow> string \<Rightarrow> unit res" where
  "require b reason = guard_res b reason"

definition add256 :: "uint256 \<Rightarrow> uint256 \<Rightarrow> uint256 res" where
  "add256 a b = (if a + b < 2 ^ 256 then Ok (a + b) else Err (Errorf ''overflow''))"

definition sub256 :: "uint256 \<Rightarrow> uint256 \<Rightarrow> uint256 res" where
  "sub256 a b = (if b \<le> a then Ok (a - b) else Err (Errorf ''underflow''))"

definition div256 :: "uint256 \<Rightarrow> uint256 \<Rightarrow> uint256 res" where
  "div256 a b = (if b = 0 then Err (Errorf ''division by zero'') else Ok (a div b))"

definition in_int256 :: "int \<Rightarrow> int256 res" where
  "in_int256 i = (if - (2 ^ 255) \<le> i \<and> i < 2 ^ 255 then Ok i else Err (Errorf ''overflow''))"

definition to_int256 :: "uint256 \<Rightarrow> int256" where
  "to_int256 n = (if n < 2 ^ 255 then int n else int n - 2 ^ 256)"

text \<open>The built-in functions, and \<open>abi.encode\<close> of the static types.\<close>

record evm =
  keccak256 :: "bytes \<Rightarrow> bytes"
  ecrecover :: "bytes \<Rightarrow> u8 \<Rightarrow> bytes \<Rightarrow> bytes \<Rightarrow> address"
  chainid :: uint256

datatype abi = Bytes32 bytes | Address address | Uint256 uint256

fun abi_word :: "abi \<Rightarrow> bytes" where
  "abi_word (Bytes32 bs) = bs"
| "abi_word (Address a) = replicate 12 0 @ a"
| "abi_word (Uint256 n) = be_list 32 n"

definition abi_encode :: "abi list \<Rightarrow> bytes" where
  "abi_encode vs = concat (map abi_word vs)"

section \<open>ERC20\<close>

record 't ERC20 =
  erc_balanceOf :: "'t \<Rightarrow> address \<Rightarrow> uint256"
  erc_allowance :: "'t \<Rightarrow> address \<Rightarrow> address \<Rightarrow> uint256"
  erc_mint :: "'t \<Rightarrow> address \<Rightarrow> uint256 \<Rightarrow> 't res"
  erc_transfer :: "'t \<Rightarrow> address \<Rightarrow> address \<Rightarrow> uint256 \<Rightarrow> 't res"
  erc_approve :: "'t \<Rightarrow> address \<Rightarrow> address \<Rightarrow> uint256 \<Rightarrow> 't res"
  erc_transferFrom :: "'t \<Rightarrow> address \<Rightarrow> address \<Rightarrow> address \<Rightarrow> uint256 \<Rightarrow> 't res"

text \<open>The balances after moving \<open>n\<close> tokens from \<open>a\<close> to \<open>b\<close>.\<close>

definition moved :: "address \<Rightarrow> address \<Rightarrow> nat \<Rightarrow> (address \<Rightarrow> nat) \<Rightarrow> address \<Rightarrow> nat" where
  "moved a b n bal = (let bal1 = bal(a := bal a - n) in bal1(b := bal1 b + n))"

locale erc20 =
  fixes E :: "'t ERC20" and valid :: "'t \<Rightarrow> bool"
  assumes mint_valid: "valid t \<Longrightarrow> erc_mint E t a n = Ok t' \<Longrightarrow> valid t'"
    and transfer_valid: "valid t \<Longrightarrow> erc_transfer E t a b n = Ok t' \<Longrightarrow> valid t'"
    and approve_valid: "valid t \<Longrightarrow> erc_approve E t a s n = Ok t' \<Longrightarrow> valid t'"
    and transferFrom_valid: "valid t \<Longrightarrow> erc_transferFrom E t s a b n = Ok t' \<Longrightarrow> valid t'"
    and transfer_possible: "valid t \<Longrightarrow> a \<noteq> address0 \<Longrightarrow> b \<noteq> address0 \<Longrightarrow> n \<le> erc_balanceOf E t a \<Longrightarrow>
      \<exists>t'. erc_transfer E t a b n = Ok t'"
    and mint_balance: "erc_mint E t a n = Ok t' \<Longrightarrow> erc_balanceOf E t' = (erc_balanceOf E t)(a := erc_balanceOf E t a + n)"
    and mint_allowance: "erc_mint E t a n = Ok t' \<Longrightarrow> erc_allowance E t' = erc_allowance E t"
    and transfer_balance: "erc_transfer E t a b n = Ok t' \<Longrightarrow>
      n \<le> erc_balanceOf E t a \<and> erc_balanceOf E t' = moved a b n (erc_balanceOf E t)"
    and transfer_allowance: "erc_transfer E t a b n = Ok t' \<Longrightarrow> erc_allowance E t' = erc_allowance E t"
    and approve_balance: "erc_approve E t a s n = Ok t' \<Longrightarrow> erc_balanceOf E t' = erc_balanceOf E t"
    and approve_allowance: "erc_approve E t a s n = Ok t' \<Longrightarrow>
      erc_allowance E t' = (erc_allowance E t)(a := (erc_allowance E t a)(s := n))"
    and transferFrom_balance: "erc_transferFrom E t s a b n = Ok t' \<Longrightarrow>
      n \<le> erc_balanceOf E t a \<and> erc_balanceOf E t' = moved a b n (erc_balanceOf E t)"
    and transferFrom_allowance: "erc_transferFrom E t s a b n = Ok t' \<Longrightarrow>
      n \<le> erc_allowance E t a s \<and> erc_allowance E t' x y \<le> erc_allowance E t x y"

text \<open>A token with the documented behaviour of OpenZeppelin's, as an instance of the interface.\<close>

record erc_state =
  es_balances :: "address \<Rightarrow> uint256"
  es_allowances :: "address \<Rightarrow> address \<Rightarrow> uint256"
  es_totalSupply :: uint256

definition oz_mint :: "erc_state \<Rightarrow> address \<Rightarrow> uint256 \<Rightarrow> erc_state res" where
  "oz_mint t a n =
     bind_res (require (a \<noteq> address0) ''ERC20: mint to the zero address'') (\<lambda>_.
     bind_res (add256 (es_totalSupply t) n) (\<lambda>ts.
     bind_res (add256 (es_balances t a) n) (\<lambda>b.
       Ok (t\<lparr>es_totalSupply := ts, es_balances := (es_balances t)(a := b)\<rparr>))))"

definition oz_transfer :: "erc_state \<Rightarrow> address \<Rightarrow> address \<Rightarrow> uint256 \<Rightarrow> erc_state res" where
  "oz_transfer t a b n =
     bind_res (require (a \<noteq> address0) ''ERC20: transfer from the zero address'') (\<lambda>_.
     bind_res (require (b \<noteq> address0) ''ERC20: transfer to the zero address'') (\<lambda>_.
     bind_res (require (n \<le> es_balances t a) ''ERC20: transfer amount exceeds balance'') (\<lambda>_.
     let bal1 = (es_balances t)(a := es_balances t a - n) in
     bind_res (add256 (bal1 b) n) (\<lambda>v. Ok (t\<lparr>es_balances := bal1(b := v)\<rparr>)))))"

definition oz_approve :: "erc_state \<Rightarrow> address \<Rightarrow> address \<Rightarrow> uint256 \<Rightarrow> erc_state res" where
  "oz_approve t a s n =
     bind_res (require (a \<noteq> address0) ''ERC20: approve from the zero address'') (\<lambda>_.
     bind_res (require (s \<noteq> address0) ''ERC20: approve to the zero address'') (\<lambda>_.
       Ok (t\<lparr>es_allowances := (es_allowances t)(a := (es_allowances t a)(s := n))\<rparr>)))"

definition oz_transferFrom :: "erc_state \<Rightarrow> address \<Rightarrow> address \<Rightarrow> address \<Rightarrow> uint256 \<Rightarrow> erc_state res" where
  "oz_transferFrom t s a b n =
     bind_res (oz_transfer t a b n) (\<lambda>t1.
     bind_res (require (n \<le> es_allowances t1 a s) ''ERC20: transfer amount exceeds allowance'') (\<lambda>_.
       oz_approve t1 a s (es_allowances t1 a s - n)))"

definition oz_ERC20 :: "erc_state ERC20" where
  "oz_ERC20 = \<lparr>erc_balanceOf = es_balances, erc_allowance = es_allowances, erc_mint = oz_mint,
     erc_transfer = oz_transfer, erc_approve = oz_approve, erc_transferFrom = oz_transferFrom\<rparr>"

section \<open>Lemmas\<close>

named_theorems sol_simps

lemma require_Ok [sol_simps]: "require b r = Ok u \<longleftrightarrow> b"
  by (cases u) (simp add: require_def guard_res_def)

lemma require_bind [simp]: "bind_res (require True r) f = f ()" "bind_res (require False r) f = Err (Errorf r)"
  by (simp_all add: require_def guard_res_def)

lemma add256_Ok [sol_simps]: "add256 a b = Ok c \<longleftrightarrow> c = a + b \<and> a + b < 2 ^ 256"
  by (auto simp: add256_def)

lemma sub256_Ok [sol_simps]: "sub256 a b = Ok c \<longleftrightarrow> c = a - b \<and> b \<le> a"
  by (auto simp: sub256_def)

lemma div256_Ok [sol_simps]: "div256 a b = Ok c \<longleftrightarrow> c = a div b \<and> b \<noteq> 0"
  by (auto simp: div256_def)

lemma in_int256_Ok [sol_simps]: "in_int256 i = Ok j \<longleftrightarrow> j = i \<and> - (2 ^ 255) \<le> i \<and> i < 2 ^ 255"
  by (auto simp: in_int256_def)

text \<open>Sums over the accounts that have anything.\<close>

definition total :: "('a \<Rightarrow> nat) \<Rightarrow> nat" where
  "total f = sum f {a. f a \<noteq> 0}"

definition finitely_many :: "('a \<Rightarrow> nat) \<Rightarrow> bool" where
  "finitely_many f \<longleftrightarrow> finite {a. f a \<noteq> 0}"

lemma total_sum: "finite A \<Longrightarrow> {a. f a \<noteq> 0} \<subseteq> A \<Longrightarrow> total f = sum f A"
  unfolding total_def by (rule sum.mono_neutral_left) auto

lemma finitely_many_upd [simp]: "finitely_many f \<Longrightarrow> finitely_many (f(a := v))"
  unfolding finitely_many_def by (rule finite_subset [of _ "insert a {x. f x \<noteq> 0}"]) auto

lemma total_upd:
  assumes "finitely_many f"
  shows "total (f(a := v)) + f a = total f + v"
proof -
  let ?A = "insert a {x. f x \<noteq> 0}"
  have A: "finite ?A" using assms by (simp add: finitely_many_def)
  have "total (f(a := v)) = sum (f(a := v)) ?A" "total f = sum f ?A" by (rule total_sum [OF A]; auto)+
  moreover have "sum (f(a := v)) (?A - {a}) = sum f (?A - {a})" by (rule sum.cong) auto
  ultimately show ?thesis using sum.remove [OF A, of a f] sum.remove [OF A, of a "f(a := v)"] by simp
qed

lemma total_ge: "finitely_many f \<Longrightarrow> f a \<le> total f"
  using total_upd [of f a 0] by simp

lemma total_moved:
  assumes "finitely_many bal" "n \<le> bal a"
  shows "finitely_many (moved a b n bal)" "total (moved a b n bal) = total bal"
proof -
  let ?b1 = "bal(a := bal a - n)"
  show "finitely_many (moved a b n bal)" using assms(1) by (simp add: moved_def Let_def)
  have "total (?b1(b := ?b1 b + n)) = total ?b1 + n"
    using total_upd [of ?b1 b "?b1 b + n"] assms(1) by simp
  also have "total ?b1 + n = total bal" using total_upd [OF assms(1), of a "bal a - n"] assms(2) by simp
  finally show "total (moved a b n bal) = total bal" by (simp add: moved_def Let_def)
qed

text \<open>The balances of a token add up to its supply.\<close>

definition oz_valid :: "erc_state \<Rightarrow> bool" where
  "oz_valid t \<longleftrightarrow> finitely_many (es_balances t) \<and> total (es_balances t) = es_totalSupply t \<and> es_totalSupply t < 2 ^ 256"

lemma oz_mint_valid: "oz_valid t \<Longrightarrow> oz_mint t a n = Ok t' \<Longrightarrow> oz_valid t'"
  using total_upd [of "es_balances t" a "es_balances t a + n"]
  by (auto simp: oz_valid_def oz_mint_def res_simps sol_simps)

lemma oz_approve_valid: "oz_valid t \<Longrightarrow> oz_approve t a s n = Ok t' \<Longrightarrow> oz_valid t'"
  by (auto simp: oz_valid_def oz_approve_def res_simps sol_simps)

lemma oz_transfer_valid: "oz_valid t \<Longrightarrow> oz_transfer t a b n = Ok t' \<Longrightarrow> oz_valid t'"
  using total_moved [of "es_balances t" n a b]
  by (auto simp: oz_valid_def oz_transfer_def Let_def res_simps sol_simps moved_def)

lemma oz_transfer_possible:
  assumes "oz_valid t" "a \<noteq> address0" "b \<noteq> address0" "n \<le> es_balances t a"
  shows "\<exists>t'. oz_transfer t a b n = Ok t'"
proof -
  let ?m = "moved a b n (es_balances t)"
  have "?m b \<le> total ?m" "total ?m = total (es_balances t)"
    using total_moved [of "es_balances t" n a b] total_ge [of ?m b] assms(1,4) by (auto simp: oz_valid_def)
  then have "?m b < 2 ^ 256" using assms(1) by (simp add: oz_valid_def)
  then show ?thesis
    using assms(2-4) by (auto simp: oz_transfer_def Let_def require_def guard_res_def moved_def add256_def split: if_splits)
qed

lemma oz_transfer_Ok:
  assumes "oz_transfer t a b n = Ok t'"
  shows "n \<le> es_balances t a" "es_balances t' = moved a b n (es_balances t)" "es_allowances t' = es_allowances t"
  using assms by (auto simp: oz_transfer_def Let_def res_simps sol_simps moved_def)

lemma oz_transferFrom_Ok:
  assumes "oz_transferFrom t s a b n = Ok t'"
  obtains t1 where "oz_transfer t a b n = Ok t1" "n \<le> es_allowances t1 a s" "oz_approve t1 a s (es_allowances t1 a s - n) = Ok t'"
  using assms by (auto simp: oz_transferFrom_def res_simps sol_simps)

lemma oz_approve_Ok:
  assumes "oz_approve t a s n = Ok t'"
  shows "es_balances t' = es_balances t" "es_allowances t' = (es_allowances t)(a := (es_allowances t a)(s := n))"
  using assms by (auto simp: oz_approve_def res_simps sol_simps)

lemma oz_mint_Ok:
  assumes "oz_mint t a n = Ok t'"
  shows "es_balances t' = (es_balances t)(a := es_balances t a + n)" "es_allowances t' = es_allowances t"
  using assms by (auto simp: oz_mint_def res_simps sol_simps)

lemma oz_ERC20_simps [simp]:
  "erc_balanceOf oz_ERC20 = es_balances" "erc_allowance oz_ERC20 = es_allowances" "erc_mint oz_ERC20 = oz_mint"
  "erc_transfer oz_ERC20 = oz_transfer" "erc_approve oz_ERC20 = oz_approve" "erc_transferFrom oz_ERC20 = oz_transferFrom"
  by (simp_all add: oz_ERC20_def)

interpretation oz: erc20 oz_ERC20 oz_valid
proof (unfold_locales, unfold oz_ERC20_simps)
  fix t t' :: erc_state and a b s x y :: address and n :: nat
  show "\<exists>t'. oz_transfer t a b n = Ok t'" if "oz_valid t" "a \<noteq> address0" "b \<noteq> address0" "n \<le> es_balances t a"
    by (rule oz_transfer_possible [OF that])
  show "oz_valid t'" if "oz_valid t" "oz_transferFrom t s a b n = Ok t'"
    using that by (elim oz_transferFrom_Ok) (rule oz_approve_valid [OF oz_transfer_valid])
  show "oz_valid t'" if "oz_valid t" "oz_mint t a n = Ok t'" by (rule oz_mint_valid [OF that])
  show "oz_valid t'" if "oz_valid t" "oz_transfer t a b n = Ok t'" by (rule oz_transfer_valid [OF that])
  show "oz_valid t'" if "oz_valid t" "oz_approve t a s n = Ok t'" by (rule oz_approve_valid [OF that])
  show "es_balances t' = (es_balances t)(a := es_balances t a + n)" "es_allowances t' = es_allowances t" if "oz_mint t a n = Ok t'"
    by (rule oz_mint_Ok [OF that])+
  show "n \<le> es_balances t a \<and> es_balances t' = moved a b n (es_balances t)" "es_allowances t' = es_allowances t"
    if "oz_transfer t a b n = Ok t'"
    using oz_transfer_Ok [OF that] by simp_all
  show "es_balances t' = es_balances t" "es_allowances t' = (es_allowances t)(a := (es_allowances t a)(s := n))"
    if "oz_approve t a s n = Ok t'"
    by (rule oz_approve_Ok [OF that])+
  assume "oz_transferFrom t s a b n = Ok t'"
  then obtain t1 where t1: "oz_transfer t a b n = Ok t1" "n \<le> es_allowances t1 a s"
      "oz_approve t1 a s (es_allowances t1 a s - n) = Ok t'" by (rule oz_transferFrom_Ok)
  show "n \<le> es_balances t a \<and> es_balances t' = moved a b n (es_balances t)"
    "n \<le> es_allowances t a s \<and> es_allowances t' x y \<le> es_allowances t x y"
    using t1(2) oz_transfer_Ok [OF t1(1)] oz_approve_Ok [OF t1(3)] by simp_all
qed

text \<open>A machine whose hash function has no collisions, for the examples of the contracts.\<close>

definition demo_evm :: evm where
  "demo_evm = \<lparr>keccak256 = id, ecrecover = (\<lambda>d v r s. address0), chainid = 1\<rparr>"

end
