(* ===== verification/Timelock_Contract.thy ===== *)
theory Timelock_Contract
  imports Solidity_Base
begin

text \<open>
  The timelock (\<open>eth-contracts/contracts/Timelock.sol\<close>) that is meant to own the staking contract:
  its administrator queues calls and may execute them after a delay. The execution is split at
  the call it makes, because the callee may call the timelock again: what it does there are the
  further steps of a run.
\<close>

section \<open>State\<close>

definition GRACE_PERIOD :: uint256 where "GRACE_PERIOD = 14 * 24 * 60 * 60"



record Timelock =
  tl_admin :: address
  tl_pendingAdmin :: address
  tl_delay :: uint256
  tl_admin_initialized :: bool
  tl_queuedTransactions :: "bytes \<Rightarrow> bool"

text \<open>The arguments that name a queued call.\<close>

record timelock_tx =
  tt_target :: address
  tt_value :: uint256
  tt_signature :: bytes
  tt_data :: bytes
  tt_eta :: uint256



section \<open>Encoding\<close>

text \<open>
  \<open>abi.encode\<close>: the static values and the offsets of the dynamic ones in words of 32 bytes,
  then each dynamic value as its length and its bytes, padded to whole words.
\<close>

definition abi_bytes :: "bytes \<Rightarrow> bytes" where
  "abi_bytes bs = be_list 32 (length bs) @ bs @ replicate ((32 - length bs mod 32) mod 32) 0"

definition encode_tx :: "timelock_tx \<Rightarrow> bytes" where
  "encode_tx x =
     abi_encode [Address (tt_target x), Uint256 (tt_value x), Uint256 160,
       Uint256 (160 + length (abi_bytes (tt_signature x))), Uint256 (tt_eta x)]
     @ abi_bytes (tt_signature x) @ abi_bytes (tt_data x)"

definition txHash :: "evm \<Rightarrow> timelock_tx \<Rightarrow> bytes" where
  "txHash V x = keccak256 V (encode_tx x)"


section \<open>Operations\<close>




definition set_queued :: "bytes \<Rightarrow> bool \<Rightarrow> Timelock \<Rightarrow> Timelock" where
  "set_queued h b s = s\<lparr>tl_queuedTransactions := (tl_queuedTransactions s)(h := b)\<rparr>"



text \<open>Up to the call: the new state and the data to call the target with.\<close>

definition execute_begin :: "evm \<Rightarrow> msg \<Rightarrow> timelock_tx \<Rightarrow> Timelock \<Rightarrow> (Timelock \<times> bytes) res" where
  "execute_begin V m x s =
     bind_res (require (msg_sender m = tl_admin s) ''Timelock::executeTransaction: Call must come from admin.'') (\<lambda>_.
     bind_res (require (tl_queuedTransactions s (txHash V x))
       ''Timelock::executeTransaction: Transaction hasn't been queued.'') (\<lambda>_.
     bind_res (require (tt_eta x \<le> block_timestamp m)
       ''Timelock::executeTransaction: Transaction hasn't surpassed time lock.'') (\<lambda>_.
     bind_res (add256 (tt_eta x) GRACE_PERIOD) (\<lambda>stale.
     bind_res (require (block_timestamp m \<le> stale) ''Timelock::executeTransaction: Transaction is stale.'') (\<lambda>_.
       Ok (set_queued (txHash V x) False s,
         if length (tt_signature x) = 0 then tt_data x
         else take 4 (keccak256 V (tt_signature x)) @ tt_data x))))))"

text \<open>The callee gets the target, the value, the data and the state, and returns the state it leaves.\<close>

definition executeTransaction ::
  "evm \<Rightarrow> (address \<Rightarrow> uint256 \<Rightarrow> bytes \<Rightarrow> Timelock \<Rightarrow> (Timelock \<times> bytes) res) \<Rightarrow> msg \<Rightarrow> timelock_tx \<Rightarrow> Timelock
     \<Rightarrow> (Timelock \<times> bytes) res" where
  "executeTransaction V callee m x s =
     bind_res (execute_begin V m x s) (\<lambda>(s1, callData).
       case callee (tt_target x) (tt_value x) callData s1 of
         Ok r \<Rightarrow> Ok r
       | _ \<Rightarrow> Err (Errorf ''Timelock::executeTransaction: Transaction execution reverted.''))"

section \<open>Runs\<close>



section \<open>Lemmas\<close>
















lemma set_queued_delay [simp]: "tl_delay (set_queued h b s) = tl_delay s"
  by (simp add: set_queued_def)







section \<open>Properties\<close>








end
