(* ===== verification/Token_Contract.thy ===== *)
theory Token_Contract
  imports Solidity_Base
begin

text \<open>
  The token contract (\<open>eth-contracts/contracts/DioneToken.sol\<close>): an ERC20 token whose holders
  delegate votes, with a history of checkpoints per delegate that is searched by bisection.
  Numbers of type \<open>uint32\<close> are natural numbers too, with their overflow checks written out.
\<close>

section \<open>State\<close>

record Checkpoint =
  cp_fromBlock :: nat
  cp_votes :: uint256

record 't DioneToken =
  tok_erc :: 't
  tok_owner :: address
  tok_delegates :: "address \<Rightarrow> address"
  tok_checkpoints :: "address \<Rightarrow> nat \<Rightarrow> Checkpoint"
  tok_numCheckpoints :: "address \<Rightarrow> nat"
  tok_nonces :: "address \<Rightarrow> uint256"

definition new_DioneToken :: "'t \<Rightarrow> address \<Rightarrow> 't DioneToken" where
  "new_DioneToken erc deployer =
     \<lparr>tok_erc = erc, tok_owner = deployer, tok_delegates = (\<lambda>_. address0),
      tok_checkpoints = (\<lambda>_ _. \<lparr>cp_fromBlock = 0, cp_votes = 0\<rparr>), tok_numCheckpoints = (\<lambda>_. 0), tok_nonces = (\<lambda>_. 0)\<rparr>"

section \<open>Operations\<close>

definition safe32 :: "uint256 \<Rightarrow> string \<Rightarrow> nat res" where
  "safe32 n errorMessage = bind_res (require (n < 2 ^ 32) errorMessage) (\<lambda>_. Ok n)"

definition writeCheckpoint ::
  "msg \<Rightarrow> address \<Rightarrow> nat \<Rightarrow> uint256 \<Rightarrow> 't DioneToken \<Rightarrow> 't DioneToken res" where
  "writeCheckpoint m delegatee nCheckpoints newVotes tok =
     bind_res (safe32 (block_number m) ''DIONE::_writeCheckpoint: block number exceeds 32 bits'') (\<lambda>blockNumber.
     let cps = tok_checkpoints tok delegatee in
     if nCheckpoints > 0 \<and> cp_fromBlock (cps (nCheckpoints - 1)) = blockNumber
     then Ok (tok\<lparr>tok_checkpoints := (tok_checkpoints tok)(delegatee :=
       cps(nCheckpoints - 1 := (cps (nCheckpoints - 1))\<lparr>cp_votes := newVotes\<rparr>))\<rparr>)
     else if nCheckpoints + 1 < 2 ^ 32
     then Ok (tok\<lparr>tok_checkpoints := (tok_checkpoints tok)(delegatee :=
         cps(nCheckpoints := \<lparr>cp_fromBlock = blockNumber, cp_votes = newVotes\<rparr>)),
       tok_numCheckpoints := (tok_numCheckpoints tok)(delegatee := nCheckpoints + 1)\<rparr>)
     else Err (Errorf ''overflow''))"

definition getCurrentVotes :: "'t DioneToken \<Rightarrow> address \<Rightarrow> uint256" where
  "getCurrentVotes tok account =
     (let nCheckpoints = tok_numCheckpoints tok account in
      if nCheckpoints > 0 then cp_votes (tok_checkpoints tok account (nCheckpoints - 1)) else 0)"

text \<open>The new value of a representative's votes, computed from the old one by \<open>op\<close>.\<close>

definition change_votes ::
  "msg \<Rightarrow> (uint256 \<Rightarrow> uint256 res) \<Rightarrow> address \<Rightarrow> 't DioneToken \<Rightarrow> 't DioneToken res" where
  "change_votes m op rep tok =
     (if rep = address0 then Ok tok
      else bind_res (op (getCurrentVotes tok rep)) (\<lambda>repNew.
        writeCheckpoint m rep (tok_numCheckpoints tok rep) repNew tok))"

definition moveDelegates ::
  "msg \<Rightarrow> address \<Rightarrow> address \<Rightarrow> uint256 \<Rightarrow> 't DioneToken \<Rightarrow> 't DioneToken res" where
  "moveDelegates m srcRep dstRep amount tok =
     (if srcRep \<noteq> dstRep \<and> amount > 0
      then bind_res (change_votes m (\<lambda>v. sub256 v amount) srcRep tok) (\<lambda>tok1.
        change_votes m (\<lambda>v. add256 v amount) dstRep tok1)
      else Ok tok)"

definition token_mint ::
  "'t ERC20 \<Rightarrow> msg \<Rightarrow> address \<Rightarrow> uint256 \<Rightarrow> 't DioneToken \<Rightarrow> 't DioneToken res" where
  "token_mint E m to amount tok =
     bind_res (require (msg_sender m = tok_owner tok) ''Ownable: caller is not the owner'') (\<lambda>_.
     bind_res (erc_mint E (tok_erc tok) to amount) (\<lambda>erc.
       moveDelegates m address0 (tok_delegates tok to) amount (tok\<lparr>tok_erc := erc\<rparr>)))"

definition delegates :: "'t DioneToken \<Rightarrow> address \<Rightarrow> address" where
  "delegates tok delegator = tok_delegates tok delegator"

definition delegate_from ::
  "'t ERC20 \<Rightarrow> msg \<Rightarrow> address \<Rightarrow> address \<Rightarrow> 't DioneToken \<Rightarrow> 't DioneToken res" where
  "delegate_from E m delegator delegatee tok =
     moveDelegates m (tok_delegates tok delegator) delegatee (erc_balanceOf E (tok_erc tok) delegator)
       (tok\<lparr>tok_delegates := (tok_delegates tok)(delegator := delegatee)\<rparr>)"

definition delegate :: "'t ERC20 \<Rightarrow> msg \<Rightarrow> address \<Rightarrow> 't DioneToken \<Rightarrow> 't DioneToken res" where
  "delegate E m delegatee tok = delegate_from E m (msg_sender m) delegatee tok"

definition string_hash :: "evm \<Rightarrow> string \<Rightarrow> bytes" where
  "string_hash V s = keccak256 V (map (\<lambda>c. of_nat (of_char c)) s)"

definition DOMAIN_TYPEHASH :: "evm \<Rightarrow> bytes" where
  "DOMAIN_TYPEHASH V = string_hash V ''EIP712Domain(string name,uint256 chainId,address verifyingContract)''"

definition DELEGATION_TYPEHASH :: "evm \<Rightarrow> bytes" where
  "DELEGATION_TYPEHASH V = string_hash V ''Delegation(address delegatee,uint256 nonce,uint256 expiry)''"

definition delegation_digest :: "evm \<Rightarrow> address \<Rightarrow> address \<Rightarrow> uint256 \<Rightarrow> uint256 \<Rightarrow> bytes" where
  "delegation_digest V this delegatee nonce expiry =
     (let domainSeparator = keccak256 V (abi_encode
            [Bytes32 (DOMAIN_TYPEHASH V), Bytes32 (string_hash V ''DioneToken''), Uint256 (chainid V), Address this]);
          structHash = keccak256 V (abi_encode
            [Bytes32 (DELEGATION_TYPEHASH V), Address delegatee, Uint256 nonce, Uint256 expiry])
      in keccak256 V ([0x19, 0x01] @ domainSeparator @ structHash))"

definition delegateBySig ::
  "'t ERC20 \<Rightarrow> evm \<Rightarrow> address \<Rightarrow> msg \<Rightarrow> address \<Rightarrow> uint256 \<Rightarrow> uint256 \<Rightarrow> u8 \<Rightarrow> bytes \<Rightarrow> bytes
     \<Rightarrow> 't DioneToken \<Rightarrow> 't DioneToken res" where
  "delegateBySig E V this m delegatee nonce expiry v r s tok =
     (let signatory = ecrecover V (delegation_digest V this delegatee nonce expiry) v r s in
      bind_res (require (signatory \<noteq> address0) ''DIONE::delegateBySig: invalid signature'') (\<lambda>_.
      bind_res (add256 (tok_nonces tok signatory) 1) (\<lambda>next.
      bind_res (require (nonce = tok_nonces tok signatory) ''DIONE::delegateBySig: invalid nonce'') (\<lambda>_.
      bind_res (require (block_timestamp m \<le> expiry) ''DIONE::delegateBySig: signature expired'') (\<lambda>_.
        delegate_from E m signatory delegatee (tok\<lparr>tok_nonces := (tok_nonces tok)(signatory := next)\<rparr>))))))"

function prior_search :: "(nat \<Rightarrow> Checkpoint) \<Rightarrow> uint256 \<Rightarrow> nat \<Rightarrow> nat \<Rightarrow> uint256" where
  "prior_search cps blockNumber lower upper =
     (if upper > lower
      then let center = upper - (upper - lower) div 2; cp = cps center in
        if cp_fromBlock cp = blockNumber then cp_votes cp
        else if cp_fromBlock cp < blockNumber then prior_search cps blockNumber center upper
        else prior_search cps blockNumber lower (center - 1)
      else cp_votes (cps lower))"
  by pat_completeness auto
termination
  by (relation "measure (\<lambda>(_, _, lower, upper). upper - lower)") (auto intro: diff_less_mono2)

definition getPriorVotes :: "msg \<Rightarrow> 't DioneToken \<Rightarrow> address \<Rightarrow> uint256 \<Rightarrow> uint256 res" where
  "getPriorVotes m tok account blockNumber =
     bind_res (require (blockNumber < block_number m) ''DIONE::getPriorVotes: not yet determined'') (\<lambda>_.
     let nCheckpoints = tok_numCheckpoints tok account; cps = tok_checkpoints tok account in
     if nCheckpoints = 0 then Ok 0
     else if cp_fromBlock (cps (nCheckpoints - 1)) \<le> blockNumber then Ok (cp_votes (cps (nCheckpoints - 1)))
     else if cp_fromBlock (cps 0) > blockNumber then Ok 0
     else Ok (prior_search cps blockNumber 0 (nCheckpoints - 1)))"

lemmas [simp del] = prior_search.simps

section \<open>Runs\<close>

text \<open>Every public function that changes the state; the ERC20 ones change its part only.\<close>

inductive token_step :: "'t ERC20 \<Rightarrow> evm \<Rightarrow> address \<Rightarrow> msg \<Rightarrow> 't DioneToken \<Rightarrow> 't DioneToken \<Rightarrow> bool" for E V this m where
  mint: "token_mint E m to amount tok = Ok tok' \<Longrightarrow> token_step E V this m tok tok'"
| delegate: "delegate E m delegatee tok = Ok tok' \<Longrightarrow> token_step E V this m tok tok'"
| by_sig: "delegateBySig E V this m delegatee nonce expiry v r s tok = Ok tok' \<Longrightarrow> token_step E V this m tok tok'"
| transfer: "erc_transfer E (tok_erc tok) (msg_sender m) to amount = Ok erc \<Longrightarrow>
    token_step E V this m tok (tok\<lparr>tok_erc := erc\<rparr>)"
| approve: "erc_approve E (tok_erc tok) (msg_sender m) spender amount = Ok erc \<Longrightarrow>
    token_step E V this m tok (tok\<lparr>tok_erc := erc\<rparr>)"
| transfer_from: "erc_transferFrom E (tok_erc tok) (msg_sender m) sender to amount = Ok erc \<Longrightarrow>
    token_step E V this m tok (tok\<lparr>tok_erc := erc\<rparr>)"
| transfer_ownership: "msg_sender m = tok_owner tok \<Longrightarrow> token_step E V this m tok (tok\<lparr>tok_owner := owner\<rparr>)"

text \<open>Transactions in blocks of increasing number, the first at least \<open>b\<close>.\<close>

inductive token_run :: "'t ERC20 \<Rightarrow> evm \<Rightarrow> address \<Rightarrow> nat \<Rightarrow> 't DioneToken \<Rightarrow> nat \<Rightarrow> 't DioneToken \<Rightarrow> bool"
  for E V this b tok where
  start: "token_run E V this b tok b tok"
| step: "token_run E V this b tok b' tok' \<Longrightarrow> b' \<le> block_number m \<Longrightarrow> token_step E V this m tok' tok'' \<Longrightarrow>
    token_run E V this b tok (block_number m) tok''"

section \<open>Lemmas\<close>

definition cp_list :: "'t DioneToken \<Rightarrow> address \<Rightarrow> Checkpoint list" where
  "cp_list tok a = map (tok_checkpoints tok a) [0..<tok_numCheckpoints tok a]"

text \<open>The reference for the search: the last checkpoint that is not younger than the block.\<close>

definition votes_at :: "Checkpoint list \<Rightarrow> nat \<Rightarrow> uint256" where
  "votes_at cps n = (case rev (filter (\<lambda>c. cp_fromBlock c \<le> n) cps) of [] \<Rightarrow> 0 | c # _ \<Rightarrow> cp_votes c)"

definition history_ok :: "nat \<Rightarrow> 't DioneToken \<Rightarrow> bool" where
  "history_ok b tok \<longleftrightarrow>
     (\<forall>a. sorted_wrt (<) (map cp_fromBlock (cp_list tok a)) \<and> (\<forall>c \<in> set (cp_list tok a). cp_fromBlock c \<le> b))"

lemma current_votes_list:
  "getCurrentVotes tok a = (case rev (cp_list tok a) of [] \<Rightarrow> 0 | c # _ \<Rightarrow> cp_votes c)"
  by (cases "tok_numCheckpoints tok a") (simp_all add: getCurrentVotes_def cp_list_def)

lemma votes_at_current: "\<forall>c \<in> set (cp_list tok a). cp_fromBlock c \<le> n \<Longrightarrow> votes_at (cp_list tok a) n = getCurrentVotes tok a"
  by (simp add: votes_at_def current_votes_list filter_True)

lemma votes_at_prefix:
  assumes "k < n" "cp_fromBlock (f k) \<le> bn" "\<And>i. k < i \<Longrightarrow> i < n \<Longrightarrow> bn < cp_fromBlock (f i)"
  shows "votes_at (map f [0..<n]) bn = cp_votes (f k)"
proof -
  have "[0..<n] = [0..<k] @ [k..<n]" using assms(1) upt_add_eq_append [of 0 k "n - k"] by simp
  also have "[k..<n] = k # [Suc k..<n]" using assms(1) by (rule upt_conv_Cons)
  finally have *: "[0..<n] = [0..<k] @ k # [Suc k..<n]" .
  have "filter (\<lambda>c. cp_fromBlock c \<le> bn) (map f [Suc k..<n]) = []"
    using assms(3) by (auto simp: filter_empty_conv not_le)
  then show ?thesis using assms(2) by (simp add: votes_at_def *)
qed

lemma prior_search_votes_at:
  assumes "lower \<le> upper" "upper < n" "cp_fromBlock (f lower) \<le> bn"
    and "\<And>i. upper < i \<Longrightarrow> i < n \<Longrightarrow> bn < cp_fromBlock (f i)"
    and "\<And>i j. i < j \<Longrightarrow> j < n \<Longrightarrow> cp_fromBlock (f i) < cp_fromBlock (f j)"
  shows "prior_search f bn lower upper = votes_at (map f [0..<n]) bn"
  using assms
proof (induction f bn lower upper rule: prior_search.induct)
  case (1 f bn lower upper)
  let ?c = "upper - (upper - lower) div 2"
  show ?case
  proof (cases "lower < upper")
    case False
    with 1(3) have "lower = upper" by simp
    with votes_at_prefix [of upper n f bn] 1(4-6) show ?thesis by (simp add: prior_search.simps [of f bn upper])
  next
    case True
    then have c: "lower < ?c" "?c \<le> upper" by auto
    consider "cp_fromBlock (f ?c) = bn" | "cp_fromBlock (f ?c) < bn" | "bn < cp_fromBlock (f ?c)" by linarith
    then show ?thesis
    proof cases
      case eq: 1
      have "bn < cp_fromBlock (f i)" if "?c < i" "i < n" for i using 1(7) [OF that] eq by simp
      then have "votes_at (map f [0..<n]) bn = cp_votes (f ?c)"
        using c(2) 1(4) eq by (intro votes_at_prefix) simp_all
      then show ?thesis using True eq by (simp add: prior_search.simps [of f bn lower] Let_def)
    next
      case lt: 2
      then have "prior_search f bn lower upper = prior_search f bn ?c upper"
        using True by (simp add: prior_search.simps [of f bn lower] Let_def)
      also have "\<dots> = votes_at (map f [0..<n]) bn"
        using lt c 1(4,6,7) by (intro 1(1) [OF True refl refl]) simp_all
      finally show ?thesis .
    next
      case gt: 3
      then have "prior_search f bn lower upper = prior_search f bn lower (?c - 1)"
        using True by (simp add: prior_search.simps [of f bn lower] Let_def)
      also have "\<dots> = votes_at (map f [0..<n]) bn"
      proof (rule 1(2) [OF True refl refl])
        show "bn < cp_fromBlock (f i)" if "?c - 1 < i" "i < n" for i
        proof (cases "i = ?c")
          case False
          then have "?c < i" using that(1) by simp
          with 1(7) [OF this that(2)] gt show ?thesis by simp
        qed (use gt in simp)
      qed (use gt c 1(4,5,7) in simp_all)
      finally show ?thesis .
    qed
  qed
qed

lemma getPriorVotes_votes_at:
  assumes "history_ok b tok" "n < block_number m"
  shows "getPriorVotes m tok a n = Ok (votes_at (cp_list tok a) n)"
proof -
  let ?k = "tok_numCheckpoints tok a" and ?f = "tok_checkpoints tok a"
  have sorted: "cp_fromBlock (?f i) < cp_fromBlock (?f j)" if "i < j" "j < ?k" for i j
    using assms(1) that unfolding history_ok_def cp_list_def by (auto simp: sorted_wrt_iff_nth_less)
  consider "?k = 0" | "?k \<noteq> 0" "cp_fromBlock (?f (?k - 1)) \<le> n" | "?k \<noteq> 0" "n < cp_fromBlock (?f 0)"
    | "?k \<noteq> 0" "n < cp_fromBlock (?f (?k - 1))" "cp_fromBlock (?f 0) \<le> n" by linarith
  then show ?thesis
  proof cases
    case 1
    then show ?thesis using assms(2) by (simp add: getPriorVotes_def cp_list_def votes_at_def)
  next
    case 2
    then have "votes_at (cp_list tok a) n = cp_votes (?f (?k - 1))"
      unfolding cp_list_def by (intro votes_at_prefix) simp_all
    with 2 assms(2) show ?thesis by (simp add: getPriorVotes_def Let_def)
  next
    case 3
    have late: "n < cp_fromBlock (?f i)" if "i < ?k" for i
      using sorted [of 0 i] that 3(2) by (cases i) auto
    then have "votes_at (cp_list tok a) n = 0"
      by (auto simp: votes_at_def cp_list_def filter_empty_conv not_le)
    moreover have "\<not> cp_fromBlock (?f (?k - 1)) \<le> n" using late [of "?k - 1"] 3(1) by simp
    ultimately show ?thesis using 3 assms(2) by (simp add: getPriorVotes_def Let_def)
  next
    case 4
    then have "prior_search ?f n 0 (?k - 1) = votes_at (cp_list tok a) n"
      unfolding cp_list_def by (intro prior_search_votes_at sorted) simp_all
    with 4 assms(2) show ?thesis by (simp add: getPriorVotes_def Let_def)
  qed
qed

text \<open>Writing a checkpoint replaces the last one of the block or appends a new one.\<close>

definition write_cp :: "nat \<Rightarrow> uint256 \<Rightarrow> Checkpoint list \<Rightarrow> Checkpoint list" where
  "write_cp b v cps =
     (if cps \<noteq> [] \<and> cp_fromBlock (last cps) = b then butlast cps @ [(last cps)\<lparr>cp_votes := v\<rparr>]
      else cps @ [\<lparr>cp_fromBlock = b, cp_votes = v\<rparr>])"

lemma write_cp_sorted:
  assumes "sorted_wrt (<) (map cp_fromBlock cps)" "\<forall>c \<in> set cps. cp_fromBlock c \<le> b"
  shows "sorted_wrt (<) (map cp_fromBlock (write_cp b v cps))" "\<forall>c \<in> set (write_cp b v cps). cp_fromBlock c \<le> b"
proof -
  show "sorted_wrt (<) (map cp_fromBlock (write_cp b v cps))"
    using assms by (cases cps rule: rev_cases) (fastforce simp: write_cp_def sorted_wrt_append)+
  show "\<forall>c \<in> set (write_cp b v cps). cp_fromBlock c \<le> b"
    using assms by (cases cps rule: rev_cases) (auto simp: write_cp_def)
qed

lemma write_cp_votes_at: "n < b \<Longrightarrow> votes_at (write_cp b v cps) n = votes_at cps n"
  by (cases cps rule: rev_cases) (auto simp: write_cp_def votes_at_def)

lemma writeCheckpoint_list:
  assumes "writeCheckpoint m d (tok_numCheckpoints tok d) v tok = Ok tok'"
  shows "cp_list tok' = (cp_list tok)(d := write_cp (block_number m) v (cp_list tok d))"
proof (cases "tok_numCheckpoints tok d")
  case 0
  then show ?thesis
    using assms
    by (auto simp: writeCheckpoint_def write_cp_def safe32_def Let_def res_simps sol_simps cp_list_def split: if_splits)
next
  case (Suc k)
  then show ?thesis
    using assms
    by (auto simp: writeCheckpoint_def write_cp_def safe32_def Let_def res_simps sol_simps cp_list_def split: if_splits)
qed

text \<open>What one transaction in block \<open>b\<close> does to the histories: it extends some of them.\<close>

definition extends :: "nat \<Rightarrow> 't DioneToken \<Rightarrow> 't DioneToken \<Rightarrow> bool" where
  "extends b tok tok' \<longleftrightarrow> (history_ok b tok \<longrightarrow> history_ok b tok')
     \<and> (\<forall>a n. n < b \<longrightarrow> votes_at (cp_list tok' a) n = votes_at (cp_list tok a) n)"

lemma extends_refl [simp]: "extends b tok tok"
  by (simp add: extends_def)

lemma extends_trans: "extends b t1 t2 \<Longrightarrow> extends b t2 t3 \<Longrightarrow> extends b t1 t3"
  by (simp add: extends_def)

lemma extends_same_history: "cp_list tok' = cp_list tok \<Longrightarrow> extends b tok tok'"
  by (simp add: extends_def history_ok_def)

lemma history_ok_mono: "history_ok b tok \<Longrightarrow> b \<le> b' \<Longrightarrow> history_ok b' tok"
  unfolding history_ok_def by (meson order_trans)

lemma writeCheckpoint_extends:
  assumes "writeCheckpoint m d (tok_numCheckpoints tok d) v tok = Ok tok'"
  shows "extends (block_number m) tok tok'"
  unfolding extends_def history_ok_def
  using write_cp_sorted [of "cp_list tok d" "block_number m" v] write_cp_votes_at
  by (auto simp: writeCheckpoint_list [OF assms])

lemma change_votes_extends: "change_votes m f rep tok = Ok tok' \<Longrightarrow> extends (block_number m) tok tok'"
  using writeCheckpoint_extends by (auto simp: change_votes_def res_simps split: if_splits)

lemma moveDelegates_extends:
  assumes "moveDelegates m src dst amount tok = Ok tok'"
  shows "extends (block_number m) tok tok'"
proof (cases "src \<noteq> dst \<and> amount > 0")
  case True
  with assms obtain tok1 where t: "change_votes m (\<lambda>v. sub256 v amount) src tok = Ok tok1"
      "change_votes m (\<lambda>v. add256 v amount) dst tok1 = Ok tok'"
    by (auto simp: moveDelegates_def res_simps)
  show ?thesis by (rule extends_trans [OF change_votes_extends [OF t(1)] change_votes_extends [OF t(2)]])
qed (use assms in \<open>auto simp: moveDelegates_def\<close>)

lemma moveDelegates_frame:
  assumes "moveDelegates m src dst amount tok = Ok tok'"
  shows "tok_erc tok' = tok_erc tok" "tok_owner tok' = tok_owner tok"
  using assms
  by (auto simp: moveDelegates_def change_votes_def writeCheckpoint_def safe32_def Let_def res_simps sol_simps split: if_splits)

lemma token_mint_erc:
  assumes "token_mint E m to amount tok = Ok tok'"
  shows "erc_mint E (tok_erc tok) to amount = Ok (tok_erc tok')"
  using assms moveDelegates_frame(1) by (fastforce simp: token_mint_def res_simps)

lemma delegate_from_erc:
  assumes "delegate_from E m a b tok = Ok tok'"
  shows "tok_erc tok' = tok_erc tok"
  using moveDelegates_frame(1) [OF assms [unfolded delegate_from_def]] by simp

text \<open>What a transaction does to the ERC20 part.\<close>

lemma token_step_erc:
  assumes "token_step E V this m tok tok'"
  obtains "tok_erc tok' = tok_erc tok"
  | to n where "erc_mint E (tok_erc tok) to n = Ok (tok_erc tok')"
  | to n where "erc_transfer E (tok_erc tok) (msg_sender m) to n = Ok (tok_erc tok')"
  | s n where "erc_approve E (tok_erc tok) (msg_sender m) s n = Ok (tok_erc tok')"
  | a b n where "erc_transferFrom E (tok_erc tok) (msg_sender m) a b n = Ok (tok_erc tok')"
  using assms
proof (cases rule: token_step.cases)
  case (by_sig delegatee nonce expiry v r s)
  then obtain a ns where "delegate_from E m a delegatee (tok\<lparr>tok_nonces := ns\<rparr>) = Ok tok'"
    by (auto simp: delegateBySig_def Let_def res_simps)
  with delegate_from_erc [OF this] show thesis using that(1) by simp
next
  case (mint to amount)
  then show thesis by (rule that(2) [OF token_mint_erc])
next
  case (delegate delegatee)
  then show thesis by (intro that(1) delegate_from_erc) (simp add: delegate_def)
qed (use that in auto)

lemma cp_list_other [simp]:
  "cp_list (tok\<lparr>tok_erc := erc\<rparr>) = cp_list tok" "cp_list (tok\<lparr>tok_owner := w\<rparr>) = cp_list tok"
  "cp_list (tok\<lparr>tok_delegates := ds\<rparr>) = cp_list tok" "cp_list (tok\<lparr>tok_nonces := ns\<rparr>) = cp_list tok"
  by (simp_all add: cp_list_def fun_eq_iff)

lemma delegate_from_extends:
  assumes "delegate_from E m delegator delegatee tok = Ok tok'"
  shows "extends (block_number m) tok tok'"
  by (rule extends_trans [OF extends_same_history moveDelegates_extends [OF assms [unfolded delegate_from_def]]]) simp

lemma token_step_extends: "token_step E V this m tok tok' \<Longrightarrow> extends (block_number m) tok tok'"
proof (induction rule: token_step.cases)
  case (mint to amount tok tok')
  then obtain erc where "moveDelegates m address0 (tok_delegates tok to) amount (tok\<lparr>tok_erc := erc\<rparr>) = Ok tok'"
    by (auto simp: token_mint_def res_simps)
  from extends_trans [OF extends_same_history moveDelegates_extends [OF this]] show ?case using mint by simp
next
  case (by_sig delegatee nonce expiry v r s tok tok')
  then obtain a n where "delegate_from E m a delegatee (tok\<lparr>tok_nonces := n\<rparr>) = Ok tok'"
    by (auto simp: delegateBySig_def Let_def res_simps)
  from extends_trans [OF extends_same_history delegate_from_extends [OF this]] show ?case using by_sig by simp
qed (auto simp: delegate_def intro: delegate_from_extends extends_same_history)

text \<open>A run keeps the histories sorted, and what its first block could not know it does not change.\<close>

lemma token_run_history:
  "token_run E V this b tok b' tok' \<Longrightarrow> history_ok b tok \<Longrightarrow>
     b \<le> b' \<and> history_ok b' tok' \<and> (\<forall>a n. n < b \<longrightarrow> votes_at (cp_list tok' a) n = votes_at (cp_list tok a) n)"
proof (induction rule: token_run.induct)
  case (step b' tok' m tok'')
  have ih: "b \<le> b'" "history_ok b' tok'" "\<forall>a n. n < b \<longrightarrow> votes_at (cp_list tok' a) n = votes_at (cp_list tok a) n"
    using step.IH [OF step.prems] by simp_all
  have "history_ok (block_number m) tok'" by (rule history_ok_mono [OF ih(2) step.hyps(2)])
  with ih(1,3) step.hyps(2) token_step_extends [OF step.hyps(3)] show ?case
    unfolding extends_def by auto
qed simp

lemma history_ok_new: "history_ok b (new_DioneToken erc deployer)"
  by (simp add: history_ok_def cp_list_def new_DioneToken_def)

section \<open>Properties\<close>

text \<open>C26. The bisection over checkpoints is right: whatever transactions are executed after block
  \<open>n\<close>, \<open>getPriorVotes\<close> for block \<open>n\<close> then returns the votes that \<open>getCurrentVotes\<close> returned at
  the end of block \<open>n\<close>, for every account, and it always returns.\<close>

theorem prior_votes_historic:
  assumes "token_run E V this 0 (new_DioneToken erc deployer) b tok" "b \<le> n"
    and "token_run E V this (Suc n) tok b' tok'" "n < block_number m"
  shows "getPriorVotes m tok' a n = Ok (getCurrentVotes tok a)"
proof -
  have h: "history_ok n tok"
    using token_run_history [OF assms(1) history_ok_new] history_ok_mono assms(2) by blast
  then have h1: "history_ok (Suc n) tok" by (rule history_ok_mono) simp
  have "getPriorVotes m tok' a n = Ok (votes_at (cp_list tok' a) n)"
    by (rule getPriorVotes_votes_at [OF _ assms(4)]) (use token_run_history [OF assms(3) h1] in blast)
  also have "votes_at (cp_list tok' a) n = votes_at (cp_list tok a) n"
    using token_run_history [OF assms(3) h1] by simp
  also have "\<dots> = getCurrentVotes tok a" using h by (intro votes_at_current) (simp add: history_ok_def)
  finally show ?thesis .
qed

text \<open>A token with two holders, for the witness.\<close>

definition holder :: "nat \<Rightarrow> address" where
  "holder i = replicate 19 0 @ [of_nat i]"

definition at_block :: "nat \<Rightarrow> nat \<Rightarrow> msg" where
  "at_block i b = \<lparr>msg_sender = holder i, block_number = b, block_timestamp = 1000 + b\<rparr>"

definition ok_or :: "'a \<Rightarrow> 'a res \<Rightarrow> 'a" where
  "ok_or d r = (case r of Ok x \<Rightarrow> x | _ \<Rightarrow> d)"

definition demo_token0 :: "erc_state DioneToken" where
  "demo_token0 = new_DioneToken \<lparr>es_balances = (\<lambda>_. 0), es_allowances = (\<lambda>_ _. 0), es_totalSupply = 0\<rparr> (holder 9)"

definition demo_token1 :: "erc_state DioneToken" where
  "demo_token1 = ok_or demo_token0 (bind_res (token_mint oz_ERC20 (at_block 9 3) (holder 1) 10 demo_token0)
     (\<lambda>t. delegate oz_ERC20 (at_block 1 5) (holder 7) t))"

definition demo_token2 :: "erc_state DioneToken" where
  "demo_token2 = ok_or demo_token1 (bind_res (erc_transfer oz_ERC20 (tok_erc demo_token1) (holder 1) (holder 2) 10)
     (\<lambda>erc. delegate oz_ERC20 (at_block 2 8) (holder 7) (demo_token1\<lparr>tok_erc := erc\<rparr>)))"

lemmas token_defs = token_mint_def delegate_def delegate_from_def moveDelegates_def change_votes_def writeCheckpoint_def
  safe32_def getCurrentVotes_def new_DioneToken_def Let_def add256_def sub256_def require_def guard_res_def

lemmas oz_defs = oz_ERC20_def oz_mint_def oz_transfer_def

lemma holder_simps [simp]: "holder i = holder j \<longleftrightarrow> (of_nat i :: byte) = of_nat j" "holder i = address0 \<longleftrightarrow> (of_nat i :: byte) = 0"
    "address0 = holder i \<longleftrightarrow> (of_nat i :: byte) = 0"
  by (auto simp: holder_def address0_def replicate_append_same [symmetric] eval_nat_numeral)

lemma demo_token1_steps:
  obtains t where "token_mint oz_ERC20 (at_block 9 3) (holder 1) 10 demo_token0 = Ok t"
    "delegate oz_ERC20 (at_block 1 5) (holder 7) t = Ok demo_token1"
proof -
  have "\<exists>t. token_mint oz_ERC20 (at_block 9 3) (holder 1) 10 demo_token0 = Ok t
      \<and> delegate oz_ERC20 (at_block 1 5) (holder 7) t = Ok demo_token1"
    by (simp add: demo_token1_def demo_token0_def ok_or_def token_defs oz_defs at_block_def)
  then show thesis using that by blast
qed

lemma demo_token2_steps:
  obtains erc where "erc_transfer oz_ERC20 (tok_erc demo_token1) (holder 1) (holder 2) 10 = Ok erc"
    "delegate oz_ERC20 (at_block 2 8) (holder 7) (demo_token1\<lparr>tok_erc := erc\<rparr>) = Ok demo_token2"
proof -
  have "\<exists>erc. erc_transfer oz_ERC20 (tok_erc demo_token1) (holder 1) (holder 2) 10 = Ok erc
      \<and> delegate oz_ERC20 (at_block 2 8) (holder 7) (demo_token1\<lparr>tok_erc := erc\<rparr>) = Ok demo_token2"
    by (simp add: demo_token2_def demo_token1_def demo_token0_def ok_or_def token_defs oz_defs at_block_def)
  then show thesis using that by blast
qed

lemma demo_votes: "getCurrentVotes demo_token1 (holder 7) = 10" "getCurrentVotes demo_token2 (holder 7) = 20"
  by (simp_all add: demo_token2_def demo_token1_def demo_token0_def ok_or_def token_defs oz_defs at_block_def)

lemma demo_token_runs:
  "token_run oz_ERC20 V this 0 demo_token0 5 demo_token1" "token_run oz_ERC20 V this 6 demo_token1 8 demo_token2"
proof -
  obtain t where t: "token_mint oz_ERC20 (at_block 9 3) (holder 1) 10 demo_token0 = Ok t"
      "delegate oz_ERC20 (at_block 1 5) (holder 7) t = Ok demo_token1" by (rule demo_token1_steps)
  have "token_run oz_ERC20 V this 0 demo_token0 (block_number (at_block 9 3)) t"
    by (rule token_run.step [OF token_run.start _ token_step.mint [OF t(1)]]) simp
  from token_run.step [OF this _ token_step.delegate [OF t(2)]]
  show "token_run oz_ERC20 V this 0 demo_token0 5 demo_token1" by (simp add: at_block_def)
  obtain erc where e: "erc_transfer oz_ERC20 (tok_erc demo_token1) (holder 1) (holder 2) 10 = Ok erc"
      "delegate oz_ERC20 (at_block 2 8) (holder 7) (demo_token1\<lparr>tok_erc := erc\<rparr>) = Ok demo_token2" by (rule demo_token2_steps)
  have "token_step oz_ERC20 V this (at_block 1 7) demo_token1 (demo_token1\<lparr>tok_erc := erc\<rparr>)"
    by (rule token_step.transfer) (use e(1) in \<open>simp add: at_block_def\<close>)
  from token_run.step [OF token_run.start [of _ _ _ 6] _ this]
  have "token_run oz_ERC20 V this 6 demo_token1 (block_number (at_block 1 7)) (demo_token1\<lparr>tok_erc := erc\<rparr>)"
    by (simp add: at_block_def)
  from token_run.step [OF this _ token_step.delegate [OF e(2)]]
  show "token_run oz_ERC20 V this 6 demo_token1 8 demo_token2" by (simp add: at_block_def)
qed

text \<open>A transfer does not move the votes of its sender: here ten tokens give twenty votes.\<close>

lemma votes_exceed_supply:
  "getCurrentVotes demo_token2 (holder 7) = 20 \<and> es_totalSupply (tok_erc demo_token2) = 10"
  by (simp add: demo_token2_def demo_token1_def demo_token0_def ok_or_def token_defs oz_defs at_block_def)

theorem prior_votes_historic_witness:
  "getPriorVotes (at_block 1 9) demo_token2 (holder 7) 5 = Ok 10"
proof -
  have "token_run oz_ERC20 V this (Suc 5) demo_token1 8 demo_token2" for V this using demo_token_runs(2) by simp
  from prior_votes_historic [OF demo_token_runs(1) [unfolded demo_token0_def] _ this, of "at_block 1 9" "holder 7"]
  show ?thesis by (simp add: demo_votes at_block_def)
qed

end
