(* ===== verification/Staking_Contract.thy ===== *)
theory Staking_Contract
  imports Token_Contract
begin

text \<open>
  The staking contract (\<open>eth-contracts/contracts/DioneStaking.sol\<close>) together with the token it
  holds. An operation gets the contract's own address \<open>this\<close> and the message and returns the
  new state of both contracts or reverts. The guard against reentrancy has no counterpart:
  the token calls nobody back.
\<close>

section \<open>State\<close>

record MinerInfo =
  mi_amount :: uint256
  mi_firstStakeBlock :: uint256
  mi_lastRewardBlock :: uint256

record DioneStaking =
  st_owner :: address
  st_dioneOracleAddress :: address
  st_disputeContractAddr :: address
  st_minerReward :: uint256
  st_startBlock :: uint256
  st_minimumStake :: uint256
  st_totalStake :: uint256
  st_minerInfo :: "address \<Rightarrow> MinerInfo"

record 't pos =
  ps_token :: "'t DioneToken"
  ps_staking :: DioneStaking

definition new_DioneStaking :: "address \<Rightarrow> uint256 \<Rightarrow> uint256 \<Rightarrow> uint256 \<Rightarrow> DioneStaking" where
  "new_DioneStaking deployer reward start minimum =
     \<lparr>st_owner = deployer, st_dioneOracleAddress = address0, st_disputeContractAddr = address0, st_minerReward = reward,
      st_startBlock = start, st_minimumStake = minimum, st_totalStake = 0,
      st_minerInfo = (\<lambda>_. \<lparr>mi_amount = 0, mi_firstStakeBlock = 0, mi_lastRewardBlock = 0\<rparr>)\<rparr>"

definition upd_miner :: "address \<Rightarrow> (MinerInfo \<Rightarrow> MinerInfo) \<Rightarrow> DioneStaking \<Rightarrow> DioneStaking" where
  "upd_miner a f s = s\<lparr>st_minerInfo := (st_minerInfo s)(a := f (st_minerInfo s a))\<rparr>"

section \<open>Operations\<close>

definition totalStake :: "DioneStaking \<Rightarrow> uint256" where
  "totalStake s = st_totalStake s"

definition minerStake :: "DioneStaking \<Rightarrow> address \<Rightarrow> uint256" where
  "minerStake s a = mi_amount (st_minerInfo s a)"

definition isMiner :: "DioneStaking \<Rightarrow> address \<Rightarrow> bool" where
  "isMiner s a \<longleftrightarrow> st_minimumStake s \<le> mi_amount (st_minerInfo s a)"

definition mine :: "'t ERC20 \<Rightarrow> address \<Rightarrow> msg \<Rightarrow> address \<Rightarrow> 't pos \<Rightarrow> 't pos res" where
  "mine E this m minerAddr w =
     (let s = ps_staking w in
      bind_res (require (msg_sender m = st_dioneOracleAddress s) ''not oracle contract'') (\<lambda>_.
      bind_res (token_mint E (m\<lparr>msg_sender := this\<rparr>) minerAddr (st_minerReward s) (ps_token w)) (\<lambda>tok.
        Ok \<lparr>ps_token = tok,
          ps_staking = upd_miner minerAddr (\<lambda>i. i\<lparr>mi_lastRewardBlock := block_number m\<rparr>) s\<rparr>)))"

definition mineAndStake :: "'t ERC20 \<Rightarrow> address \<Rightarrow> msg \<Rightarrow> address \<Rightarrow> 't pos \<Rightarrow> 't pos res" where
  "mineAndStake E this m minerAddr w =
     (let s = ps_staking w in
      bind_res (require (msg_sender m = st_dioneOracleAddress s) ''not oracle contract'') (\<lambda>_.
      bind_res (token_mint E (m\<lparr>msg_sender := this\<rparr>) this (st_minerReward s) (ps_token w)) (\<lambda>tok.
      bind_res (add256 (st_totalStake s) (st_minerReward s)) (\<lambda>ts.
      bind_res (add256 (minerStake s minerAddr) (st_minerReward s)) (\<lambda>amount.
        Ok \<lparr>ps_token = tok,
          ps_staking = upd_miner minerAddr (\<lambda>i. i\<lparr>mi_amount := amount, mi_lastRewardBlock := block_number m\<rparr>)
            (s\<lparr>st_totalStake := ts\<rparr>)\<rparr>)))))"

definition stake :: "'t ERC20 \<Rightarrow> address \<Rightarrow> msg \<Rightarrow> uint256 \<Rightarrow> 't pos \<Rightarrow> 't pos res" where
  "stake E this m amount w =
     (let s = ps_staking w; tok = ps_token w in
      bind_res (require (amount > 0) ''cannot stake zero'') (\<lambda>_.
      bind_res (require (st_minimumStake s \<le> amount) ''actual stake amount is less than minimum stake amount'') (\<lambda>_.
      bind_res (erc_transferFrom E (tok_erc tok) this (msg_sender m) this amount) (\<lambda>erc.
      bind_res (add256 (st_totalStake s) amount) (\<lambda>ts.
      bind_res (add256 (minerStake s (msg_sender m)) amount) (\<lambda>a.
        Ok \<lparr>ps_token = tok\<lparr>tok_erc := erc\<rparr>,
          ps_staking = upd_miner (msg_sender m)
            (\<lambda>i. i\<lparr>mi_amount := a, mi_firstStakeBlock := (if mi_firstStakeBlock i = 0
               then if st_startBlock s < block_number m then block_number m else st_startBlock s
               else mi_firstStakeBlock i)\<rparr>)
            (s\<lparr>st_totalStake := ts\<rparr>)\<rparr>))))))"

definition withdraw :: "'t ERC20 \<Rightarrow> address \<Rightarrow> msg \<Rightarrow> uint256 \<Rightarrow> 't pos \<Rightarrow> 't pos res" where
  "withdraw E this m amount w =
     (let s = ps_staking w; tok = ps_token w in
      bind_res (require (amount \<le> minerStake s (msg_sender m)) ''withdraw: not enough tokens'') (\<lambda>_.
      bind_res (require (amount > 0) ''cannot withdraw zero'') (\<lambda>_.
      bind_res (sub256 (st_totalStake s) amount) (\<lambda>ts.
      bind_res (sub256 (minerStake s (msg_sender m)) amount) (\<lambda>a.
      bind_res (erc_transfer E (tok_erc tok) this (msg_sender m) amount) (\<lambda>erc.
        Ok \<lparr>ps_token = tok\<lparr>tok_erc := erc\<rparr>,
          ps_staking = upd_miner (msg_sender m) (\<lambda>i. i\<lparr>mi_amount := a\<rparr>) (s\<lparr>st_totalStake := ts\<rparr>)\<rparr>))))))"

text \<open>The setters: only the owner, and no zero.\<close>

definition owner_sets :: "msg \<Rightarrow> bool \<Rightarrow> string \<Rightarrow> (DioneStaking \<Rightarrow> DioneStaking) \<Rightarrow> DioneStaking \<Rightarrow> DioneStaking res" where
  "owner_sets m ok reason f s =
     bind_res (require (msg_sender m = st_owner s) ''Ownable: caller is not the owner'') (\<lambda>_.
     bind_res (require ok reason) (\<lambda>_. Ok (f s)))"

definition setMinerReward :: "msg \<Rightarrow> uint256 \<Rightarrow> DioneStaking \<Rightarrow> DioneStaking res" where
  "setMinerReward m v = owner_sets m (v > 0) ''reward must not be zero'' (\<lambda>s. s\<lparr>st_minerReward := v\<rparr>)"

definition setMinimumStake :: "msg \<Rightarrow> uint256 \<Rightarrow> DioneStaking \<Rightarrow> DioneStaking res" where
  "setMinimumStake m v = owner_sets m (v > 0) ''minimum stake must not be zero'' (\<lambda>s. s\<lparr>st_minimumStake := v\<rparr>)"

definition setOracleContractAddress :: "msg \<Rightarrow> address \<Rightarrow> DioneStaking \<Rightarrow> DioneStaking res" where
  "setOracleContractAddress m a =
     owner_sets m (a \<noteq> address0) ''address must not be zero'' (\<lambda>s. s\<lparr>st_dioneOracleAddress := a\<rparr>)"

definition setDisputeContractAddress :: "msg \<Rightarrow> address \<Rightarrow> DioneStaking \<Rightarrow> DioneStaking res" where
  "setDisputeContractAddress m a =
     owner_sets m (a \<noteq> address0) ''address must not be zero'' (\<lambda>s. s\<lparr>st_disputeContractAddr := a\<rparr>)"

text \<open>The counter \<open>i\<close> of the loop is a \<open>uint8\<close>: its increment reverts at 255.\<close>

fun slash_loop :: "nat \<Rightarrow> address \<Rightarrow> uint256 \<Rightarrow> address list \<Rightarrow> DioneStaking \<Rightarrow> DioneStaking res" where
  "slash_loop i miner share [] s = Ok s"
| "slash_loop i miner share (r # rs) s =
     bind_res (require (r \<noteq> miner) ''receipent address must not be slashing address'') (\<lambda>_.
     bind_res (require (isMiner s r) ''receipent address isn't dione miner'') (\<lambda>_.
     bind_res (sub256 (minerStake s miner) share) (\<lambda>a.
     let s1 = upd_miner miner (\<lambda>i. i\<lparr>mi_amount := a\<rparr>) s in
     bind_res (add256 (minerStake s1 r) share) (\<lambda>b.
     let s2 = upd_miner r (\<lambda>i. i\<lparr>mi_amount := b\<rparr>) s1 in
     if i < 255 then slash_loop (Suc i) miner share rs s2 else Err (Errorf ''overflow'')))))"

definition slashMiner :: "msg \<Rightarrow> address \<Rightarrow> address list \<Rightarrow> DioneStaking \<Rightarrow> DioneStaking res" where
  "slashMiner m miner receipentMiners s =
     bind_res (require (msg_sender m = st_disputeContractAddr s) ''caller is not the dispute contract'') (\<lambda>_.
     bind_res (require (miner \<noteq> address0) ''slashing address must not be zero'') (\<lambda>_.
     bind_res (require (isMiner s miner) ''slashing address isn't dione miner'') (\<lambda>_.
     bind_res (div256 (minerStake s miner) (length receipentMiners)) (\<lambda>share.
       slash_loop 0 miner share receipentMiners s))))"

section \<open>Runs\<close>

text \<open>Any call of any function of the two contracts by anyone but the staking contract itself.\<close>

definition on_staking :: "(DioneStaking \<Rightarrow> DioneStaking res) \<Rightarrow> 't pos \<Rightarrow> 't pos res" where
  "on_staking f w = bind_res (f (ps_staking w)) (\<lambda>s. Ok (w\<lparr>ps_staking := s\<rparr>))"

inductive pos_step :: "'t ERC20 \<Rightarrow> evm \<Rightarrow> address \<Rightarrow> address \<Rightarrow> msg \<Rightarrow> 't pos \<Rightarrow> 't pos \<Rightarrow> bool" for E V token this m where
  mine: "mine E this m a w = Ok w' \<Longrightarrow> pos_step E V token this m w w'"
| mineAndStake: "mineAndStake E this m a w = Ok w' \<Longrightarrow> pos_step E V token this m w w'"
| stake: "stake E this m n w = Ok w' \<Longrightarrow> pos_step E V token this m w w'"
| withdraw: "withdraw E this m n w = Ok w' \<Longrightarrow> pos_step E V token this m w w'"
| set_reward: "on_staking (setMinerReward m n) w = Ok w' \<Longrightarrow> pos_step E V token this m w w'"
| set_minimum: "on_staking (setMinimumStake m n) w = Ok w' \<Longrightarrow> pos_step E V token this m w w'"
| set_oracle: "on_staking (setOracleContractAddress m a) w = Ok w' \<Longrightarrow> pos_step E V token this m w w'"
| set_dispute: "on_staking (setDisputeContractAddress m a) w = Ok w' \<Longrightarrow> pos_step E V token this m w w'"
| set_owner: "msg_sender m = st_owner (ps_staking w) \<Longrightarrow>
    pos_step E V token this m w (w\<lparr>ps_staking := (ps_staking w)\<lparr>st_owner := a\<rparr>\<rparr>)"
| slash: "on_staking (slashMiner m a rs) w = Ok w' \<Longrightarrow> pos_step E V token this m w w'"
| token: "token_step E V token m (ps_token w) tok \<Longrightarrow> pos_step E V token this m w (w\<lparr>ps_token := tok\<rparr>)"

inductive pos_reachable :: "'t ERC20 \<Rightarrow> evm \<Rightarrow> address \<Rightarrow> address \<Rightarrow> 't pos \<Rightarrow> 't pos \<Rightarrow> bool" for E V token this w0 where
  start: "pos_reachable E V token this w0 w0"
| step: "pos_reachable E V token this w0 w \<Longrightarrow> msg_sender m \<noteq> this \<Longrightarrow> pos_step E V token this m w w' \<Longrightarrow>
    pos_reachable E V token this w0 w'"

section \<open>Lemmas\<close>

lemma minerStake_upd [simp]:
  "minerStake (upd_miner a f s) = (minerStake s)(a := mi_amount (f (st_minerInfo s a)))"
  "st_totalStake (upd_miner a f s) = st_totalStake s" "st_minimumStake (upd_miner a f s) = st_minimumStake s" "minerStake (s\<lparr>st_totalStake := t\<rparr>) = minerStake s"
  by (auto simp: upd_miner_def minerStake_def)

lemma isMiner_stake: "isMiner s a \<longleftrightarrow> st_minimumStake s \<le> minerStake s a"
  by (simp add: isMiner_def minerStake_def)

definition staked :: "DioneStaking \<Rightarrow> bool" where
  "staked s \<longleftrightarrow> finitely_many (minerStake s) \<and> total (minerStake s) = st_totalStake s"

definition backed :: "'t ERC20 \<Rightarrow> ('t \<Rightarrow> bool) \<Rightarrow> address \<Rightarrow> 't pos \<Rightarrow> bool" where
  "backed E valid this w \<longleftrightarrow> staked (ps_staking w) \<and> valid (tok_erc (ps_token w))
     \<and> st_totalStake (ps_staking w) \<le> erc_balanceOf E (tok_erc (ps_token w)) this
     \<and> (\<forall>s. erc_allowance E (tok_erc (ps_token w)) this s = 0)"

lemma staked_add:
  assumes "staked s"
  shows "staked (upd_miner a f (s\<lparr>st_totalStake := t\<rparr>)) \<longleftrightarrow>
    t + minerStake s a = st_totalStake s + mi_amount (f (st_minerInfo s a))"
  using assms total_upd [of "minerStake s" a "mi_amount (f (st_minerInfo s a))"] by (auto simp: staked_def)

lemma staked_cong: "minerStake s' = minerStake s \<Longrightarrow> st_totalStake s' = st_totalStake s \<Longrightarrow> staked s' = staked s"
  by (simp add: staked_def)

lemma owner_sets_staked:
  assumes "owner_sets m ok r f s = Ok s'" "\<And>s. minerStake (f s) = minerStake s" "\<And>s. st_totalStake (f s) = st_totalStake s"
  shows "staked s' = staked s" "st_totalStake s' = st_totalStake s"
  using assms staked_cong [of "f s" s] by (auto simp: owner_sets_def res_simps)

text \<open>Slashing moves stake and leaves the sum alone.\<close>

lemma slash_loop_spec:
  assumes "slash_loop i miner share rs s = Ok s'" "finitely_many (minerStake s)"
  shows "finitely_many (minerStake s') \<and> total (minerStake s') = total (minerStake s)
    \<and> st_totalStake s' = st_totalStake s \<and> length rs * share \<le> minerStake s miner
    \<and> minerStake s' miner = minerStake s miner - length rs * share
    \<and> (\<forall>r. r \<noteq> miner \<longrightarrow> minerStake s' r = minerStake s r + count_list rs r * share)
    \<and> (rs \<noteq> [] \<longrightarrow> i + length rs \<le> 255) \<and> miner \<notin> set rs"
  using assms
proof (induction rs arbitrary: i s)
  case (Cons r rs)
  let ?s1 = "upd_miner miner (\<lambda>i. i\<lparr>mi_amount := minerStake s miner - share\<rparr>) s"
  let ?s2 = "upd_miner r (\<lambda>i. i\<lparr>mi_amount := minerStake s r + share\<rparr>) ?s1"
  from Cons.prems(1) have h: "r \<noteq> miner" "share \<le> minerStake s miner" "i < 255"
    and l: "slash_loop (Suc i) miner share rs ?s2 = Ok s'"
    by (auto simp: Let_def res_simps sol_simps split: if_splits)
  have "minerStake ?s2 = (minerStake s)(miner := minerStake s miner - share, r := minerStake s r + share)"
    using h(1) by simp
  moreover have "moved miner r share (minerStake s) = \<dots>" using h(1) by (simp add: moved_def)
  ultimately have m: "minerStake ?s2 = moved miner r share (minerStake s)" by simp
  note t = total_moved [OF Cons.prems(2) h(2), of r]
  note ih = Cons.IH [OF l, unfolded m, OF t(1)]
  have "moved miner r share (minerStake s) miner = minerStake s miner - share"
    "moved miner r share (minerStake s) x = minerStake s x + (if x = r then share else 0)" if "x \<noteq> miner" for x
    using h(1) that by (auto simp: moved_def)
  with ih t(2) h show ?case by auto
qed simp

lemma moved_other: "x \<noteq> a \<Longrightarrow> bal x \<le> moved a b n bal x"
  by (simp add: moved_def Let_def)

context erc20
begin

text \<open>Transactions of others do not touch what the staking contract holds.\<close>

lemma others_token_step:
  assumes "token_step E V token m tok tok'" "msg_sender m \<noteq> this" "valid (tok_erc tok)"
    and "\<forall>s. erc_allowance E (tok_erc tok) this s = 0"
  shows "valid (tok_erc tok')" "erc_balanceOf E (tok_erc tok) this \<le> erc_balanceOf E (tok_erc tok') this"
    "\<forall>s. erc_allowance E (tok_erc tok') this s = 0"
proof -
  have "valid (tok_erc tok') \<and> erc_balanceOf E (tok_erc tok) this \<le> erc_balanceOf E (tok_erc tok') this
      \<and> (\<forall>s. erc_allowance E (tok_erc tok') this s = 0)"
    using assms(1)
  proof (cases rule: token_step_erc)
    case (2 to n)
    then show ?thesis using assms mint_valid mint_balance mint_allowance by simp
  next
    case (3 to n)
    then show ?thesis
      using assms transfer_valid transfer_balance transfer_allowance moved_other [of this "msg_sender m"] by fastforce
  next
    case (4 s n)
    then show ?thesis using assms approve_valid approve_balance approve_allowance by simp
  next
    case (5 a b n)
    note b = transferFrom_balance [OF 5] and al = transferFrom_allowance [OF 5]
    have "erc_balanceOf E (tok_erc tok) this \<le> erc_balanceOf E (tok_erc tok') this"
    proof (cases "a = this")
      case True
      with al assms(4) have "n = 0" by simp
      then show ?thesis using b by (simp add: moved_def Let_def)
    qed (use b moved_other in simp)
    moreover have "\<forall>s. erc_allowance E (tok_erc tok') this s = 0"
      using al assms(4) by (metis le_zero_eq)
    ultimately show ?thesis using transferFrom_valid [OF assms(3) 5] by simp
  qed (use assms in simp)
  then show "valid (tok_erc tok')" "erc_balanceOf E (tok_erc tok) this \<le> erc_balanceOf E (tok_erc tok') this"
    "\<forall>s. erc_allowance E (tok_erc tok') this s = 0" by simp_all
qed

lemma mined_token:
  assumes "token_mint E m to n tok = Ok tok'" "valid (tok_erc tok)"
  shows "valid (tok_erc tok')" "erc_allowance E (tok_erc tok') = erc_allowance E (tok_erc tok)"
    "erc_balanceOf E (tok_erc tok') this = erc_balanceOf E (tok_erc tok) this + (if this = to then n else 0)"
  using token_mint_erc [OF assms(1)] mint_valid [OF assms(2)] mint_balance mint_allowance by auto

end

lemma slashMiner_Ok:
  assumes "slashMiner m miner rs s = Ok s'"
  shows "msg_sender m = st_disputeContractAddr s" "isMiner s miner" "rs \<noteq> []"
    "slash_loop 0 miner (minerStake s miner div length rs) rs s = Ok s'"
  using assms by (auto simp: slashMiner_def res_simps sol_simps)

lemma slashMiner_staked:
  assumes "slashMiner m miner rs s = Ok s'" "staked s"
  shows "staked s'" "st_totalStake s' = st_totalStake s"
  using slash_loop_spec [OF slashMiner_Ok(4) [OF assms(1)]] assms(2) by (auto simp: staked_def)

lemma staking_call_backed:
  assumes "on_staking f w = Ok w'" "backed E valid this w"
    and "\<And>s s'. f s = Ok s' \<Longrightarrow> staked s \<Longrightarrow> staked s' \<and> st_totalStake s' = st_totalStake s"
  shows "backed E valid this w'"
  using assms by (auto simp: on_staking_def backed_def res_simps)

lemma setter_backed:
  assumes "on_staking (owner_sets m ok r f) w = Ok w'" "backed E valid this w"
    and "\<And>s. minerStake (f s) = minerStake s" "\<And>s. st_totalStake (f s) = st_totalStake s"
  shows "backed E valid this w'"
  using owner_sets_staked [OF _ assms(3,4)] by (intro staking_call_backed [OF assms(1,2)]) simp

context erc20
begin

lemma mine_backed:
  assumes "mine E this m a w = Ok w'" "backed E valid this w"
  shows "backed E valid this w'"
proof -
  obtain tok where t: "token_mint E (m\<lparr>msg_sender := this\<rparr>) a (st_minerReward (ps_staking w)) (ps_token w) = Ok tok"
    and w': "w' = \<lparr>ps_token = tok, ps_staking = upd_miner a (\<lambda>i. i\<lparr>mi_lastRewardBlock := block_number m\<rparr>) (ps_staking w)\<rparr>"
    using assms(1) by (auto simp: mine_def Let_def res_simps)
  have "staked (ps_staking w') = staked (ps_staking w)"
    unfolding w' by (rule staked_cong) (simp_all add: fun_eq_iff minerStake_def upd_miner_def)
  with assms(2) mined_token [OF t] show ?thesis by (simp add: backed_def w')
qed

lemma mineAndStake_backed:
  assumes "mineAndStake E this m a w = Ok w'" "backed E valid this w"
  shows "backed E valid this w'"
proof -
  let ?s = "ps_staking w" and ?r = "st_minerReward (ps_staking w)"
  obtain tok where t: "token_mint E (m\<lparr>msg_sender := this\<rparr>) this ?r (ps_token w) = Ok tok"
    and w': "w' = \<lparr>ps_token = tok, ps_staking = upd_miner a (\<lambda>i. i\<lparr>mi_amount := minerStake ?s a + ?r,
      mi_lastRewardBlock := block_number m\<rparr>) (?s\<lparr>st_totalStake := st_totalStake ?s + ?r\<rparr>)\<rparr>"
    using assms(1) by (auto simp: mineAndStake_def Let_def res_simps sol_simps)
  show ?thesis using assms(2) mined_token [OF t] by (simp add: backed_def w' staked_add)
qed

lemma stake_backed:
  assumes "stake E this m n w = Ok w'" "backed E valid this w" "msg_sender m \<noteq> this"
  shows "backed E valid this w'"
proof -
  let ?s = "ps_staking w" and ?erc = "tok_erc (ps_token w)"
  obtain erc f where t: "erc_transferFrom E ?erc this (msg_sender m) this n = Ok erc"
    and w': "w' = \<lparr>ps_token = (ps_token w)\<lparr>tok_erc := erc\<rparr>,
      ps_staking = upd_miner (msg_sender m) f (?s\<lparr>st_totalStake := st_totalStake ?s + n\<rparr>)\<rparr>"
    and f: "\<And>i. mi_amount (f i) = minerStake ?s (msg_sender m) + n"
    using assms(1) by (auto simp: stake_def Let_def res_simps sol_simps)
  note b = transferFrom_balance [OF t] and al = transferFrom_allowance [OF t, of this]
  have "valid erc" using transferFrom_valid [OF _ t] assms(2) by (simp add: backed_def)
  moreover have "erc_balanceOf E erc this = erc_balanceOf E ?erc this + n" using b assms(3) by (simp add: moved_def Let_def)
  moreover have "\<forall>s. erc_allowance E erc this s = 0" using al assms(2) by (metis backed_def le_zero_eq)
  ultimately show ?thesis using assms(2) by (simp add: backed_def w' staked_add f)
qed

lemma withdraw_backed:
  assumes "withdraw E this m n w = Ok w'" "backed E valid this w" "msg_sender m \<noteq> this"
  shows "backed E valid this w'"
proof -
  let ?s = "ps_staking w" and ?erc = "tok_erc (ps_token w)"
  obtain erc where t: "erc_transfer E ?erc this (msg_sender m) n = Ok erc"
    and le: "n \<le> minerStake ?s (msg_sender m)" "n \<le> st_totalStake ?s"
    and w': "w' = \<lparr>ps_token = (ps_token w)\<lparr>tok_erc := erc\<rparr>, ps_staking = upd_miner (msg_sender m)
      (\<lambda>i. i\<lparr>mi_amount := minerStake ?s (msg_sender m) - n\<rparr>) (?s\<lparr>st_totalStake := st_totalStake ?s - n\<rparr>)\<rparr>"
    using assms(1) by (auto simp: withdraw_def Let_def res_simps sol_simps)
  have "valid erc" using transfer_valid [OF _ t] assms(2) by (simp add: backed_def)
  moreover have "erc_balanceOf E erc this = erc_balanceOf E ?erc this - n"
    using transfer_balance [OF t] assms(3) by (simp add: moved_def Let_def)
  ultimately show ?thesis
    using assms(2) le transfer_allowance [OF t] by (simp add: backed_def w' staked_add diff_le_mono)
qed

lemma pos_step_backed:
  assumes "pos_step E V token this m w w'" "backed E valid this w" "msg_sender m \<noteq> this"
  shows "backed E valid this w'"
  using assms(1)
proof (cases rule: pos_step.cases)
  case (token tok)
  then show ?thesis
    using assms(2) others_token_step [OF token(2) assms(3)] by (auto simp: backed_def intro: order_trans)
next
  case (slash a rs)
  then show ?thesis using slashMiner_staked by (blast intro: staking_call_backed [OF _ assms(2)])
next
  case (set_owner a)
  then show ?thesis using assms(2) staked_cong [of "(ps_staking w)\<lparr>st_owner := a\<rparr>" "ps_staking w"]
    by (simp add: backed_def minerStake_def fun_eq_iff)
qed (use assms(2,3) mine_backed mineAndStake_backed stake_backed withdraw_backed in
    \<open>auto simp: setMinerReward_def setMinimumStake_def setOracleContractAddress_def setDisputeContractAddress_def
       minerStake_def fun_eq_iff elim!: setter_backed\<close>)

lemma reachable_backed:
  "pos_reachable E V token this w0 w \<Longrightarrow> backed E valid this w0 \<Longrightarrow> backed E valid this w"
  by (induction rule: pos_reachable.induct) (auto intro: pos_step_backed)

lemma deployed_backed:
  assumes "valid erc" "erc_allowance E erc this = (\<lambda>_. 0)"
    and "pos_reachable E V token this
      \<lparr>ps_token = new_DioneToken erc d1, ps_staking = new_DioneStaking d2 reward start minimum\<rparr> w"
  shows "backed E valid this w"
proof (rule reachable_backed [OF assms(3)])
  show "backed E valid this \<lparr>ps_token = new_DioneToken erc d1, ps_staking = new_DioneStaking d2 reward start minimum\<rparr>"
    using assms(1,2)
    by (simp add: backed_def staked_def new_DioneToken_def new_DioneStaking_def minerStake_def finitely_many_def total_def)
qed

text \<open>What is staked can be withdrawn.\<close>

lemma withdraw_possible:
  assumes "backed E valid this w" "this \<noteq> address0" "msg_sender m \<noteq> address0" "msg_sender m \<noteq> this"
    and "0 < n" "n \<le> minerStake (ps_staking w) (msg_sender m)"
  shows "\<exists>w'. withdraw E this m n w = Ok w'
    \<and> minerStake (ps_staking w') (msg_sender m) + n = minerStake (ps_staking w) (msg_sender m)
    \<and> erc_balanceOf E (tok_erc (ps_token w')) (msg_sender m) = erc_balanceOf E (tok_erc (ps_token w)) (msg_sender m) + n"
proof -
  let ?s = "ps_staking w" and ?erc = "tok_erc (ps_token w)"
  have n: "n \<le> st_totalStake ?s" "st_totalStake ?s \<le> erc_balanceOf E ?erc this"
    using assms(1,6) total_ge [of "minerStake ?s" "msg_sender m"] by (auto simp: backed_def staked_def)
  then obtain erc where t: "erc_transfer E ?erc this (msg_sender m) n = Ok erc"
    using transfer_possible assms(1-3) by (metis backed_def order_trans)
  have "erc_balanceOf E erc (msg_sender m) = erc_balanceOf E ?erc (msg_sender m) + n"
    using transfer_balance [OF t] assms(4) by (simp add: moved_def Let_def)
  then show ?thesis
    using assms(5,6) n(1) t by (simp add: withdraw_def Let_def sub256_def)
qed

end

section \<open>Properties\<close>

text \<open>C10. Stakes are backed by tokens. Whatever transactions anybody makes with the two contracts
  after their deployment, the stakes of all miners add up to the total stake, the contract
  holds at least that many tokens, and so every miner can withdraw any part of its stake and
  is paid for it.\<close>

theorem stakes_backed:
  assumes "erc20 E valid" "valid erc" "erc_allowance E erc this = (\<lambda>_. 0)"
    and "pos_reachable E V token this
      \<lparr>ps_token = new_DioneToken erc d1, ps_staking = new_DioneStaking d2 reward start minimum\<rparr> w"
    and "this \<noteq> address0" "msg_sender m \<noteq> address0" "msg_sender m \<noteq> this"
  shows "finite {a. minerStake (ps_staking w) a \<noteq> 0}
    \<and> (\<Sum>a | minerStake (ps_staking w) a \<noteq> 0. minerStake (ps_staking w) a) = totalStake (ps_staking w)
    \<and> totalStake (ps_staking w) \<le> erc_balanceOf E (tok_erc (ps_token w)) this
    \<and> (\<forall>n. 0 < n \<and> n \<le> minerStake (ps_staking w) (msg_sender m) \<longrightarrow>
        (\<exists>w'. withdraw E this m n w = Ok w'
          \<and> minerStake (ps_staking w') (msg_sender m) + n = minerStake (ps_staking w) (msg_sender m)
          \<and> erc_balanceOf E (tok_erc (ps_token w')) (msg_sender m)
              = erc_balanceOf E (tok_erc (ps_token w)) (msg_sender m) + n))"
proof -
  have b: "backed E valid this w" by (rule erc20.deployed_backed [OF assms(1-4)])
  then show ?thesis
    using erc20.withdraw_possible [OF assms(1) b assms(5-7)]
    by (auto simp: backed_def staked_def finitely_many_def total_def totalStake_def)
qed

text \<open>Three miners with stakes of 60, 50 and 70, for the witnesses.\<close>

definition demo_pos0 :: "erc_state pos" where
  "demo_pos0 = \<lparr>ps_token = demo_token0, ps_staking = new_DioneStaking (holder 9) 5 0 50\<rparr>"

text \<open>Minting, the holder's approval and the stake.\<close>

definition demo_join :: "nat \<Rightarrow> nat \<Rightarrow> erc_state pos \<Rightarrow> erc_state pos res" where
  "demo_join i n w =
     bind_res (token_mint oz_ERC20 (at_block 9 1) (holder i) n (ps_token w)) (\<lambda>tok.
     bind_res (oz_approve (tok_erc tok) (holder i) (holder 8) n) (\<lambda>erc.
       stake oz_ERC20 (holder 8) (at_block i 2) n (w\<lparr>ps_token := tok\<lparr>tok_erc := erc\<rparr>\<rparr>)))"

definition demo_pos1 :: "erc_state pos" where
  "demo_pos1 = ok_or demo_pos0 (bind_res (demo_join 1 60 demo_pos0) (\<lambda>w. bind_res (demo_join 2 50 w) (demo_join 3 70)))"

lemma demo_join_reachable:
  assumes "demo_join i n w = Ok w'" "holder i \<noteq> holder 8" "pos_reachable oz_ERC20 V token (holder 8) w0 w"
  shows "pos_reachable oz_ERC20 V token (holder 8) w0 w'"
proof -
  obtain tok erc where s: "token_mint oz_ERC20 (at_block 9 1) (holder i) n (ps_token w) = Ok tok"
      "oz_approve (tok_erc tok) (holder i) (holder 8) n = Ok erc"
      "stake oz_ERC20 (holder 8) (at_block i 2) n (w\<lparr>ps_token := tok\<lparr>tok_erc := erc\<rparr>\<rparr>) = Ok w'"
    using assms(1) by (auto simp: demo_join_def res_simps)
  have i: "msg_sender (at_block i b) \<noteq> holder 8" for b using assms(2) by (simp add: at_block_def)
  have "pos_reachable oz_ERC20 V token (holder 8) w0 (w\<lparr>ps_token := tok\<rparr>)"
    by (rule pos_reachable.step [OF assms(3) _ pos_step.token [OF token_step.mint [OF s(1)]]]) (simp add: at_block_def)
  moreover have "token_step oz_ERC20 V token (at_block i 1) tok (tok\<lparr>tok_erc := erc\<rparr>)"
    by (rule token_step.approve) (use s(2) in \<open>simp add: at_block_def\<close>)
  then have "pos_step oz_ERC20 V token (holder 8) (at_block i 1) (w\<lparr>ps_token := tok\<rparr>) (w\<lparr>ps_token := tok\<lparr>tok_erc := erc\<rparr>\<rparr>)"
    using pos_step.token [of oz_ERC20 V token "at_block i 1" "w\<lparr>ps_token := tok\<rparr>"] by simp
  ultimately have "pos_reachable oz_ERC20 V token (holder 8) w0 (w\<lparr>ps_token := tok\<lparr>tok_erc := erc\<rparr>\<rparr>)"
    by (rule pos_reachable.step [OF _ i])
  then show ?thesis by (rule pos_reachable.step [OF _ i pos_step.stake [OF s(3)]])
qed

lemmas staking_defs = stake_def upd_miner_def minerStake_def new_DioneStaking_def Let_def add256_def sub256_def require_def guard_res_def

lemma demo_pos1_reachable: "pos_reachable oz_ERC20 V token (holder 8) demo_pos0 demo_pos1"
proof -
  have "\<exists>w w2. demo_join 1 60 demo_pos0 = Ok w \<and> demo_join 2 50 w = Ok w2 \<and> demo_join 3 70 w2 = Ok demo_pos1"
    by (simp add: demo_pos1_def demo_pos0_def demo_token0_def demo_join_def ok_or_def staking_defs token_defs
        oz_mint_def oz_transfer_def oz_approve_def oz_transferFrom_def at_block_def)
  then obtain w w2 where w: "demo_join 1 60 demo_pos0 = Ok w" "demo_join 2 50 w = Ok w2" "demo_join 3 70 w2 = Ok demo_pos1"
    by blast
  show ?thesis
    by (rule demo_join_reachable [OF w(3) _ demo_join_reachable [OF w(2) _ demo_join_reachable [OF w(1) _ pos_reachable.start]]])
      simp_all
qed

lemma demo_pos1_stakes:
  "minerStake (ps_staking demo_pos1) = (\<lambda>_. 0)(holder 1 := 60, holder 2 := 50, holder 3 := 70)"
  "st_minimumStake (ps_staking demo_pos1) = 50"
  by (simp_all add: demo_pos1_def demo_pos0_def demo_token0_def demo_join_def ok_or_def staking_defs token_defs
      oz_mint_def oz_transfer_def oz_approve_def oz_transferFrom_def at_block_def fun_eq_iff)

lemma demo_erc_valid: "oz_valid \<lparr>es_balances = (\<lambda>_. 0), es_allowances = (\<lambda>_ _. 0), es_totalSupply = 0\<rparr>"
  by (simp add: oz_valid_def finitely_many_def total_def)

theorem stakes_backed_witness:
  "\<exists>w'. withdraw oz_ERC20 (holder 8) (at_block 1 3) 60 demo_pos1 = Ok w'"
proof -
  have m: "msg_sender (at_block 1 3) = holder 1" "minerStake (ps_staking demo_pos1) (holder 1) = 60"
    by (simp_all add: at_block_def demo_pos1_stakes)
  from stakes_backed [OF oz.erc20_axioms demo_erc_valid _ demo_pos1_reachable [unfolded demo_pos0_def demo_token0_def], of "at_block 1 3"]
  have "\<forall>n. 0 < n \<and> n \<le> 60 \<longrightarrow> (\<exists>w'. withdraw oz_ERC20 (holder 8) (at_block 1 3) n demo_pos1 = Ok w')"
    unfolding m by auto
  then show ?thesis by simp
qed

text \<open>C25. What slashing does: the stake of the slashed miner is divided evenly among the list of
  recipients, a recipient that occurs more than once gets as many shares, the slashed miner
  keeps the remainder of the division, and nothing is created or lost. It needs between 1 and
  255 recipients, all miners and none of them the slashed one.\<close>

theorem slash_distribution:
  assumes "slashMiner m miner rs s = Ok s'" "finite {a. minerStake s a \<noteq> 0}"
  shows "1 \<le> length rs \<and> length rs \<le> 255 \<and> miner \<notin> set rs
    \<and> minerStake s' miner = minerStake s miner mod length rs
    \<and> (\<forall>r. r \<noteq> miner \<longrightarrow> minerStake s' r = minerStake s r + count_list rs r * (minerStake s miner div length rs))
    \<and> (\<Sum>a | minerStake s' a \<noteq> 0. minerStake s' a) = (\<Sum>a | minerStake s a \<noteq> 0. minerStake s a)"
proof -
  note L = slash_loop_spec [OF slashMiner_Ok(4) [OF assms(1)]]
  show ?thesis
    using L assms(2) slashMiner_Ok(3) [OF assms(1)]
    by (auto simp: finitely_many_def total_def minus_mult_div_eq_mod Suc_le_eq)
qed

definition demo_staking :: DioneStaking where
  "demo_staking = (ps_staking demo_pos1)\<lparr>st_disputeContractAddr := holder 6\<rparr>"

lemma demo_staking_simps [simp]:
  "minerStake demo_staking = (\<lambda>_. 0)(holder 1 := 60, holder 2 := 50, holder 3 := 70)" "st_minimumStake demo_staking = 50"
  "st_disputeContractAddr demo_staking = holder 6"
  using demo_pos1_stakes by (simp_all add: demo_staking_def minerStake_def fun_eq_iff)

lemma demo_staking_finite: "finite {a. minerStake demo_staking a \<noteq> 0}"
  by (rule finite_subset [of _ "{holder 1, holder 2, holder 3}"]) auto

theorem slash_distribution_witness:
  "\<exists>s'. slashMiner (at_block 6 4) (holder 1) [holder 2, holder 2, holder 3] demo_staking = Ok s'
    \<and> minerStake s' (holder 1) = 0 \<and> minerStake s' (holder 2) = 90 \<and> minerStake s' (holder 3) = 90"
proof -
  have "\<exists>s'. slashMiner (at_block 6 4) (holder 1) [holder 2, holder 2, holder 3] demo_staking = Ok s'"
    by (simp add: slashMiner_def require_def guard_res_def div256_def sub256_def add256_def Let_def isMiner_stake at_block_def)
  then obtain s' where s': "slashMiner (at_block 6 4) (holder 1) [holder 2, holder 2, holder 3] demo_staking = Ok s'" ..
  from slash_distribution [OF s' demo_staking_finite] s' show ?thesis by simp
qed

end
