(* ===== verification/Config.thy ===== *)
theory Config
  imports Dione_Prelude
begin

text \<open>
  The configuration (\<open>config/config.go\<close>, \<open>config/drand.go\<close>). Reading the file and overlaying it
  on the defaults is viper's part, the record \<open>viper\<close>.
\<close>

definition CacheTypeInMemory :: string where "CacheTypeInMemory = ''memory''"

definition CacheTypeRedis :: string where "CacheTypeRedis = ''redis''"

definition BlockchainDatabaseInMemory :: string where "BlockchainDatabaseInMemory = ''memory''"

definition BlockChainDatabaseLMDB :: string where "BlockChainDatabaseLMDB = ''lmdb''"

record EthereumConfig =
  ec_GatewayAddress :: string
  ec_ChainID :: int
  ec_PrivateKey :: string
  ec_MnemonicPhrase :: string
  ec_HDDerivationPath :: string
  ec_DioneOracleContractAddress :: string
  ec_DioneStakingContractAddress :: string
  ec_DisputeContractAddress :: string
  ec_DisputeVoteWindow :: int

record FilecoinConfig =
  fc_LotusHost :: string
  fc_LotusToken :: string

record RedisConfig =
  rc_Addr :: string
  rc_Password :: string
  rc_DB :: int

record BlockchainConfig =
  bcf_DatabaseType :: string
  bcf_LMDB_DatabasePath :: string

record Config =
  cf_ListenPort :: int
  cf_ListenAddr :: string
  cf_IsBootstrap :: bool
  cf_BootstrapNodes :: "string list"
  cf_Rendezvous :: string
  cf_Ethereum :: EthereumConfig
  cf_Filecoin :: FilecoinConfig
  cf_PubSub_ServiceTopicName :: string
  cf_ConsensusMinApprovals :: int
  cf_Redis :: RedisConfig
  cf_CacheType :: string
  cf_Blockchain :: BlockchainConfig
  cf_PrivateKeyPath :: string

definition zero_EthereumConfig :: EthereumConfig where
  "zero_EthereumConfig =
     \<lparr>ec_GatewayAddress = [], ec_ChainID = 0, ec_PrivateKey = [], ec_MnemonicPhrase = [], ec_HDDerivationPath = [],
      ec_DioneOracleContractAddress = [], ec_DioneStakingContractAddress = [], ec_DisputeContractAddress = [],
      ec_DisputeVoteWindow = 0\<rparr>"

definition default_Config :: Config where
  "default_Config =
     \<lparr>cf_ListenPort = 8000, cf_ListenAddr = ''localhost'', cf_IsBootstrap = False,
      cf_BootstrapNodes = [''/ip4/127.0.0.1/tcp/0''], cf_Rendezvous = ''dione'',
      cf_Ethereum = zero_EthereumConfig, cf_Filecoin = \<lparr>fc_LotusHost = [], fc_LotusToken = []\<rparr>,
      cf_PubSub_ServiceTopicName = ''dione'', cf_ConsensusMinApprovals = 0,
      cf_Redis = \<lparr>rc_Addr = ''localhost:6379'', rc_Password = [], rc_DB = 0\<rparr>, cf_CacheType = ''memory'',
      cf_Blockchain = \<lparr>bcf_DatabaseType = [], bcf_LMDB_DatabasePath = []\<rparr>, cf_PrivateKeyPath = []\<rparr>"

record viper =
  vp_ReadInConfig :: "string \<Rightarrow> unit res"
  vp_Unmarshal :: "string \<Rightarrow> Config \<Rightarrow> Config res"

definition NewConfig :: "viper \<Rightarrow> string \<Rightarrow> Config res" where
  "NewConfig V configPath =
     bind_res (vp_ReadInConfig V configPath) (\<lambda>_. vp_Unmarshal V configPath default_Config)"

record DrandConfig =
  dc_Servers :: "string list"
  dc_GossipRelays :: "string list"
  dc_ChainInfo :: "(string \<times> string) list"

text \<open>The chain information is a JSON text; here are its members.\<close>

definition NewDrandConfig :: DrandConfig where
  "NewDrandConfig =
     \<lparr>dc_Servers =
        [''https://api.drand.sh'', ''https://api2.drand.sh'', ''https://api3.drand.sh'', ''https://drand.cloudflare.com''],
      dc_GossipRelays = [''/dnsaddr/api.drand.sh/'', ''/dnsaddr/api2.drand.sh/'', ''/dnsaddr/api3.drand.sh/''],
      dc_ChainInfo =
        [(''public_key'', ''868f005eb8e6e4ca0a47c8a77ceaa5309a47978a7c71bc5cce96366b5d7a569937c529eeda66c7293784a9402801af31''),
         (''period'', ''30''), (''genesis_time'', ''1595431050''),
         (''hash'', ''8990e7a9aaed2ffed73dbd7092123d6f289930540d7651336225dc172e51b2ce'')]\<rparr>"

definition DrandChainGenesisTime :: u64 where "DrandChainGenesisTime = 1603603302"

end
