(* ===== verification/Staking_Binding.thy ===== *)
theory Staking_Binding
  imports Abi_Bind
begin

text \<open>
  The binding of the staking contract (\<open>contracts/dioneStaking\<close>).
\<close>

section \<open>Types and constructors\<close>

definition DioneStakingABI ::
  "abi_entry list" where
  "DioneStakingABI =
     [Constructor [''address'', ''uint256'', ''uint256'', ''uint256''],
      Event ''Mine'' [''address'', ''uint256''],
      Event ''OwnershipTransferred'' [''address'', ''address''],
      Event ''Stake'' [''address'', ''uint256''],
      Event ''Withdraw'' [''address'', ''uint256''],
      Function ''aggregatorAddr'' [] [''address''],
      Function ''dione'' [] [''address''],
      Function ''disputeContractAddr'' [] [''address''],
      Function ''minerInfo'' [''address''] [''uint256'', ''uint256'', ''uint256''],
      Function ''minerReward'' [] [''uint256''],
      Function ''minimumStake'' [] [''uint256''],
      Function ''owner'' [] [''address''],
      Function ''renounceOwnership'' [] [],
      Function ''startBlock'' [] [''uint256''],
      Function ''transferOwnership'' [''address''] [],
      Function ''mine'' [''address''] [],
      Function ''mineAndStake'' [''address''] [],
      Function ''stake'' [''uint256''] [],
      Function ''withdraw'' [''uint256''] [],
      Function ''totalStake'' [] [''uint256''],
      Function ''minerStake'' [''address''] [''uint256''],
      Function ''setMinerReward'' [''uint256''] [],
      Function ''isMiner'' [''address''] [''bool''],
      Function ''setMinimumStake'' [''uint256''] [],
      Function ''setAggregator'' [''address''] [],
      Function ''slashMiner'' [''address'', ''address[]''] []]"

definition bindDioneStaking ::
  "('b, 'cl, 'sg, 'tx, 'lg, 'su, 'm) bind_lib_scheme \<Rightarrow> address \<Rightarrow> 'cl option \<Rightarrow> 'cl option \<Rightarrow> 'cl option \<Rightarrow> 'b res" where
  "bindDioneStaking B a caller transactor filterer = bind_contract B DioneStakingABI a caller transactor filterer"

definition NewDioneStaking ::
  "('b, 'cl, 'sg, 'tx, 'lg, 'su, 'm) bind_lib_scheme \<Rightarrow> address \<Rightarrow> 'cl \<Rightarrow> 'b Binding res" where
  "NewDioneStaking B a backend =
     bind_res (bindDioneStaking B a (Some backend) (Some backend) (Some backend)) (\<lambda>contract.
       Ok \<lparr>bnd_Caller = contract, bnd_Transactor = contract, bnd_Filterer = contract\<rparr>)"

definition NewDioneStaking_part ::
  "('b, 'cl, 'sg, 'tx, 'lg, 'su, 'm) bind_lib_scheme \<Rightarrow> part \<Rightarrow> address \<Rightarrow> 'cl \<Rightarrow> 'b res" where
  "NewDioneStaking_part B p a = bind_part (bindDioneStaking B a) p"

definition DioneStakingRaw ::
  "('b, 'cl, 'sg, 'tx, 'lg, 'su, 'm) bind_lib_scheme \<Rightarrow>
     ('b Binding, 'b Binding, 'sg, 'tx) raw_ops \<times> ('b, 'b, 'sg, 'tx) raw_ops" where
  "DioneStakingRaw B = (raw_binding B, raw_parts B)"

section \<open>Methods\<close>

definition DioneStaking_AggregatorAddr ::
  "('b, 'cl, 'sg, 'tx, 'lg, 'su, 'm) bind_lib_scheme \<Rightarrow> ('b, 'sg) call_receiver \<Rightarrow> address res" where
  "DioneStaking_AggregatorAddr B r = call_method B as_Address ''aggregatorAddr'' r []"

definition DioneStaking_Dione ::
  "('b, 'cl, 'sg, 'tx, 'lg, 'su, 'm) bind_lib_scheme \<Rightarrow> ('b, 'sg) call_receiver \<Rightarrow> address res" where
  "DioneStaking_Dione B r = call_method B as_Address ''dione'' r []"

definition DioneStaking_DisputeContractAddr ::
  "('b, 'cl, 'sg, 'tx, 'lg, 'su, 'm) bind_lib_scheme \<Rightarrow> ('b, 'sg) call_receiver \<Rightarrow> address res" where
  "DioneStaking_DisputeContractAddr B r = call_method B as_Address ''disputeContractAddr'' r []"

definition DioneStaking_IsMiner ::
  "('b, 'cl, 'sg, 'tx, 'lg, 'su, 'm) bind_lib_scheme \<Rightarrow> ('b, 'sg) call_receiver \<Rightarrow> address \<Rightarrow> bool res" where
  "DioneStaking_IsMiner B r minerAddr = call_method B as_Bool ''isMiner'' r [GAddress minerAddr]"

text \<open>An error of the call is not looked at before the result is read, which is empty then.\<close>

definition DioneStaking_MinerInfo ::
  "('b, 'cl, 'sg, 'tx, 'lg, 'su, 'm) bind_lib_scheme \<Rightarrow> ('b, 'sg) call_receiver \<Rightarrow> address \<Rightarrow> (int \<times> int \<times> int) res" where
  "DioneStaking_MinerInfo B r arg0 =
     (case call_target r of (c, opts) \<Rightarrow> (case bi_Call B c opts ''minerInfo'' [GAddress arg0] of
        Ok (x0 # x1 # x2 # _) \<Rightarrow> bind_res (as_Big x0) (\<lambda>amount. bind_res (as_Big x1) (\<lambda>firstStakeBlock.
          bind_res (as_Big x2) (\<lambda>lastRewardBlock. Ok (amount, firstStakeBlock, lastRewardBlock))))
      | _ \<Rightarrow> Panic))"

definition DioneStaking_MinerReward ::
  "('b, 'cl, 'sg, 'tx, 'lg, 'su, 'm) bind_lib_scheme \<Rightarrow> ('b, 'sg) call_receiver \<Rightarrow> int res" where
  "DioneStaking_MinerReward B r = call_method B as_Big ''minerReward'' r []"

definition DioneStaking_MinerStake ::
  "('b, 'cl, 'sg, 'tx, 'lg, 'su, 'm) bind_lib_scheme \<Rightarrow> ('b, 'sg) call_receiver \<Rightarrow> address \<Rightarrow> int res" where
  "DioneStaking_MinerStake B r minerAddr = call_method B as_Big ''minerStake'' r [GAddress minerAddr]"

definition DioneStaking_MinimumStake ::
  "('b, 'cl, 'sg, 'tx, 'lg, 'su, 'm) bind_lib_scheme \<Rightarrow> ('b, 'sg) call_receiver \<Rightarrow> int res" where
  "DioneStaking_MinimumStake B r = call_method B as_Big ''minimumStake'' r []"

definition DioneStaking_Owner ::
  "('b, 'cl, 'sg, 'tx, 'lg, 'su, 'm) bind_lib_scheme \<Rightarrow> ('b, 'sg) call_receiver \<Rightarrow> address res" where
  "DioneStaking_Owner B r = call_method B as_Address ''owner'' r []"

definition DioneStaking_StartBlock ::
  "('b, 'cl, 'sg, 'tx, 'lg, 'su, 'm) bind_lib_scheme \<Rightarrow> ('b, 'sg) call_receiver \<Rightarrow> int res" where
  "DioneStaking_StartBlock B r = call_method B as_Big ''startBlock'' r []"

definition DioneStaking_TotalStake ::
  "('b, 'cl, 'sg, 'tx, 'lg, 'su, 'm) bind_lib_scheme \<Rightarrow> ('b, 'sg) call_receiver \<Rightarrow> int res" where
  "DioneStaking_TotalStake B r = call_method B as_Big ''totalStake'' r []"

definition DioneStaking_Mine ::
  "('b, 'cl, 'sg, 'tx, 'lg, 'su, 'm) bind_lib_scheme \<Rightarrow> ('b, 'sg) send_receiver \<Rightarrow> address \<Rightarrow> 'tx res" where
  "DioneStaking_Mine B r minerAddr = transact B ''mine'' r [GAddress minerAddr]"

definition DioneStaking_MineAndStake ::
  "('b, 'cl, 'sg, 'tx, 'lg, 'su, 'm) bind_lib_scheme \<Rightarrow> ('b, 'sg) send_receiver \<Rightarrow> address \<Rightarrow> 'tx res" where
  "DioneStaking_MineAndStake B r minerAddr = transact B ''mineAndStake'' r [GAddress minerAddr]"

definition DioneStaking_RenounceOwnership ::
  "('b, 'cl, 'sg, 'tx, 'lg, 'su, 'm) bind_lib_scheme \<Rightarrow> ('b, 'sg) send_receiver \<Rightarrow> 'tx res" where
  "DioneStaking_RenounceOwnership B r = transact B ''renounceOwnership'' r []"

definition DioneStaking_SetAggregator ::
  "('b, 'cl, 'sg, 'tx, 'lg, 'su, 'm) bind_lib_scheme \<Rightarrow> ('b, 'sg) send_receiver \<Rightarrow> address \<Rightarrow> 'tx res" where
  "DioneStaking_SetAggregator B r aggregatorAddr = transact B ''setAggregator'' r [GAddress aggregatorAddr]"

definition DioneStaking_SetMinerReward ::
  "('b, 'cl, 'sg, 'tx, 'lg, 'su, 'm) bind_lib_scheme \<Rightarrow> ('b, 'sg) send_receiver \<Rightarrow> int \<Rightarrow> 'tx res" where
  "DioneStaking_SetMinerReward B r minerReward = transact B ''setMinerReward'' r [GBig minerReward]"

definition DioneStaking_SetMinimumStake ::
  "('b, 'cl, 'sg, 'tx, 'lg, 'su, 'm) bind_lib_scheme \<Rightarrow> ('b, 'sg) send_receiver \<Rightarrow> int \<Rightarrow> 'tx res" where
  "DioneStaking_SetMinimumStake B r minimumStake = transact B ''setMinimumStake'' r [GBig minimumStake]"

definition DioneStaking_SlashMiner ::
  "('b, 'cl, 'sg, 'tx, 'lg, 'su, 'm) bind_lib_scheme \<Rightarrow> ('b, 'sg) send_receiver \<Rightarrow> address \<Rightarrow> (address list) \<Rightarrow> 'tx res" where
  "DioneStaking_SlashMiner B r miner receipentMiners = transact B ''slashMiner'' r [GAddress miner, GAddresses receipentMiners]"

definition DioneStaking_Stake ::
  "('b, 'cl, 'sg, 'tx, 'lg, 'su, 'm) bind_lib_scheme \<Rightarrow> ('b, 'sg) send_receiver \<Rightarrow> int \<Rightarrow> 'tx res" where
  "DioneStaking_Stake B r amount = transact B ''stake'' r [GBig amount]"

definition DioneStaking_TransferOwnership ::
  "('b, 'cl, 'sg, 'tx, 'lg, 'su, 'm) bind_lib_scheme \<Rightarrow> ('b, 'sg) send_receiver \<Rightarrow> address \<Rightarrow> 'tx res" where
  "DioneStaking_TransferOwnership B r newOwner = transact B ''transferOwnership'' r [GAddress newOwner]"

definition DioneStaking_Withdraw ::
  "('b, 'cl, 'sg, 'tx, 'lg, 'su, 'm) bind_lib_scheme \<Rightarrow> ('b, 'sg) send_receiver \<Rightarrow> int \<Rightarrow> 'tx res" where
  "DioneStaking_Withdraw B r amount = transact B ''withdraw'' r [GBig amount]"

section \<open>Event Mine\<close>

record Mine_event =
  ev_mine_Miner :: address
  ev_mine_BlockNumber :: int

definition decode_Mine ::
  "go_value list \<Rightarrow> Mine_event res" where
  "decode_Mine vs =
     (case vs of [GAddress v0, GBig v1] \<Rightarrow> Ok \<lparr>ev_mine_Miner = v0, ev_mine_BlockNumber = v1\<rparr>
      | _ \<Rightarrow> abi_mismatch)"

definition DioneStakingMineIterator ::
  "('b, 'cl, 'sg, 'tx, 'lg, 'su, 'm) bind_lib_scheme \<Rightarrow> ('b, Mine_event, 'lg, 'su) iterator_ops" where
  "DioneStakingMineIterator B = event_iterator B decode_Mine"

definition DioneStakingFilterer_Mine ::
  "('b, 'cl, 'sg, 'tx, 'lg, 'su, 'm) bind_lib_scheme \<Rightarrow> 'b \<Rightarrow> ('b, address list, Mine_event, 'lg, 'su) event_ops" where
  "DioneStakingFilterer_Mine B c = event_filterer B decode_Mine ''Mine'' (\<lambda>miner. [map GAddress miner]) c"

section \<open>Event OwnershipTransferred\<close>

record OwnershipTransferred_event =
  ev_owner_PreviousOwner :: address
  ev_owner_NewOwner :: address

definition decode_OwnershipTransferred ::
  "go_value list \<Rightarrow> OwnershipTransferred_event res" where
  "decode_OwnershipTransferred vs =
     (case vs of [GAddress v0, GAddress v1] \<Rightarrow> Ok \<lparr>ev_owner_PreviousOwner = v0, ev_owner_NewOwner = v1\<rparr>
      | _ \<Rightarrow> abi_mismatch)"

definition DioneStakingOwnershipTransferredIterator ::
  "('b, 'cl, 'sg, 'tx, 'lg, 'su, 'm) bind_lib_scheme \<Rightarrow> ('b, OwnershipTransferred_event, 'lg, 'su) iterator_ops" where
  "DioneStakingOwnershipTransferredIterator B = event_iterator B decode_OwnershipTransferred"

definition DioneStakingFilterer_OwnershipTransferred ::
  "('b, 'cl, 'sg, 'tx, 'lg, 'su, 'm) bind_lib_scheme \<Rightarrow> 'b \<Rightarrow> ('b, (address list \<times> address list), OwnershipTransferred_event, 'lg, 'su) event_ops" where
  "DioneStakingFilterer_OwnershipTransferred B c = event_filterer B decode_OwnershipTransferred ''OwnershipTransferred'' (\<lambda>(previousOwner, newOwner). [map GAddress previousOwner, map GAddress newOwner]) c"

section \<open>Event Stake\<close>

record Stake_event =
  ev_stake_Miner :: address
  ev_stake_Amount :: int

definition decode_Stake ::
  "go_value list \<Rightarrow> Stake_event res" where
  "decode_Stake vs =
     (case vs of [GAddress v0, GBig v1] \<Rightarrow> Ok \<lparr>ev_stake_Miner = v0, ev_stake_Amount = v1\<rparr>
      | _ \<Rightarrow> abi_mismatch)"

definition DioneStakingStakeIterator ::
  "('b, 'cl, 'sg, 'tx, 'lg, 'su, 'm) bind_lib_scheme \<Rightarrow> ('b, Stake_event, 'lg, 'su) iterator_ops" where
  "DioneStakingStakeIterator B = event_iterator B decode_Stake"

definition DioneStakingFilterer_Stake ::
  "('b, 'cl, 'sg, 'tx, 'lg, 'su, 'm) bind_lib_scheme \<Rightarrow> 'b \<Rightarrow> ('b, address list, Stake_event, 'lg, 'su) event_ops" where
  "DioneStakingFilterer_Stake B c = event_filterer B decode_Stake ''Stake'' (\<lambda>miner. [map GAddress miner]) c"

section \<open>Event Withdraw\<close>

record Withdraw_event =
  ev_withdraw_Miner :: address
  ev_withdraw_Amount :: int

definition decode_Withdraw ::
  "go_value list \<Rightarrow> Withdraw_event res" where
  "decode_Withdraw vs =
     (case vs of [GAddress v0, GBig v1] \<Rightarrow> Ok \<lparr>ev_withdraw_Miner = v0, ev_withdraw_Amount = v1\<rparr>
      | _ \<Rightarrow> abi_mismatch)"

definition DioneStakingWithdrawIterator ::
  "('b, 'cl, 'sg, 'tx, 'lg, 'su, 'm) bind_lib_scheme \<Rightarrow> ('b, Withdraw_event, 'lg, 'su) iterator_ops" where
  "DioneStakingWithdrawIterator B = event_iterator B decode_Withdraw"

definition DioneStakingFilterer_Withdraw ::
  "('b, 'cl, 'sg, 'tx, 'lg, 'su, 'm) bind_lib_scheme \<Rightarrow> 'b \<Rightarrow> ('b, address list, Withdraw_event, 'lg, 'su) event_ops" where
  "DioneStakingFilterer_Withdraw B c = event_filterer B decode_Withdraw ''Withdraw'' (\<lambda>miner. [map GAddress miner]) c"

end
