(* ===== verification/Eth_Client.thy ===== *)
theory Eth_Client
  imports Config Blockchain Dispute_Binding Oracle_Binding Staking_Binding
begin

text \<open>
  The Ethereum client (\<open>ethclient\<close>): how it gets its key, the three contract sessions it sets up,
  and its operations, which forward to the generated bindings of the contracts. go-ethereum
  and the HD wallet are the record \<open>geth\<close>, which extends the library of the bindings. The
  operations make up the interface
  \<open>eth_api\<close> that the chain, the miner, the consensus and the dispute manager use.
\<close>

record tx_data =
  td_nonce :: u64
  td_to :: address
  td_value :: int
  td_gasLimit :: u64
  td_gasPrice :: int
  td_data :: bytes

record ('b, 'cl, 'sg, 'st, 'lg, 'su, 'k, 'w, 'p, 'a) geth = "('b, 'cl, 'sg, 'st, 'lg, 'su) bind_lib" +
  ge_Dial :: "string \<Rightarrow> 'cl res"
  ge_HexToECDSA :: "string \<Rightarrow> 'k res"
  ge_NewFromMnemonic :: "string \<Rightarrow> 'w res"
  ge_DefaultBaseDerivationPath :: 'p
  ge_ParseDerivationPath :: "string \<Rightarrow> 'p res"
  ge_Derive :: "'w \<Rightarrow> 'p \<Rightarrow> 'a res"
  ge_PrivateKey :: "'w \<Rightarrow> 'a \<Rightarrow> 'k res"
  ge_NewKeyedTransactorWithChainID :: "'k \<Rightarrow> int \<Rightarrow> (address \<times> 'sg) res"
  ge_HexToAddress :: "string \<Rightarrow> address"
  ge_BalanceAt :: "'cl \<Rightarrow> address \<Rightarrow> int res"
  ge_PubkeyToAddress :: "'k \<Rightarrow> address"
  ge_PendingNonceAt :: "'cl \<Rightarrow> address \<Rightarrow> u64 res"
  ge_SuggestGasPrice :: "'cl \<Rightarrow> int res"
  ge_NetworkID :: "'cl \<Rightarrow> int res"
  ge_SignTx :: "tx_data \<Rightarrow> int \<Rightarrow> 'k \<Rightarrow> 'st res"
  ge_SendTransaction :: "'cl \<Rightarrow> 'st \<Rightarrow> unit res"
  ge_TxHash_Hex :: "'st \<Rightarrow> string"

record ('cl, 'b, 'sg) ethereumClient =
  cl_client :: 'cl
  cl_ethAddress :: address
  cl_dioneStaking :: "('b, 'sg) session"
  cl_disputeContract :: "('b, 'sg) session"
  cl_dioneOracle :: "('b, 'sg) session"

definition getPrivateKey :: "('b, 'cl, 'sg, 'st, 'lg, 'su, 'k, 'w, 'p, 'a) geth \<Rightarrow> Config \<Rightarrow> 'k res" where
  "getPrivateKey E cfg =
     (if ec_PrivateKey (cf_Ethereum cfg) \<noteq> [] then ge_HexToECDSA E (ec_PrivateKey (cf_Ethereum cfg))
      else if ec_MnemonicPhrase (cf_Ethereum cfg) \<noteq> [] then
        bind_res (ge_NewFromMnemonic E (ec_MnemonicPhrase (cf_Ethereum cfg))) (\<lambda>wallet.
        bind_res (if ec_HDDerivationPath (cf_Ethereum cfg) \<noteq> []
            then ge_ParseDerivationPath E (ec_HDDerivationPath (cf_Ethereum cfg))
            else Ok (ge_DefaultBaseDerivationPath E)) (\<lambda>path.
        bind_res (ge_Derive E wallet path) (ge_PrivateKey E wallet)))
      else Err (Errorf ''private key or mnemonic phrase isn't specified''))"

definition new_session :: "address \<Rightarrow> 'sg \<Rightarrow> 'b Binding \<Rightarrow> ('b, 'sg) session" where
  "new_session from signer contract =
     \<lparr>se_Contract = contract, se_CallOpts = \<lparr>opt_Pending = True, opt_CallFrom = from\<rparr>,
      se_TransactOpts = \<lparr>opt_From = from, opt_Signer = signer, opt_GasLimit = 0, opt_GasPrice = None\<rparr>\<rparr>"

definition NewEthereumClient ::
  "('b, 'cl, 'sg, 'st, 'lg, 'su, 'k, 'w, 'p, 'a) geth \<Rightarrow> Config \<Rightarrow> ('cl, 'b, 'sg) ethereumClient res" where
  "NewEthereumClient E cfg =
     bind_res (ge_Dial E (ec_GatewayAddress (cf_Ethereum cfg))) (\<lambda>client.
     bind_res (getPrivateKey E cfg) (\<lambda>key.
     bind_res (ge_NewKeyedTransactorWithChainID E key (ec_ChainID (cf_Ethereum cfg))) (\<lambda>(from, signer).
     bind_res (NewDioneStaking E (ge_HexToAddress E (ec_DioneStakingContractAddress (cf_Ethereum cfg))) client) (\<lambda>staking.
     bind_res (NewDioneOracle E (ge_HexToAddress E (ec_DioneOracleContractAddress (cf_Ethereum cfg))) client) (\<lambda>oracle.
     bind_res (NewDioneDispute E (ge_HexToAddress E (ec_DisputeContractAddress (cf_Ethereum cfg))) client) (\<lambda>dispute.
       Ok \<lparr>cl_client = client, cl_ethAddress = from, cl_dioneStaking = new_session from signer staking,
           cl_disputeContract = new_session from signer dispute, cl_dioneOracle = new_session from signer oracle\<rparr>))))))"

definition GetEthAddress :: "('cl, 'b, 'sg) ethereumClient \<Rightarrow> address" where
  "GetEthAddress c = cl_ethAddress c"

definition drop_result :: "'a res \<Rightarrow> unit res" where
  "drop_result r = bind_res r (\<lambda>_. Ok ())"

text \<open>A subscription from the last block on, without a filter.\<close>

definition SubscribeOnOracleEvents ::
  "('b, 'cl, 'sg, 'st, 'lg, 'su, 'k, 'w, 'p, 'a) geth \<Rightarrow> ('cl, 'b, 'sg) ethereumClient \<Rightarrow> (NewOracleRequest_event, 'lg, 'su) subscription res" where
  "SubscribeOnOracleEvents E c =
     ev_Watch (DioneOracleFilterer_NewOracleRequest E (bnd_Filterer (se_Contract (cl_dioneOracle c)))) \<lparr>opt_WatchStart = None\<rparr> ()"

definition SubscribeOnNewDisputes ::
  "('b, 'cl, 'sg, 'st, 'lg, 'su, 'k, 'w, 'p, 'a) geth \<Rightarrow> ('cl, 'b, 'sg) ethereumClient \<Rightarrow> (NewDispute_event, 'lg, 'su) subscription res" where
  "SubscribeOnNewDisputes E c =
     ev_Watch (DioneDisputeFilterer_NewDispute E (bnd_Filterer (se_Contract (cl_disputeContract c)))) \<lparr>opt_WatchStart = None\<rparr> ([], [])"

definition SubscribeOnNewSubmissions ::
  "('b, 'cl, 'sg, 'st, 'lg, 'su, 'k, 'w, 'p, 'a) geth \<Rightarrow> ('cl, 'b, 'sg) ethereumClient \<Rightarrow> (SubmittedOracleRequest_event, 'lg, 'su) subscription res" where
  "SubscribeOnNewSubmissions E c =
     ev_Watch (DioneOracleFilterer_SubmittedOracleRequest E (bnd_Filterer (se_Contract (cl_dioneOracle c)))) \<lparr>opt_WatchStart = None\<rparr> ()"

definition SubmitRequestAnswer ::
  "('b, 'cl, 'sg, 'st, 'lg, 'su, 'k, 'w, 'p, 'a) geth \<Rightarrow> ('cl, 'b, 'sg) ethereumClient \<Rightarrow> int \<Rightarrow> bytes \<Rightarrow> unit res" where
  "SubmitRequestAnswer E c reqID dat = drop_result (DioneOracle_SubmitOracleRequest E (SendOn (cl_dioneOracle c)) reqID dat)"

definition BeginDispute ::
  "('b, 'cl, 'sg, 'st, 'lg, 'su, 'k, 'w, 'p, 'a) geth \<Rightarrow> ('cl, 'b, 'sg) ethereumClient \<Rightarrow> address \<Rightarrow> int \<Rightarrow> unit res" where
  "BeginDispute E c miner requestID = drop_result (DioneDispute_BeginDispute E (SendOn (cl_disputeContract c)) miner requestID)"

definition VoteDispute ::
  "('b, 'cl, 'sg, 'st, 'lg, 'su, 'k, 'w, 'p, 'a) geth \<Rightarrow> ('cl, 'b, 'sg) ethereumClient \<Rightarrow> bytes \<Rightarrow> bool \<Rightarrow> unit res" where
  "VoteDispute E c dhash voteStatus = drop_result (DioneDispute_Vote E (SendOn (cl_disputeContract c)) dhash voteStatus)"

definition FinishDispute ::
  "('b, 'cl, 'sg, 'st, 'lg, 'su, 'k, 'w, 'p, 'a) geth \<Rightarrow> ('cl, 'b, 'sg) ethereumClient \<Rightarrow> bytes \<Rightarrow> unit res" where
  "FinishDispute E c dhash = drop_result (DioneDispute_FinishDispute E (SendOn (cl_disputeContract c)) dhash)"

definition GetTotalStake ::
  "('b, 'cl, 'sg, 'st, 'lg, 'su, 'k, 'w, 'p, 'a) geth \<Rightarrow> ('cl, 'b, 'sg) ethereumClient \<Rightarrow> int res" where
  "GetTotalStake E c = DioneStaking_TotalStake E (CallOn (cl_dioneStaking c))"

definition GetMinerStake ::
  "('b, 'cl, 'sg, 'st, 'lg, 'su, 'k, 'w, 'p, 'a) geth \<Rightarrow> ('cl, 'b, 'sg) ethereumClient \<Rightarrow> address \<Rightarrow> int res" where
  "GetMinerStake E c minerAddress = DioneStaking_MinerStake E (CallOn (cl_dioneStaking c)) minerAddress"

definition EthereumSideAPI ::
  "('b, 'cl, 'sg, 'st, 'lg, 'su, 'k, 'w, 'p, 'a) geth \<Rightarrow> ('cl, 'b, 'sg) ethereumClient \<Rightarrow> eth_api" where
  "EthereumSideAPI E c =
     \<lparr>eth_GetEthAddress = GetEthAddress c, eth_GetTotalStake = GetTotalStake E c,
      eth_GetMinerStake = GetMinerStake E c, eth_SubmitRequestAnswer = SubmitRequestAnswer E c,
      eth_BeginDispute = BeginDispute E c, eth_VoteDispute = VoteDispute E c, eth_FinishDispute = FinishDispute E c\<rparr>"

definition Balance ::
  "('b, 'cl, 'sg, 'st, 'lg, 'su, 'k, 'w, 'p, 'a) geth \<Rightarrow> ('cl, 'b, 'sg) ethereumClient \<Rightarrow> string \<Rightarrow> int res" where
  "Balance E c addr = ge_BalanceAt E (cl_client c) (ge_HexToAddress E addr)"

text \<open>Every error of \<open>SendTransaction\<close> ends the process.\<close>

definition fatal :: "'a res \<Rightarrow> 'a res" where
  "fatal r = (case r of Ok x \<Rightarrow> Ok x | _ \<Rightarrow> Panic)"

definition SendTransaction ::
  "('b, 'cl, 'sg, 'st, 'lg, 'su, 'k, 'w, 'p, 'a) geth \<Rightarrow> ('cl, 'b, 'sg) ethereumClient \<Rightarrow> string \<Rightarrow> string \<Rightarrow> i64 \<Rightarrow> string res" where
  "SendTransaction E c private_key to amount =
     bind_res (fatal (ge_HexToECDSA E private_key)) (\<lambda>privateKey.
     bind_res (fatal (ge_PendingNonceAt E (cl_client c) (ge_PubkeyToAddress E privateKey))) (\<lambda>nonce.
     bind_res (fatal (ge_SuggestGasPrice E (cl_client c))) (\<lambda>gasPrice.
     bind_res (fatal (ge_NetworkID E (cl_client c))) (\<lambda>chainID.
     bind_res (fatal (ge_SignTx E
         \<lparr>td_nonce = nonce, td_to = ge_HexToAddress E to, td_value = sint amount, td_gasLimit = 21000,
          td_gasPrice = gasPrice, td_data = []\<rparr> chainID privateKey)) (\<lambda>signedTx.
     bind_res (fatal (ge_SendTransaction E (cl_client c) signedTx)) (\<lambda>_.
       Ok (ge_TxHash_Hex E signedTx)))))))"

section \<open>Lemmas\<close>

text \<open>All sessions act for the address of the configured key, on the configured contracts.\<close>

lemma NewEthereumClient_Ok:
  assumes "NewEthereumClient E cfg = Ok c"
  obtains key signer where "getPrivateKey E cfg = Ok key"
    and "ge_NewKeyedTransactorWithChainID E key (ec_ChainID (cf_Ethereum cfg)) = Ok (GetEthAddress c, signer)"
    and "\<And>s. s \<in> {cl_dioneStaking c, cl_disputeContract c, cl_dioneOracle c} \<Longrightarrow>
      s = new_session (GetEthAddress c) signer (se_Contract s)"
proof -
  have "\<exists>key signer st di orc. getPrivateKey E cfg = Ok key
      \<and> ge_NewKeyedTransactorWithChainID E key (ec_ChainID (cf_Ethereum cfg)) = Ok (GetEthAddress c, signer)
      \<and> cl_dioneStaking c = new_session (GetEthAddress c) signer st
      \<and> cl_disputeContract c = new_session (GetEthAddress c) signer di
      \<and> cl_dioneOracle c = new_session (GetEthAddress c) signer orc"
    using assms by (fastforce simp: NewEthereumClient_def GetEthAddress_def res_simps)
  then obtain key signer st di orc where k: "getPrivateKey E cfg = Ok key"
      "ge_NewKeyedTransactorWithChainID E key (ec_ChainID (cf_Ethereum cfg)) = Ok (GetEthAddress c, signer)"
      "cl_dioneStaking c = new_session (GetEthAddress c) signer st"
      "cl_disputeContract c = new_session (GetEthAddress c) signer di"
      "cl_dioneOracle c = new_session (GetEthAddress c) signer orc"
    by blast
  show thesis by (rule that [OF k(1,2)]) (use k(3-5) in \<open>auto simp: new_session_def\<close>)
qed

text \<open>A private key in the configuration makes its mnemonic phrase irrelevant.\<close>

lemma private_key_first:
  assumes "ec_PrivateKey (cf_Ethereum cfg) \<noteq> []"
  shows "getPrivateKey E cfg = ge_HexToECDSA E (ec_PrivateKey (cf_Ethereum cfg))"
  using assms by (simp add: getPrivateKey_def)

end
