(* ===== verification/Foreign_Rpc.thy ===== *)
theory Foreign_Rpc
  imports Signatures Json_Values Rpc_Validation
begin

unbundle bit_operations_syntax

text \<open>
  The clients of the foreign chains (\<open>rpc/filecoin\<close>, \<open>rpc/solana\<close>, \<open>rpc/ethereum\<close>) and their
  JSON-RPC bodies (\<open>rpc/types\<close>). The HTTP exchange is the function \<open>post\<close> of URL and body; the
  Lotus message type with its CBOR code and its addresses is the record \<open>lotus\<close>; go-ethereum's
  client is the record \<open>eth_node\<close>.
\<close>

section \<open>JSON-RPC bodies\<close>

record RPCRequestBody =
  rq_Jsonrpc :: string
  rq_Method :: string
  rq_Params :: "json list"
  rq_ID :: int

definition NewRPCRequestBody :: "string \<Rightarrow> RPCRequestBody" where
  "NewRPCRequestBody m = \<lparr>rq_Jsonrpc = ''2.0'', rq_Method = m, rq_Params = [], rq_ID = 0\<rparr>"

definition request_json :: "RPCRequestBody \<Rightarrow> json" where
  "request_json r = JObject
     [(''jsonrpc'', JString (rq_Jsonrpc r)), (''method'', JString (rq_Method r)),
      (''params'', JArray (rq_Params r)), (''id'', JNumber (rq_ID r))]"

record rpc_Error =
  er_Code :: int
  er_Message :: string

record RPCResponseBody =
  rs_Jsonrpc :: string
  rs_Result :: bytes
  rs_Error :: rpc_Error
  rs_ID :: int

definition zero_RPCResponseBody :: RPCResponseBody where
  "zero_RPCResponseBody = \<lparr>rs_Jsonrpc = [], rs_Result = [], rs_Error = \<lparr>er_Code = 0, er_Message = []\<rparr>, rs_ID = 0\<rparr>"

definition error_field :: "string \<Rightarrow> json \<Rightarrow> rpc_Error \<Rightarrow> rpc_Error res" where
  "error_field k v e =
     (if fold_eq k ''code'' then bind_res (json_int64 v) (\<lambda>n. Ok (e\<lparr>er_Code := n\<rparr>))
      else if fold_eq k ''message'' then bind_res (json_string v) (\<lambda>s. Ok (e\<lparr>er_Message := s\<rparr>))
      else Ok e)"

definition response_field :: "string \<Rightarrow> json \<Rightarrow> RPCResponseBody \<Rightarrow> RPCResponseBody res" where
  "response_field k v r =
     (if fold_eq k ''jsonrpc'' then bind_res (json_string v) (\<lambda>s. Ok (r\<lparr>rs_Jsonrpc := s\<rparr>))
      else if fold_eq k ''result'' then bind_res (json_bytes v) (\<lambda>bs. Ok (r\<lparr>rs_Result := bs\<rparr>))
      else if fold_eq k ''error'' then bind_res (json_struct error_field (rs_Error r) v) (\<lambda>e. Ok (r\<lparr>rs_Error := e\<rparr>))
      else if fold_eq k ''id'' then bind_res (json_int64 v) (\<lambda>n. Ok (r\<lparr>rs_ID := n\<rparr>))
      else Ok r)"

definition unmarshal_response :: "json_text \<Rightarrow> bytes \<Rightarrow> RPCResponseBody res" where
  "unmarshal_response J bs = bind_res (jt_Unmarshal J bs) (json_struct response_field zero_RPCResponseBody)"

section \<open>Filecoin\<close>

definition MessageTypeUnknown :: u8 where "MessageTypeUnknown = 255"

definition MessageTypeBLS :: u8 where "MessageTypeBLS = 1"

definition MessageTypeSecp256k1 :: u8 where "MessageTypeSecp256k1 = 2"

definition MessageType_Name :: "u8 \<Rightarrow> string res" where
  "MessageType_Name t =
     (if t = MessageTypeUnknown then Ok ''unknown''
      else if t = MessageTypeBLS then Ok ''BLS''
      else if t = MessageTypeSecp256k1 then Ok ''Secp256k1''
      else Err (Errorf ''invalid message signature type''))"

record 'm lotus =
  lo_UnmarshalCBOR :: "bytes \<Rightarrow> ('m \<times> bytes) res"
  lo_MarshalCBOR :: "'m \<Rightarrow> bytes res"
  lo_From_Protocol :: "'m \<Rightarrow> u8"
  lo_To_Protocol :: "'m \<Rightarrow> u8"
  lo_BLS :: u8
  lo_SECP256K1 :: u8

record 'm SignedMessage =
  sm_Message :: 'm
  sm_Signature :: Signature
  sm_Type :: u8

definition SignedMessage_UnmarshalCBOR :: "cbg \<Rightarrow> 'm lotus \<Rightarrow> bytes \<Rightarrow> ('m \<times> Signature) res" where
  "SignedMessage_UnmarshalCBOR G T r =
     bind_res (cbg_CborReadHeader G r) (\<lambda>(maj, extra, r1).
     bind_res (guard_res (maj = cbg_MajArray G) ''cbor input should be of type array'') (\<lambda>_.
     bind_res (guard_res (extra = 2) ''cbor input had wrong number of fields'') (\<lambda>_.
     bind_res (wrap_res ''unmarshaling t.Message'' (lo_UnmarshalCBOR T r1)) (\<lambda>(m, r2).
     bind_res (wrap_res ''unmarshaling t.Signature'' (Signature_UnmarshalCBOR G r2)) (\<lambda>(s, _).
       Ok (m, s))))))"

definition lengthBufSignedMessage :: bytes where
  "lengthBufSignedMessage = [130]"

text \<open>Into a buffer, which accepts every write.\<close>

definition SignedMessage_MarshalCBOR :: "cbg \<Rightarrow> 'm lotus \<Rightarrow> 'm SignedMessage option \<Rightarrow> bytes res" where
  "SignedMessage_MarshalCBOR G T t =
     (case t of
        None \<Rightarrow> Ok (cbg_CborNull G)
      | Some t \<Rightarrow> bind_res (lo_MarshalCBOR T (sm_Message t)) (\<lambda>m.
          case Signature_MarshalCBOR G buffer (Some (sm_Signature t)) (lengthBufSignedMessage @ m) of
            (w, Ok _) \<Rightarrow> Ok w
          | (w, Err e) \<Rightarrow> Err e
          | (w, Panic) \<Rightarrow> Panic))"

definition NewCidParam :: "json \<Rightarrow> json list" where
  "NewCidParam cid = [JObject [(''/'', cid)]]"

type_synonym http_do = "string \<Rightarrow> bytes \<Rightarrow> bytes res"

definition filecoinURL :: string where
  "filecoinURL = ''https://api.node.glif.io/''"

definition HandleRequest :: "json_text \<Rightarrow> http_do \<Rightarrow> string \<Rightarrow> json list \<Rightarrow> bytes res" where
  "HandleRequest J post m params =
     (let requestBody = NewRPCRequestBody m in
      post filecoinURL (jt_Marshal J (request_json (requestBody\<lparr>rq_Params := rq_Params requestBody @ params\<rparr>))))"

definition lotus_GetBlock :: "json_text \<Rightarrow> http_do \<Rightarrow> rpc_method" where
  "lotus_GetBlock J post cid = HandleRequest J post ''Filecoin.ChainGetBlock'' (NewCidParam (JString cid))"

definition GetTipSetByHeight :: "json_text \<Rightarrow> http_do \<Rightarrow> i64 \<Rightarrow> bytes res" where
  "GetTipSetByHeight J post chainEpoch =
     HandleRequest J post ''Filecoin.ChainGetTipSetByHeight'' [JNumber (sint chainEpoch), JNull]"

definition GetNodeVersion :: "json_text \<Rightarrow> http_do \<Rightarrow> bytes res" where
  "GetNodeVersion J post = HandleRequest J post ''Filecoin.Version'' []"

definition GetChainHead :: "json_text \<Rightarrow> http_do \<Rightarrow> bytes res" where
  "GetChainHead J post = HandleRequest J post ''Filecoin.ChainHead'' []"

definition VerifyCid :: "json_text \<Rightarrow> http_do \<Rightarrow> rpc_method" where
  "VerifyCid J post cid = HandleRequest J post ''Filecoin.ChainHasObj'' (NewCidParam (JString cid))"

text \<open>A signed message, or else a bare one with the zero signature.\<close>

definition decode_object :: "cbg \<Rightarrow> 'm lotus \<Rightarrow> bytes \<Rightarrow> ('m \<times> Signature) res" where
  "decode_object G T obj =
     (case SignedMessage_UnmarshalCBOR G T obj of
        Err _ \<Rightarrow> bind_res (lo_UnmarshalCBOR T obj) (\<lambda>(m, _). Ok (m, \<lparr>sg_Type = 0, sg_Data = []\<rparr>))
      | r \<Rightarrow> r)"

definition message_type :: "'m lotus \<Rightarrow> 'm \<Rightarrow> u8 res" where
  "message_type T m =
     (let p = lo_From_Protocol T m OR lo_To_Protocol T m in
      if p = lo_BLS T then Ok MessageTypeBLS
      else if p = lo_SECP256K1 T then Ok MessageTypeSecp256k1
      else Err (Errorf ''Address has unsupported protocol''))"

definition lotus_GetTransaction :: "cbg \<Rightarrow> 'm lotus \<Rightarrow> json_text \<Rightarrow> http_do \<Rightarrow> rpc_method" where
  "lotus_GetTransaction G T J post cid =
     bind_res (wrap_res ''Failed to get object information''
       (HandleRequest J post ''Filecoin.ChainReadObj'' (NewCidParam (JString cid)))) (\<lambda>bodyBytes.
     bind_res (wrap_res ''Failed to unmarshal response body'' (unmarshal_response J bodyBytes)) (\<lambda>response.
     bind_res (decode_object G T (rs_Result response)) (\<lambda>(m, s).
     bind_res (message_type T m) (\<lambda>t.
       SignedMessage_MarshalCBOR G T (Some \<lparr>sm_Message = m, sm_Signature = s, sm_Type = t\<rparr>)))))"

section \<open>Solana and Ethereum\<close>

record SolanaClient =
  so_url :: string
  so_ws :: string

definition NewSolanaClient :: SolanaClient where
  "NewSolanaClient = \<lparr>so_url = ''http://devnet.solana.com:8899/'', so_ws = ''ws://devnet.solana.com:8900/''\<rparr>"

definition solana_GetTransaction :: "json_text \<Rightarrow> http_do \<Rightarrow> rpc_method" where
  "solana_GetTransaction J post txHash =
     (let requestBody = NewRPCRequestBody ''getConfirmedTransaction'' in
      post (so_url NewSolanaClient) (jt_Marshal J
        (request_json (requestBody\<lparr>rq_Params := rq_Params requestBody @ [JString txHash, JString ''json'']\<rparr>))))"

definition NewSubParam :: "string \<Rightarrow> json" where
  "NewSubParam encoding = JObject [(''encoding'', JString encoding)]"

text \<open>
  The messages of the websocket until reading fails. Each one is decoded over the result of the
  previous ones, which stays as it is when decoding fails, and is logged.
\<close>

fun subscription_loop :: "(bytes \<Rightarrow> 'su option \<Rightarrow> 'su option res) \<Rightarrow> bytes res list \<Rightarrow> 'su option \<Rightarrow> 'su option list" where
  "subscription_loop unmarshal (Ok message # rs) parsedSub =
     (let parsedSub' = (case unmarshal message parsedSub of Ok p \<Rightarrow> p | _ \<Rightarrow> parsedSub) in
      parsedSub' # subscription_loop unmarshal rs parsedSub')"
| "subscription_loop unmarshal _ parsedSub = []"

text \<open>
  What is written to the websocket and what is logged: first what \<open>Write\<close> returns, as the number
  of the subscription, then the messages. A failed write is only logged.
\<close>

definition subscribeOnProgram ::
  "json_text \<Rightarrow> (string \<Rightarrow> unit res) \<Rightarrow> (bytes \<Rightarrow> int) \<Rightarrow> (bytes \<Rightarrow> 'su option \<Rightarrow> 'su option res) \<Rightarrow> bytes res list \<Rightarrow> string
     \<Rightarrow> (bytes \<times> int \<times> 'su option list) res" where
  "subscribeOnProgram J dial write unmarshal reads programID =
     (case dial (so_ws NewSolanaClient) of
        Ok _ \<Rightarrow>
          let requestBody = NewRPCRequestBody ''programSubscribe'';
              body = jt_Marshal J (request_json (requestBody\<lparr>rq_Params := [JString programID, NewSubParam ''jsonParsed'']\<rparr>))
          in Ok (body, write body, subscription_loop unmarshal reads None)
      | _ \<Rightarrow> Panic)"

record ('h, 't) eth_node =
  en_HexToHash :: "string \<Rightarrow> 'h"
  en_TransactionByHash :: "'h \<Rightarrow> 't res"
  en_MarshalJSON :: "'t \<Rightarrow> bytes res"

definition ethereum_GetTransaction :: "('h, 't) eth_node \<Rightarrow> rpc_method" where
  "ethereum_GetTransaction N txHash =
     bind_res (en_TransactionByHash N (en_HexToHash N txHash)) (en_MarshalJSON N)"

section \<open>Lemmas\<close>

text \<open>The subscription logs once per message and ends with the first error, whatever comes after it.\<close>

lemma subscription_loop_length:
  "length (subscription_loop unmarshal (map Ok msgs @ Err e # rs) p) = length msgs"
  by (induction msgs arbitrary: p) (simp_all add: Let_def)


text \<open>What the Lotus types promise: the encoding of a message is an array of ten fields that
  decodes to the message, and go-address numbers its protocols 0 to 3.\<close>

locale lotus_codec = cbg_headers G for G :: cbg +
  fixes T :: "'m lotus"
  assumes message_roundtrip: "lo_MarshalCBOR T m = Ok e \<Longrightarrow> lo_UnmarshalCBOR T (e @ rest) = Ok (m, rest)"
    and message_header: "lo_MarshalCBOR T m = Ok e \<Longrightarrow> \<exists>r. cbg_CborReadHeader G e = Ok (cbg_MajArray G, 10, r)"
    and pair_header: "cbg_CborReadHeader G (130 # r) = Ok (cbg_MajArray G, 2, r)"
    and protocols: "lo_BLS T = 3" "lo_SECP256K1 T = 1"
begin

lemma marshal_signed:
  assumes "lo_MarshalCBOR T m = Ok e"
  shows "SignedMessage_MarshalCBOR G T (Some \<lparr>sm_Message = m, sm_Signature = s, sm_Type = t\<rparr>) =
    Ok (130 # e @ cbg_CborEncodeMajorType G (cbg_MajByteString G) (length (sg_Data s) + 1) @ sg_Type s # sg_Data s)"
  using assms by (simp add: SignedMessage_MarshalCBOR_def Signature_MarshalCBOR_def buffer_def lengthBufSignedMessage_def)

lemma decode_signed:
  assumes "lo_MarshalCBOR T m = Ok e" "sg_Type s \<in> {SigTypeEd25519, SigTypeSecp256k1, SigTypeBLS}"
    and "length (sg_Data s) < SignatureMaxLength"
  shows "decode_object G T (130 # e @ cbg_CborEncodeMajorType G (cbg_MajByteString G) (length (sg_Data s) + 1)
    @ sg_Type s # sg_Data s) = Ok (m, s)"
  using unmarshal_marshalled [of s "[]"] assms message_roundtrip [OF assms(1)]
  by (auto simp: decode_object_def SignedMessage_UnmarshalCBOR_def pair_header guard_res_def wrap_res_def)

lemma decode_bare:
  assumes "lo_MarshalCBOR T m = Ok e"
  shows "decode_object G T e = Ok (m, \<lparr>sg_Type = 0, sg_Data = []\<rparr>)"
proof -
  obtain r where "cbg_CborReadHeader G e = Ok (cbg_MajArray G, 10, r)" using message_header [OF assms] ..
  then have "SignedMessage_UnmarshalCBOR G T e = Err (Errorf ''cbor input had wrong number of fields'')"
    by (simp add: SignedMessage_UnmarshalCBOR_def guard_res_def)
  then show ?thesis using message_roundtrip [OF assms, of "[]"] by (simp add: decode_object_def)
qed

end

lemma unmarshal_result:
  assumes "jt_Unmarshal J body =
    Ok (JObject [(''jsonrpc'', JString v), (''result'', JString (b64_encode obj)), (''id'', JNumber 0)])"
  shows "unmarshal_response J body = Ok (zero_RPCResponseBody\<lparr>rs_Jsonrpc := v, rs_Result := obj, rs_ID := 0\<rparr>)"
  using assms
  by (simp add: unmarshal_response_def json_struct_def response_field_def fold_eq_def ascii_lower_def json_string_def
      json_bytes_def json_int64_def zero_RPCResponseBody_def)

text \<open>A message of ten one-byte fields, the first two the protocols of its addresses.\<close>

definition ref_lotus :: "bytes lotus" where
  "ref_lotus = \<lparr>lo_UnmarshalCBOR = (\<lambda>bs. case bs of [] \<Rightarrow> Err (ExtErr ''EOF'')
       | b # bs \<Rightarrow> if b = 138 \<and> 10 \<le> length bs then Ok (take 10 bs, drop 10 bs) else Err (ExtErr ''cbor'')),
     lo_MarshalCBOR = (\<lambda>m. if length m = 10 then Ok (138 # m) else Err (ExtErr ''cbor'')),
     lo_From_Protocol = (\<lambda>m. m ! 0), lo_To_Protocol = (\<lambda>m. m ! 1), lo_BLS = 3, lo_SECP256K1 = 1\<rparr>"

interpretation ref_message: lotus_codec ref_cbg ref_lotus
proof
  fix m e rest r
  show "lo_UnmarshalCBOR ref_lotus (e @ rest) = Ok (m, rest)" if "lo_MarshalCBOR ref_lotus m = Ok e"
    using that by (auto simp: ref_lotus_def split: if_splits)
  show "\<exists>r. cbg_CborReadHeader ref_cbg e = Ok (cbg_MajArray ref_cbg, 10, r)" if "lo_MarshalCBOR ref_lotus m = Ok e"
    using that by (auto simp: ref_lotus_def ref_cbg_def cbor_read_def split: if_splits)
  show "cbg_CborReadHeader ref_cbg (130 # r) = Ok (cbg_MajArray ref_cbg, 2, r)"
    by (simp add: ref_cbg_def cbor_read_def)
qed (simp_all add: ref_lotus_def)

definition ref_json :: "json \<Rightarrow> json_text" where
  "ref_json v = \<lparr>jt_Marshal = (\<lambda>_. []), jt_Unmarshal = (\<lambda>_. Ok v)\<rparr>"

section \<open>Properties\<close>

text \<open>C39. What the Filecoin client returns for an object that the node holds. If the object is a
  signed message, the very bytes of the object; if it is a bare message, its encoding as a
  signed message with an empty signature of type 0. It does so when the protocols of the two
  addresses combine to 1 or 3, so also for a message from a secp256k1 to an actor address,
  which counts as BLS, and refuses every other message.\<close>

theorem filecoin_transaction:
  fixes s :: Signature
  assumes "lotus_codec G T" "lo_MarshalCBOR T m = Ok e"
    and "sg_Type s \<in> {SigTypeEd25519, SigTypeSecp256k1, SigTypeBLS}" "length (sg_Data s) < 200"
    and "sobj = 130 # e @ cbg_CborEncodeMajorType G (cbg_MajByteString G) (length (sg_Data s) + 1) @ sg_Type s # sg_Data s"
    and "obj = sobj \<or> obj = e"
    and "HandleRequest J post ''Filecoin.ChainReadObj'' (NewCidParam (JString cid)) = Ok body"
    and "jt_Unmarshal J body =
      Ok (JObject [(''jsonrpc'', JString v), (''result'', JString (b64_encode obj)), (''id'', JNumber 0)])"
  shows "lotus_GetTransaction G T J post cid =
    (if lo_From_Protocol T m OR lo_To_Protocol T m \<in> {1, 3}
     then Ok (if obj = sobj then obj
       else 130 # e @ cbg_CborEncodeMajorType G (cbg_MajByteString G) 1 @ [0])
     else Err (Errorf ''Address has unsupported protocol''))"
proof -
  have dec: "decode_object G T obj = Ok (m, if obj = sobj then s else \<lparr>sg_Type = 0, sg_Data = []\<rparr>)"
    using assms(3-6) lotus_codec.decode_signed [OF assms(1-3)] lotus_codec.decode_bare [OF assms(1,2)]
    by (auto simp: SignatureMaxLength_def)
  have "lotus_GetTransaction G T J post cid = bind_res (decode_object G T obj) (\<lambda>(m, s). bind_res (message_type T m) (\<lambda>t.
      SignedMessage_MarshalCBOR G T (Some \<lparr>sm_Message = m, sm_Signature = s, sm_Type = t\<rparr>)))"
    by (simp add: lotus_GetTransaction_def assms(7) unmarshal_result [OF assms(8)] wrap_res_def)
  then show ?thesis
    using lotus_codec.marshal_signed [OF assms(1,2)] lotus_codec.protocols [OF assms(1)] assms(5)
    by (simp add: dec message_type_def Let_def)
qed

theorem filecoin_transaction_witness:
  "lotus_GetTransaction ref_cbg ref_lotus
     (ref_json (JObject [(''jsonrpc'', JString ''2.0''), (''result'', JString (b64_encode (138 # 1 # 2 # replicate 8 0))),
        (''id'', JNumber 0)]))
     (\<lambda>_ _. Ok []) ''cid'' = Ok (130 # (138 # 1 # 2 # replicate 8 0) @ [65, 0])"
proof -
  let ?m = "1 # 2 # replicate 8 (0 :: byte)"
  have e: "lo_MarshalCBOR ref_lotus ?m = Ok (138 # ?m)" by (simp add: ref_lotus_def)
  have h: "HandleRequest (ref_json v) (\<lambda>_ _. Ok []) k p = Ok []" for v k p by (simp add: HandleRequest_def Let_def)
  from filecoin_transaction [OF ref_message.lotus_codec_axioms e, of "\<lparr>sg_Type = 3, sg_Data = []\<rparr>", OF _ _ refl disjI2 [OF refl] h]
  show ?thesis by (simp add: ref_json_def sigtype_defs ref_lotus_def ref_cbg_def cbor_header_def)
qed

end
