(* ===== verification/Node.thy ===== *)
theory Node
  imports Eth_Client Foreign_Rpc Mempool Chain_Properties
begin

text \<open>
  The node itself (\<open>node/node.go\<close>, \<open>node/node_dep_providers.go\<close>): the providers that choose and
  make its parts from the configuration, the key file, the first block of a fresh chain, the
  registration of the foreign chains, the discovery of peers, and the loop that turns oracle
  requests of the contract into pooled transactions. libp2p is the record \<open>libp2p\<close>, the
  operating system's files are the record \<open>os_files\<close>. A call of \<open>logrus.Fatal\<close> is a panic.
\<close>

section \<open>Providers\<close>

record AppFlags =
  af_ConfigPath :: string
  af_Verbose :: bool

definition provideConfig :: "viper \<Rightarrow> AppFlags \<Rightarrow> Config res" where
  "provideConfig V flags =
     (if af_ConfigPath flags = [] then Panic else fatal (NewConfig V (af_ConfigPath flags)))"

text \<open>The two cache managers are arguments; so are the databases, of which opening the LMDB one may fail.\<close>

definition provideCacheManager :: "'cm \<Rightarrow> 'cm \<Rightarrow> Config \<Rightarrow> 'cm" where
  "provideCacheManager inmemory redis cfg =
     (if cf_CacheType cfg = CacheTypeInMemory then inmemory
      else if cf_CacheType cfg = CacheTypeRedis then redis
      else inmemory)"

definition provideBlockchainDatabase :: "'db \<Rightarrow> (string \<Rightarrow> 'db res) \<Rightarrow> Config \<Rightarrow> 'db res" where
  "provideBlockchainDatabase memory lmdb cfg =
     (if bcf_DatabaseType (cf_Blockchain cfg) = BlockchainDatabaseInMemory then Ok memory
      else if bcf_DatabaseType (cf_Blockchain cfg) = BlockChainDatabaseLMDB
      then if bcf_LMDB_DatabasePath (cf_Blockchain cfg) = [] then Err (Errorf ''database path for lmdb database is empty'')
           else lmdb (bcf_LMDB_DatabasePath (cf_Blockchain cfg))
      else Ok memory)"

record ('k, 'ma) libp2p =
  lp_GenerateKeyPair :: "'k res"
  lp_Raw :: "'k \<Rightarrow> bytes res"
  lp_UnmarshalEd25519PrivateKey :: "bytes \<Rightarrow> 'k res"
  lp_NewMultiaddr :: "string \<Rightarrow> 'ma res"

fun bootstrap_loop :: "('k, 'ma) libp2p \<Rightarrow> string list \<Rightarrow> 'ma list \<Rightarrow> 'ma list res" where
  "bootstrap_loop L [] bootstrapMaddrs = Ok bootstrapMaddrs"
| "bootstrap_loop L (a # as) bootstrapMaddrs =
     bind_res (fatal (lp_NewMultiaddr L a)) (\<lambda>maddr. bootstrap_loop L as (bootstrapMaddrs @ [maddr]))"

definition provideBootstrapAddrs :: "('k, 'ma) libp2p \<Rightarrow> Config \<Rightarrow> 'ma list res" where
  "provideBootstrapAddrs L c = (if cf_IsBootstrap c then Ok [] else bootstrap_loop L (cf_BootstrapNodes c) [])"

definition generatePrivateKey :: "('k, 'ma) libp2p \<Rightarrow> 'k res" where
  "generatePrivateKey L = lp_GenerateKeyPair L"

datatype stat = Exists | NotExist | StatError

record 'f os_files =
  os_Stat :: "'f \<Rightarrow> string \<Rightarrow> stat"
  os_Dir :: "string \<Rightarrow> string"
  os_MkdirAll :: "'f \<Rightarrow> string \<Rightarrow> 'f \<times> unit res"
  os_Create :: "'f \<Rightarrow> string \<Rightarrow> 'f \<times> unit res"
  os_Write :: "'f \<Rightarrow> string \<Rightarrow> bytes \<Rightarrow> 'f \<times> unit res"
  os_ReadFile :: "'f \<Rightarrow> string \<Rightarrow> bytes res"

definition make_key_dir :: "'f os_files \<Rightarrow> string \<Rightarrow> 'f \<Rightarrow> 'f \<times> unit res" where
  "make_key_dir F path f =
     (if os_Stat F f (os_Dir F path) = NotExist then os_MkdirAll F f (os_Dir F path) else (f, Ok ()))"

definition write_key :: "'f os_files \<Rightarrow> ('k, 'ma) libp2p \<Rightarrow> string \<Rightarrow> 'k \<Rightarrow> 'f \<Rightarrow> 'f \<times> 'k res" where
  "write_key F L path k f =
     (case make_key_dir F path f of
        (f1, Ok _) \<Rightarrow> (case os_Create F f1 path of
            (f2, Ok _) \<Rightarrow> (case lp_Raw L k of
                Ok r \<Rightarrow> (case os_Write F f2 path r of (f3, Ok _) \<Rightarrow> (f3, Ok k) | (f3, _) \<Rightarrow> (f3, Panic))
              | _ \<Rightarrow> (f2, Panic))
          | (f2, _) \<Rightarrow> (f2, Panic))
      | (f1, _) \<Rightarrow> (f1, Panic))"

definition providePrivateKey :: "'f os_files \<Rightarrow> ('k, 'ma) libp2p \<Rightarrow> Config \<Rightarrow> 'f \<Rightarrow> 'f \<times> 'k res" where
  "providePrivateKey F L cfg f =
     (if os_Stat F f (cf_PrivateKeyPath cfg) = NotExist
      then (case generatePrivateKey L of
          Ok k \<Rightarrow> write_key F L (cf_PrivateKeyPath cfg) k f
        | _ \<Rightarrow> (f, Panic))
      else (f, fatal (bind_res (os_ReadFile F f (cf_PrivateKeyPath cfg)) (lp_UnmarshalEd25519PrivateKey L))))"

definition configureForeignBlockchainRPC ::
  "cbg \<Rightarrow> 'm lotus \<Rightarrow> json_text \<Rightarrow> http_do \<Rightarrow> rpc_table \<Rightarrow> rpc_table" where
  "configureForeignBlockchainRPC G T J post rpcs =
     RegisterRPC RPCTypeSolana [''getTransaction'' \<mapsto> solana_GetTransaction J post]
       (RegisterRPC RPCTypeFilecoin
         [''getTransaction'' \<mapsto> lotus_GetTransaction G T J post, ''getBlock'' \<mapsto> lotus_GetBlock J post] rpcs)"

definition initializeBlockchain :: "'d chain_env \<Rightarrow> nat list \<Rightarrow> 'd \<Rightarrow> 'd \<times> event list \<times> unit res" where
  "initializeBlockchain env sched d =
     (case bc_GetLatestBlockHeight env d of
        Ok _ \<Rightarrow> (d, [], Ok ())
      | Panic \<Rightarrow> (d, [], Panic)
      | Err e \<Rightarrow>
          if e = ErrLatestHeightNil
          then (case StoreBlock env sched d GenesisBlock of (d', ev, r) \<Rightarrow> (d', ev, fatal r))
          else (d, [], Ok ()))"

definition configureMiner :: "'d chain_env \<Rightarrow> 'd \<Rightarrow> Miner \<Rightarrow> Miner res" where
  "configureMiner env d m = SetBlockchainInstance (env_db env) d m"

section \<open>Running\<close>

datatype started = Discovery | Drand | PubSub_router | Oracle_events | Sync_manager | Dispute_manager

text \<open>The start hook, given what the three fallible steps return.\<close>

definition runNode_OnStart :: "unit res \<Rightarrow> unit res \<Rightarrow> unit res \<Rightarrow> started list \<times> unit res" where
  "runNode_OnStart libp2p drand oracle =
     (case libp2p of
        Ok _ \<Rightarrow> (case drand of
            Ok _ \<Rightarrow> (case oracle of
                Ok _ \<Rightarrow> ([Discovery, Drand, PubSub_router, Oracle_events, Sync_manager, Dispute_manager], Ok ())
              | r \<Rightarrow> ([Discovery, Drand, PubSub_router], r))
          | r \<Rightarrow> ([Discovery], r))
      | r \<Rightarrow> ([], r))"

definition runLibp2p_start :: "unit res \<Rightarrow> 'ch res \<Rightarrow> 'ch res" where
  "runLibp2p_start advertise findPeers =
     bind_res (wrap_res ''failed to announce this node to the network'' advertise) (\<lambda>_.
       wrap_res ''failed to find new peers'' findPeers)"

text \<open>The peers that the discovery loop connects to. A peer without addresses is also what a
  closed channel yields.\<close>

definition discovered_peer :: "(peer_id \<Rightarrow> string) \<Rightarrow> peer_id \<Rightarrow> peer_id \<times> 'ma list \<Rightarrow> peer_id list" where
  "discovered_peer peerString self newPeer =
     (if snd newPeer = [] then []
      else if peerString (fst newPeer) = peerString self then []
      else [fst newPeer])"

record 'c oracle_state =
  oq_heap :: "Transaction heap"
  oq_next :: loc
  oq_pool :: 'c

definition task_of_event :: "NewOracleRequest_event \<Rightarrow> bytes \<Rightarrow> DioneTask" where
  "task_of_event e payload =
     \<lparr>tk_OriginChain = or_OriginChain e, tk_RequestType = or_RequestType e, tk_RequestParams = or_RequestParams e,
      tk_Payload = payload, tk_RequestID = big_String (or_ReqID e)\<rparr>"

definition onOracleRequest ::
  "rpc_table \<Rightarrow> 'd chain_env \<Rightarrow> ('c, Transaction) Cache \<Rightarrow> int \<Rightarrow> NewOracleRequest_event \<Rightarrow> 'c oracle_state
     \<Rightarrow> 'c oracle_state \<times> event list \<times> unit res" where
  "onOracleRequest rpcs env ca now e s =
     (case GetRPCMethod rpcs (or_OriginChain e) (or_RequestType e) of
        None \<Rightarrow> (s, [], Ok ())
      | Some rpcMethod \<Rightarrow> (case rpcMethod (or_RequestParams e) of
          Err _ \<Rightarrow> (s, [], Ok ())
        | Panic \<Rightarrow> (s, [], Panic)
        | Ok payload \<Rightarrow> (case marshal_task (env_K env) (task_of_event e payload) of
            Err _ \<Rightarrow> (s, [], Ok ())
          | Panic \<Rightarrow> (s, [], Panic)
          | Ok dat \<Rightarrow>
              let l = oq_next s; h = (oq_heap s)(l := CreateTransaction (env_C env) now dat) in
              (case StoreTx ca now h (oq_pool s) l of
                 (c, ev, r) \<Rightarrow> (\<lparr>oq_heap = h, oq_next = Suc l, oq_pool = c\<rparr>, ev, if r = Panic then Panic else Ok ())))))"

text \<open>One turn of the event loop: an event (nil when the channel is closed), the end of the
  context, or an error of the subscription. The flag says whether the loop goes on.\<close>

datatype oracle_input = OracleRequest "NewOracleRequest_event option" | ContextDone | SubscriptionError

definition oracle_loop_step ::
  "rpc_table \<Rightarrow> 'd chain_env \<Rightarrow> ('c, Transaction) Cache \<Rightarrow> int \<Rightarrow> oracle_input \<Rightarrow> 'c oracle_state
     \<Rightarrow> 'c oracle_state \<times> event list \<times> bool res" where
  "oracle_loop_step rpcs env ca now i s =
     (case i of
        OracleRequest None \<Rightarrow> (s, [], Panic)
      | OracleRequest (Some e) \<Rightarrow>
          (case onOracleRequest rpcs env ca now e s of (s', ev, r) \<Rightarrow> (s', ev, bind_res r (\<lambda>_. Ok True)))
      | ContextDone \<Rightarrow> (s, [], Ok False)
      | SubscriptionError \<Rightarrow> (s, [], Panic))"

section \<open>Lemmas\<close>

lemma fatal_simps [simp]: "fatal (Ok x) = Ok x" "fatal (Err e) = Panic" "fatal Panic = Panic"
  by (simp_all add: fatal_def)

lemma fatal_Ok [simp]: "fatal r = Ok x \<longleftrightarrow> r = Ok x"
  by (simp add: fatal_def split: res.splits)

text \<open>The registered methods of the foreign chains.\<close>

lemma configured_methods:
  "GetRPCMethod (configureForeignBlockchainRPC G T J post (\<lambda>_. None)) c m =
    (if c = RPCTypeFilecoin \<and> m = ''getTransaction'' then Some (lotus_GetTransaction G T J post)
     else if c = RPCTypeFilecoin \<and> m = ''getBlock'' then Some (lotus_GetBlock J post)
     else if c = RPCTypeSolana \<and> m = ''getTransaction'' then Some (solana_GetTransaction J post)
     else None)"
  by (simp add: GetRPCMethod_def configureForeignBlockchainRPC_def RegisterRPC_def RPCTypeFilecoin_def RPCTypeSolana_def)

text \<open>A file that was created and written reads back, and the code of a key gives it back.\<close>

locale key_file =
  fixes F :: "'f os_files" and L :: "('k, 'ma) libp2p"
  assumes written: "os_Create F f p = (f1, Ok u) \<Longrightarrow> os_Write F f1 p bs = (f2, Ok v) \<Longrightarrow>
      os_Stat F f2 p = Exists \<and> os_ReadFile F f2 p = Ok bs"
    and key_roundtrip: "lp_Raw L k = Ok r \<Longrightarrow> lp_UnmarshalEd25519PrivateKey L r = Ok k"
begin

lemma written_key:
  assumes "write_key F L path k f = (f', Ok k')"
  shows "k' = k" "os_Stat F f' path = Exists" "bind_res (os_ReadFile F f' path) (lp_UnmarshalEd25519PrivateKey L) = Ok k"
proof -
  obtain f1 f2 r u v where "os_Create F f1 path = (f2, Ok u)" "os_Write F f2 path r = (f', Ok v)"
      "lp_Raw L k = Ok r" and k: "k' = k"
    using assms by (auto simp: write_key_def split: prod.splits res.splits)
  with written [of f1 path f2 u r f' v] key_roundtrip show "k' = k" "os_Stat F f' path = Exists"
    "bind_res (os_ReadFile F f' path) (lp_UnmarshalEd25519PrivateKey L) = Ok k" by simp_all
qed

end

text \<open>Files in memory, and keys that are their own code.\<close>

record mem_files =
  mf_files :: "string \<Rightarrow> bytes option"
  mf_dirs :: "string list"

definition ref_files :: "mem_files os_files" where
  "ref_files =
     \<lparr>os_Stat = (\<lambda>f p. if mf_files f p \<noteq> None \<or> p \<in> set (mf_dirs f) then Exists else NotExist),
      os_Dir = (\<lambda>p. rev (drop 1 (dropWhile (\<lambda>c. c \<noteq> CHR ''/'') (rev p)))),
      os_MkdirAll = (\<lambda>f p. (f\<lparr>mf_dirs := p # mf_dirs f\<rparr>, Ok ())),
      os_Create = (\<lambda>f p. (f\<lparr>mf_files := (mf_files f)(p := Some [])\<rparr>, Ok ())),
      os_Write = (\<lambda>f p bs. (f\<lparr>mf_files := (mf_files f)(p := Some bs)\<rparr>, Ok ())),
      os_ReadFile = (\<lambda>f p. case mf_files f p of None \<Rightarrow> Err (ExtErr ''no such file'') | Some bs \<Rightarrow> Ok bs)\<rparr>"

definition ref_libp2p :: "bytes \<Rightarrow> (bytes, string) libp2p" where
  "ref_libp2p k = \<lparr>lp_GenerateKeyPair = Ok k, lp_Raw = Ok, lp_UnmarshalEd25519PrivateKey = Ok, lp_NewMultiaddr = Ok\<rparr>"

interpretation ref_key_file: key_file ref_files "ref_libp2p k"
  by unfold_locales (auto simp: ref_files_def ref_libp2p_def)

section \<open>Properties\<close>

text \<open>A node keeps its identity: once it has got its private key, whether it read or generated
  it, a restart with the same configuration gets the same key and leaves the files alone,
  whatever key a generator would return then.\<close>

lemma node_keeps_identity:
  assumes "key_file F L" "providePrivateKey F L cfg f = (f', Ok k)"
  shows "providePrivateKey F (L\<lparr>lp_GenerateKeyPair := g\<rparr>) cfg f' = (f', Ok k)"
proof (cases "os_Stat F f (cf_PrivateKeyPath cfg) = NotExist")
  case True
  then obtain k0 where "write_key F L (cf_PrivateKeyPath cfg) k0 f = (f', Ok k)"
    using assms(2) by (auto simp: providePrivateKey_def split: res.splits)
  from key_file.written_key [OF assms(1) this] show ?thesis by (simp add: providePrivateKey_def)
next
  case False
  then show ?thesis using assms(2) by (auto simp: providePrivateKey_def)
qed

text \<open>C19. What starting on a database does. A database with a latest height is left alone; an empty
  one gets the genesis block as its block of height 0, on which the miner then starts; but one that holds the genesis block
  without a latest height, as an interrupted first start leaves it, stays without one.\<close>

theorem genesis_initialisation:
  assumes "block_database (env_db env) I \<alpha>" "I d" "initializeBlockchain env sched d = (d', ev, Ok ())"
  shows "(if bc_GetLatestBlockHeight env d = Err ErrLatestHeightNil
           \<and> bc_HasBlock env d (blk_hash GenesisBlock) = Ok False
     then bc_GetLatestBlockHeight env d' = Ok 0 \<and> bc_FetchBlockByHeight env d' 0 = Ok GenesisBlock
       \<and> ev = [Ev_latestBlockHeightUpdated GenesisBlock, Ev_blockCommitted GenesisBlock]
       \<and> configureMiner env d' m = Ok (m\<lparr>mi_latestBlockHeader := Some (blk_Header GenesisBlock)\<rparr>)
     else d' = d \<and> ev = [])"
proof -
  note D = block_database.latest [OF assms(1)] block_database.has_block [OF assms(1)]
    block_database.fetch_by_height [OF assms(1)] block_database.fetch_header_by_height [OF assms(1)]
  have g: "blk_height GenesisBlock = 0" by (simp add: GenesisBlock_def genesis_header_def)
  show ?thesis
  proof (cases "a_latest (\<alpha> d) = None \<and> a_blocks (\<alpha> d) (blk_hash GenesisBlock) = None")
    case True
    then have st: "StoreBlock env sched d GenesisBlock = (d', ev, Ok ())"
      using assms(2,3) by (simp add: initializeBlockchain_def bc_reads D split: prod.splits)
    have cd: "chain_db env I \<alpha>" using assms(1) by (simp add: chain_db_def)
    show ?thesis
    proof (rule chain_db.StoreBlock_valid [OF cd assms(2) conjunct2 [OF True] disjI1 [OF g] st])
      assume "ev = [Ev_latestBlockHeightUpdated GenesisBlock, Ev_blockCommitted GenesisBlock]" "I d'"
        and a: "\<alpha> d' = (abs_store GenesisBlock (\<alpha> d))\<lparr>a_latest := Some (blk_height GenesisBlock)\<rparr>"
      moreover have "abs_by_height (\<alpha> d') 0 = Some GenesisBlock"
        using abs_by_height_store [OF block_database.wf [OF assms(1,2)] conjunct2 [OF True], of 0] g
        by (simp add: a abs_by_height_def)
      ultimately show ?thesis using True assms(2) g by (simp add: bc_reads D configureMiner_def SetBlockchainInstance_def)
    qed (use True in simp_all)
  next
    case False
    then show ?thesis
      using assms(2,3) by (auto simp: initializeBlockchain_def StoreBlock_def bc_reads D split: option.splits)
  qed
qed

theorem genesis_initialisation_witness:
  "initializeBlockchain demo_env [] demo_db0
     = (demo_db1, [Ev_latestBlockHeightUpdated GenesisBlock, Ev_blockCommitted GenesisBlock], Ok ())
   \<and> bc_GetLatestBlockHeight demo_env demo_db1 = Ok 0"
proof -
  have i: "mem_inv ref_gocache 0 demo_db0" by (simp add: demo_db0_def ref_mem.mem_new)
  have n: "bc_GetLatestBlockHeight demo_env demo_db0 = Err ErrLatestHeightNil"
    "bc_HasBlock demo_env demo_db0 (blk_hash GenesisBlock) = Ok False"
    by (simp_all add: bc_reads, code_simp+)
  then have "initializeBlockchain demo_env [] demo_db0
     = (demo_db1, [Ev_latestBlockHeightUpdated GenesisBlock, Ev_blockCommitted GenesisBlock], Ok ())"
    by (simp add: initializeBlockchain_def demo_genesis)
  with genesis_initialisation [OF demo_chain.block_database_axioms i this] n show ?thesis by simp
qed

text \<open>C34. With the foreign chains registered, an oracle request of the contract becomes a pooled
  transaction exactly when it names a Filecoin transaction or block or a Solana transaction,
  the chain's node answers, and the task can be encoded. The transaction then carries the task
  with the answer and can be fetched under the hash of the encoded task; otherwise nothing
  changes. Requests to Ethereum are among the dropped ones.\<close>

theorem oracle_request_pooled:
  assumes "tx_cache ca I view" "I (oq_pool s)"
    and "onOracleRequest (configureForeignBlockchainRPC G T J post (\<lambda>_. None)) env ca now e s = (s', ev, Ok ())"
    and "answer =
      (if or_OriginChain e = 1 \<and> or_RequestType e = ''getTransaction'' then lotus_GetTransaction G T J post (or_RequestParams e)
       else if or_OriginChain e = 1 \<and> or_RequestType e = ''getBlock'' then lotus_GetBlock J post (or_RequestParams e)
       else if or_OriginChain e = 2 \<and> or_RequestType e = ''getTransaction'' then solana_GetTransaction J post (or_RequestParams e)
       else Err (Errorf []))"
  shows "(case bind_res answer (\<lambda>payload. marshal_task (env_K env) (task_of_event e payload)) of
      Ok dat \<Rightarrow>
        GetTransaction ca now (oq_heap s') (oq_pool s') (tx_Hash (CreateTransaction (env_C env) now dat))
          = Ok (CreateTransaction (env_C env) now dat)
        \<and> ev = [Ev_transactionAdded (CreateTransaction (env_C env) now dat)]
    | _ \<Rightarrow> s' = s \<and> ev = [])"
proof (cases "GetRPCMethod (configureForeignBlockchainRPC G T J post (\<lambda>_. None)) (or_OriginChain e) (or_RequestType e)")
  case None
  then have "answer = Err (Errorf [])"
    using assms(4) by (auto simp: configured_methods RPCTypeFilecoin_def RPCTypeSolana_def split: if_splits)
  with None show ?thesis using assms(3) by (simp add: onOracleRequest_def)
next
  case (Some f)
  then have a: "f (or_RequestParams e) = answer"
    using assms(4) by (auto simp: configured_methods RPCTypeFilecoin_def RPCTypeSolana_def split: if_splits)
  show ?thesis
  proof (cases "bind_res answer (\<lambda>payload. marshal_task (env_K env) (task_of_event e payload))")
    case (Ok dat)
    let ?tx = "CreateTransaction (env_C env) now dat"
    let ?h = "(oq_heap s)(oq_next s := ?tx)"
    obtain c ev' r where st: "StoreTx ca now ?h (oq_pool s) (oq_next s) = (c, ev', r)"
      by (cases "StoreTx ca now ?h (oq_pool s) (oq_next s)")
    from Ok Some a st assms(3) have s': "s' = \<lparr>oq_heap = ?h, oq_next = Suc (oq_next s), oq_pool = c\<rparr>" "ev = ev'"
      by (auto simp: onOracleRequest_def Let_def res_simps)
    note S = tx_cache.StoreTx_spec [OF assms(1,2) st]
    have "\<not> expired now now DefaultTxTTL" by (simp add: expired_def)
    with S(4) [of now ?h] have "view now ?h c (tx_key (tx_Hash ?tx)) = Some ?tx" by simp
    then show ?thesis
      using Ok s' S(3) tx_cache.GetTransaction_spec [OF assms(1) S(2), of now ?h] by simp
  qed (use Some a assms(3) in \<open>auto simp: onOracleRequest_def res_simps split: res.splits\<close>)
qed

theorem oracle_request_pooled_witness:
  "\<exists>s' ev. onOracleRequest (configureForeignBlockchainRPC ref_cbg ref_lotus (ref_json JNull) (\<lambda>_ _. Ok (tk_Payload demo_task)) (\<lambda>_. None))
      (demo_env\<lparr>env_K := (env_K demo_env)\<lparr>marshal_task := (\<lambda>t. Ok (tk_Payload t))\<rparr>\<rparr>) (inmemory_Cache ref_gocache) 5
      \<lparr>or_OriginChain = 2, or_RequestType = ''getTransaction'', or_RequestParams = ''x'', or_ReqID = 7, or_Deadline = 1300\<rparr>
      \<lparr>oq_heap = demo_heap, oq_next = 20, oq_pool = demo_pool\<rparr> = (s', ev, Ok ())
    \<and> GetTransaction (inmemory_Cache ref_gocache) 5 (oq_heap s') (oq_pool s')
        (tx_Hash (CreateTransaction demo_crypto 5 (tk_Payload demo_task))) = Ok (CreateTransaction demo_crypto 5 (tk_Payload demo_task))"
proof -
  let ?post = "\<lambda>_ _. Ok (tk_Payload demo_task)"
  let ?rpcs = "configureForeignBlockchainRPC ref_cbg ref_lotus (ref_json JNull) ?post (\<lambda>_. None)"
  let ?env = "demo_env\<lparr>env_K := (env_K demo_env)\<lparr>marshal_task := (\<lambda>t. Ok (tk_Payload t))\<rparr>\<rparr>"
  let ?e = "\<lparr>or_OriginChain = 2, or_RequestType = ''getTransaction'', or_RequestParams = ''x'', or_ReqID = 7, or_Deadline = 1300\<rparr>"
  let ?s = "\<lparr>oq_heap = demo_heap, oq_next = 20, oq_pool = demo_pool\<rparr>"
  have tc: "tx_cache (inmemory_Cache ref_gocache) (inmem_inv ref_gocache) (inmem_view ref_gocache)"
    by (rule ref_pool.pool_tx_cache)
  have i: "inmem_inv ref_gocache (oq_pool ?s)" using ref_pool.reachable_inv [OF demo_pool_reachable] by simp
  have "\<exists>s' ev. onOracleRequest ?rpcs ?env (inmemory_Cache ref_gocache) 5 ?e ?s = (s', ev, Ok ())"
    by (simp add: onOracleRequest_def configured_methods RPCTypeFilecoin_def RPCTypeSolana_def solana_GetTransaction_def
        Let_def task_of_event_def StoreTx_def inmemory_Cache_def inmem_StoreWithTTL_def split: prod.splits)
  then obtain s' ev where r: "onOracleRequest ?rpcs ?env (inmemory_Cache ref_gocache) 5 ?e ?s = (s', ev, Ok ())" by blast
  from oracle_request_pooled [OF tc i r refl] r show ?thesis
    by (auto simp: solana_GetTransaction_def Let_def task_of_event_def)
qed

end
