(* ===== verification/Oracle_Contract.thy ===== *)
theory Oracle_Contract
  imports Staking_Contract
begin

text \<open>
  The oracle contract (\<open>eth-contracts/contracts/DioneOracle.sol\<close>) with the staking contract that
  rewards submissions, and a client of it (\<open>Mediator.sol\<close>). The addresses of the staking and of
  the oracle contract are the arguments \<open>staking\<close> and \<open>this\<close>. A low-level call whose result is
  ignored is an event: the callee is outside.
\<close>

section \<open>State\<close>

record OracleRequest =
  req_requestSender :: address
  req_originChain :: u8
  req_requestType :: string
  req_requestParams :: string
  req_callbackAddress :: address
  req_callbackMethodID :: bytes
  req_reqID :: uint256
  req_deadline :: int256
  req_data :: bytes

definition zero_OracleRequest :: OracleRequest where
  "zero_OracleRequest =
     \<lparr>req_requestSender = address0, req_originChain = 0, req_requestType = [], req_requestParams = [],
      req_callbackAddress = address0, req_callbackMethodID = replicate 4 0, req_reqID = 0, req_deadline = 0, req_data = []\<rparr>"

record DioneOracle =
  oc_requestCounter :: uint256
  oc_pendingRequests :: "uint256 \<Rightarrow> OracleRequest"

record 't oracle_world =
  ow_oracle :: DioneOracle
  ow_pos :: "'t pos"

datatype oracle_event =
    NewOracleRequest u8 string string uint256 uint256
  | CancelOracleRequest uint256
  | SubmittedOracleRequest uint256 bytes
  | Called address bytes uint256 bytes

definition new_DioneOracle :: DioneOracle where
  "new_DioneOracle = \<lparr>oc_requestCounter = 0, oc_pendingRequests = (\<lambda>_. zero_OracleRequest)\<rparr>"

definition sol_MAXIMUM_DELAY :: uint256 where
  "sol_MAXIMUM_DELAY = 5 * 60"

section \<open>Operations\<close>

definition requestOracles ::
  "msg \<Rightarrow> u8 \<Rightarrow> string \<Rightarrow> string \<Rightarrow> address \<Rightarrow> bytes \<Rightarrow> DioneOracle \<Rightarrow> (DioneOracle \<times> oracle_event list \<times> uint256) res" where
  "requestOracles m originChain requestType requestParams callbackAddress callbackMethodID s =
     bind_res (add256 (oc_requestCounter s) 1) (\<lambda>counter.
     bind_res (add256 (block_timestamp m) sol_MAXIMUM_DELAY) (\<lambda>requestDeadline.
       Ok (\<lparr>oc_requestCounter = counter, oc_pendingRequests = (oc_pendingRequests s)(counter :=
             \<lparr>req_requestSender = msg_sender m, req_originChain = originChain, req_requestType = requestType,
              req_requestParams = requestParams, req_callbackAddress = callbackAddress,
              req_callbackMethodID = callbackMethodID, req_reqID = counter, req_deadline = to_int256 requestDeadline,
              req_data = []\<rparr>)\<rparr>,
           [NewOracleRequest originChain requestType requestParams counter requestDeadline], counter)))"

definition onlyPendingRequest :: "uint256 \<Rightarrow> DioneOracle \<Rightarrow> unit res" where
  "onlyPendingRequest reqID s =
     require (req_requestSender (oc_pendingRequests s reqID) \<noteq> address0) ''this request is not pending''"

definition delete_request :: "uint256 \<Rightarrow> DioneOracle \<Rightarrow> DioneOracle" where
  "delete_request reqID s = s\<lparr>oc_pendingRequests := (oc_pendingRequests s)(reqID := zero_OracleRequest)\<rparr>"

definition cancelOracleRequest :: "msg \<Rightarrow> uint256 \<Rightarrow> DioneOracle \<Rightarrow> (DioneOracle \<times> oracle_event list) res" where
  "cancelOracleRequest m reqID s =
     bind_res (onlyPendingRequest reqID s) (\<lambda>_.
     bind_res (require (msg_sender m = req_requestSender (oc_pendingRequests s reqID)) ''you aren't request sender'') (\<lambda>_.
       Ok (delete_request reqID s, [CancelOracleRequest reqID])))"

definition submitOracleRequest ::
  "'t ERC20 \<Rightarrow> address \<Rightarrow> address \<Rightarrow> msg \<Rightarrow> uint256 \<Rightarrow> bytes \<Rightarrow> 't oracle_world \<Rightarrow> ('t oracle_world \<times> oracle_event list) res" where
  "submitOracleRequest E staking this m reqID dat w =
     bind_res (onlyPendingRequest reqID (ow_oracle w)) (\<lambda>_.
     bind_res (in_int256 (req_deadline (oc_pendingRequests (ow_oracle w) reqID) - to_int256 (block_timestamp m))) (\<lambda>left.
     bind_res (require (0 \<le> left) ''submission has exceeded the deadline'') (\<lambda>_.
     let s = delete_request reqID (ow_oracle w) in
     bind_res (mineAndStake E staking (m\<lparr>msg_sender := this\<rparr>) (msg_sender m) (ow_pos w)) (\<lambda>p.
       Ok (\<lparr>ow_oracle = s, ow_pos = p\<rparr>,
         [Called (req_callbackAddress (oc_pendingRequests s reqID)) (req_callbackMethodID (oc_pendingRequests s reqID)) reqID dat,
          SubmittedOracleRequest reqID dat])))))"

text \<open>The client, deployed at \<open>this\<close>. A function is called by the first four bytes of the hash of its signature.\<close>

definition mediator_request :: "evm \<Rightarrow> address \<Rightarrow> msg \<Rightarrow> u8 \<Rightarrow> string \<Rightarrow> string \<Rightarrow> DioneOracle
    \<Rightarrow> (DioneOracle \<times> oracle_event list \<times> uint256) res" where
  "mediator_request V this m originChain requestType requestParams =
     requestOracles (m\<lparr>msg_sender := this\<rparr>) originChain requestType requestParams this
       (take 4 (string_hash V ''_receiveDataCallback(uint256, string)''))"

definition receiveDataCallback :: "address \<Rightarrow> msg \<Rightarrow> uint256 \<Rightarrow> string \<Rightarrow> (uint256 \<times> string) res" where
  "receiveDataCallback dioneOracle m reqID dat =
     bind_res (require (msg_sender m = dioneOracle) []) (\<lambda>_. Ok (reqID, dat))"

section \<open>Runs\<close>

text \<open>Calls of the oracle contract with the events they emit, and any change of the other contracts.\<close>

inductive oracle_run :: "'t ERC20 \<Rightarrow> address \<Rightarrow> address \<Rightarrow> 't oracle_world \<Rightarrow> oracle_event list \<Rightarrow> bool" for E staking this where
  start: "oracle_run E staking this \<lparr>ow_oracle = new_DioneOracle, ow_pos = p\<rparr> []"
| request: "oracle_run E staking this w evs \<Longrightarrow> requestOracles m ch ty ps cb mid (ow_oracle w) = Ok (s, ev, n) \<Longrightarrow>
    oracle_run E staking this (w\<lparr>ow_oracle := s\<rparr>) (evs @ ev)"
| cancel: "oracle_run E staking this w evs \<Longrightarrow> cancelOracleRequest m n (ow_oracle w) = Ok (s, ev) \<Longrightarrow>
    oracle_run E staking this (w\<lparr>ow_oracle := s\<rparr>) (evs @ ev)"
| submit: "oracle_run E staking this w evs \<Longrightarrow> submitOracleRequest E staking this m n dat w = Ok (w', ev) \<Longrightarrow>
    oracle_run E staking this w' (evs @ ev)"
| other: "oracle_run E staking this w evs \<Longrightarrow> oracle_run E staking this (w\<lparr>ow_pos := p\<rparr>) evs"

section \<open>Lemmas\<close>

fun opened :: "oracle_event list \<Rightarrow> uint256 list" where
  "opened (NewOracleRequest _ _ _ n _ # evs) = n # opened evs"
| "opened (_ # evs) = opened evs"
| "opened [] = []"

fun closed :: "oracle_event list \<Rightarrow> uint256 list" where
  "closed (CancelOracleRequest n # evs) = n # closed evs"
| "closed (SubmittedOracleRequest n _ # evs) = n # closed evs"
| "closed (_ # evs) = closed evs"
| "closed [] = []"

lemma opened_append [simp]: "opened (xs @ ys) = opened xs @ opened ys"
  by (induction xs rule: opened.induct) simp_all

lemma closed_append [simp]: "closed (xs @ ys) = closed xs @ closed ys"
  by (induction xs rule: closed.induct) simp_all

definition ledger_ok :: "DioneOracle \<Rightarrow> oracle_event list \<Rightarrow> bool" where
  "ledger_ok s evs \<longleftrightarrow> opened evs = [1..<Suc (oc_requestCounter s)] \<and> distinct (closed evs)
     \<and> set (closed evs) \<subseteq> set (opened evs)
     \<and> (\<forall>n. req_requestSender (oc_pendingRequests s n) \<noteq> address0 \<longrightarrow> n \<in> set (opened evs) \<and> n \<notin> set (closed evs))"

lemma ledger_close:
  assumes "ledger_ok s evs" "req_requestSender (oc_pendingRequests s n) \<noteq> address0" "closed ev = [n]" "opened ev = []"
  shows "ledger_ok (delete_request n s) (evs @ ev)"
  using assms by (auto simp: ledger_ok_def delete_request_def zero_OracleRequest_def)

lemma ledger_open:
  assumes "ledger_ok s evs" "requestOracles m ch ty ps cb mid s = Ok (s', ev, n)"
  shows "ledger_ok s' (evs @ ev)"
proof -
  let ?k = "oc_requestCounter s"
  obtain r d where s': "s' = \<lparr>oc_requestCounter = Suc ?k, oc_pendingRequests = (oc_pendingRequests s)(Suc ?k := r)\<rparr>"
      "ev = [NewOracleRequest ch ty ps (Suc ?k) d]"
    using assms(2) by (auto simp: requestOracles_def res_simps sol_simps)
  have o: "opened evs = [1..<Suc ?k]" "set (closed evs) \<subseteq> set (opened evs)" "distinct (closed evs)"
    "\<And>n. req_requestSender (oc_pendingRequests s n) \<noteq> address0 \<Longrightarrow> n \<in> set (opened evs) \<and> n \<notin> set (closed evs)"
    using assms(1) unfolding ledger_ok_def by blast+
  have "Suc ?k \<notin> set (closed evs)" using o(1,2) by auto
  moreover have "opened (evs @ ev) = [1..<Suc (Suc ?k)]" by (simp add: s'(2) o(1))
  ultimately show ?thesis using o(2-4) unfolding ledger_ok_def s' by auto
qed

lemma cancel_Ok:
  assumes "cancelOracleRequest m n s = Ok (s', ev)"
  shows "req_requestSender (oc_pendingRequests s n) \<noteq> address0" "s' = delete_request n s" "ev = [CancelOracleRequest n]"
  using assms by (auto simp: cancelOracleRequest_def onlyPendingRequest_def res_simps sol_simps)

lemma submit_Ok:
  assumes "submitOracleRequest E staking this m n dat w = Ok (w', ev)"
  shows "req_requestSender (oc_pendingRequests (ow_oracle w) n) \<noteq> address0"
    "to_int256 (block_timestamp m) \<le> req_deadline (oc_pendingRequests (ow_oracle w) n)"
    "ow_oracle w' = delete_request n (ow_oracle w)"
    "ev = [Called address0 (replicate 4 0) n dat, SubmittedOracleRequest n dat]"
    "mineAndStake E staking (m\<lparr>msg_sender := this\<rparr>) (msg_sender m) (ow_pos w) = Ok (ow_pos w')"
  using assms
  by (auto simp: submitOracleRequest_def onlyPendingRequest_def Let_def res_simps sol_simps delete_request_def
      zero_OracleRequest_def)

lemma zero_selector: "replicate 4 (0 :: byte) = [0, 0, 0, 0]"
  by (simp add: numeral_eq_Suc)

lemma run_ledger: "oracle_run E staking this w evs \<Longrightarrow> ledger_ok (ow_oracle w) evs"
proof (induction rule: oracle_run.induct)
  case (start p)
  show ?case by (simp add: ledger_ok_def new_DioneOracle_def zero_OracleRequest_def)
next
  case (request w evs m ch ty ps cb mid s ev n)
  then show ?case using ledger_open by simp
next
  case (cancel w evs m n s ev)
  from cancel_Ok [OF cancel(2)] ledger_close [OF cancel(3)] show ?case by simp
next
  case (submit w evs m n dat w' ev)
  from submit_Ok(1,3,4) [OF submit(2)] ledger_close [OF submit(3)] show ?case by simp
qed simp

lemma mineAndStake_stakes:
  assumes "mineAndStake E staking m a p = Ok p'"
  shows "msg_sender m = st_dioneOracleAddress (ps_staking p)"
    "minerStake (ps_staking p') = (minerStake (ps_staking p))(a := minerStake (ps_staking p) a + st_minerReward (ps_staking p))"
    "totalStake (ps_staking p') = totalStake (ps_staking p) + st_minerReward (ps_staking p)"
  using assms by (auto simp: mineAndStake_def Let_def res_simps sol_simps totalStake_def)

section \<open>Properties\<close>

text \<open>C11. In every history of the oracle contract the requests are numbered 1, 2, 3 and so on, and
  each is closed at most once: a request that was cancelled or answered is never cancelled or
  answered again, and none is answered that was not made.\<close>

theorem oracle_answers_once:
  assumes "oracle_run E staking this w evs"
  shows "opened evs = [1..<Suc (oc_requestCounter (ow_oracle w))] \<and> distinct (closed evs)
    \<and> set (closed evs) \<subseteq> set (opened evs)"
  using run_ledger [OF assms] unfolding ledger_ok_def by blast

text \<open>C36. What an accepted answer does. The request was pending and in time and is gone afterwards.
  Whoever answered, a miner or not, has a stake that is larger by the reward. But the answer
  never reaches the client: the request is deleted before its callback is read, so the call
  goes to the zero address with a zero selector, whatever the request said.\<close>

theorem oracle_submission:
  assumes "submitOracleRequest E staking this m n dat w = Ok (w', ev)"
  shows "req_requestSender (oc_pendingRequests (ow_oracle w) n) \<noteq> address0
    \<and> to_int256 (block_timestamp m) \<le> req_deadline (oc_pendingRequests (ow_oracle w) n)
    \<and> oc_pendingRequests (ow_oracle w') = (oc_pendingRequests (ow_oracle w))(n := zero_OracleRequest)
    \<and> minerStake (ps_staking (ow_pos w')) = (minerStake (ps_staking (ow_pos w)))(msg_sender m :=
        minerStake (ps_staking (ow_pos w)) (msg_sender m) + st_minerReward (ps_staking (ow_pos w)))
    \<and> ev = [Called address0 [0, 0, 0, 0] n dat, SubmittedOracleRequest n dat]"
  using submit_Ok [OF assms] mineAndStake_stakes(2) [OF submit_Ok(5) [OF assms]]
  by (simp add: delete_request_def zero_selector)

definition demo_world :: "erc_state oracle_world" where
  "demo_world =
     \<lparr>ow_oracle = new_DioneOracle,
      ow_pos = \<lparr>ps_token = demo_token0\<lparr>tok_owner := holder 8\<rparr>,
        ps_staking = (new_DioneStaking (holder 9) 5 0 50)\<lparr>st_dioneOracleAddress := holder 5\<rparr>\<rparr>\<rparr>"

lemma demo_request:
  "\<exists>s n. requestOracles (at_block 1 5) 2 ''getTransaction'' ''x'' (holder 1) [1, 2, 3, 4] (ow_oracle demo_world)
      = Ok (s, [NewOracleRequest 2 ''getTransaction'' ''x'' 1 1305], n)
    \<and> (\<exists>w'. submitOracleRequest oz_ERC20 (holder 8) (holder 5) (at_block 4 6) 1 [7] (demo_world\<lparr>ow_oracle := s\<rparr>)
        = Ok (w', [Called address0 [0, 0, 0, 0] 1 [7], SubmittedOracleRequest 1 [7]]))"
  by (simp add: requestOracles_def demo_world_def new_DioneOracle_def add256_def sol_MAXIMUM_DELAY_def at_block_def
      submitOracleRequest_def onlyPendingRequest_def require_def guard_res_def in_int256_def to_int256_def Let_def
      mineAndStake_def token_mint_def oz_mint_def moveDelegates_def minerStake_def new_DioneStaking_def demo_token0_def
      new_DioneToken_def delete_request_def zero_OracleRequest_def zero_selector)

lemma demo_oracle_run:
  "\<exists>w. oracle_run oz_ERC20 (holder 8) (holder 5) w [NewOracleRequest 2 ''getTransaction'' ''x'' 1 1305,
      Called address0 [0, 0, 0, 0] 1 [7], SubmittedOracleRequest 1 [7]]"
proof -
  obtain s n w' where q: "requestOracles (at_block 1 5) 2 ''getTransaction'' ''x'' (holder 1) [1, 2, 3, 4] (ow_oracle demo_world)
      = Ok (s, [NewOracleRequest 2 ''getTransaction'' ''x'' 1 1305], n)"
    "submitOracleRequest oz_ERC20 (holder 8) (holder 5) (at_block 4 6) 1 [7] (demo_world\<lparr>ow_oracle := s\<rparr>)
      = Ok (w', [Called address0 [0, 0, 0, 0] 1 [7], SubmittedOracleRequest 1 [7]])"
    using demo_request by blast
  have "oracle_run oz_ERC20 (holder 8) (holder 5) demo_world []" unfolding demo_world_def by (rule oracle_run.start)
  from oracle_run.submit [OF oracle_run.request [OF this q(1)] q(2)] show ?thesis by auto
qed

theorem oracle_answers_once_witness:
  "\<exists>w evs. oracle_run oz_ERC20 (holder 8) (holder 5) w evs \<and> distinct (closed evs) \<and> closed evs = [1] \<and> opened evs = [1]"
proof -
  obtain w where r: "oracle_run oz_ERC20 (holder 8) (holder 5) w [NewOracleRequest 2 ''getTransaction'' ''x'' 1 1305,
      Called address0 [0, 0, 0, 0] 1 [7], SubmittedOracleRequest 1 [7]]" using demo_oracle_run by blast
  from oracle_answers_once [OF r] r show ?thesis by (intro exI conjI) (assumption | simp)+
qed

theorem oracle_submission_witness:
  "\<exists>s w' ev. submitOracleRequest oz_ERC20 (holder 8) (holder 5) (at_block 4 6) 1 [7] (demo_world\<lparr>ow_oracle := s\<rparr>) = Ok (w', ev)
     \<and> req_callbackAddress (oc_pendingRequests s 1) = holder 1 \<and> hd ev = Called address0 [0, 0, 0, 0] 1 [7]"
proof -
  obtain s n w' ev where q: "requestOracles (at_block 1 5) 2 ''getTransaction'' ''x'' (holder 1) [1, 2, 3, 4] (ow_oracle demo_world)
      = Ok (s, [NewOracleRequest 2 ''getTransaction'' ''x'' 1 1305], n)"
    "submitOracleRequest oz_ERC20 (holder 8) (holder 5) (at_block 4 6) 1 [7] (demo_world\<lparr>ow_oracle := s\<rparr>) = Ok (w', ev)"
    using demo_request by blast
  have "req_callbackAddress (oc_pendingRequests s 1) = holder 1"
    using q(1) by (auto simp: requestOracles_def demo_world_def new_DioneOracle_def res_simps sol_simps)
  moreover have "hd ev = Called address0 [0, 0, 0, 0] 1 [7]" using oracle_submission [OF q(2)] by simp
  ultimately show ?thesis using q(2) by blast
qed

end
