(* ===== verification/Dispute_Contract.thy ===== *)
theory Dispute_Contract
  imports Staking_Contract
begin

text \<open>
  The dispute contract (\<open>eth-contracts/contracts/DioneDispute.sol\<close>) together with the staking
  contract it asks about miners and tells to slash one. The address of the contract itself,
  which is the sender of that call, is the argument \<open>this\<close>.
\<close>

section \<open>State\<close>

record sol_Dispute =
  sd_dhash :: bytes
  sd_sum :: int256
  sd_finished :: bool
  sd_disputeResult :: bool
  sd_miner :: address
  sd_disputeInitiator :: address
  sd_timestamp :: uint256
  sd_voted :: "address list"

record DioneDispute =
  dd_voteWindowTime :: uint256
  dd_minStake :: uint256
  dd_disputes :: "bytes \<Rightarrow> sol_Dispute"

record court =
  co_dispute :: DioneDispute
  co_staking :: DioneStaking

definition zero_Dispute :: sol_Dispute where
  "zero_Dispute =
     \<lparr>sd_dhash = replicate 32 0, sd_sum = 0, sd_finished = False, sd_disputeResult = False, sd_miner = address0,
      sd_disputeInitiator = address0, sd_timestamp = 0, sd_voted = []\<rparr>"

definition new_DioneDispute :: "uint256 \<Rightarrow> uint256 \<Rightarrow> DioneDispute" where
  "new_DioneDispute window minimum = \<lparr>dd_voteWindowTime = window, dd_minStake = minimum, dd_disputes = (\<lambda>_. zero_Dispute)\<rparr>"

definition upd_dispute :: "bytes \<Rightarrow> (sol_Dispute \<Rightarrow> sol_Dispute) \<Rightarrow> court \<Rightarrow> court" where
  "upd_dispute h f c = c\<lparr>co_dispute := (co_dispute c)\<lparr>dd_disputes :=
     (dd_disputes (co_dispute c))(h := f (dd_disputes (co_dispute c) h))\<rparr>\<rparr>"

abbreviation dispute_at :: "court \<Rightarrow> bytes \<Rightarrow> sol_Dispute" where
  "dispute_at c h \<equiv> dd_disputes (co_dispute c) h"

section \<open>Operations\<close>

definition dispute_hash :: "evm \<Rightarrow> address \<Rightarrow> uint256 \<Rightarrow> bytes" where
  "dispute_hash V miner requestID = keccak256 V (miner @ be_list 32 requestID)"

text \<open>The list of voters is the one field that beginning a dispute does not set.\<close>

definition beginDispute :: "evm \<Rightarrow> msg \<Rightarrow> address \<Rightarrow> uint256 \<Rightarrow> court \<Rightarrow> court res" where
  "beginDispute V m miner requestID c =
     (let dhash = dispute_hash V miner requestID in
      bind_res (require (sd_miner (dispute_at c dhash) = address0) ''dispute already exists'') (\<lambda>_.
      bind_res (require (isMiner (co_staking c) (msg_sender m)) ''caller isn't dione miner'') (\<lambda>_.
        Ok (upd_dispute dhash (\<lambda>d. d\<lparr>sd_dhash := dhash, sd_sum := 0, sd_finished := False, sd_disputeResult := False,
          sd_miner := miner, sd_timestamp := block_timestamp m, sd_disputeInitiator := msg_sender m\<rparr>) c))))"

definition onlyExistingDispute :: "bytes \<Rightarrow> court \<Rightarrow> unit res" where
  "onlyExistingDispute dhash c = require (sd_disputeInitiator (dispute_at c dhash) \<noteq> address0) ''dispute doesn't exist''"

definition vote :: "msg \<Rightarrow> bytes \<Rightarrow> bool \<Rightarrow> court \<Rightarrow> court res" where
  "vote m dhash voteStatus c =
     (let dispute = dispute_at c dhash; stake = minerStake (co_staking c) (msg_sender m) in
      bind_res (onlyExistingDispute dhash c) (\<lambda>_.
      bind_res (require (\<not> sd_finished dispute) ''dispute already finished'') (\<lambda>_.
      bind_res (require (msg_sender m \<noteq> sd_disputeInitiator dispute) ''dispute initiator isn't allowed to vote'') (\<lambda>_.
      bind_res (require (msg_sender m \<noteq> sd_miner dispute)
        ''the miner against whom dispute has beginned isn't allowed to vote'') (\<lambda>_.
      bind_res (require (isMiner (co_staking c) (msg_sender m)) ''caller isn't dione miner'') (\<lambda>_.
      bind_res (require (dd_minStake (co_dispute c) \<le> stake) ''miner doesn't have minimum stake to vote'') (\<lambda>_.
      bind_res (in_int256 (if voteStatus then sd_sum dispute + to_int256 stake else sd_sum dispute - to_int256 stake)) (\<lambda>s.
        Ok (upd_dispute dhash (\<lambda>d. d\<lparr>sd_sum := s, sd_voted := sd_voted d @ [msg_sender m]\<rparr>) c)))))))))"

definition finishDispute :: "address \<Rightarrow> msg \<Rightarrow> bytes \<Rightarrow> court \<Rightarrow> court res" where
  "finishDispute this m dhash c =
     (let dispute = dispute_at c dhash in
      bind_res (onlyExistingDispute dhash c) (\<lambda>_.
      bind_res (sub256 (block_timestamp m) (sd_timestamp dispute)) (\<lambda>elapsed.
      bind_res (require (dd_voteWindowTime (co_dispute c) \<le> elapsed) ''vote window hasn't passed yet'') (\<lambda>_.
      bind_res (require (\<not> sd_finished dispute) ''dispute already finished'') (\<lambda>_.
      bind_res (require (sd_disputeInitiator dispute = msg_sender m) ''only dispute initiator can call this function'') (\<lambda>_.
      if sd_sum dispute \<le> 0
      then Ok (upd_dispute dhash (\<lambda>d. d\<lparr>sd_disputeResult := False, sd_finished := True\<rparr>) c)
      else let voted = sd_voted dispute @ [msg_sender m] in
        bind_res (slashMiner (m\<lparr>msg_sender := this\<rparr>) (sd_miner dispute) voted (co_staking c)) (\<lambda>staking.
          Ok (upd_dispute dhash (\<lambda>d. d\<lparr>sd_disputeResult := True, sd_voted := voted, sd_finished := True\<rparr>)
            (c\<lparr>co_staking := staking\<rparr>)))))))))"

section \<open>Runs\<close>

text \<open>Calls of the dispute contract, and any change of the staking contract in between.\<close>

inductive court_step :: "evm \<Rightarrow> address \<Rightarrow> court \<Rightarrow> court \<Rightarrow> bool" for V this where
  begin_dispute: "beginDispute V m miner requestID c = Ok c' \<Longrightarrow> court_step V this c c'"
| vote: "vote m dhash b c = Ok c' \<Longrightarrow> court_step V this c c'"
| finish: "finishDispute this m dhash c = Ok c' \<Longrightarrow> court_step V this c c'"
| staking: "court_step V this c (c\<lparr>co_staking := s\<rparr>)"

inductive court_run :: "evm \<Rightarrow> address \<Rightarrow> court \<Rightarrow> court \<Rightarrow> bool" for V this c where
  start: "court_run V this c c"
| step: "court_run V this c c' \<Longrightarrow> court_step V this c' c'' \<Longrightarrow> court_run V this c c''"

section \<open>Lemmas\<close>

lemma dispute_at_upd [simp]:
  "dispute_at (upd_dispute h f c) k = (if k = h then f (dispute_at c h) else dispute_at c k)"
  "co_staking (upd_dispute h f c) = co_staking c"
  by (simp_all add: upd_dispute_def)

lemma beginDispute_Ok:
  assumes "beginDispute V m miner requestID c = Ok c'"
  obtains f where "sd_miner (dispute_at c (dispute_hash V miner requestID)) = address0"
    "c' = upd_dispute (dispute_hash V miner requestID) f c"
  using assms by (auto simp: beginDispute_def Let_def res_simps sol_simps)

lemma vote_Ok:
  assumes "vote m h b c = Ok c'"
  shows "\<not> sd_finished (dispute_at c h)" "isMiner (co_staking c) (msg_sender m)"
    "c' = upd_dispute h (\<lambda>d. d\<lparr>sd_sum := (if b then sd_sum (dispute_at c h) + to_int256 (minerStake (co_staking c) (msg_sender m))
         else sd_sum (dispute_at c h) - to_int256 (minerStake (co_staking c) (msg_sender m))),
       sd_voted := sd_voted d @ [msg_sender m]\<rparr>) c"
  using assms by (auto simp: vote_def onlyExistingDispute_def Let_def res_simps sol_simps)

lemma finishDispute_Ok:
  assumes "finishDispute this m h c = Ok c'"
  shows "\<not> sd_finished (dispute_at c h)" "sd_disputeInitiator (dispute_at c h) = msg_sender m"
    "sd_timestamp (dispute_at c h) + dd_voteWindowTime (co_dispute c) \<le> block_timestamp m"
  using assms by (auto simp: finishDispute_def onlyExistingDispute_def Let_def res_simps sol_simps)

lemma finishDispute_cases:
  assumes "finishDispute this m h c = Ok c'"
  obtains "sd_sum (dispute_at c h) \<le> 0" "c' = upd_dispute h (\<lambda>d. d\<lparr>sd_disputeResult := False, sd_finished := True\<rparr>) c"
  | staking where "0 < sd_sum (dispute_at c h)"
    "slashMiner (m\<lparr>msg_sender := this\<rparr>) (sd_miner (dispute_at c h)) (sd_voted (dispute_at c h) @ [msg_sender m]) (co_staking c)
       = Ok staking"
    "c' = upd_dispute h (\<lambda>d. d\<lparr>sd_disputeResult := True, sd_voted := sd_voted (dispute_at c h) @ [msg_sender m], sd_finished := True\<rparr>)
       (c\<lparr>co_staking := staking\<rparr>)"
  using assms by (auto simp: finishDispute_def onlyExistingDispute_def Let_def res_simps sol_simps split: if_splits)

lemma finished_kept:
  assumes "court_step V this c c'" "sd_finished (dispute_at c h)" "sd_miner (dispute_at c h) \<noteq> address0"
  shows "dispute_at c' h = dispute_at c h"
  using assms(1)
proof (cases rule: court_step.cases)
  case (begin_dispute m miner requestID)
  then show ?thesis using assms(3) by (auto elim!: beginDispute_Ok)
next
  case (vote m dhash b)
  from vote_Ok(1,3) [OF vote] assms(2) show ?thesis by auto
next
  case (finish m dhash)
  from finishDispute_Ok(1) [OF finish] assms(2) have "dhash \<noteq> h" by auto
  then show ?thesis using finish by (auto elim!: finishDispute_cases)
qed simp

lemma run_finished_kept:
  "court_run V this c c' \<Longrightarrow> sd_finished (dispute_at c h) \<Longrightarrow> sd_miner (dispute_at c h) \<noteq> address0 \<Longrightarrow>
    dispute_at c' h = dispute_at c h"
  by (induction rule: court_run.induct) (simp_all add: finished_kept)


section \<open>Properties\<close>

text \<open>C12. A dispute is settled once and for all. It can only be finished by its initiator and after
  the vote window; from then on no call changes it. Its result says whether the votes add up
  to more than nothing. If they do, the accused miner's stake is divided evenly among the
  votes, whichever way they went, and the initiator; otherwise no stake changes.\<close>

theorem dispute_settled:
  assumes "finishDispute this m h c = Ok c'" "finite {a. minerStake (co_staking c) a \<noteq> 0}"
    and "sd_miner (dispute_at c h) \<noteq> address0" "court_run V this c' c''"
    and "n = Suc (length (sd_voted (dispute_at c h)))" "miner = sd_miner (dispute_at c h)"
  shows "msg_sender m = sd_disputeInitiator (dispute_at c h)
    \<and> sd_timestamp (dispute_at c h) + dd_voteWindowTime (co_dispute c) \<le> block_timestamp m
    \<and> dispute_at c'' h = dispute_at c' h \<and> sd_finished (dispute_at c' h)
    \<and> (sd_disputeResult (dispute_at c' h) \<longleftrightarrow> 0 < sd_sum (dispute_at c h))
    \<and> (if 0 < sd_sum (dispute_at c h)
       then minerStake (co_staking c') miner = minerStake (co_staking c) miner mod n
         \<and> (\<forall>r. r \<noteq> miner \<longrightarrow> minerStake (co_staking c') r = minerStake (co_staking c) r
             + count_list (sd_voted (dispute_at c h) @ [msg_sender m]) r * (minerStake (co_staking c) miner div n))
       else co_staking c' = co_staking c)"
proof -
  have fin: "sd_finished (dispute_at c' h)" "sd_miner (dispute_at c' h) = sd_miner (dispute_at c h)"
    using assms(1) by (auto elim!: finishDispute_cases)
  have kept: "dispute_at c'' h = dispute_at c' h"
    by (rule run_finished_kept [OF assms(4) fin(1)]) (simp add: fin(2) assms(3))
  note F = finishDispute_Ok(2,3) [OF assms(1)]
  from assms(1) show ?thesis
  proof (cases rule: finishDispute_cases)
    case 1
    then show ?thesis using kept F by simp
  next
    case (2 staking)
    let ?rs = "sd_voted (dispute_at c h) @ [msg_sender m]"
    have "minerStake staking miner = minerStake (co_staking c) miner - n * (minerStake (co_staking c) miner div n)"
      "\<forall>r. r \<noteq> miner \<longrightarrow> minerStake staking r = minerStake (co_staking c) r + count_list ?rs r * (minerStake (co_staking c) miner div n)"
      using slash_loop_spec [OF slashMiner_Ok(4) [OF 2(2)]] assms(2,5,6) by (auto simp: finitely_many_def)
    then show ?thesis using 2 kept F fin(1) by (simp add: minus_mult_div_eq_mod)
  qed
qed

text \<open>Nothing keeps a miner from voting again: after an accepted vote the same vote is accepted
  once more, as long as the sum fits its type, and then the miner's stake counts twice and the
  miner is twice among those who share the slashed stake.\<close>

lemma vote_repeatable:
  assumes "vote m h b c = Ok c'" "minerStake (co_staking c) (msg_sender m) < 2 ^ 255"
    and "\<bar>sd_sum (dispute_at c h)\<bar> + 2 * int (minerStake (co_staking c) (msg_sender m)) < 2 ^ 255"
  shows "\<exists>c''. vote m h b c' = Ok c''
    \<and> sd_sum (dispute_at c'' h) = sd_sum (dispute_at c h)
        + (if b then 2 else - 2) * int (minerStake (co_staking c) (msg_sender m))
    \<and> sd_voted (dispute_at c'' h) = sd_voted (dispute_at c h) @ [msg_sender m, msg_sender m]"
proof -
  have c': "sd_sum (dispute_at c' h) = sd_sum (dispute_at c h)
        + (if b then 1 else - 1) * int (minerStake (co_staking c) (msg_sender m))"
    "sd_voted (dispute_at c' h) = sd_voted (dispute_at c h) @ [msg_sender m]"
    "co_staking c' = co_staking c" "dd_minStake (co_dispute c') = dd_minStake (co_dispute c)"
    "sd_disputeInitiator (dispute_at c' h) = sd_disputeInitiator (dispute_at c h)"
    "sd_miner (dispute_at c' h) = sd_miner (dispute_at c h)" "sd_finished (dispute_at c' h) = sd_finished (dispute_at c h)"
    using assms(2) unfolding vote_Ok(3) [OF assms(1)] by (simp_all add: to_int256_def upd_dispute_def)
  show ?thesis
    using assms
    by (auto simp: vote_def onlyExistingDispute_def Let_def res_simps sol_simps c' to_int256_def in_int256_def
        require_def guard_res_def)
qed


text \<open>The miner 1 accuses the miner 3, and the miner 2 votes.\<close>

definition demo_case :: bytes where
  "demo_case = dispute_hash demo_evm (holder 3) 4"

definition demo_court0 :: court where
  "demo_court0 = \<lparr>co_dispute = new_DioneDispute 2 10, co_staking = demo_staking\<rparr>"

definition demo_court1 :: court where
  "demo_court1 = ok_or demo_court0 (beginDispute demo_evm (at_block 1 5) (holder 3) 4 demo_court0)"

definition demo_court2 :: court where
  "demo_court2 = ok_or demo_court1 (vote (at_block 2 6) demo_case True demo_court1)"

lemma demo_court1_simps [simp]:
  "dispute_at demo_court1 demo_case = zero_Dispute\<lparr>sd_dhash := demo_case, sd_miner := holder 3, sd_timestamp := 1005,
     sd_disputeInitiator := holder 1\<rparr>"
  "co_staking demo_court1 = demo_staking" "dd_minStake (co_dispute demo_court1) = 10"
  "dd_voteWindowTime (co_dispute demo_court1) = 2"
  by (simp_all add: demo_court1_def demo_court0_def ok_or_def beginDispute_def Let_def require_def guard_res_def isMiner_stake
      at_block_def upd_dispute_def demo_case_def new_DioneDispute_def zero_Dispute_def)

lemma demo_vote: "vote (at_block 2 6) demo_case True demo_court1 = Ok demo_court2"
  by (simp add: demo_court2_def ok_or_def vote_def onlyExistingDispute_def Let_def require_def guard_res_def isMiner_stake
      in_int256_def to_int256_def at_block_def zero_Dispute_def)

lemma demo_court2_simps [simp]:
  "dispute_at demo_court2 demo_case = zero_Dispute\<lparr>sd_dhash := demo_case, sd_miner := holder 3, sd_timestamp := 1005,
     sd_disputeInitiator := holder 1, sd_sum := 50, sd_voted := [holder 2]\<rparr>"
  "co_staking demo_court2 = demo_staking" "dd_voteWindowTime (co_dispute demo_court2) = 2"
  unfolding vote_Ok(3) [OF demo_vote] by (simp_all add: at_block_def to_int256_def upd_dispute_def zero_Dispute_def)

theorem dispute_settled_witness:
  "\<exists>c'. finishDispute (holder 6) (at_block 1 9) demo_case demo_court2 = Ok c'
     \<and> sd_disputeResult (dispute_at c' demo_case) \<and> minerStake (co_staking c') (holder 2) = 85"
proof -
  have "\<exists>c'. finishDispute (holder 6) (at_block 1 9) demo_case demo_court2 = Ok c'"
    by (simp add: finishDispute_def onlyExistingDispute_def Let_def require_def guard_res_def sub256_def at_block_def
        slashMiner_def div256_def add256_def isMiner_stake zero_Dispute_def numeral_2_eq_2 [symmetric])
  then obtain c' where c': "finishDispute (holder 6) (at_block 1 9) demo_case demo_court2 = Ok c'" ..
  from dispute_settled [OF c' _ _ court_run.start refl refl] demo_staking_finite c'
  show ?thesis by (simp add: zero_Dispute_def at_block_def numeral_2_eq_2 [symmetric])
qed


end
