(* ===== verification/Contract_World.thy ===== *)
theory Contract_World
  imports Node Oracle_Contract Dispute_Contract
begin

text \<open>
  The node and the contracts together. A transaction of the generated bindings names a contract,
  a method and arguments; \<open>chain_exec\<close> is the call of the Solidity function that it leads to on
  the state of all contracts, and \<open>staking_view\<close> what a read-only call of the staking contract
  returns. The laws of go-ethereum that connect the two sides are in the locale \<open>bound_chain\<close>.
\<close>

section \<open>Calls of the contracts\<close>

text \<open>A negative or too large number is packed modulo the width of the type.\<close>

definition uint_arg :: "int \<Rightarrow> uint256" where
  "uint_arg i = nat (i mod 2 ^ 256)"

text \<open>A call of a function that the contract does not have.\<close>

definition no_function :: "'a res" where
  "no_function = Err (ExtErr ''execution reverted'')"

definition staking_view :: "address \<Rightarrow> DioneStaking \<Rightarrow> string \<Rightarrow> go_value list \<Rightarrow> go_value list res" where
  "staking_view token s f args =
     (case args of
        [] \<Rightarrow>
          if f = ''totalStake'' then Ok [GBig (int (totalStake s))]
          else if f = ''minerReward'' then Ok [GBig (int (st_minerReward s))]
          else if f = ''startBlock'' then Ok [GBig (int (st_startBlock s))]
          else if f = ''minimumStake'' then Ok [GBig (int (st_minimumStake s))]
          else if f = ''dione'' then Ok [GAddress token]
          else if f = ''dioneOracleAddress'' then Ok [GAddress (st_dioneOracleAddress s)]
          else if f = ''disputeContractAddr'' then Ok [GAddress (st_disputeContractAddr s)]
          else if f = ''owner'' then Ok [GAddress (st_owner s)]
          else no_function
      | [GAddress a] \<Rightarrow>
          if f = ''minerStake'' then Ok [GBig (int (minerStake s a))]
          else if f = ''isMiner'' then Ok [GBool (isMiner s a)]
          else if f = ''minerInfo'' then
            (let i = st_minerInfo s a in
             Ok [GBig (int (mi_amount i)), GBig (int (mi_firstStakeBlock i)), GBig (int (mi_lastRewardBlock i))])
          else no_function
      | _ \<Rightarrow> no_function)"

record 't chain =
  ch_oracle :: DioneOracle
  ch_dispute :: DioneDispute
  ch_pos :: "'t pos"

record contract_addresses =
  ca_token :: address
  ca_staking :: address
  ca_oracle :: address
  ca_dispute :: address

definition on_oracle :: "(DioneOracle \<Rightarrow> (DioneOracle \<times> 'e) res) \<Rightarrow> 't chain \<Rightarrow> ('t chain \<times> 'e) res" where
  "on_oracle f w = bind_res (f (ch_oracle w)) (\<lambda>(s, ev). Ok (w\<lparr>ch_oracle := s\<rparr>, ev))"

definition on_pos :: "('t pos \<Rightarrow> 't pos res) \<Rightarrow> 't chain \<Rightarrow> ('t chain \<times> oracle_event list) res" where
  "on_pos f w = bind_res (f (ch_pos w)) (\<lambda>p. Ok (w\<lparr>ch_pos := p\<rparr>, []))"

definition on_court :: "(court \<Rightarrow> court res) \<Rightarrow> 't chain \<Rightarrow> ('t chain \<times> oracle_event list) res" where
  "on_court f w =
     bind_res (f \<lparr>co_dispute = ch_dispute w, co_staking = ps_staking (ch_pos w)\<rparr>) (\<lambda>c.
       Ok (w\<lparr>ch_dispute := co_dispute c, ch_pos := (ch_pos w)\<lparr>ps_staking := co_staking c\<rparr>\<rparr>, []))"

definition oracle_exec ::
  "'t ERC20 \<Rightarrow> contract_addresses \<Rightarrow> msg \<Rightarrow> string \<Rightarrow> go_value list \<Rightarrow> 't chain \<Rightarrow> ('t chain \<times> oracle_event list) res" where
  "oracle_exec E A m f args w =
     (case args of
        [GUint8 ch, GString ty, GString ps, GAddress cb, GBytes4 mid] \<Rightarrow>
          if f = ''requestOracles''
          then on_oracle (\<lambda>s. bind_res (requestOracles m ch ty ps cb mid s) (\<lambda>(s', ev, _). Ok (s', ev))) w
          else no_function
      | [GBig i] \<Rightarrow> if f = ''cancelOracleRequest'' then on_oracle (cancelOracleRequest m (uint_arg i)) w else no_function
      | [GBig i, GBytes dat] \<Rightarrow>
          if f = ''submitOracleRequest''
          then bind_res (submitOracleRequest E (ca_staking A) (ca_oracle A) m (uint_arg i) dat
              \<lparr>ow_oracle = ch_oracle w, ow_pos = ch_pos w\<rparr>) (\<lambda>(w', ev).
            Ok (w\<lparr>ch_oracle := ow_oracle w', ch_pos := ow_pos w'\<rparr>, ev))
          else no_function
      | _ \<Rightarrow> no_function)"

definition dispute_exec ::
  "evm \<Rightarrow> contract_addresses \<Rightarrow> msg \<Rightarrow> string \<Rightarrow> go_value list \<Rightarrow> 't chain \<Rightarrow> ('t chain \<times> oracle_event list) res" where
  "dispute_exec V A m f args w =
     (case args of
        [GAddress a, GBig i] \<Rightarrow> if f = ''beginDispute'' then on_court (beginDispute V m a (uint_arg i)) w else no_function
      | [GBytes32 h, GBool b] \<Rightarrow> if f = ''vote'' then on_court (vote m h b) w else no_function
      | [GBytes32 h] \<Rightarrow> if f = ''finishDispute'' then on_court (finishDispute (ca_dispute A) m h) w else no_function
      | _ \<Rightarrow> no_function)"

text \<open>The two functions that OpenZeppelin adds for the owner are included.\<close>

definition staking_exec ::
  "'t ERC20 \<Rightarrow> contract_addresses \<Rightarrow> msg \<Rightarrow> string \<Rightarrow> go_value list \<Rightarrow> 't chain \<Rightarrow> ('t chain \<times> oracle_event list) res" where
  "staking_exec E A m f args w =
     (case args of
        [GAddress a] \<Rightarrow>
          if f = ''mine'' then on_pos (mine E (ca_staking A) m a) w
          else if f = ''mineAndStake'' then on_pos (mineAndStake E (ca_staking A) m a) w
          else if f = ''setOracleContractAddress'' then on_pos (on_staking (setOracleContractAddress m a)) w
          else if f = ''setDisputeContractAddress'' then on_pos (on_staking (setDisputeContractAddress m a)) w
          else if f = ''transferOwnership'' then
            on_pos (on_staking (owner_sets m (a \<noteq> address0) ''Ownable: new owner is the zero address'' (st_owner_update (\<lambda>_. a)))) w
          else no_function
      | [GBig i] \<Rightarrow>
          if f = ''stake'' then on_pos (stake E (ca_staking A) m (uint_arg i)) w
          else if f = ''withdraw'' then on_pos (withdraw E (ca_staking A) m (uint_arg i)) w
          else if f = ''setMinerReward'' then on_pos (on_staking (setMinerReward m (uint_arg i))) w
          else if f = ''setMinimumStake'' then on_pos (on_staking (setMinimumStake m (uint_arg i))) w
          else no_function
      | [GAddress a, GAddresses rs] \<Rightarrow> if f = ''slashMiner'' then on_pos (on_staking (slashMiner m a rs)) w else no_function
      | [] \<Rightarrow>
          if f = ''renounceOwnership''
          then on_pos (on_staking (owner_sets m True [] (st_owner_update (\<lambda>_. address0)))) w
          else no_function
      | _ \<Rightarrow> no_function)"

text \<open>A transaction: its sender, the address it is sent to, the method and the arguments.\<close>

type_synonym contract_call = "address \<times> address \<times> string \<times> go_value list"

definition chain_exec ::
  "'t ERC20 \<Rightarrow> evm \<Rightarrow> contract_addresses \<Rightarrow> nat \<Rightarrow> nat \<Rightarrow> contract_call \<Rightarrow> 't chain \<Rightarrow> ('t chain \<times> oracle_event list) res" where
  "chain_exec E V A number time call w =
     (case call of (sender, to, f, args) \<Rightarrow>
        let m = \<lparr>msg_sender = sender, block_number = number, block_timestamp = time\<rparr> in
        if to = ca_staking A then staking_exec E A m f args w
        else if to = ca_oracle A then oracle_exec E A m f args w
        else if to = ca_dispute A then dispute_exec V A m f args w
        else no_function)"

section \<open>Logs\<close>

text \<open>The values that an event is logged with.\<close>

fun event_values :: "oracle_event \<Rightarrow> (string \<times> go_value list) option" where
  "event_values (NewOracleRequest ch ty ps n deadline) =
     Some (''NewOracleRequest'', [GUint8 ch, GString ty, GString ps, GBig (int n), GBig (int deadline)])"
| "event_values (CancelOracleRequest n) = Some (''CancelOracleRequest'', [GBig (int n)])"
| "event_values (SubmittedOracleRequest n dat) = Some (''SubmittedOracleRequest'', [GBig (int n), GBytes dat])"
| "event_values (Called _ _ _ _) = None"

text \<open>The logs of one kind of event arrive in the order of the events, and each is delivered.\<close>

definition deliver :: "(string \<Rightarrow> go_value list \<Rightarrow> 'lg) \<Rightarrow> string \<Rightarrow> oracle_event list \<Rightarrow> 'lg watch_input list" where
  "deliver log_of event evs = concat (map (\<lambda>ev. case event_values ev of
     Some (name, vs) \<Rightarrow> if name = event then [LogArrives (log_of event vs) Sent] else []
   | None \<Rightarrow> []) evs)"

text \<open>
  What go-ethereum promises: a bound contract sends its transactions to its address, from the
  sender in the options, with the method and arguments given; and unpacking the log of an event
  gives the values of the event.
\<close>

locale bound_chain =
  fixes B :: "('b, 'cl, 'sg, 'tx, 'lg, 'su, 'm) bind_lib_scheme"
    and bound_address :: "'b \<Rightarrow> address" and call_of :: "'tx \<Rightarrow> contract_call" and log_of :: "string \<Rightarrow> go_value list \<Rightarrow> 'lg"
  assumes bound_to: "bound_address (bi_NewBoundContract B a abi caller transactor filterer) = a"
    and transacted: "bi_Transact B c opts f args = Ok tx \<Longrightarrow> call_of tx = (opt_From opts, bound_address c, f, args)"
    and unpack: "bi_UnpackLog B c event (log_of event vs) = Ok vs"

begin

lemma new_bindings:
  "NewDioneStaking B a cl = Ok b \<Longrightarrow> bound_address (bnd_Caller b) = a \<and> bound_address (bnd_Transactor b) = a"
  "NewDioneOracle B a cl = Ok b \<Longrightarrow> bound_address (bnd_Caller b) = a \<and> bound_address (bnd_Transactor b) = a"
  "NewDioneDispute B a cl = Ok b \<Longrightarrow> bound_address (bnd_Caller b) = a \<and> bound_address (bnd_Transactor b) = a"
  by (auto simp: NewDioneStaking_def bindDioneStaking_def NewDioneOracle_def bindDioneOracle_def NewDioneDispute_def
      bindDioneDispute_def bind_contract_def bound_to res_simps)

lemma sent_call:
  "Abi_Bind.transact B f (SendOn s) args = Ok tx \<Longrightarrow>
    call_of tx = (opt_From (se_TransactOpts s), bound_address (bnd_Transactor (se_Contract s)), f, args)"
  by (simp add: transact_def transacted)

lemmas sent_calls =
  sent_call [of "''submitOracleRequest''" _ "[GBig i, GBytes dat]" for i dat, folded DioneOracle_SubmitOracleRequest_def]
  sent_call [of "''beginDispute''" _ "[GAddress a, GBig i]" for a i, folded DioneDispute_BeginDispute_def]
  sent_call [of "''vote''" _ "[GBytes32 h, GBool v]" for h v, folded DioneDispute_Vote_def]
  sent_call [of "''finishDispute''" _ "[GBytes32 h]" for h, folded DioneDispute_FinishDispute_def]
  sent_call [of "''setAggregator''" _ "[GAddress a]" for a, folded DioneStaking_SetAggregator_def]

lemma requests_delivered:
  "map (or_ReqID \<circ> fst) (fst (watch_loop B decode_NewOracleRequest ''NewOracleRequest'' c (deliver log_of ''NewOracleRequest'' evs)))
     = map int (opened evs)
   \<and> snd (watch_loop B decode_NewOracleRequest ''NewOracleRequest'' c (deliver log_of ''NewOracleRequest'' evs)) = None"
proof (induction evs)
  case (Cons ev evs)
  then show ?case
    by (cases ev) (simp_all add: deliver_def unpack_log_def unpack decode_NewOracleRequest_def case_prod_beta)
qed (simp add: deliver_def)

lemma submissions_delivered:
  "set (map (so_ReqID \<circ> fst) (fst (watch_loop B decode_SubmittedOracleRequest ''SubmittedOracleRequest'' c
       (deliver log_of ''SubmittedOracleRequest'' evs)))) \<subseteq> int ` set (closed evs)
   \<and> (distinct (closed evs) \<longrightarrow> distinct (map (so_ReqID \<circ> fst) (fst (watch_loop B decode_SubmittedOracleRequest ''SubmittedOracleRequest'' c
       (deliver log_of ''SubmittedOracleRequest'' evs)))))
   \<and> snd (watch_loop B decode_SubmittedOracleRequest ''SubmittedOracleRequest'' c
       (deliver log_of ''SubmittedOracleRequest'' evs)) = None"
proof (induction evs)
  case (Cons ev evs)
  then show ?case
    by (cases ev) (auto simp: deliver_def unpack_log_def unpack decode_SubmittedOracleRequest_def case_prod_beta)
qed (simp add: deliver_def)

end




text \<open>
  The binding of the staking contract is older than the contract: \<open>setAggregator\<close> and
  \<open>aggregatorAddr\<close> are methods of the binding that no function of the contract answers.
\<close>

lemma stale_methods:
  assumes "bound_chain B bound_address call_of log_of" "DioneStaking_SetAggregator B (SendOn s) a = Ok tx"
    and "bound_address (bnd_Transactor (se_Contract s)) = ca_staking A"
    and "\<forall>opts f args. bi_Call B (bnd_Caller (se_Contract s)) opts f args = staking_view (ca_token A) st f args"
  shows "chain_exec E V A n t (call_of tx) w = no_function" "DioneStaking_AggregatorAddr B (CallOn s) = no_function"
  using bound_chain.sent_calls(5) [OF assms(1,2)] assms(3,4)
  by (simp_all add: chain_exec_def Let_def staking_exec_def DioneStaking_AggregatorAddr_def call_method_def staking_view_def no_function_def)

text \<open>Reading the record of a miner panics when the call fails.\<close>

lemma MinerInfo_panics: "bi_Call B c opts ''minerInfo'' [GAddress a] = Err e \<Longrightarrow> DioneStaking_MinerInfo B (CallWith c opts) a = Panic"
  by (simp add: DioneStaking_MinerInfo_def)

section \<open>Properties\<close>



section \<open>Examples\<close>









end
