(* ===== verification/Deployment.thy ===== *)
theory Deployment
  imports Contract_World
begin

text \<open>
  The deployment of the contracts (\<open>eth-contracts/common/deployment.ts\<close>): all contracts are
  created, connected, and every node gets tokens and stakes them. The addresses that the
  contracts get, the accounts of the signers and the random stakes are arguments; the argument
  \<open>at\<close> is the message with which an account sends a transaction.
\<close>

section \<open>The script\<close>







section \<open>Lemmas\<close>








section \<open>Properties\<close>




end
