(* ===== verification/Node_Wiring.thy ===== *)
theory Node_Wiring
  imports Node Pubsub
begin

text \<open>
  How the node is put together (\<open>node.Start\<close>, \<open>consensus.Module\<close> and the remaining providers): the
  command line, the network parts made from the configuration, and the constructors that are
  handed to the dependency injection of fx, each as the type it makes and the types it takes.
  fx calls the constructor of a type before the first function that takes it, so it needs
  exactly one constructor per type and no cycle. The package \<open>flag\<close> is modelled as far as it is
  used; libp2p and its extensions are arguments.
\<close>

section \<open>Command line\<close>

text \<open>One argument: its name and, after an equals sign, its value. None when it is not a flag at all.\<close>

datatype flag_arg = Positional | EndOfFlags | BadSyntax | Flag string "string option"

definition split_value :: "string \<Rightarrow> string \<times> string option" where
  "split_value s =
     (case dropWhile (\<lambda>c. c \<noteq> CHR ''='') (tl s) of
        [] \<Rightarrow> (s, None)
      | _ # v \<Rightarrow> (hd s # takeWhile (\<lambda>c. c \<noteq> CHR ''='') (tl s), Some v))"

definition flag_arg :: "string \<Rightarrow> flag_arg" where
  "flag_arg s =
     (if length s < 2 \<or> hd s \<noteq> CHR ''-'' then Positional
      else if s = ''--'' then EndOfFlags
      else let name = (if s ! 1 = CHR ''-'' then drop 2 s else drop 1 s) in
        if name = [] \<or> hd name = CHR ''-'' \<or> hd name = CHR ''='' then BadSyntax
        else case split_value name of (n, v) \<Rightarrow> Flag n v)"

definition ParseBool :: "string \<Rightarrow> bool option" where
  "ParseBool s =
     (if s \<in> {''1'', ''t'', ''T'', ''true'', ''TRUE'', ''True''} then Some True
      else if s \<in> {''0'', ''f'', ''F'', ''false'', ''FALSE'', ''False''} then Some False
      else None)"

text \<open>
  An argument that is not understood ends the process, as does a question for help; parsing
  stops without an error at the first argument that is not a flag.
\<close>

fun flag_Parse :: "string list \<Rightarrow> AppFlags \<Rightarrow> AppFlags res" where
  "flag_Parse [] flags = Ok flags"
| "flag_Parse (s # args) flags =
     (case flag_arg s of
        Positional \<Rightarrow> Ok flags
      | EndOfFlags \<Rightarrow> Ok flags
      | BadSyntax \<Rightarrow> Panic
      | Flag n v \<Rightarrow>
          if n = ''config''
          then (case v of
              Some p \<Rightarrow> flag_Parse args (flags\<lparr>af_ConfigPath := p\<rparr>)
            | None \<Rightarrow> (case args of [] \<Rightarrow> Panic | p # args' \<Rightarrow> flag_Parse args' (flags\<lparr>af_ConfigPath := p\<rparr>)))
          else if n = ''verbose''
          then (case v of
              None \<Rightarrow> flag_Parse args (flags\<lparr>af_Verbose := True\<rparr>)
            | Some x \<Rightarrow> (case ParseBool x of None \<Rightarrow> Panic | Some b \<Rightarrow> flag_Parse args (flags\<lparr>af_Verbose := b\<rparr>)))
          else Panic)"

definition provideAppFlags :: "string list \<Rightarrow> AppFlags res" where
  "provideAppFlags args = flag_Parse args \<lparr>af_ConfigPath = [], af_Verbose = False\<rparr>"

section \<open>Network parts\<close>

definition provideLibp2pHost :: "('k, 'ma) libp2p \<Rightarrow> ('ma \<Rightarrow> 'k \<Rightarrow> 'h res) \<Rightarrow> Config \<Rightarrow> 'k \<Rightarrow> 'h res" where
  "provideLibp2pHost L libp2p_New cfg privateKey =
     bind_res (fatal (lp_NewMultiaddr L (''/ip4/'' @ cf_ListenAddr cfg @ ''/tcp/'' @ big_String (cf_ListenPort cfg)))) (\<lambda>listenMultiAddr.
       fatal (libp2p_New listenMultiAddr privateKey))"

definition providePubsubRouter :: "pubsub_lib \<Rightarrow> peer_id \<Rightarrow> Config \<Rightarrow> 'h PubSubRouter res" where
  "providePubsubRouter ps h cfg = NewPubSubRouter ps h (cf_PubSub_ServiceTopicName cfg)"

text \<open>The peers are asked for others every six seconds.\<close>

definition providePeerDiscovery :: "('h \<Rightarrow> 'ma list \<Rightarrow> i64 \<Rightarrow> 'd res) \<Rightarrow> 'ma list \<Rightarrow> 'h \<Rightarrow> 'd res" where
  "providePeerDiscovery NewPEXDiscovery baddrs h = fatal (NewPEXDiscovery h baddrs (6 * 1000000000))"

section \<open>Dependency injection\<close>

datatype go_type = AppFlags_t | Config_t | CacheManager_t | PrivKey_t | Host_t | EthereumSideAPI_t | PubSub_t | PubSubRouter_t
  | Multiaddrs_t | Discovery_t | DrandBeacon_t | Mempool_t | Database_t | Miner_t | BlockChain_t | SyncManager_t | RpcServer_t
  | NetworkService_t | RpcClient_t | Bus_t | ConsensusManager_t | ConsensusHandler_t | DisputeManager_t | Lifecycle_t

text \<open>A constructor: the type it returns and the types of its parameters.\<close>

type_synonym constructor = "go_type \<times> go_type list"

definition consensus_Module :: "constructor list" where
  "consensus_Module =
     [(ConsensusManager_t, [Mempool_t, Bus_t, Config_t]),
      (ConsensusHandler_t, [Bus_t, PubSubRouter_t, PrivKey_t, EthereumSideAPI_t, Miner_t, BlockChain_t, ConsensusManager_t,
         DrandBeacon_t, Mempool_t, Host_t]),
      (DisputeManager_t, [Bus_t, EthereumSideAPI_t, BlockChain_t, Config_t, CacheManager_t])]"

definition Start_provide :: "constructor list" where
  "Start_provide =
     [(AppFlags_t, []),
      (Config_t, [AppFlags_t]),
      (CacheManager_t, [Config_t]),
      (PrivKey_t, [Config_t]),
      (Host_t, [Config_t, PrivKey_t]),
      (EthereumSideAPI_t, [Config_t]),
      (PubSub_t, [Host_t]),
      (PubSubRouter_t, [Host_t, PubSub_t, Config_t]),
      (Multiaddrs_t, [Config_t]),
      (Discovery_t, [Multiaddrs_t, Host_t]),
      (DrandBeacon_t, [PubSub_t, Bus_t]),
      (Mempool_t, [Bus_t, CacheManager_t]),
      (Database_t, [Config_t]),
      (Miner_t, [Host_t, EthereumSideAPI_t, PrivKey_t, Mempool_t, Bus_t]),
      (BlockChain_t, [Database_t, Bus_t, Miner_t, DrandBeacon_t]),
      (SyncManager_t, [Bus_t, BlockChain_t, Mempool_t, RpcClient_t, Multiaddrs_t, PubSubRouter_t]),
      (RpcServer_t, [Host_t]),
      (NetworkService_t, [BlockChain_t, Mempool_t]),
      (RpcClient_t, [Host_t]),
      (Bus_t, [])]
     @ consensus_Module"

text \<open>The functions that are run, in order, with the types they take.\<close>

definition Start_invoke :: "(string \<times> go_type list) list" where
  "Start_invoke =
     [(''configureLogger'', [AppFlags_t]),
      (''configureDirectRPC'', [RpcServer_t, NetworkService_t]),
      (''configureForeignBlockchainRPC'', []),
      (''initializeBlockchain'', [BlockChain_t]),
      (''configureMiner'', [Miner_t, BlockChain_t]),
      (''runNode'', [Lifecycle_t, Config_t, Discovery_t, EthereumSideAPI_t, Host_t, Mempool_t, SyncManager_t, ConsensusHandler_t,
         PubSubRouter_t, DisputeManager_t, DrandBeacon_t])]"

section \<open>Lemmas\<close>

text \<open>The position in an order in which the parts can be made.\<close>

definition start_rank :: "go_type \<Rightarrow> nat" where
  "start_rank t =
     (case t of
        AppFlags_t \<Rightarrow> 0 | Bus_t \<Rightarrow> 0 | Lifecycle_t \<Rightarrow> 0 | Config_t \<Rightarrow> 1
      | CacheManager_t \<Rightarrow> 2 | PrivKey_t \<Rightarrow> 2 | EthereumSideAPI_t \<Rightarrow> 2 | Multiaddrs_t \<Rightarrow> 2 | Database_t \<Rightarrow> 2
      | Host_t \<Rightarrow> 3 | Mempool_t \<Rightarrow> 3 | PubSub_t \<Rightarrow> 4 | Discovery_t \<Rightarrow> 4 | RpcServer_t \<Rightarrow> 4 | RpcClient_t \<Rightarrow> 4 | Miner_t \<Rightarrow> 4
      | ConsensusManager_t \<Rightarrow> 4 | PubSubRouter_t \<Rightarrow> 5 | DrandBeacon_t \<Rightarrow> 5 | BlockChain_t \<Rightarrow> 6
      | SyncManager_t \<Rightarrow> 7 | NetworkService_t \<Rightarrow> 7 | ConsensusHandler_t \<Rightarrow> 7 | DisputeManager_t \<Rightarrow> 7)"

definition depends :: "(go_type \<times> go_type) set" where
  "depends = {(i, t). \<exists>ins. (t, ins) \<in> set Start_provide \<and> i \<in> set ins}"

lemma depends_rank: "(i, t) \<in> depends \<Longrightarrow> start_rank i < start_rank t"
  by (auto simp: depends_def Start_provide_def consensus_Module_def start_rank_def)

lemma start_acyclic: "wf depends" "acyclic depends"
proof -
  have "depends \<subseteq> measure start_rank" using depends_rank by auto
  then show "wf depends" by (rule wf_subset [OF wf_measure])
  then show "acyclic depends" by (rule wf_acyclic)
qed

text \<open>Every type that is taken, except the life cycle that fx itself provides, has exactly one constructor.\<close>

lemma start_complete:
  "distinct (map fst Start_provide)"
  "(i, t) \<in> depends \<Longrightarrow> i \<in> fst ` set Start_provide"
  "(f, ins) \<in> set Start_invoke \<Longrightarrow> set ins \<subseteq> insert Lifecycle_t (fst ` set Start_provide)"
  by (auto simp: depends_def Start_provide_def consensus_Module_def Start_invoke_def)

lemma flags_roundtrip:
  "provideAppFlags [''-config'', p] = Ok \<lparr>af_ConfigPath = p, af_Verbose = False\<rparr>"
  "provideAppFlags [''--config='' @ p, ''-verbose''] = Ok \<lparr>af_ConfigPath = p, af_Verbose = True\<rparr>"
  by (simp_all add: provideAppFlags_def flag_arg_def split_value_def Let_def)

text \<open>The node does not start without the path of a configuration.\<close>

lemma no_config_path: "bind_res (provideAppFlags []) (provideConfig V) = Panic"
  by (simp add: provideAppFlags_def provideConfig_def bind_res_def)

end
