(* ===== verification/Spec2Isabelle.thy ===== *)
theory Spec2Isabelle
  imports Consensus_Properties Sync_Properties Dispute_Properties Wallet Timelock_Contract Contract_Types Deployment Node_Wiring
begin

text \<open>
  Verification of Dione, an oracle network. A client contract on Ethereum asks the oracle contract
  for data of a foreign chain (Filecoin, Solana, Ethereum). Every Dione node listens to these
  requests, fetches the data and pools them as a transaction. In every round of the drand
  randomness beacon the nodes that win an election weighted by stake propose a block; the nodes vote
  on proposals over a gossip network; the proposer of the committed block submits the answers to
  the oracle contract. Every node compares submitted answers with its chain and opens or votes on
  disputes; a lost dispute costs a miner its stake. The node is written in Go, the contracts in
  Solidity. All paths below are relative to \<open>src/\<close>.

  \<^bold>\<open>How code is modelled.\<close> \<^theory_text>\<open>Dione_Prelude\<close> has the result type \<open>'a res\<close>: \<open>Ok\<close> is a return, \<open>Err\<close> a
  returned Go error or a Solidity revert, \<open>Panic\<close> a Go panic, a failing type assertion or a call of
  \<open>logrus.Fatal\<close>. Go's \<open>uint64\<close>, \<open>int64\<close> and bytes are words, so that they wrap; \<open>big.Int\<close> is \<open>int\<close>; a
  Solidity \<open>uint256\<close> is a natural number with the compiler's checks written out. An operation with
  side effects takes its state and returns the new one; what it sends out is a list of events or
  effects. Pointers that outlive a call (the pool, the dispute caches) are locations in an explicit
  heap. What the run time decides (the clock, the schedule of goroutines, the order of a map
  iteration, the case of a \<open>select\<close>) is an argument, and the theorems hold for all its values.
  A mutex has no counterpart: its critical section is one operation.

  Code outside the repository is a record of functions. What is assumed of it is a locale, and each
  locale is interpreted: by the repository's own code where that provides the interface, otherwise
  by a reference instance, which shows that the laws can hold together. These libraries are go-cache
  (\<^theory_text>\<open>Go_Cache\<close>), LMDB (\<^theory_text>\<open>Lmdb_Database\<close>), the Merkle tree, libp2p keys and CBOR (\<^theory_text>\<open>Chain_Types\<close>), the
  message set (\<^theory_text>\<open>Consensus_Manager\<close>), the gossip envelope (\<^theory_text>\<open>Pubsub\<close>), cbor-gen (\<^theory_text>\<open>Signatures\<close>), the Lotus
  message (\<^theory_text>\<open>Foreign_Rpc\<close>), key files (\<^theory_text>\<open>Node\<close>), go-ethereum (\<^theory_text>\<open>Contract_World\<close>) and OpenZeppelin's ERC20
  (\<^theory_text>\<open>Solidity_Base\<close>, \<^theory_text>\<open>Deployment\<close>). \<^theory_text>\<open>Reference_Libs\<close> holds the instances that several theories share.
  No hash is assumed to be injective: where it matters, a theorem has a collision as its second
  alternative.

  \<^bold>\<open>Chain\<close> (\<open>blockchain\<close>, \<open>types\<close>, \<open>beacon\<close>, \<open>cache\<close>).
  \<^item> \<^theory_text>\<open>Election\<close> (\<open>types/electionproof.go\<close>, \<open>config/win_config.go\<close>): the Q.256 fixed-point Poisson
    computation. The win count equals a direct count of tails and lies between 0 and \<open>MaxWinCount\<close>.
  \<^item> \<^theory_text>\<open>Chain_Types\<close> (\<open>blockchain/types\<close>, \<open>blockchain/utils\<close>, \<open>types/task.go\<close>, \<open>types/beacon.go\<close>): transactions,
    blocks, \<open>CreateBlock\<close>, \<open>GenesisBlock\<close>, the check of a transaction against the Merkle root.
  \<^item> \<^theory_text>\<open>Block_Database\<close> is the interface \<open>Database\<close> with its abstract state and contract; \<^theory_text>\<open>Memory_Database\<close>
    and \<^theory_text>\<open>Lmdb_Database\<close> are the two implementations (\<open>blockchain/database\<close>). Both refine the contract,
    LMDB also when its transactions fail.
  \<^item> \<^theory_text>\<open>Beacon\<close> (\<open>beacon\<close>, \<open>beacon/drand\<close>): the draw of randomness, the VRF, the choice of a network by
    round and the cache of the drand client.
  \<^item> \<^theory_text>\<open>Rpc_Validation\<close> (\<open>rpc/rpc.go\<close>, \<open>consensus/validation\<close>): the registries of RPC methods and of payload
    validators.
  \<^item> \<^theory_text>\<open>Blockchain\<close> (\<open>blockchain/blockchain.go\<close>): \<open>ValidateBlock\<close> with its goroutines and \<open>StoreBlock\<close>, over any
    database. \<^theory_text>\<open>Block_Validation\<close> treats all schedules; \<^theory_text>\<open>Chain_Safety\<close> any history of \<open>StoreBlock\<close> calls.
  \<^item> \<^theory_text>\<open>Kv_Cache\<close> (\<open>cache\<close>) has the in-memory and the Redis cache; \<^theory_text>\<open>Mempool\<close> (\<open>blockchain/pool\<close>,
    \<open>consensus/policy\<close>) is the pool over any cache; \<^theory_text>\<open>Miner\<close> is \<open>blockchain/miner.go\<close>.
  \<^item> \<^theory_text>\<open>Chain_Properties\<close>: what an accepted block satisfies, what storing does, that stored blocks lead back
    to height 0 and are signed, that every validator with the same view accepts a mined block, and
    that the verdict on an undecodable payload depends on the schedule.

  \<^bold>\<open>Consensus\<close> (\<open>consensus\<close>, \<open>pubsub\<close>).
  \<^item> \<^theory_text>\<open>Consensus_Manager\<close> (\<open>consensus_manager.go\<close>, \<open>msg_log.go\<close>, \<open>types\<close>): the log of votes and the state per block
    hash. A commit needs a quorum, and a quorum in the log commits, in whatever order it came.
  \<^item> \<^theory_text>\<open>Pubsub\<close> is the router; \<^theory_text>\<open>Consensus_Handler\<close> (\<open>consensus_handler.go\<close>, \<open>consensus_validator.go\<close>, \<open>utils.go\<close>) is
    what a node does on a message, a change of state or a beacon entry.
  \<^item> \<^theory_text>\<open>Consensus_Safety\<close> and \<^theory_text>\<open>Consensus_Properties\<close>: in every reachable state of a node the votes are signed
    by their senders and a committed block was validated or proposed by the node; an honest vote is
    accepted by all; the chosen block has the largest stake; only own blocks are submitted.
  \<^item> \<^theory_text>\<open>Dispute\<close>, \<^theory_text>\<open>Dispute_Properties\<close> (\<open>dispute_manager.go\<close>): the search for a task, when a dispute is begun and
    how the node votes.

  \<^bold>\<open>Node\<close> (\<open>node\<close>, \<open>blockchain/sync\<close>, \<open>ethclient\<close>, \<open>contracts\<close>, \<open>rpc\<close>, \<open>wallet\<close>, \<open>sigs\<close>, \<open>config\<close>).
  \<^item> \<^theory_text>\<open>Network_Service\<close> (\<open>node/network_service.go\<close>, \<open>node/wire\<close>) and \<^theory_text>\<open>Sync_Manager\<close>, \<^theory_text>\<open>Sync_Properties\<close>
    (\<open>blockchain/sync\<close>): a range request on every argument; synchronisation collects exactly the
    missing blocks, keeps the chain intact whatever the peer answers, refuses the blocks that
    \<open>CreateBlock\<close> makes, and files one transaction under all hashes of a batch.
  \<^item> \<^theory_text>\<open>Abi_Bind\<close> has the code that the generated bindings share; \<^theory_text>\<open>Dispute_Binding\<close>, \<^theory_text>\<open>Oracle_Binding\<close> and
    \<^theory_text>\<open>Staking_Binding\<close> instantiate it (\<open>contracts\<close>); \<^theory_text>\<open>Eth_Client\<close> (\<open>ethclient\<close>) uses them and provides the
    interface \<open>eth_api\<close> of the chain.
  \<^item> \<^theory_text>\<open>Json_Values\<close>, \<^theory_text>\<open>Foreign_Rpc\<close> (\<open>rpc/filecoin\<close>, \<open>rpc/solana\<close>, \<open>rpc/ethereum\<close>, \<open>rpc/types\<close>), \<^theory_text>\<open>Signatures\<close>
    (\<open>types/signature.go\<close>, \<open>sigs\<close>), \<^theory_text>\<open>Wallet\<close> (\<open>types/keystore.go\<close>, \<open>wallet\<close>) and \<^theory_text>\<open>Config\<close> (\<open>config\<close>).
  \<^item> \<^theory_text>\<open>Node\<close> (\<open>node.go\<close>, \<open>node_dep_providers.go\<close>): the providers, the key file, the first block, the start of
    the miner and the loop over oracle requests. \<^theory_text>\<open>Node_Wiring\<close> (\<open>flags.go\<close>, \<open>Start\<close>,
    \<open>consensus/fx_module.go\<close>): the command line and the constructors given to fx, of which each type
    has exactly one and whose dependencies have no cycle.

  \<^bold>\<open>Contracts\<close> (\<open>eth-contracts\<close>).
  \<^item> \<^theory_text>\<open>Solidity_Base\<close>: arithmetic, transactions and ERC20. \<^theory_text>\<open>Token_Contract\<close>: votes by checkpoint and their
    bisection. \<^theory_text>\<open>Staking_Contract\<close>: stakes are backed by tokens and can be withdrawn; how a slashed
    stake is distributed. \<^theory_text>\<open>Dispute_Contract\<close>: what finishing a dispute does, and that an accused miner
    escapes by withdrawing. \<^theory_text>\<open>Oracle_Contract\<close> (with \<open>Mediator.sol\<close>): a request is answered or cancelled at
    most once. \<^theory_text>\<open>Timelock_Contract\<close>: executed calls were announced.
  \<^item> \<^theory_text>\<open>Contract_Types\<close>: every stored number fits its Solidity type. \<^theory_text>\<open>Contract_World\<close>: what the Go client
    sends and reads through the bindings is what the contracts execute and hold, and oracle events
    reach the node. \<^theory_text>\<open>Deployment\<close> (\<open>common/deployment.ts\<close>): the script succeeds and leaves a working network.

  \<^bold>\<open>Loops.\<close> There is no fuel. The loops of the election, of the synchronisation, of the bisection and
  of the event iterators are total functions, with a decreasing measure: the win count below
  its maximum, the heights and hashes still to fetch, the checkpoints between the bounds, and
  whether the iterator is done. The loops over a range of blocks and over the heights below
  the latest block count with wrapping 64-bit numbers and need not end; they are partial functions
  whose value \<open>None\<close> is not returning, and the theorems state when they return and what. Loops that
  only wait for input are folds over the list of inputs.

  \<^bold>\<open>Not modelled.\<close> \<open>cmd/dione\<close> only calls \<open>Start\<close>. \<open>lib/clock.go\<close> serves a log line and
  \<open>types/eth-denomination.go\<close> is unused. The structures of \<open>rpc/solana/types\<close> are decoded only to be
  logged, or unused. \<open>vendor/Ownable.sol\<close> is imported by no contract; the Hardhat settings and tasks and
  \<open>scripts/deploy.ts\<close> hold settings and single transactions. Of the node, the setup of the logger, the
  providers that are one call of a library constructor (libp2p's PubSub, the gorpc server and client)
  and the registration of the network service are left out; so are log output, the one-second
  pause before a proposal, transfers of Ether, and the events of the contracts other than those of the
  oracle (the dispute events are inputs of \<^theory_text>\<open>Dispute\<close>). The insides of fx,
  libp2p, drand, go-ethereum, viper and OpenZeppelin are parameters.
\<close>

end
